(* ===== verification/Prelude.thy ===== *)
theory Prelude
  imports Main "HOL-Library.Word"
begin

text \<open>
  Shared vocabulary of the development: the collections of simplification rules the
  component theories feed, and generic lemmas on lists and association lists.

  Strings are Isabelle strings, that is lists of 8-bit code units. A source text with
  characters outside that range (the localized messages) is written as the list of its
  UTF-8 bytes with \<open>utf8\<close>; the code only asks of such a text whether it is empty.
\<close>

named_theorems js_simps "equations of the JavaScript value operations"
named_theorems prog_defs "definitions of the asynchronous programs of the source"
named_theorems prog_simps "equations of the program combinators and of their semantics"
named_theorems page_defs "definitions of the page handlers"

type_synonym bytes = "8 word list"
type_synonym storage = "(string \<times> string) list"

definition utf8 :: "nat list \<Rightarrow> string" where
  "utf8 ns = map char_of ns"

lemma utf8_eq_Nil [simp]: "utf8 ns = [] \<longleftrightarrow> ns = []"
  by (simp add: utf8_def)

subsection \<open>Storage as an association list\<close>

text \<open>
  \<^verbatim>\<open>localStorage\<close> and \<^verbatim>\<open>sessionStorage\<close>: \<open>setItem\<close>, \<open>getItem\<close>
  and \<open>removeItem\<close>.
\<close>

definition st_get :: "storage \<Rightarrow> string \<Rightarrow> string option" where
  "st_get st k = map_of st k"

definition st_remove :: "storage \<Rightarrow> string \<Rightarrow> storage" where
  "st_remove st k = filter (\<lambda>(k', _). k' \<noteq> k) st"

definition st_set :: "storage \<Rightarrow> string \<Rightarrow> string \<Rightarrow> storage" where
  "st_set st k v = (k, v) # st_remove st k"

lemma map_of_filter_neq: "map_of (filter (\<lambda>(k', _). k' \<noteq> k) xs) k2 = (if k2 = k then None else map_of xs k2)"
  by (induction xs) auto

lemma st_get_set [simp]: "st_get (st_set st k v) k2 = (if k2 = k then Some v else st_get st k2)"
  by (auto simp: st_get_def st_set_def st_remove_def map_of_filter_neq)

lemma st_get_remove [simp]: "st_get (st_remove st k) k2 = (if k2 = k then None else st_get st k2)"
  by (simp add: st_get_def st_remove_def map_of_filter_neq)

lemma st_get_Nil [simp]: "st_get [] k = None"
  by (simp add: st_get_def)

subsection \<open>Lists\<close>

lemma list_all_map_of: "list_all (\<lambda>(k, v). P v) xs \<Longrightarrow> map_of xs k = Some v \<Longrightarrow> P v"
  by (induction xs) (auto split: if_splits)

lemma length_1_conv [simp]: "length xs = Suc 0 \<longleftrightarrow> (\<exists>x. xs = [x])"
  by (cases xs) auto

lemma dropWhile_snoc_False: "\<not> P x \<Longrightarrow> dropWhile P (xs @ [x]) = dropWhile P xs @ [x]"
  by (induction xs) auto

end
