(* ===== verification/JS_Value.thy ===== *)
theory JS_Value
  imports Prelude "HOL-Library.AList"
begin

text \<open>
  The JavaScript values the two front ends compute with, and the operators of the
  language they use: truthiness, \<^verbatim>\<open>||\<close>, \<^verbatim>\<open>??\<close>, property access with and
  without optional chaining, string conversion, and the methods of strings.

  A number is an integer: HTTP statuses, page numbers, counts and identifiers are the
  only numbers of the code. An object is its list of own data properties; a read of a
  property it does not own goes to \<^verbatim>\<open>Object.prototype\<close>, as in the language. Of a
  function object only the string property \<^verbatim>\<open>name\<close> and the two poisoned accessors
  \<^verbatim>\<open>caller\<close> and \<^verbatim>\<open>arguments\<close> are distinguished.
\<close>

datatype jsval =
    JUndef
  | JNull
  | JBool bool
  | JNum int
  | JStr string
  | JArr "jsval list"
  | JObj "(string \<times> jsval) list"
  | JFun string

subsection \<open>Truthiness and the logical operators\<close>

fun truthy :: "jsval \<Rightarrow> bool" where
  "truthy JUndef = False"
| "truthy JNull = False"
| "truthy (JBool b) = b"
| "truthy (JNum n) = (n \<noteq> 0)"
| "truthy (JStr s) = (s \<noteq> [])"
| "truthy (JArr xs) = True"
| "truthy (JObj ps) = True"
| "truthy (JFun f) = True"

fun nullish :: "jsval \<Rightarrow> bool" where
  "nullish JUndef = True"
| "nullish JNull = True"
| "nullish v = False"

definition js_or :: "jsval \<Rightarrow> jsval \<Rightarrow> jsval" where
  "js_or a b = (if truthy a then a else b)"

definition js_coalesce :: "jsval \<Rightarrow> jsval \<Rightarrow> jsval" where
  "js_coalesce a b = (if nullish a then b else a)"

lemma js_or_simps [simp]:
  "truthy a \<Longrightarrow> js_or a b = a" "\<not> truthy a \<Longrightarrow> js_or a b = b"
  by (simp_all add: js_or_def)

lemma js_coalesce_simps [simp]:
  "nullish a \<Longrightarrow> js_coalesce a b = b" "\<not> nullish a \<Longrightarrow> js_coalesce a b = a"
  by (simp_all add: js_coalesce_def)

lemma nullish_not_truthy: "nullish v \<Longrightarrow> \<not> truthy v"
  by (cases v) auto

lemma nullish_iff: "nullish v \<longleftrightarrow> v = JUndef \<or> v = JNull"
  by (cases v) auto

fun is_string :: "jsval \<Rightarrow> bool" where
  "is_string (JStr s) = True"
| "is_string v = False"

fun is_number :: "jsval \<Rightarrow> bool" where
  "is_number (JNum n) = True"
| "is_number v = False"

lemma is_string_iff: "is_string v \<longleftrightarrow> (\<exists>s. v = JStr s)"
  by (cases v) auto

subsection \<open>Properties\<close>

definition object_prototype_methods :: "string list" where
  "object_prototype_methods =
     [''constructor'', ''hasOwnProperty'', ''isPrototypeOf'', ''propertyIsEnumerable'',
      ''toLocaleString'', ''toString'', ''valueOf'', ''__defineGetter__'',
      ''__defineSetter__'', ''__lookupGetter__'', ''__lookupSetter__'']"

definition object_prototype :: "string \<Rightarrow> jsval" where
  "object_prototype k =
     (if k \<in> set object_prototype_methods
      then JFun (if k = ''constructor'' then ''Object'' else k)
      else if k = ''__proto__'' then JObj [] else JUndef)"

fun js_get :: "jsval \<Rightarrow> string \<Rightarrow> jsval" where
  "js_get (JObj ps) k = (case map_of ps k of Some v \<Rightarrow> v | None \<Rightarrow> object_prototype k)"
| "js_get (JArr xs) k = (if k = ''length'' then JNum (int (length xs)) else JUndef)"
| "js_get (JStr s) k = (if k = ''length'' then JNum (int (length s)) else JUndef)"
| "js_get (JFun f) k = (if k = ''name'' then JStr f else JUndef)"
| "js_get v k = JUndef"

text \<open>A thrown \<^verbatim>\<open>Error\<close> object: its name and its message.\<close>

definition js_error :: "string \<Rightarrow> string \<Rightarrow> jsval" where
  "js_error name msg = JObj [(''name'', JStr name), (''message'', JStr msg)]"

text \<open>
  \<^verbatim>\<open>v.k\<close> and \<^verbatim>\<open>v[k]\<close>: a \<^verbatim>\<open>TypeError\<close> on \<^verbatim>\<open>undefined\<close> and
  \<^verbatim>\<open>null\<close>, and on the poisoned accessors of a function object.
\<close>

definition js_prop :: "jsval \<Rightarrow> string \<Rightarrow> jsval + jsval" where
  "js_prop v k =
     (if nullish v then Inl (js_error ''TypeError'' (''Cannot read properties: '' @ k))
      else case v of
        JFun f \<Rightarrow> if k \<in> {''caller'', ''arguments''}
                  then Inl (js_error ''TypeError'' ''restricted function property'')
                  else Inr (js_get v k)
      | _ \<Rightarrow> Inr (js_get v k))"

text \<open>\<^verbatim>\<open>v?.k\<close>\<close>

definition js_opt :: "jsval \<Rightarrow> string \<Rightarrow> jsval" where
  "js_opt v k = (if nullish v then JUndef else js_get v k)"

lemma js_opt_simps [simp]:
  "js_opt JUndef k = JUndef" "js_opt JNull k = JUndef" "js_opt (JObj ps) k = js_get (JObj ps) k"
  "js_opt (JStr s) k = js_get (JStr s) k" "js_opt (JArr xs) k = js_get (JArr xs) k"
  by (simp_all add: js_opt_def)

lemma js_prop_obj [simp]: "js_prop (JObj ps) k = Inr (js_get (JObj ps) k)"
  by (simp add: js_prop_def)

lemma js_prop_nullish: "nullish v \<Longrightarrow> \<exists>e. js_prop v k = Inl e"
  by (simp add: js_prop_def)

lemma js_prop_total: "\<not> nullish v \<Longrightarrow> k \<notin> {''caller'', ''arguments''} \<Longrightarrow> js_prop v k = Inr (js_get v k)"
  by (cases v) (auto simp: js_prop_def)

text \<open>The keys of \<^verbatim>\<open>Object.prototype\<close>; any other key an object does not own is undefined.\<close>

definition proto_keys :: "string set" where
  "proto_keys = insert ''__proto__'' (set object_prototype_methods)"

lemma object_prototype_other: "k \<notin> proto_keys \<Longrightarrow> object_prototype k = JUndef"
  by (simp add: proto_keys_def object_prototype_def)

lemma object_prototype_undefined [simp]:
  "k \<noteq> ''constructor'' \<Longrightarrow> k \<noteq> ''hasOwnProperty'' \<Longrightarrow> k \<noteq> ''isPrototypeOf'' \<Longrightarrow>
   k \<noteq> ''propertyIsEnumerable'' \<Longrightarrow> k \<noteq> ''toLocaleString'' \<Longrightarrow> k \<noteq> ''toString'' \<Longrightarrow>
   k \<noteq> ''valueOf'' \<Longrightarrow> k \<noteq> ''__defineGetter__'' \<Longrightarrow> k \<noteq> ''__defineSetter__'' \<Longrightarrow>
   k \<noteq> ''__lookupGetter__'' \<Longrightarrow> k \<noteq> ''__lookupSetter__'' \<Longrightarrow> k \<noteq> ''__proto__'' \<Longrightarrow>
   object_prototype k = JUndef"
  by (simp add: object_prototype_def object_prototype_methods_def)

lemma object_prototype_not_string [simp]: "\<not> is_string (object_prototype k)"
  by (simp add: object_prototype_def)

text \<open>An entry of an object literal is set by \<open>js_set\<close>, which keeps the other properties.\<close>

fun js_set :: "jsval \<Rightarrow> string \<Rightarrow> jsval \<Rightarrow> jsval" where
  "js_set (JObj ps) k v = JObj (AList.update k v ps)"
| "js_set w k v = w"

end
