(* ===== verification/JS_String.thy ===== *)
theory JS_String
  imports JS_Value
begin

text \<open>
  The string operations of the language the source uses: conversion to a string,
  \<^verbatim>\<open>trim\<close>, \<^verbatim>\<open>split\<close>, \<^verbatim>\<open>join\<close>, \<^verbatim>\<open>includes\<close>,
  \<^verbatim>\<open>replace\<close> of one character, \<^verbatim>\<open>toUpperCase\<close> and
  \<^verbatim>\<open>encodeURIComponent\<close>, with the round trip of \<^verbatim>\<open>split\<close> and
  \<^verbatim>\<open>join\<close>.
\<close>

subsection \<open>Conversion to a string\<close>

definition digit_char :: "nat \<Rightarrow> char" where
  "digit_char d = char_of (48 + d mod 10)"

fun nat_string :: "nat \<Rightarrow> string" where
  "nat_string n = (if n < 10 then [digit_char n] else nat_string (n div 10) @ [digit_char n])"

declare nat_string.simps [simp del]

definition int_string :: "int \<Rightarrow> string" where
  "int_string i = (if i < 0 then ''-'' @ nat_string (nat (- i)) else nat_string (nat i))"

fun js_join :: "string \<Rightarrow> string list \<Rightarrow> string" where
  "js_join sep [] = []"
| "js_join sep [x] = x"
| "js_join sep (x # y # xs) = x @ sep @ js_join sep (y # xs)"

text \<open>
  \<^verbatim>\<open>String(v)\<close>; inside an array \<^verbatim>\<open>undefined\<close> and \<^verbatim>\<open>null\<close> print as
  the empty string.
\<close>

fun js_to_string :: "jsval \<Rightarrow> string" where
  "js_to_string JUndef = ''undefined''"
| "js_to_string JNull = ''null''"
| "js_to_string (JBool b) = (if b then ''true'' else ''false'')"
| "js_to_string (JNum n) = int_string n"
| "js_to_string (JStr s) = s"
| "js_to_string (JArr xs) =
     js_join '','' (map (\<lambda>v. if nullish v then [] else js_to_string v) xs)"
| "js_to_string (JObj ps) = ''[object Object]''"
| "js_to_string (JFun f) = ''function '' @ f @ ''() { [native code] }''"

lemma nat_string_not_Nil [simp]: "nat_string n \<noteq> []"
  by (subst nat_string.simps) simp

subsection \<open>trim, includes, replace, toUpperCase\<close>

definition js_space :: "char \<Rightarrow> bool" where
  "js_space c = (let n = of_char c :: nat in (9 \<le> n \<and> n \<le> 13) \<or> n = 32 \<or> n = 160)"

definition js_trim :: "string \<Rightarrow> string" where
  "js_trim s = rev (dropWhile js_space (rev (dropWhile js_space s)))"

fun js_includes :: "string \<Rightarrow> string \<Rightarrow> bool" where
  "js_includes [] t = (t = [])"
| "js_includes (c # s) t = (take (length t) (c # s) = t \<or> js_includes s t)"

definition js_replace_char :: "char \<Rightarrow> char \<Rightarrow> string \<Rightarrow> string" where
  "js_replace_char a b s = map (\<lambda>c. if c = a then b else c) s"

definition js_upper :: "string \<Rightarrow> string" where
  "js_upper s = map (\<lambda>c. let n = of_char c :: nat in
     if (97 \<le> n \<and> n \<le> 122) \<or> (224 \<le> n \<and> n \<le> 254 \<and> n \<noteq> 247) then char_of (n - 32) else c) s"

lemma dropWhile_rev_dropWhile_id:
  "dropWhile P (rev (dropWhile P (rev (dropWhile P xs)))) = rev (dropWhile P (rev (dropWhile P xs)))"
proof (cases "dropWhile P xs")
  case Nil
  show ?thesis unfolding Nil by simp
next
  case (Cons y ys)
  then have y: "\<not> P y" using hd_dropWhile [of P xs] by simp
  have "dropWhile P (rev (y # ys)) = dropWhile P (rev ys) @ [y]"
    using y by (simp add: dropWhile_snoc_False)
  then show ?thesis using Cons y by simp
qed

lemma dropWhile_idem: "dropWhile P (dropWhile P xs) = dropWhile P xs"
  by (induction xs) auto

lemma js_trim_idem [simp]: "js_trim (js_trim s) = js_trim s"
  by (simp add: js_trim_def dropWhile_rev_dropWhile_id dropWhile_idem)

lemma js_trim_Nil [simp]: "js_trim [] = []"
  by (simp add: js_trim_def)

lemma set_js_trim: "set (js_trim s) \<subseteq> set s"
  by (auto simp: js_trim_def dest!: set_dropWhileD)

lemma js_trim_empty_iff: "js_trim s = [] \<longleftrightarrow> (\<forall>c \<in> set s. js_space c)"
proof
  assume "js_trim s = []"
  then have "\<forall>c \<in> set (dropWhile js_space s). js_space c"
    by (simp add: js_trim_def)
  then have "dropWhile js_space s = []"
    by (metis dropWhile_eq_Nil_conv dropWhile_idem)
  then show "\<forall>c \<in> set s. js_space c" by simp
qed (auto simp: js_trim_def dest: set_dropWhileD)

lemma js_includes_append: "js_includes (u @ t @ v) t"
proof (induction u)
  case Nil
  have "take (length t) (t @ v) = t" by simp
  then show ?case by (cases "t @ v") (auto simp del: take_append)
qed simp

subsection \<open>split and join\<close>

fun js_split :: "char \<Rightarrow> string \<Rightarrow> string list" where
  "js_split sep [] = [[]]"
| "js_split sep (c # s) =
     (if c = sep then [] # js_split sep s
      else case js_split sep s of x # xs \<Rightarrow> (c # x) # xs | [] \<Rightarrow> [[c]])"

lemma js_split_not_Nil [simp]: "js_split sep s \<noteq> []"
  by (induction s) (auto split: list.split)

lemma js_split_no_sep: "x \<in> set (js_split sep s) \<Longrightarrow> sep \<notin> set x"
  by (induction s arbitrary: x) (auto split: list.splits if_splits)

lemma js_join_Cons: "xs \<noteq> [] \<Longrightarrow> js_join sep (x # xs) = x @ sep @ js_join sep xs"
  by (cases xs) auto

lemma js_join_split [simp]: "js_join [sep] (js_split sep s) = s"
proof (induction s)
  case (Cons c s)
  show ?case
  proof (cases "js_split sep s")
    case Nil
    then show ?thesis by simp
  next
    case (Cons y ys)
    with Cons.IH show ?thesis by (cases ys) auto
  qed
qed simp

lemma js_split_append_sep:
  "sep \<notin> set x \<Longrightarrow> js_split sep (x @ sep # s) = x # js_split sep s"
  by (induction x) auto

lemma js_split_no_occ: "sep \<notin> set x \<Longrightarrow> js_split sep x = [x]"
  by (induction x) auto

lemma js_split_join:
  "xs \<noteq> [] \<Longrightarrow> \<forall>x \<in> set xs. sep \<notin> set x \<Longrightarrow> js_split sep (js_join [sep] xs) = xs"
proof (induction "[sep]" xs rule: js_join.induct)
  case (3 x y xs)
  then show ?case by (simp add: js_split_append_sep)
qed (simp_all add: js_split_no_occ)

lemma js_join_eq_Nil: "\<forall>x \<in> set xs. x \<noteq> [] \<Longrightarrow> js_join sep xs = [] \<longleftrightarrow> xs = []"
  by (induction sep xs rule: js_join.induct) auto

subsection \<open>encodeURIComponent\<close>

definition uri_unreserved :: "char \<Rightarrow> bool" where
  "uri_unreserved c = (let n = of_char c :: nat in
     (65 \<le> n \<and> n \<le> 90) \<or> (97 \<le> n \<and> n \<le> 122) \<or> (48 \<le> n \<and> n \<le> 57) \<or> c \<in> set ''-_.!~*()'' \<or> n = 39)"

definition hex_char :: "nat \<Rightarrow> char" where
  "hex_char d = (if d < 10 then char_of (48 + d) else char_of (55 + d))"

definition percent :: "nat \<Rightarrow> string" where
  "percent b = [CHR ''%'', hex_char (b div 16), hex_char (b mod 16)]"

text \<open>A code unit from 128 to 255 is the two UTF-8 bytes of its code point.\<close>

definition encode_uri_char :: "char \<Rightarrow> string" where
  "encode_uri_char c = (let n = of_char c :: nat in
     if uri_unreserved c then [c]
     else if n < 128 then percent n
     else percent (192 + n div 64) @ percent (128 + n mod 64))"

definition encodeURIComponent :: "string \<Rightarrow> string" where
  "encodeURIComponent s = concat (map encode_uri_char s)"

lemma encodeURIComponent_simps [simp]:
  "encodeURIComponent [] = []"
  "encodeURIComponent (c # s) = encode_uri_char c @ encodeURIComponent s"
  by (simp_all add: encodeURIComponent_def)

end
