(* ===== verification/JS_Async.thy ===== *)
theory JS_Async
  imports JS_String
begin

text \<open>
  Asynchronous code. An \<^verbatim>\<open>async\<close> function of the source is a program tree: it reads
  and writes the shared state of the page, and suspends where the source has an
  \<^verbatim>\<open>await\<close>. Between two suspension points a program runs without interruption, which
  is how a JavaScript engine runs it; at a suspension point any other program may run.

  Two semantics are given for the same trees. \<open>run\<close> executes one call against a script
  of network answers while the calls it left running in the background stay where they
  stopped. The machine (\<open>mstep\<close>, \<open>exec\<close>, \<open>reach\<close>) interleaves any number of
  calls in any order. \<open>safe\<close> is the rule that lifts an invariant proved call by call
  to every interleaving.
\<close>

subsection \<open>Requests and their outcomes\<close>

datatype body = NoBody | Form "(string \<times> jsval) list" | Json jsval

record request =
  rq_method :: string
  rq_url :: string
  rq_params :: "(string \<times> jsval) list"
  rq_body :: body
  rq_headers :: "(string \<times> string) list"
  rq_retry :: bool
  rq_keepalive :: bool

text \<open>
  What the network layer (axios or \<^verbatim>\<open>fetch\<close>, neither part of the repository) gives
  back for a request: it resolves with a response body, or rejects with an error whose
  \<^verbatim>\<open>response\<close> is undefined when no answer came, and which may lack the
  \<^verbatim>\<open>config\<close> of the request.
\<close>

datatype outcome = Resolved jsval | Rejected jsval bool

definition axios_error :: "jsval \<Rightarrow> jsval" where
  "axios_error resp = JObj [(''name'', JStr ''AxiosError''), (''response'', resp)]"

definition http_response :: "int \<Rightarrow> jsval \<Rightarrow> jsval" where
  "http_response status data = JObj [(''status'', JNum status), (''data'', data)]"

definition mk_request :: "string \<Rightarrow> string \<Rightarrow> body \<Rightarrow> request" where
  "mk_request method url b =
     \<lparr>rq_method = method, rq_url = url, rq_params = [], rq_body = b, rq_headers = [],
      rq_retry = False, rq_keepalive = False\<rparr>"

definition with_header :: "string \<Rightarrow> string \<Rightarrow> request \<Rightarrow> request" where
  "with_header k v r = r\<lparr>rq_headers := AList.update k v (rq_headers r)\<rparr>"

definition header :: "request \<Rightarrow> string \<Rightarrow> string option" where
  "header r k = map_of (rq_headers r) k"

abbreviation req_get :: "string \<Rightarrow> request" where
  "req_get url \<equiv> mk_request ''GET'' url NoBody"

abbreviation req_post :: "string \<Rightarrow> body \<Rightarrow> request" where
  "req_post url b \<equiv> mk_request ''POST'' url b"

abbreviation req_put :: "string \<Rightarrow> body \<Rightarrow> request" where
  "req_put url b \<equiv> mk_request ''PUT'' url b"

abbreviation req_delete :: "string \<Rightarrow> request" where
  "req_delete url \<equiv> mk_request ''DELETE'' url NoBody"

definition json_content :: "request \<Rightarrow> request" where
  "json_content = with_header ''Content-Type'' ''application/json''"

definition form_content :: "request \<Rightarrow> request" where
  "form_content = with_header ''Content-Type'' ''application/x-www-form-urlencoded''"

lemma header_with_header [simp]:
  "header (with_header k v r) k' = (if k' = k then Some v else header r k')"
  by (simp add: header_def with_header_def update_conv)

lemma with_header_fields [simp]:
  "rq_method (with_header k v r) = rq_method r" "rq_url (with_header k v r) = rq_url r"
  "rq_params (with_header k v r) = rq_params r" "rq_body (with_header k v r) = rq_body r"
  "rq_retry (with_header k v r) = rq_retry r" "rq_keepalive (with_header k v r) = rq_keepalive r"
  by (simp_all add: with_header_def)

lemma mk_request_fields [simp]:
  "rq_method (mk_request m u b) = m" "rq_url (mk_request m u b) = u"
  "rq_params (mk_request m u b) = []" "rq_body (mk_request m u b) = b"
  "rq_retry (mk_request m u b) = False" "rq_keepalive (mk_request m u b) = False"
  "header (mk_request m u b) k = None"
  by (simp_all add: mk_request_def header_def)

lemma content_fields [simp]:
  "rq_method (json_content r) = rq_method r" "rq_url (json_content r) = rq_url r"
  "rq_body (json_content r) = rq_body r" "rq_retry (json_content r) = rq_retry r"
  "rq_method (form_content r) = rq_method r" "rq_url (form_content r) = rq_url r"
  "rq_body (form_content r) = rq_body r" "rq_retry (form_content r) = rq_retry r"
  by (simp_all add: json_content_def form_content_def)

lemma header_content [simp]:
  "k \<noteq> ''Content-Type'' \<Longrightarrow> header (json_content r) k = header r k"
  "k \<noteq> ''Content-Type'' \<Longrightarrow> header (form_content r) k = header r k"
  by (simp_all add: json_content_def form_content_def)

lemma header_update_retry [simp]:
  "header (r\<lparr>rq_retry := b\<rparr>) k = header r k" "header (r\<lparr>rq_keepalive := b\<rparr>) k = header r k"
  by (simp_all add: header_def)

text \<open>The value of a form field, as the body lists it.\<close>

fun form_field :: "request \<Rightarrow> string \<Rightarrow> jsval option" where
  "form_field r k = (case rq_body r of Form fs \<Rightarrow> map_of fs k | _ \<Rightarrow> None)"

declare form_field.simps [simp del]

lemma form_field_mk [simp]:
  "form_field (mk_request m u (Form fs)) k = map_of fs k"
  "form_field (form_content r) k = form_field r k" "form_field (r\<lparr>rq_keepalive := b\<rparr>) k = form_field r k"
  by (simp_all add: form_field.simps)

subsection \<open>Program trees\<close>

text \<open>
  \<open>Net rs k\<close> sends the requests \<open>rs\<close> together and waits for their outcomes;
  \<open>Async c k\<close> calls an async function without awaiting it: the callee runs up to its
  first suspension, the caller goes on with the callee's promise; \<open>Await p k\<close> waits
  for a promise; \<open>Tick p\<close> gives way to other calls, as any \<^verbatim>\<open>await\<close> does.
\<close>

datatype 's prog =
    Ret jsval
  | Throw jsval
  | Get "'s \<Rightarrow> 's prog"
  | Put 's "'s prog"
  | Net "request list" "outcome list \<Rightarrow> 's prog"
  | Async "'s prog" "nat \<Rightarrow> 's prog"
  | Await nat "jsval + jsval \<Rightarrow> 's prog"
  | Tick "'s prog"

primrec bind :: "'s prog \<Rightarrow> (jsval \<Rightarrow> 's prog) \<Rightarrow> 's prog" where
  "bind (Ret v) k = k v"
| "bind (Throw e) k = Throw e"
| "bind (Get f) k = Get (\<lambda>s. bind (f s) k)"
| "bind (Put s p) k = Put s (bind p k)"
| "bind (Net rs f) k = Net rs (\<lambda>os. bind (f os) k)"
| "bind (Async c f) k = Async c (\<lambda>n. bind (f n) k)"
| "bind (Await n f) k = Await n (\<lambda>r. bind (f r) k)"
| "bind (Tick p) k = Tick (bind p k)"

primrec catch :: "'s prog \<Rightarrow> (jsval \<Rightarrow> 's prog) \<Rightarrow> 's prog" where
  "catch (Ret v) h = Ret v"
| "catch (Throw e) h = h e"
| "catch (Get f) h = Get (\<lambda>s. catch (f s) h)"
| "catch (Put s p) h = Put s (catch p h)"
| "catch (Net rs f) h = Net rs (\<lambda>os. catch (f os) h)"
| "catch (Async c f) h = Async c (\<lambda>n. catch (f n) h)"
| "catch (Await n f) h = Await n (\<lambda>r. catch (f r) h)"
| "catch (Tick p) h = Tick (catch p h)"

text \<open>\<^verbatim>\<open>try p finally q\<close>: \<open>q\<close> runs on both exits and the outcome of \<open>p\<close> stands.\<close>

primrec finally_do :: "'s prog \<Rightarrow> 's prog \<Rightarrow> 's prog" where
  "finally_do (Ret v) q = bind q (\<lambda>_. Ret v)"
| "finally_do (Throw e) q = bind q (\<lambda>_. Throw e)"
| "finally_do (Get f) q = Get (\<lambda>s. finally_do (f s) q)"
| "finally_do (Put s p) q = Put s (finally_do p q)"
| "finally_do (Net rs f) q = Net rs (\<lambda>os. finally_do (f os) q)"
| "finally_do (Async c f) q = Async c (\<lambda>n. finally_do (f n) q)"
| "finally_do (Await n f) q = Await n (\<lambda>r. finally_do (f r) q)"
| "finally_do (Tick p) q = Tick (finally_do p q)"

definition await :: "'s prog \<Rightarrow> (jsval \<Rightarrow> 's prog) \<Rightarrow> 's prog" where
  "await p k = bind p (\<lambda>v. Tick (k v))"

definition modify :: "('s \<Rightarrow> 's) \<Rightarrow> 's prog \<Rightarrow> 's prog" where
  "modify f p = Get (\<lambda>s. Put (f s) p)"

definition of_sum :: "jsval + jsval \<Rightarrow> (jsval \<Rightarrow> 's prog) \<Rightarrow> 's prog" where
  "of_sum r k = (case r of Inl e \<Rightarrow> Throw e | Inr v \<Rightarrow> k v)"

text \<open>\<^verbatim>\<open>v.k\<close> in a program: a read of a property of \<^verbatim>\<open>undefined\<close> or \<^verbatim>\<open>null\<close> throws.\<close>

definition dot :: "jsval \<Rightarrow> string \<Rightarrow> (jsval \<Rightarrow> 's prog) \<Rightarrow> 's prog" where
  "dot v k c = of_sum (js_prop v k) c"

text \<open>One request through the network layer with no interceptor.\<close>

definition raw_send :: "request \<Rightarrow> 's prog" where
  "raw_send r = Net [r] (\<lambda>os. case os of
       [Resolved d] \<Rightarrow> Ret d
     | [Rejected resp c] \<Rightarrow> Throw (axios_error resp)
     | _ \<Rightarrow> Ret JUndef)"

text \<open>
  \<^verbatim>\<open>await Promise.all(\<close> of calls to \<^verbatim>\<open>fetch\<close>\<^verbatim>\<open>)\<close>: all requests go
  out together; the call resumes when all are answered, and throws when one of them failed.
  (The engine resumes a failed one earlier, at the first failure.)
\<close>

fun failed :: "outcome \<Rightarrow> bool" where
  "failed (Rejected resp c) = True"
| "failed (Resolved d) = False"

definition fetch_all :: "request list \<Rightarrow> 's prog" where
  "fetch_all rs =
     (if rs = [] then Tick (Ret JUndef)
      else Net rs (\<lambda>os. if list_ex failed os then Throw (js_error ''TypeError'' ''Failed to fetch'')
                       else Ret JUndef))"

text \<open>
  \<^verbatim>\<open>setTimeout(f, n)\<close>: the callback runs later, at a time the program does not choose.
\<close>

definition set_timeout :: "('s \<Rightarrow> 's) \<Rightarrow> 's prog \<Rightarrow> 's prog" where
  "set_timeout f p = Async (Tick (modify f (Ret JUndef))) (\<lambda>_. p)"

subsection \<open>Running one call against a script of answers\<close>

text \<open>
  \<open>settle p s ts\<close> runs \<open>p\<close> to its next suspension point; \<open>ts\<close> is the pool of
  calls started so far, a promise being an index into it. The slot of a call that is
  being run holds \<open>running\<close>.
\<close>

abbreviation running :: "'s prog" where
  "running \<equiv> Tick (Ret JUndef)"

primrec settle :: "'s prog \<Rightarrow> 's \<Rightarrow> 's prog list \<Rightarrow> 's prog \<times> 's \<times> 's prog list" where
  "settle (Ret v) = (\<lambda>s ts. (Ret v, s, ts))"
| "settle (Throw e) = (\<lambda>s ts. (Throw e, s, ts))"
| "settle (Get f) = (\<lambda>s ts. settle (f s) s ts)"
| "settle (Put s' p) = (\<lambda>s ts. settle p s' ts)"
| "settle (Net rs k) = (\<lambda>s ts. (Net rs k, s, ts))"
| "settle (Async c k) = (\<lambda>s ts.
     case settle c s (ts @ [running]) of
       (c', s', ts') \<Rightarrow> settle (k (length ts)) s' (ts'[length ts := c']))"
| "settle (Await n k) = (\<lambda>s ts. (Await n k, s, ts))"
| "settle (Tick p) = (\<lambda>s ts. (Tick p, s, ts))"

datatype exit = Done jsval | Raised jsval | Blocked

record 's res =
  r_exit :: exit
  r_state :: 's
  r_sent :: "request list"
  r_left :: "outcome list list"
  r_tasks :: "'s prog list"

definition emit :: "request list \<Rightarrow> 's res \<Rightarrow> 's res" where
  "emit rs r = r\<lparr>r_sent := rs @ r_sent r\<rparr>"

definition halt :: "exit \<Rightarrow> 's \<Rightarrow> 's prog list \<Rightarrow> outcome list list \<Rightarrow> 's res" where
  "halt x s ts as = \<lparr>r_exit = x, r_state = s, r_sent = [], r_left = as, r_tasks = ts\<rparr>"

primrec run :: "'s prog \<Rightarrow> 's \<Rightarrow> 's prog list \<Rightarrow> outcome list list \<Rightarrow> 's res" where
  "run (Ret v) = (\<lambda>s ts as. halt (Done v) s ts as)"
| "run (Throw e) = (\<lambda>s ts as. halt (Raised e) s ts as)"
| "run (Get f) = (\<lambda>s ts as. run (f s) s ts as)"
| "run (Put s' p) = (\<lambda>s ts as. run p s' ts as)"
| "run (Net rs k) = (\<lambda>s ts as.
     case as of
       [] \<Rightarrow> emit rs (halt Blocked s ts as)
     | os # as' \<Rightarrow>
         if length os = length rs then emit rs (run (k os) s ts as')
         else emit rs (halt Blocked s ts as))"
| "run (Async c k) = (\<lambda>s ts as.
     case settle c s (ts @ [running]) of
       (c', s', ts') \<Rightarrow> run (k (length ts)) s' (ts'[length ts := c']) as)"
| "run (Await n k) = (\<lambda>s ts as.
     if n < length ts then
       case ts ! n of
         Ret v \<Rightarrow> run (k (Inr v)) s ts as
       | Throw e \<Rightarrow> run (k (Inl e)) s ts as
       | _ \<Rightarrow> halt Blocked s ts as
     else halt Blocked s ts as)"
| "run (Tick p) = (\<lambda>s ts as. run p s ts as)"

lemma halt_fields [simp]:
  "r_exit (halt x s ts as) = x" "r_state (halt x s ts as) = s" "r_sent (halt x s ts as) = []"
  "r_left (halt x s ts as) = as" "r_tasks (halt x s ts as) = ts"
  by (simp_all add: halt_def)

lemma emit_fields [simp]:
  "r_exit (emit rs r) = r_exit r" "r_state (emit rs r) = r_state r"
  "r_sent (emit rs r) = rs @ r_sent r" "r_left (emit rs r) = r_left r"
  "r_tasks (emit rs r) = r_tasks r"
  by (simp_all add: emit_def)

lemma emit_emit [simp]: "emit rs (emit qs r) = emit (rs @ qs) r"
  by (simp add: emit_def)

lemma emit_Nil [simp]: "emit [] r = r"
  by (simp add: emit_def)

definition then_run :: "'s res \<Rightarrow> (jsval \<Rightarrow> 's prog) \<Rightarrow> 's res" where
  "then_run r k = (case r_exit r of
       Done v \<Rightarrow> emit (r_sent r) (run (k v) (r_state r) (r_tasks r) (r_left r))
     | _ \<Rightarrow> r)"

definition then_catch :: "'s res \<Rightarrow> (jsval \<Rightarrow> 's prog) \<Rightarrow> 's res" where
  "then_catch r h = (case r_exit r of
       Raised e \<Rightarrow> emit (r_sent r) (run (h e) (r_state r) (r_tasks r) (r_left r))
     | _ \<Rightarrow> r)"

definition then_finally :: "'s res \<Rightarrow> 's prog \<Rightarrow> 's res" where
  "then_finally r q = (case r_exit r of
       Blocked \<Rightarrow> r
     | x \<Rightarrow> emit (r_sent r) (run (bind q (\<lambda>_. case x of Raised e \<Rightarrow> Throw e | Done v \<Rightarrow> Ret v))
              (r_state r) (r_tasks r) (r_left r)))"

lemma then_run_emit [simp]: "then_run (emit rs r) k = emit rs (then_run r k)"
  by (simp add: then_run_def split: exit.split)

lemma then_catch_emit [simp]: "then_catch (emit rs r) k = emit rs (then_catch r k)"
  by (simp add: then_catch_def split: exit.split)

lemma then_finally_emit [simp]: "then_finally (emit rs r) q = emit rs (then_finally r q)"
  by (simp add: then_finally_def split: exit.split)

lemma then_run_halt [simp]:
  "then_run (halt (Done v) s ts as) k = run (k v) s ts as"
  "then_run (halt (Raised e) s ts as) k = halt (Raised e) s ts as"
  "then_run (halt Blocked s ts as) k = halt Blocked s ts as"
  by (simp_all add: then_run_def)

lemma then_catch_halt [simp]:
  "then_catch (halt (Done v) s ts as) k = halt (Done v) s ts as"
  "then_catch (halt (Raised e) s ts as) k = run (k e) s ts as"
  "then_catch (halt Blocked s ts as) k = halt Blocked s ts as"
  by (simp_all add: then_catch_def)

lemma then_finally_halt [simp]:
  "then_finally (halt (Done v) s ts as) q = run (bind q (\<lambda>_. Ret v)) s ts as"
  "then_finally (halt (Raised e) s ts as) q = run (bind q (\<lambda>_. Throw e)) s ts as"
  "then_finally (halt Blocked s ts as) q = halt Blocked s ts as"
  by (simp_all add: then_finally_def)

lemma run_bind [prog_simps]: "run (bind p k) s ts as = then_run (run p s ts as) k"
  by (induction p arbitrary: s ts as) (auto split: list.split prod.split prog.split)

lemma run_catch [prog_simps]: "run (catch p h) s ts as = then_catch (run p s ts as) h"
  by (induction p arbitrary: s ts as) (auto split: list.split prod.split prog.split)

lemma run_finally [prog_simps]: "run (finally_do p q) s ts as = then_finally (run p s ts as) q"
  by (induction p arbitrary: s ts as) (auto split: list.split prod.split prog.split)

lemma run_await [prog_simps]: "run (await p k) s ts as = then_run (run p s ts as) k"
  by (simp add: await_def run_bind then_run_def split: exit.split)

lemma run_modify [simp]: "run (modify f p) s ts as = run p (f s) ts as"
  by (simp add: modify_def)

lemma settle_modify [simp]: "settle (modify f p) s ts = settle p (f s) ts"
  by (simp add: modify_def)

lemma combinators_modify [simp]:
  "bind (modify f p) k = modify f (bind p k)" "catch (modify f p) h = modify f (catch p h)"
  "finally_do (modify f p) q = modify f (finally_do p q)"
  by (simp_all add: modify_def)

lemma of_sum_simps [simp]: "of_sum (Inl e) k = Throw e" "of_sum (Inr v) k = k v"
  by (simp_all add: of_sum_def)

lemma await_simps:
  "await (Ret v) k = Tick (k v)" "await (Throw e) k = Throw e"
  "await (Get f) k = Get (\<lambda>s. await (f s) k)" "await (modify u p) k = modify u (await p k)"
  "await (Net rs g) k = Net rs (\<lambda>os. await (g os) k)"
  "await (Async c i) k = Async c (\<lambda>n. await (i n) k)" "await (Await n j) k = Await n (\<lambda>r. await (j r) k)"
  "await (Tick p) k = Tick (await p k)"
  by (simp_all add: await_def)

lemma dot_obj [simp]: "dot (JObj ps) key k = k (js_get (JObj ps) key)"
  by (simp add: dot_def)

lemma dot_value [prog_simps]:
  "\<not> nullish d \<Longrightarrow> k \<notin> {''caller'', ''arguments''} \<Longrightarrow> dot d k c = c (js_get d k)"
  by (simp add: dot_def js_prop_total)

text \<open>A read of a property of \<^verbatim>\<open>undefined\<close> or \<^verbatim>\<open>null\<close>.\<close>

definition null_read :: "string \<Rightarrow> jsval" where
  "null_read k = js_error ''TypeError'' (''Cannot read properties: '' @ k)"

lemma dot_null [prog_simps]: "nullish d \<Longrightarrow> dot d k c = Throw (null_read k)"
  by (simp add: dot_def js_prop_def null_read_def)

lemma run_raw_send [prog_simps]:
  "run (raw_send r) s ts ([Resolved d] # as) = emit [r] (halt (Done d) s ts as)"
  "run (raw_send r) s ts ([Rejected resp c] # as) = emit [r] (halt (Raised (axios_error resp)) s ts as)"
  "run (raw_send r) s ts [] = emit [r] (halt Blocked s ts [])"
  by (simp_all add: raw_send_def)

subsection \<open>Counting requests\<close>

text \<open>
  \<open>sends_le p n\<close>: along no path, whatever the state and the answers, does \<open>p\<close> itself
  send more than \<open>n\<close> requests.
\<close>

primrec sends_le :: "'s prog \<Rightarrow> nat \<Rightarrow> bool" where
  "sends_le (Ret v) = (\<lambda>n. True)"
| "sends_le (Throw e) = (\<lambda>n. True)"
| "sends_le (Get f) = (\<lambda>n. \<forall>s. sends_le (f s) n)"
| "sends_le (Put s p) = (\<lambda>n. sends_le p n)"
| "sends_le (Net rs k) = (\<lambda>n. length rs \<le> n \<and> (\<forall>os. sends_le (k os) (n - length rs)))"
| "sends_le (Async c k) = (\<lambda>n. \<forall>i. sends_le (k i) n)"
| "sends_le (Await i k) = (\<lambda>n. \<forall>r. sends_le (k r) n)"
| "sends_le (Tick p) = (\<lambda>n. sends_le p n)"

lemma run_sends_le: "sends_le p n \<Longrightarrow> length (r_sent (run p s ts as)) \<le> n"
proof (induction p arbitrary: n s ts as)
  case (Net rs k)
  from Net.prems have le: "length rs \<le> n" and k: "\<And>os. sends_le (k os) (n - length rs)" by auto
  have "length (r_sent (run (k os) s ts as')) \<le> n - length rs" for os as'
    by (rule Net.IH [OF rangeI k])
  with le show ?case by (auto split: list.split) (metis add.commute le_diff_conv2)
next
  case (Async c k)
  then show ?case by (auto split: prod.split)
next
  case (Await i k)
  then show ?case by (auto split: prog.split)
qed auto

lemma sends_le_mono: "sends_le p m \<Longrightarrow> m \<le> n \<Longrightarrow> sends_le p n"
proof (induction p arbitrary: m n)
  case (Net rs k)
  then have "sends_le (k os) (n - length rs)" for os by (meson diff_le_mono rangeI sends_le.simps(5))
  with Net.prems show ?case by auto
qed (simp; blast)+

lemma sends_le_bind:
  "sends_le p m \<Longrightarrow> (\<And>v. sends_le (k v) n) \<Longrightarrow> sends_le (bind p k) (m + n)"
proof (induction p arbitrary: m)
  case (Net rs f)
  then have "sends_le (bind (f os) k) ((m - length rs) + n)" for os
    by (intro Net.IH) auto
  with Net.prems(1) show ?case by simp
qed (auto intro: sends_le_mono [OF _ le_add2])

lemma sends_le_catch:
  "sends_le p m \<Longrightarrow> (\<And>e. sends_le (h e) n) \<Longrightarrow> sends_le (catch p h) (m + n)"
proof (induction p arbitrary: m)
  case (Net rs f)
  then have "sends_le (catch (f os) h) ((m - length rs) + n)" for os
    by (intro Net.IH) auto
  with Net.prems(1) show ?case by simp
qed (auto intro: sends_le_mono [OF _ le_add2])

lemma sends_le_await: "sends_le p m \<Longrightarrow> (\<And>v. sends_le (k v) n) \<Longrightarrow> sends_le (await p k) (m + n)"
  by (simp add: await_def sends_le_bind)

lemma sends_le_modify [simp]: "sends_le (modify f p) n \<longleftrightarrow> sends_le p n"
  by (simp add: modify_def)

lemma sends_le_of_sum: "(\<And>v. sends_le (k v) n) \<Longrightarrow> sends_le (of_sum r k) n"
  by (simp add: of_sum_def split: sum.split)

lemma sends_le_dot: "(\<And>v. sends_le (k v) n) \<Longrightarrow> sends_le (dot v key k) n"
  by (simp add: dot_def sends_le_of_sum)

lemma sends_le_raw_send [simp]: "sends_le (raw_send r) 1"
  by (simp add: raw_send_def split: list.split outcome.split)

lemma sends_le_await_send: "(\<And>v. sends_le (k v) n) \<Longrightarrow> sends_le (await (raw_send r) k) (Suc n)"
  using sends_le_await [OF sends_le_raw_send, of k n r] by simp

subsection \<open>Calls that never reject\<close>

primrec no_throw :: "'s prog \<Rightarrow> bool" where
  "no_throw (Ret v) = True"
| "no_throw (Throw e) = False"
| "no_throw (Get f) = (\<forall>s. no_throw (f s))"
| "no_throw (Put s p) = no_throw p"
| "no_throw (Net rs k) = (\<forall>os. no_throw (k os))"
| "no_throw (Async c k) = (\<forall>i. no_throw (k i))"
| "no_throw (Await i k) = (\<forall>r. no_throw (k r))"
| "no_throw (Tick p) = no_throw p"

lemma run_no_throw: "no_throw p \<Longrightarrow> r_exit (run p s ts as) \<noteq> Raised e"
  by (induction p arbitrary: s ts as) (auto split: list.split prod.split prog.split)

lemma no_throw_bind: "no_throw p \<Longrightarrow> (\<And>v. no_throw (k v)) \<Longrightarrow> no_throw (bind p k)"
  by (induction p) auto

lemma no_throw_catch: "(\<And>e. no_throw (h e)) \<Longrightarrow> no_throw (catch p h)"
  by (induction p) auto

lemma no_throw_finally: "no_throw p \<Longrightarrow> no_throw q \<Longrightarrow> no_throw (finally_do p q)"
  by (induction p) (auto intro: no_throw_bind)

lemma no_throw_await: "no_throw p \<Longrightarrow> (\<And>v. no_throw (k v)) \<Longrightarrow> no_throw (await p k)"
  by (simp add: await_def no_throw_bind)

lemma no_throw_modify [simp]: "no_throw (modify f p) \<longleftrightarrow> no_throw p"
  by (simp add: modify_def)

lemma no_throw_Get: "(\<And>s. no_throw (f s)) \<Longrightarrow> no_throw (Get f)"
  by simp

lemma no_throw_if: "(b \<Longrightarrow> no_throw p) \<Longrightarrow> (\<not> b \<Longrightarrow> no_throw q) \<Longrightarrow> no_throw (if b then p else q)"
  by simp

lemmas no_throw_intros = no_throw_Get no_throw_if no_throw_await no_throw_finally no_throw_catch no_throw_bind

text \<open>A last step in \<^verbatim>\<open>finally\<close> has its effect on both exits.\<close>

lemma run_finally_effect:
  assumes "r_exit (run (finally_do p (modify f (Ret u))) s ts as) \<noteq> Blocked"
  shows "\<exists>s0. r_state (run (finally_do p (modify f (Ret u))) s ts as) = f s0"
  using assms by (auto simp: run_finally then_finally_def split: exit.splits)

end
