(* ===== verification/JS_Machine.thy ===== *)
theory JS_Machine
  imports JS_Async
begin

text \<open>
  The interleaving machine. Its state is the shared page state and a pool of calls; a step
  resumes one suspended call, with any outcomes the network may give it. \<open>reach\<close> is the
  set of states reachable when calls of a given set may start at any time. The theory has
  three general results: \<open>run\<close> is one of the machine's schedules (\<open>run_is_schedule\<close>),
  \<open>exec\<close> only visits reachable states (\<open>exec_reach\<close>), and an invariant that every
  call keeps between its suspension points holds in every reachable state
  (\<open>reach_safe\<close>).
\<close>

subsection \<open>Steps\<close>

record 's machine =
  mc_state :: 's
  mc_tasks :: "'s prog list"

definition resume :: "nat \<Rightarrow> 's prog \<Rightarrow> 's \<Rightarrow> 's prog list \<Rightarrow> 's machine" where
  "resume i p s ts = (case settle p s (ts[i := running]) of
     (p', s', ts') \<Rightarrow> \<lparr>mc_state = s', mc_tasks = ts'[i := p']\<rparr>)"

definition step :: "nat \<Rightarrow> outcome list \<Rightarrow> 's machine \<Rightarrow> 's machine option" where
  "step i os m =
     (let ts = mc_tasks m; s = mc_state m in
      if i < length ts then
        case ts ! i of
          Net rs k \<Rightarrow> if length os = length rs then Some (resume i (k os) s ts) else None
        | Tick p \<Rightarrow> Some (resume i p s ts)
        | Await j k \<Rightarrow>
            (if j < length ts then
               case ts ! j of
                 Ret v \<Rightarrow> Some (resume i (k (Inr v)) s ts)
               | Throw e \<Rightarrow> Some (resume i (k (Inl e)) s ts)
               | _ \<Rightarrow> None
             else None)
        | _ \<Rightarrow> None
      else None)"

text \<open>A call starts: a click, a mounted page, a navigation.\<close>

definition launch :: "'s prog \<Rightarrow> 's machine \<Rightarrow> 's machine" where
  "launch p m = resume (length (mc_tasks m)) p (mc_state m) (mc_tasks m @ [running])"

fun exec :: "(nat \<times> outcome list) list \<Rightarrow> 's machine \<Rightarrow> 's machine option" where
  "exec [] m = Some m"
| "exec ((i, os) # es) m = (case step i os m of None \<Rightarrow> None | Some m' \<Rightarrow> exec es m')"

lemma exec_Net [simp]:
  assumes "i < length ts" "ts ! i = Net rs k" "length os = length rs"
  shows "exec ((i, os) # es) \<lparr>mc_state = s, mc_tasks = ts\<rparr> = exec es (resume i (k os) s ts)"
  using assms by (simp add: step_def)

lemma exec_Tick [simp]:
  assumes "i < length ts" "ts ! i = Tick p"
  shows "exec ((i, os) # es) \<lparr>mc_state = s, mc_tasks = ts\<rparr> = exec es (resume i p s ts)"
  using assms by (simp add: step_def)

lemma exec_Await [simp]:
  assumes "i < length ts" "ts ! i = Await j k" "j < length ts"
  shows "ts ! j = Ret v \<Longrightarrow>
      exec ((i, os) # es) \<lparr>mc_state = s, mc_tasks = ts\<rparr> = exec es (resume i (k (Inr v)) s ts)"
    and "ts ! j = Throw e \<Longrightarrow>
      exec ((i, os) # es) \<lparr>mc_state = s, mc_tasks = ts\<rparr> = exec es (resume i (k (Inl e)) s ts)"
  using assms by (simp_all add: step_def)

declare exec.simps(2) [simp del]

inductive mstep :: "'s machine \<Rightarrow> 's machine \<Rightarrow> bool" where
  resumed: "step i os m = Some m' \<Longrightarrow> mstep m m'"

inductive reach :: "'s prog set \<Rightarrow> 's machine \<Rightarrow> 's machine \<Rightarrow> bool" for H m0 where
  start: "reach H m0 m0"
| call: "reach H m0 m \<Longrightarrow> p \<in> H \<Longrightarrow> reach H m0 (launch p m)"
| move: "reach H m0 m \<Longrightarrow> mstep m m' \<Longrightarrow> reach H m0 m'"

inductive_simps mstep_iff: "mstep m m'"

lemma exec_append: "exec (es @ fs) m = (case exec es m of None \<Rightarrow> None | Some m' \<Rightarrow> exec fs m')"
  by (induction es arbitrary: m) (auto simp: exec.simps(2) split: option.split)

lemma exec_then: "exec [a, b] m = Some m1 \<Longrightarrow> exec es m1 = r \<Longrightarrow> exec (a # b # es) m = r"
  using exec_append [of "[a, b]" es m] by simp

lemma exec_reach: "reach H m0 m \<Longrightarrow> exec es m = Some m' \<Longrightarrow> reach H m0 m'"
proof (induction es arbitrary: m)
  case (Cons e es)
  obtain i os where e: "e = (i, os)" by (cases e)
  with Cons.prems obtain m1 where m1: "step i os m = Some m1" "exec es m1 = Some m'"
    by (auto simp: exec.simps(2) split: option.splits)
  with Cons.prems(1) have "reach H m0 m1" by (auto intro: reach.move mstep.resumed)
  then show ?case using m1(2) by (rule Cons.IH)
qed simp

subsection \<open>run is one of the machine's schedules\<close>

lemma settle_frame:
  "settle p s ts = (p', s', ts') \<Longrightarrow> length ts \<le> length ts' \<and> (\<forall>i < length ts. ts' ! i = ts ! i)"
proof (induction p arbitrary: s ts p' s' ts')
  case (Async c k)
  obtain c' s1 ts1 where c: "settle c s (ts @ [running]) = (c', s1, ts1)"
    by (metis prod.exhaust)
  from Async.IH(1) [OF c] have 1: "Suc (length ts) \<le> length ts1"
    "\<forall>i < Suc (length ts). ts1 ! i = (ts @ [running]) ! i" by auto
  from Async.prems c have "settle (k (length ts)) s1 (ts1[length ts := c']) = (p', s', ts')"
    by simp
  from Async.IH(2) [OF rangeI this] 1 show ?case by (auto simp: nth_append)
next
  case (Get f)
  from Get.IH [OF rangeI] Get.prems show ?case by simp
qed auto

fun exit_prog :: "exit \<Rightarrow> 's prog" where
  "exit_prog (Done v) = Ret v"
| "exit_prog (Raised e) = Throw e"
| "exit_prog Blocked = running"

lemma resume_slot:
  assumes "i < length ts" "ts ! i = running"
  shows "resume i p s (ts[i := q]) = resume i p s ts"
  using assms by (simp add: resume_def)

definition final_machine :: "nat \<Rightarrow> 's res \<Rightarrow> 's machine" where
  "final_machine i r =
     \<lparr>mc_state = r_state r, mc_tasks = (r_tasks r)[i := exit_prog (r_exit r)]\<rparr>"

lemma final_machine_emit [simp]: "final_machine i (emit rs r) = final_machine i r"
  by (simp add: final_machine_def)

lemma resume_suspended:
  assumes "i < length ts" "ts ! i = running"
  shows "resume i (Net rs k) s ts = \<lparr>mc_state = s, mc_tasks = ts[i := Net rs k]\<rparr>"
    and "resume i (Await n f) s ts = \<lparr>mc_state = s, mc_tasks = ts[i := Await n f]\<rparr>"
    and "resume i (Tick p) s ts = \<lparr>mc_state = s, mc_tasks = ts[i := Tick p]\<rparr>"
  using assms by (simp_all add: resume_def)

lemma resume_async:
  assumes "i < length ts" "ts ! i = running" "settle c s (ts @ [running]) = (c', s', ts')"
  shows "i < length (ts'[length ts := c'])" "ts'[length ts := c'] ! i = running"
    and "resume i (Async c k) s ts = resume i (k (length ts)) s' (ts'[length ts := c'])"
proof -
  show i: "i < length (ts'[length ts := c'])" "ts'[length ts := c'] ! i = running"
    using settle_frame [OF assms(3)] assms(1,2) by (auto simp: nth_append)
  have 1: "ts[i := running] = ts" using assms(1,2) by (metis list_update_id)
  have 2: "ts'[length ts := c', i := running] = ts'[length ts := c']" using i by (metis list_update_id)
  show "resume i (Async c k) s ts = resume i (k (length ts)) s' (ts'[length ts := c'])"
    unfolding resume_def 1 2 by (simp add: assms(3))
qed

lemma run_steps:
  assumes "i < length ts" "ts ! i = running" "r_exit (run p s ts as) \<noteq> Blocked"
  shows "mstep\<^sup>*\<^sup>* (resume i p s ts) (final_machine i (run p s ts as))"
  using assms
proof (induction p arbitrary: s ts as)
  case (Net rs k)
  then obtain os as' where as: "as = os # as'" and len: "length os = length rs"
    by (auto split: list.splits if_splits)
  have "step i os (resume i (Net rs k) s ts) = Some (resume i (k os) s ts)"
    using Net.prems len by (simp add: step_def resume_slot resume_suspended)
  moreover have "mstep\<^sup>*\<^sup>* (resume i (k os) s ts) (final_machine i (run (k os) s ts as'))"
    using Net.prems as len by (intro Net.IH) auto
  ultimately show ?case
    using as len by (auto intro: converse_rtranclp_into_rtranclp mstep.resumed)
next
  case (Async c k)
  obtain c' s' ts' where c: "settle c s (ts @ [running]) = (c', s', ts')" by (metis prod.exhaust)
  note r = resume_async [OF Async.prems(1,2) c]
  from Async.IH(2) [OF rangeI r(1,2)] Async.prems(3) c r(3) show ?case by simp
next
  case (Await n k)
  then obtain r where n: "n < length ts" and
    r: "(\<exists>v. ts ! n = Ret v \<and> r = Inr v) \<or> (\<exists>e. ts ! n = Throw e \<and> r = Inl e)"
    by (cases "ts ! n") (auto split: if_splits)
  then have eq: "run (Await n k) s ts as = run (k r) s ts as" by auto
  have "step i [] (resume i (Await n k) s ts) = Some (resume i (k r) s ts)"
    using n r Await.prems(1,2) by (cases "n = i") (auto simp: step_def resume_slot resume_suspended)
  moreover have "mstep\<^sup>*\<^sup>* (resume i (k r) s ts) (final_machine i (run (k r) s ts as))"
    using Await.prems eq by (intro Await.IH) auto
  ultimately show ?case
    unfolding eq by (auto intro: converse_rtranclp_into_rtranclp mstep.resumed)
next
  case (Tick p)
  have "step i [] (resume i (Tick p) s ts) = Some (resume i p s ts)"
    using Tick.prems by (simp add: step_def resume_slot resume_suspended)
  moreover have "mstep\<^sup>*\<^sup>* (resume i p s ts) (final_machine i (run p s ts as))"
    using Tick.prems by (intro Tick.IH) auto
  ultimately show ?case by (auto intro: converse_rtranclp_into_rtranclp mstep.resumed)
qed (auto simp: resume_def final_machine_def)

text \<open>
  Whatever \<open>run\<close> computes for a call that finishes, the machine can do: launch the call
  and schedule it, leaving the calls of the pool where they are.
\<close>

lemma run_is_schedule:
  assumes "r_exit (run p (mc_state m) (mc_tasks m @ [running]) as) \<noteq> Blocked"
  shows "mstep\<^sup>*\<^sup>* (launch p m)
     (final_machine (length (mc_tasks m)) (run p (mc_state m) (mc_tasks m @ [running]) as))"
  using run_steps [of "length (mc_tasks m)" "mc_tasks m @ [running]"] assms
  by (simp add: launch_def)

lemma reach_steps: "mstep\<^sup>*\<^sup>* m m' \<Longrightarrow> reach H m0 m \<Longrightarrow> reach H m0 m'"
  by (induction rule: rtranclp_induct) (auto intro: reach.move)

subsection \<open>Invariants of every interleaving\<close>

text \<open>
  \<open>safe I p s\<close>: started in \<open>s\<close>, the program \<open>p\<close> re-establishes \<open>I\<close> whenever it
  suspends or ends, if the other calls do so too. It does not have to hold in between.
\<close>

primrec safe :: "('s \<Rightarrow> bool) \<Rightarrow> 's prog \<Rightarrow> 's \<Rightarrow> bool" where
  "safe I (Ret v) = (\<lambda>s. I s)"
| "safe I (Throw e) = (\<lambda>s. I s)"
| "safe I (Get f) = (\<lambda>s. safe I (f s) s)"
| "safe I (Put s' p) = (\<lambda>s. safe I p s')"
| "safe I (Net rs k) = (\<lambda>s. I s \<and> (\<forall>os s'. length os = length rs \<longrightarrow> I s' \<longrightarrow> safe I (k os) s'))"
| "safe I (Async c k) = (\<lambda>s. safe I c s \<and> (\<forall>n s'. I s' \<longrightarrow> safe I (k n) s'))"
| "safe I (Await n k) = (\<lambda>s. I s \<and> (\<forall>r s'. I s' \<longrightarrow> safe I (k r) s'))"
| "safe I (Tick p) = (\<lambda>s. I s \<and> (\<forall>s'. I s' \<longrightarrow> safe I p s'))"

definition keeps :: "('s \<Rightarrow> bool) \<Rightarrow> 's prog \<Rightarrow> bool" where
  "keeps I p \<longleftrightarrow> (\<forall>s. I s \<longrightarrow> safe I p s)"

lemma keepsI: "(\<And>s. I s \<Longrightarrow> safe I p s) \<Longrightarrow> keeps I p"
  by (simp add: keeps_def)

lemma keepsD: "keeps I p \<Longrightarrow> I s \<Longrightarrow> safe I p s"
  by (simp add: keeps_def)

lemma safe_modify [simp]: "safe I (modify f p) s = safe I p (f s)"
  by (simp add: modify_def)

lemma safe_bind:
  "safe I p s \<Longrightarrow> (\<And>v. keeps I (k v)) \<Longrightarrow> safe I (bind p k) s"
  by (induction p arbitrary: s) (auto simp: keeps_def)

lemma safe_catch:
  "safe I p s \<Longrightarrow> (\<And>e. keeps I (h e)) \<Longrightarrow> safe I (catch p h) s"
  by (induction p arbitrary: s) (auto simp: keeps_def)

lemma safe_finally:
  "safe I p s \<Longrightarrow> keeps I q \<Longrightarrow> safe I (finally_do p q) s"
  by (induction p arbitrary: s) (auto simp: keeps_def intro!: safe_bind)

lemma keeps_bind: "keeps I p \<Longrightarrow> (\<And>v. keeps I (k v)) \<Longrightarrow> keeps I (bind p k)"
  by (metis keeps_def safe_bind)

lemma keeps_catch: "keeps I p \<Longrightarrow> (\<And>e. keeps I (h e)) \<Longrightarrow> keeps I (catch p h)"
  by (metis keeps_def safe_catch)

lemma keeps_finally: "keeps I p \<Longrightarrow> keeps I q \<Longrightarrow> keeps I (finally_do p q)"
  by (metis keeps_def safe_finally)

lemma keeps_Tick: "keeps I p \<Longrightarrow> keeps I (Tick p)"
  by (simp add: keeps_def)

lemma keeps_await: "keeps I p \<Longrightarrow> (\<And>v. keeps I (k v)) \<Longrightarrow> keeps I (await p k)"
  by (simp add: await_def keeps_bind keeps_Tick)

lemma keeps_Ret: "keeps I (Ret v)" and keeps_Throw: "keeps I (Throw e)"
  by (simp_all add: keeps_def)

lemma keeps_Get: "(\<And>s. keeps I (f s)) \<Longrightarrow> keeps I (Get f)"
  by (simp add: keeps_def)

lemma keeps_modify: "(\<And>s. I s \<Longrightarrow> I (f s)) \<Longrightarrow> keeps I p \<Longrightarrow> keeps I (modify f p)"
  by (simp add: keeps_def modify_def)

lemma keeps_Net: "(\<And>os. keeps I (k os)) \<Longrightarrow> keeps I (Net rs k)"
  by (simp add: keeps_def)

lemma keeps_Async: "keeps I c \<Longrightarrow> (\<And>n. keeps I (k n)) \<Longrightarrow> keeps I (Async c k)"
  by (simp add: keeps_def)

lemma keeps_Await: "(\<And>r. keeps I (k r)) \<Longrightarrow> keeps I (Await n k)"
  by (simp add: keeps_def)

lemma keeps_of_sum: "(\<And>v. keeps I (k v)) \<Longrightarrow> keeps I (of_sum r k)"
  by (simp add: of_sum_def keeps_Throw split: sum.split)

lemma keeps_dot: "(\<And>v. keeps I (k v)) \<Longrightarrow> keeps I (dot v key k)"
  by (simp add: dot_def keeps_of_sum)

lemma keeps_raw_send: "keeps I (raw_send r)"
  by (auto simp: raw_send_def keeps_def split: list.split outcome.split)

lemma keeps_fetch_all: "keeps I (fetch_all rs)"
  by (auto simp: fetch_all_def keeps_def)

lemma keeps_set_timeout: "(\<And>s. I s \<Longrightarrow> I (f s)) \<Longrightarrow> keeps I p \<Longrightarrow> keeps I (set_timeout f p)"
  by (simp add: set_timeout_def keeps_Async keeps_Tick keeps_modify keeps_Ret)

lemma keeps_if: "(b \<Longrightarrow> keeps I p) \<Longrightarrow> (\<not> b \<Longrightarrow> keeps I q) \<Longrightarrow> keeps I (if b then p else q)"
  by simp

lemma keeps_option:
  "(x = None \<Longrightarrow> keeps I p) \<Longrightarrow> (\<And>n. x = Some n \<Longrightarrow> keeps I (q n)) \<Longrightarrow>
   keeps I (case x of None \<Rightarrow> p | Some n \<Rightarrow> q n)"
  by (simp split: option.split)

lemmas keeps_intros =
  keeps_Ret keeps_Throw keeps_bind keeps_catch keeps_finally keeps_await keeps_Tick keeps_Get
  keeps_modify keeps_Net keeps_Async keeps_Await keeps_of_sum keeps_dot keeps_raw_send
  keeps_fetch_all keeps_set_timeout keeps_if keeps_option

lemma settle_safe:
  "settle p s ts = (p', s', ts') \<Longrightarrow> safe I p s \<Longrightarrow> \<forall>t \<in> set ts. keeps I t \<Longrightarrow>
   I s' \<and> keeps I p' \<and> (\<forall>t \<in> set ts'. keeps I t)"
proof (induction p arbitrary: s ts p' s' ts')
  case (Async c k)
  obtain c' s1 ts1 where c: "settle c s (ts @ [running]) = (c', s1, ts1)"
    by (metis prod.exhaust)
  have run_ok: "\<forall>t \<in> set (ts @ [running]). keeps I t"
    using Async.prems(3) by (simp add: keeps_def)
  from Async.IH(1) [OF c _ run_ok] Async.prems(2)
  have 1: "I s1" "keeps I c'" "\<forall>t \<in> set ts1. keeps I t" by auto
  then have 2: "\<forall>t \<in> set (ts1[length ts := c']). keeps I t"
    using set_update_subset_insert [of ts1 "length ts" c'] by auto
  from Async.prems c have 3: "settle (k (length ts)) s1 (ts1[length ts := c']) = (p', s', ts')"
    by simp
  from Async.prems(2) 1 have "safe I (k (length ts)) s1" by simp
  from Async.IH(2) [OF rangeI 3 this 2] show ?case .
next
  case (Get f)
  from Get.IH [OF rangeI] Get.prems show ?case by simp
qed (auto simp: keeps_def)

definition machine_ok :: "('s \<Rightarrow> bool) \<Rightarrow> 's machine \<Rightarrow> bool" where
  "machine_ok I m \<longleftrightarrow> I (mc_state m) \<and> (\<forall>t \<in> set (mc_tasks m). keeps I t)"

lemma resume_ok:
  assumes "safe I p s" "\<forall>t \<in> set ts. keeps I t"
  shows "machine_ok I (resume i p s ts)"
proof -
  obtain p' s' ts' where eq: "settle p s (ts[i := running]) = (p', s', ts')" by (metis prod.exhaust)
  have "\<forall>t \<in> set (ts[i := running]). keeps I t"
    using assms(2) set_update_subset_insert [of ts i running] by (auto simp: keeps_def)
  from settle_safe [OF eq assms(1) this] have "I s'" "keeps I p'" "\<forall>t \<in> set ts'. keeps I t" by auto
  then show ?thesis
    using eq set_update_subset_insert [of ts' i p'] by (auto simp: machine_ok_def resume_def)
qed

lemma step_ok: "machine_ok I m \<Longrightarrow> step i os m = Some m' \<Longrightarrow> machine_ok I m'"
proof -
  assume ok: "machine_ok I m" and st: "step i os m = Some m'"
  then have i: "i < length (mc_tasks m)" by (auto simp: step_def Let_def split: if_splits)
  with ok have "keeps I (mc_tasks m ! i)" and all: "\<forall>t \<in> set (mc_tasks m). keeps I t"
    by (auto simp: machine_ok_def)
  moreover from ok have "I (mc_state m)" by (simp add: machine_ok_def)
  ultimately have "safe I (mc_tasks m ! i) (mc_state m)" by (simp add: keeps_def)
  with st i \<open>I (mc_state m)\<close> all show ?thesis
    by (auto simp: step_def Let_def intro!: resume_ok split: prog.splits if_splits)
qed

lemma launch_ok: "machine_ok I m \<Longrightarrow> keeps I p \<Longrightarrow> machine_ok I (launch p m)"
  by (auto simp: launch_def machine_ok_def keeps_def intro!: resume_ok [unfolded machine_ok_def keeps_def])

theorem reach_safe:
  assumes "reach H m0 m" "machine_ok I m0" "\<And>p. p \<in> H \<Longrightarrow> keeps I p"
  shows "machine_ok I m"
  using assms by (induction rule: reach.induct) (auto intro: launch_ok step_ok simp: mstep_iff)

subsection \<open>A call that waits for itself\<close>

text \<open>
  A call that awaits its own promise never settles: nothing can resume it, and no other call
  can take its slot.
\<close>

lemma resume_other:
  assumes "j \<noteq> i" "j < length ts"
  shows "mc_tasks (resume i p s ts) ! j = ts ! j \<and> length ts \<le> length (mc_tasks (resume i p s ts))"
proof -
  obtain p' s' ts' where eq: "settle p s (ts[i := running]) = (p', s', ts')" by (metis prod.exhaust)
  from settle_frame [OF eq] assms show ?thesis by (auto simp: resume_def eq)
qed

lemma self_await_stuck:
  assumes "reach H m0 m" "n < length (mc_tasks m0)" "mc_tasks m0 ! n = Await n k"
  shows "n < length (mc_tasks m) \<and> mc_tasks m ! n = Await n k"
  using assms(1)
proof (induction rule: reach.induct)
  case (call m p)
  then show ?case
    using resume_other [of n "length (mc_tasks m)" "mc_tasks m @ [running]" p "mc_state m"]
    by (auto simp: launch_def nth_append)
next
  case (move m m')
  then obtain i os where st: "step i os m = Some m'" by (auto simp: mstep_iff)
  then have "i \<noteq> n" using move.IH by (auto simp: step_def Let_def split: if_splits)
  moreover obtain q where "m' = resume i q (mc_state m) (mc_tasks m)"
    using st by (auto simp: step_def Let_def split: if_splits prog.splits)
  ultimately show ?case using move.IH resume_other [of n i "mc_tasks m" q "mc_state m"] by auto
qed (use assms in auto)

lemma waits_for_ever:
  assumes "reach H m0 m" "n < length (mc_tasks m0)" "mc_tasks m0 ! n = Await n k"
    and "j < length (mc_tasks m0)" "mc_tasks m0 ! j = Await n k'"
  shows "j < length (mc_tasks m) \<and> mc_tasks m ! j = Await n k'"
  using assms(1)
proof (induction rule: reach.induct)
  case (call m p)
  then show ?case
    using resume_other [of j "length (mc_tasks m)" "mc_tasks m @ [running]" p "mc_state m"]
    by (auto simp: launch_def nth_append)
next
  case (move m m')
  have n: "mc_tasks m ! n = Await n k" "n < length (mc_tasks m)"
    using self_await_stuck [OF move.hyps(1) assms(2,3)] by auto
  from move obtain i os where st: "step i os m = Some m'" by (auto simp: mstep_iff)
  then have "i \<noteq> j" using move.IH n by (auto simp: step_def Let_def split: if_splits)
  moreover obtain q where "m' = resume i q (mc_state m) (mc_tasks m)"
    using st by (auto simp: step_def Let_def split: if_splits prog.splits)
  ultimately show ?case using move.IH resume_other [of j i "mc_tasks m" q "mc_state m"] by auto
qed (use assms in auto)

end
