(* ===== verification/Error_Messages.thy ===== *)
theory Error_Messages
  imports JS_Machine
begin

text \<open>
  \<^verbatim>\<open>services/messages\<close> of both front ends: the catalog of localized messages and
  its resolver. The two applications carry a copy each; their resolvers have the same
  text and are the one function \<open>resolve_message\<close> over the catalog of the
  application, the catalogs are transcribed separately.

  \<open>message_catalog\<close> is what a catalog promises its client, the error adapter.
\<close>

subsection \<open>The resolver\<close>

definition UNKNOWN_CODE :: string where "UNKNOWN_CODE = ''__unknown__''"
definition NETWORK_CODE :: string where "NETWORK_CODE = ''__network__''"
definition DEFAULT_LOCALE :: string where "DEFAULT_LOCALE = ''zh-CN''"

text \<open>The literal at the end of the resolver.\<close>

definition last_resort :: string where
  "last_resort = utf8 [229, 143, 145, 231, 148, 159, 230, 156, 170, 231, 159, 165, 233, 148, 153,
     232, 175, 175, 239, 188, 140, 232, 175, 183, 231, 168, 141, 229, 144, 142, 233, 135, 141, 232,
     175, 149]"

text \<open>\<^verbatim>\<open>t?.[k]\<close>\<close>

definition opt_index :: "jsval \<Rightarrow> string \<Rightarrow> jsval + jsval" where
  "opt_index t k = (if nullish t then Inr JUndef else js_prop t k)"

fun nonempty_string :: "jsval \<Rightarrow> bool" where
  "nonempty_string (JStr s) = (s \<noteq> [])"
| "nonempty_string v = False"

definition resolve_message :: "jsval \<Rightarrow> string \<Rightarrow> string \<Rightarrow> jsval + string" where
  "resolve_message messages code loc =
     (let table = js_coalesce (js_get messages loc) (js_get messages DEFAULT_LOCALE) in
      case opt_index table code of
        Inl e \<Rightarrow> Inl e
      | Inr direct \<Rightarrow>
          if nonempty_string direct then Inr (js_to_string direct)
          else
            case opt_index table UNKNOWN_CODE of
              Inl e \<Rightarrow> Inl e
            | Inr u \<Rightarrow>
                (let fallback = js_coalesce u (js_opt (js_get messages DEFAULT_LOCALE) UNKNOWN_CODE)
                 in if nonempty_string fallback then Inr (js_to_string fallback)
                    else Inr last_resort))"

subsection \<open>The two catalogs\<close>

definition user_zhCN :: "(string \<times> jsval) list" where
  "user_zhCN = [
    (''__unknown__'', JStr (utf8 [229, 143, 145, 231, 148, 159, 230, 156, 170, 231, 159, 165,
       233, 148, 153, 232, 175, 175, 239, 188, 140, 232, 175, 183, 231, 168, 141, 229, 144, 142,
       233, 135, 141, 232, 175, 149])),
    (''__network__'', JStr (utf8 [231, 189, 145, 231, 187, 156, 232, 191, 158, 230, 142, 165,
       229, 164, 177, 232, 180, 165, 239, 188, 140, 232, 175, 183, 230, 163, 128, 230, 159, 165,
       231, 189, 145, 231, 187, 156, 229, 144, 142, 233, 135, 141, 232, 175, 149])),
    (''NET_CONNECTION_FAILED'', JStr (utf8 [228, 184, 138, 230, 184, 184, 232, 191, 158, 230,
       142, 165, 229, 164, 177, 232, 180, 165])),
    (''NET_TIMEOUT'', JStr (utf8 [232, 175, 183, 230, 177, 130, 232, 182, 133, 230, 151, 182])),
    (''DB_CONNECTION_ERROR'', JStr (utf8 [230, 156, 141, 229, 138, 161, 230, 154, 130, 230, 151,
       182, 228, 184, 141, 229, 143, 175, 231, 148, 168])),
    (''DB_QUERY_ERROR'', JStr (utf8 [230, 156, 141, 229, 138, 161, 230, 154, 130, 230, 151, 182,
       228, 184, 141, 229, 143, 175, 231, 148, 168])),
    (''DB_CONSTRAINT_VIOLATION'', JStr (utf8 [230, 149, 176, 230, 141, 174, 229, 134, 178, 231,
       170, 129])),
    (''VALIDATION_INVALID_INPUT'', JStr (utf8 [232, 190, 147, 229, 133, 165, 229, 143, 130, 230,
       149, 176, 230, 156, 137, 232, 175, 175])),
    (''VALIDATION_MISSING_REQUIRED_FIELD'', JStr (utf8 [231, 188, 186, 229, 176, 145, 229, 191,
       133, 229, 161, 171, 229, 173, 151, 230, 174, 181])),
    (''VALIDATION_FORMAT_ERROR'', JStr (utf8 [230, 160, 188, 229, 188, 143, 228, 184, 141, 230,
       173, 163, 231, 161, 174])),
    (''VALIDATION_RESOURCE_NOT_FOUND'', JStr (utf8 [232, 181, 132, 230, 186, 144, 228, 184, 141,
       229, 173, 152, 229, 156, 168])),
    (''VALIDATION_RESOURCE_CONFLICT'', JStr (utf8 [232, 181, 132, 230, 186, 144, 229, 183, 178,
       229, 173, 152, 229, 156, 168, 230, 136, 150, 229, 134, 178, 231, 170, 129])),
    (''AUTH_INVALID_CREDENTIALS'', JStr (utf8 [231, 148, 168, 230, 136, 183, 229, 144, 141, 230,
       136, 150, 229, 175, 134, 231, 160, 129, 233, 148, 153, 232, 175, 175])),
    (''AUTH_TOKEN_EXPIRED'', JStr (utf8 [231, 153, 187, 229, 189, 149, 229, 183, 178, 232, 191,
       135, 230, 156, 159])),
    (''AUTH_TOKEN_INVALID'', JStr (utf8 [231, 153, 187, 229, 189, 149, 229, 135, 173, 232, 175,
       129, 230, 151, 160, 230, 149, 136])),
    (''AUTHZ_ACCESS_DENIED'', JStr (utf8 [230, 178, 161, 230, 156, 137, 232, 174, 191, 233, 151,
       174, 230, 157, 131, 233, 153, 144])),
    (''AUTHZ_INSUFFICIENT_PERMISSIONS'', JStr (utf8 [230, 157, 131, 233, 153, 144, 228, 184, 141,
       232, 182, 179])),
    (''INTERNAL_ERROR'', JStr (utf8 [230, 156, 141, 229, 138, 161, 229, 153, 168, 229, 134, 133,
       233, 131, 168, 233, 148, 153, 232, 175, 175])),
    (''VALIDATION_USERNAME_TAKEN'', JStr (utf8 [232, 175, 165, 231, 148, 168, 230, 136, 183, 229,
       144, 141, 229, 183, 178, 232, 162, 171, 230, 179, 168, 229, 134, 140])),
    (''VALIDATION_EMAIL_TAKEN'', JStr (utf8 [232, 175, 165, 233, 130, 174, 231, 174, 177, 229,
       183, 178, 232, 162, 171, 230, 179, 168, 229, 134, 140])),
    (''VALIDATION_CREDENTIAL_ALREADY_REGISTERED'', JStr (utf8 [232, 175, 165, 229, 174, 137, 229,
       133, 168, 229, 175, 134, 233, 146, 165, 229, 183, 178, 230, 179, 168, 229, 134, 140, 239,
       188, 140, 230, 151, 160, 233, 156, 128, 233, 135, 141, 229, 164, 141, 230, 183, 187, 229,
       138, 160])),
    (''VALIDATION_RESET_TOKEN_INVALID'', JStr (utf8 [233, 135, 141, 231, 189, 174, 233, 147, 190,
       230, 142, 165, 229, 183, 178, 229, 164, 177, 230, 149, 136, 239, 188, 140, 232, 175, 183,
       233, 135, 141, 230, 150, 176, 231, 148, 179, 232, 175, 183])),
    (''VALIDATION_VERIFICATION_TOKEN_INVALID'', JStr (utf8 [233, 170, 140, 232, 175, 129, 233,
       147, 190, 230, 142, 165, 229, 183, 178, 229, 164, 177, 230, 149, 136, 239, 188, 140, 232,
       175, 183, 233, 135, 141, 230, 150, 176, 229, 143, 145, 233, 128, 129, 233, 130, 174, 228,
       187, 182])),
    (''VALIDATION_DEVICE_CODE_INVALID'', JStr (utf8 [232, 174, 190, 229, 164, 135, 231, 160, 129,
       230, 151, 160, 230, 149, 136, 227, 128, 129, 229, 183, 178, 232, 191, 135, 230, 156, 159,
       230, 136, 150, 229, 183, 178, 232, 162, 171, 229, 164, 132, 231, 144, 134])),
    (''VALIDATION_RATE_LIMITED'', JStr (utf8 [232, 175, 183, 230, 177, 130, 232, 191, 135, 228,
       186, 142, 233, 162, 145, 231, 185, 129, 239, 188, 140, 232, 175, 183, 231, 168, 141, 229,
       144, 142, 233, 135, 141, 232, 175, 149])),
    (''AUTH_MFA_CODE_INVALID'', JStr (utf8 [233, 170, 140, 232, 175, 129, 231, 160, 129, 228,
       184, 141, 230, 173, 163, 231, 161, 174])),
    (''AUTH_MFA_NOT_CONFIGURED'', JStr (utf8 [229, 176, 154, 230, 156, 170, 232, 174, 190, 231,
       189, 174, 229, 143, 140, 233, 135, 141, 233, 170, 140, 232, 175, 129, 239, 188, 140, 232,
       175, 183, 229, 133, 136, 229, 174, 140, 230, 136, 144, 232, 174, 190, 231, 189, 174])),
    (''invalid_request'', JStr (utf8 [232, 175, 183, 230, 177, 130, 229, 143, 130, 230, 149, 176,
       231, 188, 186, 229, 164, 177, 230, 136, 150, 230, 151, 160, 230, 149, 136])),
    (''invalid_client'', JStr (utf8 [229, 174, 162, 230, 136, 183, 231, 171, 175, 232, 174, 164,
       232, 175, 129, 229, 164, 177, 232, 180, 165])),
    (''invalid_grant'', JStr (utf8 [230, 142, 136, 230, 157, 131, 232, 174, 184, 229, 143, 175,
       230, 151, 160, 230, 149, 136, 230, 136, 150, 229, 183, 178, 232, 191, 135, 230, 156, 159])),
    (''unauthorized_client'', JStr (utf8 [229, 174, 162, 230, 136, 183, 231, 171, 175, 230, 151,
       160, 230, 157, 131, 228, 189, 191, 231, 148, 168, 232, 175, 165, 230, 142, 136, 230, 157,
       131, 231, 177, 187, 229, 158, 139])),
    (''unsupported_grant_type'', JStr (utf8 [228, 184, 141, 230, 148, 175, 230, 140, 129, 231,
       154, 132, 230, 142, 136, 230, 157, 131, 231, 177, 187, 229, 158, 139])),
    (''invalid_scope'', JStr (utf8 [232, 175, 183, 230, 177, 130, 231, 154, 132, 32, 115, 99,
       111, 112, 101, 32, 230, 151, 160, 230, 149, 136])),
    (''server_error'', JStr (utf8 [230, 156, 141, 229, 138, 161, 229, 153, 168, 229, 134, 133,
       233, 131, 168, 233, 148, 153, 232, 175, 175])),
    (''temporarily_unavailable'', JStr (utf8 [230, 156, 141, 229, 138, 161, 230, 154, 130, 230,
       151, 182, 228, 184, 141, 229, 143, 175, 231, 148, 168])),
    (''access_denied'', JStr (utf8 [230, 142, 136, 230, 157, 131, 232, 175, 183, 230, 177, 130,
       232, 162, 171, 230, 139, 146, 231, 187, 157])),
    (''unsupported_token_type'', JStr (utf8 [228, 184, 141, 230, 148, 175, 230, 140, 129, 231,
       154, 132, 228, 187, 164, 231, 137, 140, 231, 177, 187, 229, 158, 139])),
    (''authorization_pending'', JStr (utf8 [230, 142, 136, 230, 157, 131, 229, 176, 154, 230,
       156, 170, 229, 174, 140, 230, 136, 144, 239, 188, 140, 232, 175, 183, 231, 168, 141, 229,
       144, 142, 233, 135, 141, 232, 175, 149])),
    (''slow_down'', JStr (utf8 [232, 189, 174, 232, 175, 162, 232, 191, 135, 228, 186, 142, 233,
       162, 145, 231, 185, 129, 239, 188, 140, 232, 175, 183, 233, 153, 141, 228, 189, 142, 233,
       162, 145, 231, 142, 135])),
    (''expired_token'', JStr (utf8 [232, 174, 190, 229, 164, 135, 231, 160, 129, 229, 183, 178,
       232, 191, 135, 230, 156, 159, 239, 188, 140, 232, 175, 183, 233, 135, 141, 230, 150, 176,
       229, 143, 145, 232, 181, 183, 230, 142, 136, 230, 157, 131])),
    (''invalid_token'', JStr (utf8 [230, 143, 144, 228, 190, 155, 231, 154, 132, 232, 174, 191,
       233, 151, 174, 228, 187, 164, 231, 137, 140, 230, 151, 160, 230, 149, 136, 230, 136, 150,
       229, 183, 178, 232, 191, 135, 230, 156, 159])),
    (''insufficient_scope'', JStr (utf8 [230, 157, 131, 233, 153, 144, 228, 184, 141, 232, 182,
       179, 239, 188, 140, 231, 188, 186, 229, 176, 145, 230, 137, 128, 233, 156, 128, 231, 154,
       132, 32, 115, 99, 111, 112, 101])),
    (''login_required'', JStr (utf8 [233, 156, 128, 232, 166, 129, 233, 135, 141, 230, 150, 176,
       231, 153, 187, 229, 189, 149, 228, 187, 165, 229, 174, 140, 230, 136, 144, 230, 142, 136,
       230, 157, 131])),
    (''consent_required'', JStr (utf8 [233, 156, 128, 232, 166, 129, 231, 148, 168, 230, 136,
       183, 229, 144, 140, 230, 132, 143, 230, 137, 141, 232, 131, 189, 229, 174, 140, 230, 136,
       144, 230, 142, 136, 230, 157, 131])),
    (''interaction_required'', JStr (utf8 [233, 156, 128, 232, 166, 129, 231, 148, 168, 230, 136,
       183, 228, 186, 164, 228, 186, 146, 230, 137, 141, 232, 131, 189, 229, 174, 140, 230, 136,
       144, 230, 142, 136, 230, 157, 131]))]"

definition user_messages :: jsval where
  "user_messages = JObj [(''zh-CN'', JObj user_zhCN)]"

definition user_getErrorMessage :: "string \<Rightarrow> string \<Rightarrow> jsval + string" where
  "user_getErrorMessage = resolve_message user_messages"

definition admin_zhCN :: "(string \<times> jsval) list" where
  "admin_zhCN = [
    (''__unknown__'', JStr (utf8 [229, 143, 145, 231, 148, 159, 230, 156, 170, 231, 159, 165,
       233, 148, 153, 232, 175, 175, 239, 188, 140, 232, 175, 183, 231, 168, 141, 229, 144, 142,
       233, 135, 141, 232, 175, 149])),
    (''__network__'', JStr (utf8 [231, 189, 145, 231, 187, 156, 232, 191, 158, 230, 142, 165,
       229, 164, 177, 232, 180, 165, 239, 188, 140, 232, 175, 183, 230, 163, 128, 230, 159, 165,
       231, 189, 145, 231, 187, 156, 229, 144, 142, 233, 135, 141, 232, 175, 149])),
    (''NET_CONNECTION_FAILED'', JStr (utf8 [228, 184, 138, 230, 184, 184, 232, 191, 158, 230,
       142, 165, 229, 164, 177, 232, 180, 165])),
    (''NET_TIMEOUT'', JStr (utf8 [232, 175, 183, 230, 177, 130, 232, 182, 133, 230, 151, 182])),
    (''DB_CONNECTION_ERROR'', JStr (utf8 [230, 156, 141, 229, 138, 161, 230, 154, 130, 230, 151,
       182, 228, 184, 141, 229, 143, 175, 231, 148, 168])),
    (''DB_QUERY_ERROR'', JStr (utf8 [230, 156, 141, 229, 138, 161, 230, 154, 130, 230, 151, 182,
       228, 184, 141, 229, 143, 175, 231, 148, 168])),
    (''DB_CONSTRAINT_VIOLATION'', JStr (utf8 [230, 149, 176, 230, 141, 174, 229, 134, 178, 231,
       170, 129])),
    (''VALIDATION_INVALID_INPUT'', JStr (utf8 [232, 190, 147, 229, 133, 165, 229, 143, 130, 230,
       149, 176, 230, 156, 137, 232, 175, 175])),
    (''VALIDATION_MISSING_REQUIRED_FIELD'', JStr (utf8 [231, 188, 186, 229, 176, 145, 229, 191,
       133, 229, 161, 171, 229, 173, 151, 230, 174, 181])),
    (''VALIDATION_FORMAT_ERROR'', JStr (utf8 [230, 160, 188, 229, 188, 143, 228, 184, 141, 230,
       173, 163, 231, 161, 174])),
    (''VALIDATION_RESOURCE_NOT_FOUND'', JStr (utf8 [232, 181, 132, 230, 186, 144, 228, 184, 141,
       229, 173, 152, 229, 156, 168])),
    (''VALIDATION_RESOURCE_CONFLICT'', JStr (utf8 [232, 181, 132, 230, 186, 144, 229, 183, 178,
       229, 173, 152, 229, 156, 168, 230, 136, 150, 229, 134, 178, 231, 170, 129])),
    (''AUTH_INVALID_CREDENTIALS'', JStr (utf8 [231, 148, 168, 230, 136, 183, 229, 144, 141, 230,
       136, 150, 229, 175, 134, 231, 160, 129, 233, 148, 153, 232, 175, 175])),
    (''AUTH_TOKEN_EXPIRED'', JStr (utf8 [231, 153, 187, 229, 189, 149, 229, 183, 178, 232, 191,
       135, 230, 156, 159])),
    (''AUTH_TOKEN_INVALID'', JStr (utf8 [231, 153, 187, 229, 189, 149, 229, 135, 173, 232, 175,
       129, 230, 151, 160, 230, 149, 136])),
    (''AUTHZ_ACCESS_DENIED'', JStr (utf8 [230, 178, 161, 230, 156, 137, 232, 174, 191, 233, 151,
       174, 230, 157, 131, 233, 153, 144])),
    (''AUTHZ_INSUFFICIENT_PERMISSIONS'', JStr (utf8 [230, 157, 131, 233, 153, 144, 228, 184, 141,
       232, 182, 179])),
    (''INTERNAL_ERROR'', JStr (utf8 [230, 156, 141, 229, 138, 161, 229, 153, 168, 229, 134, 133,
       233, 131, 168, 233, 148, 153, 232, 175, 175])),
    (''VALIDATION_USERNAME_TAKEN'', JStr (utf8 [232, 175, 165, 231, 148, 168, 230, 136, 183, 229,
       144, 141, 229, 183, 178, 232, 162, 171, 230, 179, 168, 229, 134, 140])),
    (''VALIDATION_EMAIL_TAKEN'', JStr (utf8 [232, 175, 165, 233, 130, 174, 231, 174, 177, 229,
       183, 178, 232, 162, 171, 230, 179, 168, 229, 134, 140])),
    (''VALIDATION_CREDENTIAL_ALREADY_REGISTERED'', JStr (utf8 [232, 175, 165, 229, 174, 137, 229,
       133, 168, 229, 175, 134, 233, 146, 165, 229, 183, 178, 230, 179, 168, 229, 134, 140, 239,
       188, 140, 230, 151, 160, 233, 156, 128, 233, 135, 141, 229, 164, 141, 230, 183, 187, 229,
       138, 160])),
    (''VALIDATION_RESET_TOKEN_INVALID'', JStr (utf8 [233, 135, 141, 231, 189, 174, 233, 147, 190,
       230, 142, 165, 229, 183, 178, 229, 164, 177, 230, 149, 136, 239, 188, 140, 232, 175, 183,
       233, 135, 141, 230, 150, 176, 231, 148, 179, 232, 175, 183])),
    (''VALIDATION_VERIFICATION_TOKEN_INVALID'', JStr (utf8 [233, 170, 140, 232, 175, 129, 233,
       147, 190, 230, 142, 165, 229, 183, 178, 229, 164, 177, 230, 149, 136, 239, 188, 140, 232,
       175, 183, 233, 135, 141, 230, 150, 176, 229, 143, 145, 233, 128, 129, 233, 130, 174, 228,
       187, 182])),
    (''VALIDATION_DEVICE_CODE_INVALID'', JStr (utf8 [232, 174, 190, 229, 164, 135, 231, 160, 129,
       230, 151, 160, 230, 149, 136, 227, 128, 129, 229, 183, 178, 232, 191, 135, 230, 156, 159,
       230, 136, 150, 229, 183, 178, 232, 162, 171, 229, 164, 132, 231, 144, 134])),
    (''VALIDATION_RATE_LIMITED'', JStr (utf8 [232, 175, 183, 230, 177, 130, 232, 191, 135, 228,
       186, 142, 233, 162, 145, 231, 185, 129, 239, 188, 140, 232, 175, 183, 231, 168, 141, 229,
       144, 142, 233, 135, 141, 232, 175, 149])),
    (''AUTH_MFA_CODE_INVALID'', JStr (utf8 [233, 170, 140, 232, 175, 129, 231, 160, 129, 228,
       184, 141, 230, 173, 163, 231, 161, 174])),
    (''AUTH_MFA_NOT_CONFIGURED'', JStr (utf8 [229, 176, 154, 230, 156, 170, 232, 174, 190, 231,
       189, 174, 229, 143, 140, 233, 135, 141, 233, 170, 140, 232, 175, 129, 239, 188, 140, 232,
       175, 183, 229, 133, 136, 229, 174, 140, 230, 136, 144, 232, 174, 190, 231, 189, 174])),
    (''invalid_request'', JStr (utf8 [232, 175, 183, 230, 177, 130, 229, 143, 130, 230, 149, 176,
       231, 188, 186, 229, 164, 177, 230, 136, 150, 230, 151, 160, 230, 149, 136])),
    (''invalid_client'', JStr (utf8 [229, 174, 162, 230, 136, 183, 231, 171, 175, 232, 174, 164,
       232, 175, 129, 229, 164, 177, 232, 180, 165])),
    (''invalid_grant'', JStr (utf8 [230, 142, 136, 230, 157, 131, 232, 174, 184, 229, 143, 175,
       230, 151, 160, 230, 149, 136, 230, 136, 150, 229, 183, 178, 232, 191, 135, 230, 156, 159])),
    (''unauthorized_client'', JStr (utf8 [229, 174, 162, 230, 136, 183, 231, 171, 175, 230, 151,
       160, 230, 157, 131, 228, 189, 191, 231, 148, 168, 232, 175, 165, 230, 142, 136, 230, 157,
       131, 231, 177, 187, 229, 158, 139])),
    (''unsupported_grant_type'', JStr (utf8 [228, 184, 141, 230, 148, 175, 230, 140, 129, 231,
       154, 132, 230, 142, 136, 230, 157, 131, 231, 177, 187, 229, 158, 139])),
    (''invalid_scope'', JStr (utf8 [232, 175, 183, 230, 177, 130, 231, 154, 132, 32, 115, 99,
       111, 112, 101, 32, 230, 151, 160, 230, 149, 136])),
    (''server_error'', JStr (utf8 [230, 156, 141, 229, 138, 161, 229, 153, 168, 229, 134, 133,
       233, 131, 168, 233, 148, 153, 232, 175, 175])),
    (''temporarily_unavailable'', JStr (utf8 [230, 156, 141, 229, 138, 161, 230, 154, 130, 230,
       151, 182, 228, 184, 141, 229, 143, 175, 231, 148, 168])),
    (''access_denied'', JStr (utf8 [230, 142, 136, 230, 157, 131, 232, 175, 183, 230, 177, 130,
       232, 162, 171, 230, 139, 146, 231, 187, 157])),
    (''unsupported_token_type'', JStr (utf8 [228, 184, 141, 230, 148, 175, 230, 140, 129, 231,
       154, 132, 228, 187, 164, 231, 137, 140, 231, 177, 187, 229, 158, 139])),
    (''authorization_pending'', JStr (utf8 [230, 142, 136, 230, 157, 131, 229, 176, 154, 230,
       156, 170, 229, 174, 140, 230, 136, 144, 239, 188, 140, 232, 175, 183, 231, 168, 141, 229,
       144, 142, 233, 135, 141, 232, 175, 149])),
    (''slow_down'', JStr (utf8 [232, 189, 174, 232, 175, 162, 232, 191, 135, 228, 186, 142, 233,
       162, 145, 231, 185, 129, 239, 188, 140, 232, 175, 183, 233, 153, 141, 228, 189, 142, 233,
       162, 145, 231, 142, 135])),
    (''expired_token'', JStr (utf8 [232, 174, 190, 229, 164, 135, 231, 160, 129, 229, 183, 178,
       232, 191, 135, 230, 156, 159, 239, 188, 140, 232, 175, 183, 233, 135, 141, 230, 150, 176,
       229, 143, 145, 232, 181, 183, 230, 142, 136, 230, 157, 131])),
    (''invalid_token'', JStr (utf8 [230, 143, 144, 228, 190, 155, 231, 154, 132, 232, 174, 191,
       233, 151, 174, 228, 187, 164, 231, 137, 140, 230, 151, 160, 230, 149, 136, 230, 136, 150,
       229, 183, 178, 232, 191, 135, 230, 156, 159])),
    (''insufficient_scope'', JStr (utf8 [230, 157, 131, 233, 153, 144, 228, 184, 141, 232, 182,
       179, 239, 188, 140, 231, 188, 186, 229, 176, 145, 230, 137, 128, 233, 156, 128, 231, 154,
       132, 32, 115, 99, 111, 112, 101])),
    (''login_required'', JStr (utf8 [233, 156, 128, 232, 166, 129, 233, 135, 141, 230, 150, 176,
       231, 153, 187, 229, 189, 149, 228, 187, 165, 229, 174, 140, 230, 136, 144, 230, 142, 136,
       230, 157, 131])),
    (''consent_required'', JStr (utf8 [233, 156, 128, 232, 166, 129, 231, 148, 168, 230, 136,
       183, 229, 144, 140, 230, 132, 143, 230, 137, 141, 232, 131, 189, 229, 174, 140, 230, 136,
       144, 230, 142, 136, 230, 157, 131])),
    (''interaction_required'', JStr (utf8 [233, 156, 128, 232, 166, 129, 231, 148, 168, 230, 136,
       183, 228, 186, 164, 228, 186, 146, 230, 137, 141, 232, 131, 189, 229, 174, 140, 230, 136,
       144, 230, 142, 136, 230, 157, 131]))]"

definition admin_messages :: jsval where
  "admin_messages = JObj [(''zh-CN'', JObj admin_zhCN)]"

definition admin_getErrorMessage :: "string \<Rightarrow> string \<Rightarrow> jsval + string" where
  "admin_getErrorMessage = resolve_message admin_messages"

subsection \<open>What a catalog promises\<close>

text \<open>
  \<open>get\<close> resolves a code in a locale; \<open>table\<close> is the table of the default locale. The
  resolver never fails on a locale that is no property of \<^verbatim>\<open>Object.prototype\<close>,
  never gives an empty text, gives a listed code its own text and any other code the text
  of \<^verbatim>\<open>__unknown__\<close>.
\<close>

locale message_catalog =
  fixes get :: "string \<Rightarrow> string \<Rightarrow> jsval + string" and table :: "(string \<times> jsval) list"
  assumes get_listed: "loc \<notin> proto_keys \<Longrightarrow> map_of table code = Some v \<Longrightarrow> get code loc = Inr (js_to_string v)"
    and get_unlisted: "loc \<notin> proto_keys \<Longrightarrow> map_of table code = None \<Longrightarrow>
      get code loc = Inr (js_to_string (the (map_of table UNKNOWN_CODE)))"
    and entries: "map_of table code = Some v \<Longrightarrow> nonempty_string v"
    and has_unknown: "map_of table UNKNOWN_CODE \<noteq> None"
begin

lemma get_total: "loc \<notin> proto_keys \<Longrightarrow> \<exists>m. get code loc = Inr m \<and> m \<noteq> []"
proof -
  assume loc: "loc \<notin> proto_keys"
  have *: "nonempty_string v \<Longrightarrow> js_to_string v \<noteq> []" for v by (cases v) auto
  show ?thesis
  proof (cases "map_of table code")
    case None
    obtain u where "map_of table UNKNOWN_CODE = Some u" using has_unknown by blast
    with get_unlisted [OF loc None] entries [of UNKNOWN_CODE u] * show ?thesis by auto
  next
    case (Some v)
    with get_listed [OF loc Some] entries [OF Some] * show ?thesis by auto
  qed
qed

end

lemma default_locale_not_proto [simp]: "DEFAULT_LOCALE \<notin> proto_keys"
  by (simp add: DEFAULT_LOCALE_def proto_keys_def object_prototype_methods_def)

lemma resolve_catalog:
  assumes ent: "list_all (\<lambda>(k, v). nonempty_string v) table"
    and unk: "map_of table UNKNOWN_CODE = Some u"
    and loc: "loc \<notin> proto_keys"
  shows "resolve_message (JObj [(''zh-CN'', JObj table)]) code loc =
    Inr (js_to_string (case map_of table code of Some v \<Rightarrow> v | None \<Rightarrow> u))"
proof -
  have t: "js_coalesce (js_get (JObj [(''zh-CN'', JObj table)]) loc)
      (js_get (JObj [(''zh-CN'', JObj table)]) DEFAULT_LOCALE) = JObj table"
    using loc by (cases "loc = ''zh-CN''") (simp_all add: DEFAULT_LOCALE_def object_prototype_other)
  have u: "nonempty_string u" using list_all_map_of [OF ent unk] .
  then have nu: "\<not> nullish u" by (cases u) auto
  have np: "\<not> nonempty_string (object_prototype code)"
    using object_prototype_not_string [of code] by (cases "object_prototype code") auto
  show ?thesis
  proof (cases "map_of table code")
    case None
    then show ?thesis using u nu np unk
      unfolding resolve_message_def t Let_def by (simp add: opt_index_def)
  next
    case (Some v)
    then show ?thesis using list_all_map_of [OF ent Some]
      unfolding resolve_message_def t Let_def by (simp add: opt_index_def)
  qed
qed

lemma user_zhCN_entries: "list_all (\<lambda>(k, v). nonempty_string v) user_zhCN"
  by (simp add: user_zhCN_def)

lemma admin_zhCN_entries: "list_all (\<lambda>(k, v). nonempty_string v) admin_zhCN"
  by (simp add: admin_zhCN_def)

lemma zhCN_unknown:
  "map_of user_zhCN UNKNOWN_CODE = Some (JStr last_resort)"
  "map_of admin_zhCN UNKNOWN_CODE = Some (JStr last_resort)"
  by (simp_all add: user_zhCN_def admin_zhCN_def UNKNOWN_CODE_def last_resort_def)

interpretation ucat: message_catalog user_getErrorMessage user_zhCN
  using resolve_catalog [OF user_zhCN_entries zhCN_unknown(1)] list_all_map_of [OF user_zhCN_entries]
  by unfold_locales (simp_all add: user_getErrorMessage_def user_messages_def zhCN_unknown)

interpretation acat: message_catalog admin_getErrorMessage admin_zhCN
  using resolve_catalog [OF admin_zhCN_entries zhCN_unknown(2)] list_all_map_of [OF admin_zhCN_entries]
  by unfold_locales (simp_all add: admin_getErrorMessage_def admin_messages_def zhCN_unknown)

lemma zhCN_mirror: "admin_zhCN = user_zhCN"
  by (simp add: admin_zhCN_def user_zhCN_def)

end
