(* ===== verification/Error_Adapter.thy ===== *)
theory Error_Adapter
  imports Error_Messages
begin

text \<open>
  \<^verbatim>\<open>services/errorAdapter.ts\<close> of the user application: \<^verbatim>\<open>normalizeError\<close>, which turns
  whatever a request rejected with into a code, a localized message, a request id and a
  status, and \<^verbatim>\<open>sessionExpiredError\<close>, the branded value the interceptors reject
  with. The functions are written over the resolver of messages. A \<^verbatim>\<open>throw\<close> inside is the
  left injection of the result. The console's copy of the file is in \<open>Module_Copies\<close>.
\<close>

definition RATE_LIMITED_CODE :: string where
  "RATE_LIMITED_CODE = ''VALIDATION_RATE_LIMITED''"

definition SESSION_EXPIRED_CODE :: string where
  "SESSION_EXPIRED_CODE = ''AUTH_TOKEN_EXPIRED''"

definition NORMALIZED_BRAND :: string where
  "NORMALIZED_BRAND = ''__isNormalizedError__''"

fun isObject :: "jsval \<Rightarrow> bool" where
  "isObject (JObj ps) = True"
| "isObject (JArr xs) = True"
| "isObject v = False"

definition isNonEmptyString :: "jsval \<Rightarrow> bool" where
  "isNonEmptyString v = nonempty_string v"

definition isRateLimitBody :: "jsval \<Rightarrow> bool" where
  "isRateLimitBody data =
     (if \<not> isObject data then False
      else let err = js_get data ''error'' in is_string err \<and> err = JStr ''invalid_request'')"

definition isNormalizedError :: "jsval \<Rightarrow> bool" where
  "isNormalizedError value \<longleftrightarrow> isObject value \<and> js_get value NORMALIZED_BRAND = JBool True"

text \<open>The record \<^verbatim>\<open>NormalizedError\<close>, and \<^verbatim>\<open>brand\<close>, which adds the marker property.\<close>

definition normalized :: "string \<Rightarrow> string \<Rightarrow> string \<Rightarrow> int \<Rightarrow> jsval" where
  "normalized code message request_id httpStatus =
     JObj [(''code'', JStr code), (''message'', JStr message), (''request_id'', JStr request_id),
           (''httpStatus'', JNum httpStatus)]"

definition brand :: "jsval \<Rightarrow> jsval" where
  "brand n = js_set n NORMALIZED_BRAND (JBool True)"

definition string_or_empty :: "jsval \<Rightarrow> string" where
  "string_or_empty v = (if isNonEmptyString v then js_to_string v else [])"

definition resolve_locale :: "jsval \<Rightarrow> string" where
  "resolve_locale loc = (if isNonEmptyString loc then js_to_string loc else DEFAULT_LOCALE)"

type_synonym resolver = "string \<Rightarrow> string \<Rightarrow> jsval + string"

definition with_message :: "resolver \<Rightarrow> string \<Rightarrow> string \<Rightarrow> string \<Rightarrow> int \<Rightarrow> jsval + jsval" where
  "with_message get loc code request_id httpStatus =
     (case get code loc of Inl e \<Rightarrow> Inl e | Inr m \<Rightarrow> Inr (normalized code m request_id httpStatus))"

definition normalizeError_with :: "resolver \<Rightarrow> jsval \<Rightarrow> jsval \<Rightarrow> jsval + jsval" where
  "normalizeError_with get err loc0 =
     (if isNormalizedError err then Inr err
      else
        let loc = resolve_locale loc0;
            response = (if isObject err then js_get err ''response'' else JUndef)
        in if \<not> isObject response then with_message get loc NETWORK_CODE [] 0
           else
             let status = js_get response ''status'';
                 httpStatus = (case status of JNum n \<Rightarrow> n | _ \<Rightarrow> 0);
                 data = js_get response ''data''
             in if httpStatus = 429 \<and> isRateLimitBody data
                then with_message get loc RATE_LIMITED_CODE
                       (if isObject data then string_or_empty (js_get data ''request_id'') else [])
                       httpStatus
                else if isObject data then
                  let envelopeError = js_get data ''error'' in
                  if isObject envelopeError \<and> isNonEmptyString (js_get envelopeError ''code'')
                  then let code = js_to_string (js_get envelopeError ''code'');
                           requestId = (if isNonEmptyString (js_get envelopeError ''request_id'')
                                        then js_to_string (js_get envelopeError ''request_id'')
                                        else string_or_empty (js_get data ''request_id''))
                       in with_message get loc code requestId httpStatus
                  else if isNonEmptyString envelopeError
                  then with_message get loc (js_to_string envelopeError)
                         (string_or_empty (js_get data ''request_id'')) httpStatus
                  else with_message get loc UNKNOWN_CODE
                         (string_or_empty (js_get data ''request_id'')) httpStatus
                else with_message get loc UNKNOWN_CODE [] httpStatus)"

definition sessionExpiredError_with :: "resolver \<Rightarrow> jsval \<Rightarrow> jsval + jsval" where
  "sessionExpiredError_with get loc0 =
     (case with_message get (resolve_locale loc0) SESSION_EXPIRED_CODE [] 401 of
        Inl e \<Rightarrow> Inl e | Inr n \<Rightarrow> Inr (brand n))"

definition user_normalizeError :: "jsval \<Rightarrow> jsval \<Rightarrow> jsval + jsval" where
  "user_normalizeError = normalizeError_with user_getErrorMessage"

definition user_sessionExpiredError :: "jsval \<Rightarrow> jsval + jsval" where
  "user_sessionExpiredError = sessionExpiredError_with user_getErrorMessage"

subsection \<open>Reading a normalized error\<close>

lemma normalized_get [simp]:
  "js_get (normalized c m r s) ''code'' = JStr c"
  "js_get (normalized c m r s) ''message'' = JStr m"
  "js_get (normalized c m r s) ''request_id'' = JStr r"
  "js_get (normalized c m r s) ''httpStatus'' = JNum s"
  "js_get (normalized c m r s) ''response'' = JUndef"
  "isObject (normalized c m r s)"
  by (simp_all add: normalized_def object_prototype_other proto_keys_def object_prototype_methods_def)

lemma normalized_inject [simp]:
  "normalized c m r s = normalized c' m' r' s' \<longleftrightarrow> c = c' \<and> m = m' \<and> r = r' \<and> s = s'"
  by (simp add: normalized_def)

lemma not_branded_normalized [simp]: "\<not> isNormalizedError (normalized c m r s)"
  by (simp add: isNormalizedError_def normalized_def NORMALIZED_BRAND_def object_prototype_other
      proto_keys_def object_prototype_methods_def)

lemma branded_brand [simp]: "isNormalizedError (brand (normalized c m r s))"
  by (simp add: isNormalizedError_def brand_def normalized_def NORMALIZED_BRAND_def)

lemma brand_get [simp]:
  "js_get (brand (normalized c m r s)) ''code'' = JStr c"
  "js_get (brand (normalized c m r s)) ''message'' = JStr m"
  "js_get (brand (normalized c m r s)) ''httpStatus'' = JNum s"
  by (simp_all add: brand_def normalized_def NORMALIZED_BRAND_def)

definition locale_ok :: "jsval \<Rightarrow> bool" where
  "locale_ok loc \<longleftrightarrow> resolve_locale loc \<notin> proto_keys"

lemma locale_ok_undefined [simp]: "locale_ok JUndef"
  by (simp add: locale_ok_def resolve_locale_def isNonEmptyString_def)

context message_catalog begin

lemma with_message_total:
  assumes "locale_ok loc"
  shows "\<exists>m. m \<noteq> [] \<and> get code (resolve_locale loc) = Inr m \<and>
    with_message get (resolve_locale loc) code rid st = Inr (normalized code m rid st)"
  using get_total [of "resolve_locale loc" code] assms
  by (auto simp: with_message_def locale_ok_def)

lemma normalizeError_total:
  assumes "locale_ok loc" "\<not> isNormalizedError err"
  shows "\<exists>code m rid st. normalizeError_with get err loc = Inr (normalized code m rid st) \<and>
    m \<noteq> [] \<and> code \<noteq> [] \<and> get code (resolve_locale loc) = Inr m"
proof -
  define ok where "ok x \<longleftrightarrow> (\<exists>code m rid st. x = Inr (normalized code m rid st) \<and>
    m \<noteq> [] \<and> code \<noteq> [] \<and> get code (resolve_locale loc) = Inr m)" for x :: "jsval + jsval"
  have w: "code \<noteq> [] \<Longrightarrow> ok (with_message get (resolve_locale loc) code rid st)" for code rid st
    using with_message_total [OF assms(1), of code rid st] by (auto simp: ok_def)
  have ne: "NETWORK_CODE \<noteq> []" "UNKNOWN_CODE \<noteq> []" "RATE_LIMITED_CODE \<noteq> []"
    by (simp_all add: NETWORK_CODE_def UNKNOWN_CODE_def RATE_LIMITED_CODE_def)
  have s: "isNonEmptyString v \<Longrightarrow> js_to_string v \<noteq> []" for v
    by (cases v) (auto simp: isNonEmptyString_def)
  have "ok (normalizeError_with get err loc)"
    using assms(2) by (simp add: normalizeError_with_def Let_def w ne s)
  then show ?thesis by (simp add: ok_def)
qed

lemma sessionExpired_total:
  "locale_ok loc \<Longrightarrow> \<exists>m. m \<noteq> [] \<and> get SESSION_EXPIRED_CODE (resolve_locale loc) = Inr m \<and>
     sessionExpiredError_with get loc = Inr (brand (normalized SESSION_EXPIRED_CODE m [] 401))"
  using with_message_total [of loc SESSION_EXPIRED_CODE "[]" 401] by (auto simp: sessionExpiredError_with_def)

end

text \<open>The message a view shows for a rejected value: \<^verbatim>\<open>normalizeError(e).message\<close>.\<close>

definition user_error_message :: "jsval \<Rightarrow> jsval" where
  "user_error_message e =
     (case user_normalizeError e JUndef of Inr n \<Rightarrow> js_get n ''message'' | Inl x \<Rightarrow> JUndef)"

lemma user_normalizeError_Inr: "\<exists>n. user_normalizeError e JUndef = Inr n \<and> js_get n ''message'' = user_error_message e"
proof (cases "isNormalizedError e")
  case True
  then show ?thesis by (simp add: user_normalizeError_def normalizeError_with_def user_error_message_def)
next
  case False
  then show ?thesis
    using ucat.normalizeError_total [of JUndef e]
    by (auto simp: user_error_message_def user_normalizeError_def)
qed

subsection \<open>Properties\<close>



text \<open>The message of a code in the default locale; total by the catalog's laws.\<close>

definition user_message :: "string \<Rightarrow> string" where
  "user_message code = (case user_getErrorMessage code DEFAULT_LOCALE of Inr m \<Rightarrow> m | Inl e \<Rightarrow> [])"

lemma user_getErrorMessage_default: "user_getErrorMessage code DEFAULT_LOCALE = Inr (user_message code)"
  using ucat.get_total [of DEFAULT_LOCALE code] by (auto simp: user_message_def)

lemma user_message_nonempty [simp]: "user_message code \<noteq> []"
  using ucat.get_total [of DEFAULT_LOCALE code] by (auto simp: user_message_def)

lemma with_message_user [simp]:
  "with_message user_getErrorMessage DEFAULT_LOCALE code rid st = Inr (normalized code (user_message code) rid st)"
  by (simp add: with_message_def user_getErrorMessage_default)

lemma resolve_locale_undefined [simp]: "resolve_locale JUndef = DEFAULT_LOCALE"
  by (simp add: resolve_locale_def isNonEmptyString_def)

lemma axios_error_get [simp]:
  "js_get (axios_error r) ''response'' = r" "isObject (axios_error r)" "\<not> isNormalizedError (axios_error r)"
  by (simp_all add: axios_error_def isNormalizedError_def NORMALIZED_BRAND_def object_prototype_other
      proto_keys_def object_prototype_methods_def)

lemma http_response_get [simp]:
  "js_get (http_response st d) ''status'' = JNum st" "js_get (http_response st d) ''data'' = d"
  "isObject (http_response st d)"
  by (simp_all add: http_response_def)

text \<open>
  C29: the parsing priority. An error without a response object has the network code and
  status 0. With a response, in this order: status 429 with the body
  \<^verbatim>\<open>{"error":"invalid_request"}\<close> is the rate-limit code; a body whose
  \<^verbatim>\<open>error\<close> is an object with a code is an error envelope, whose own request id goes
  before that of the body; a body whose \<^verbatim>\<open>error\<close> is a non-empty string is a protocol
  error with that code; anything else is unknown. The HTTP status is kept in every case.
\<close>

theorem user_normalizeError_priority:
  fixes st :: int and data r :: jsval
  defines "n \<equiv> user_normalizeError (axios_error (http_response st data)) JUndef"
    and "err \<equiv> js_get data ''error''" and "rid \<equiv> string_or_empty (js_get data ''request_id'')"
    and "limited \<equiv> st = 429 \<and> isObject data \<and> js_get data ''error'' = JStr ''invalid_request''"
  shows "(\<not> isObject r \<longrightarrow> user_normalizeError (axios_error r) JUndef =
            Inr (normalized NETWORK_CODE (user_message NETWORK_CODE) [] 0)) \<and>
    (limited \<longrightarrow> n = Inr (normalized RATE_LIMITED_CODE (user_message RATE_LIMITED_CODE) rid 429)) \<and>
    (\<forall>c. isObject data \<longrightarrow> isObject err \<longrightarrow> js_get err ''code'' = JStr c \<longrightarrow> c \<noteq> [] \<longrightarrow>
       n = Inr (normalized c (user_message c)
             (if isNonEmptyString (js_get err ''request_id'') then string_or_empty (js_get err ''request_id'') else rid) st)) \<and>
    (\<forall>c. isObject data \<longrightarrow> \<not> limited \<longrightarrow> err = JStr c \<longrightarrow> c \<noteq> [] \<longrightarrow>
       n = Inr (normalized c (user_message c) rid st)) \<and>
    (isObject data \<longrightarrow> \<not> (isObject err \<and> isNonEmptyString (js_get err ''code'')) \<longrightarrow> \<not> isNonEmptyString err \<longrightarrow>
       n = Inr (normalized UNKNOWN_CODE (user_message UNKNOWN_CODE) rid st)) \<and>
    (\<not> isObject data \<longrightarrow> n = Inr (normalized UNKNOWN_CODE (user_message UNKNOWN_CODE) [] st))"
proof -
  have s: "\<And>v. isObject v \<Longrightarrow> \<not> isNonEmptyString v \<and> \<not> is_string v"
    by (auto simp: isNonEmptyString_def elim: isObject.elims)
  have d: "user_normalizeError (axios_error (http_response st data)) JUndef =
     (if limited then Inr (normalized RATE_LIMITED_CODE (user_message RATE_LIMITED_CODE) rid st)
      else if isObject data then
        if isObject err \<and> isNonEmptyString (js_get err ''code'')
        then Inr (normalized (js_to_string (js_get err ''code'')) (user_message (js_to_string (js_get err ''code'')))
             (if isNonEmptyString (js_get err ''request_id'') then string_or_empty (js_get err ''request_id'') else rid) st)
        else if isNonEmptyString err then Inr (normalized (js_to_string err) (user_message (js_to_string err)) rid st)
        else Inr (normalized UNKNOWN_CODE (user_message UNKNOWN_CODE) rid st)
      else Inr (normalized UNKNOWN_CODE (user_message UNKNOWN_CODE) [] st))"
    unfolding user_normalizeError_def normalizeError_with_def Let_def
    by (auto simp: limited_def err_def rid_def isRateLimitBody_def string_or_empty_def)
  show ?thesis
    unfolding n_def d using s [of err]
    by (auto simp: user_normalizeError_def normalizeError_with_def isNonEmptyString_def limited_def err_def)
qed

theorem user_normalizeError_priority_witness:
  "user_normalizeError (axios_error (http_response 429 (JObj [(''error'', JStr ''invalid_request'')]))) JUndef =
     Inr (normalized RATE_LIMITED_CODE (user_message RATE_LIMITED_CODE) [] 429)"
  using user_normalizeError_priority [of JUndef 429 "JObj [(''error'', JStr ''invalid_request'')]"]
  by (simp add: string_or_empty_def isNonEmptyString_def object_prototype_other proto_keys_def object_prototype_methods_def)

lemma normalizeError_locale_throws:
  "\<exists>e. user_normalizeError (axios_error (http_response 400 (JObj [(''error'', JStr ''caller'')])))
         (JStr ''toString'') = Inl e"
  by (simp add: user_normalizeError_def normalizeError_with_def Let_def isRateLimitBody_def
      isNonEmptyString_def resolve_locale_def with_message_def user_getErrorMessage_def resolve_message_def
      user_messages_def object_prototype_def object_prototype_methods_def opt_index_def js_prop_def)

text \<open>
  Two things the module's comments rule out. What \<^verbatim>\<open>normalizeError\<close> itself returns is not
  recognised as normalized: applied to its own result it loses the code and reports a network
  failure, since only \<^verbatim>\<open>sessionExpiredError\<close> sets the brand; the session-expired value does
  pass through unchanged, with the catalog's message. And \<^verbatim>\<open>normalizeError\<close> can throw: a locale
  that names a method of \<^verbatim>\<open>Object.prototype\<close> selects a function as the message table, and reading
  the error code \<^verbatim>\<open>caller\<close> from it raises a \<^verbatim>\<open>TypeError\<close>.
\<close>

lemma normalizeError_twice:
  assumes "\<not> isNormalizedError err"
  shows "(\<exists>n. user_normalizeError err JUndef = Inr n \<and>
      user_normalizeError n JUndef = Inr (normalized NETWORK_CODE (user_message NETWORK_CODE) [] 0)) \<and>
    (\<exists>x. user_sessionExpiredError JUndef = Inr x \<and> user_normalizeError x JUndef = Inr x \<and>
      js_get x ''message'' = JStr (user_message SESSION_EXPIRED_CODE)) \<and>
    (\<exists>e. user_normalizeError (axios_error (http_response 400 (JObj [(''error'', JStr ''caller'')])))
         (JStr ''toString'') = Inl e)"
proof (intro conjI normalizeError_locale_throws)
  obtain c m r s where "user_normalizeError err JUndef = Inr (normalized c m r s)"
    using ucat.normalizeError_total [of JUndef err] assms unfolding user_normalizeError_def by auto
  moreover have "user_normalizeError (normalized c m r s) JUndef =
      Inr (normalized NETWORK_CODE (user_message NETWORK_CODE) [] 0)"
    by (simp add: user_normalizeError_def normalizeError_with_def Let_def)
  ultimately show "\<exists>n. user_normalizeError err JUndef = Inr n \<and>
      user_normalizeError n JUndef = Inr (normalized NETWORK_CODE (user_message NETWORK_CODE) [] 0)" by blast
qed (simp add: user_sessionExpiredError_def sessionExpiredError_with_def user_normalizeError_def normalizeError_with_def)

lemma user_normalizeError_default: "user_normalizeError e JUndef = Inr n \<Longrightarrow> js_prop n ''message'' = Inr (user_error_message e)"
proof -
  assume n: "user_normalizeError e JUndef = Inr n"
  then have m: "js_get n ''message'' = user_error_message e" by (simp add: user_error_message_def)
  have "isObject n"
  proof (cases "isNormalizedError e")
    case True
    with n show ?thesis by (simp add: user_normalizeError_def normalizeError_with_def isNormalizedError_def)
  next
    case False
    with n show ?thesis using ucat.normalizeError_total [of JUndef e] unfolding user_normalizeError_def by auto
  qed
  with m show ?thesis by (auto simp: js_prop_def elim: isObject.elims)
qed

end
