(* ===== verification/Pkce.thy ===== *)
theory Pkce
  imports JS_Machine
begin

text \<open>
  \<^verbatim>\<open>utils/pkce.ts\<close>: the code verifier and its S256 challenge (RFC 7636). The random
  source and SHA-256 belong to the browser and are fields of a \<open>host\<close>, of which
  \<open>host_ok\<close> states what the Web Crypto specification promises: the array handed to
  \<^verbatim>\<open>getRandomValues\<close> keeps its length, a SHA-256 digest has 32 bytes.

  The encoder is proved equal to a direct reading of RFC 4648 section 5 (\<open>b64url\<close>), to
  have a decoder, and to produce only unreserved characters.
\<close>

subsection \<open>The browser\<close>

record host =
  getRandomValues :: "nat \<Rightarrow> bytes"
  sha256 :: "bytes \<Rightarrow> bytes"
  randomUUID :: string
  env_vars :: "string \<Rightarrow> jsval"
  origin :: string
  parseQuery :: "string \<Rightarrow> (string \<times> string) list"
  stringifyQuery :: "(string \<times> string) list \<Rightarrow> string"
  webauthn :: bool

definition host_ok :: "host \<Rightarrow> bool" where
  "host_ok h \<longleftrightarrow> (\<forall>n. length (getRandomValues h n) = n) \<and> (\<forall>b. length (sha256 h b) = 32)"

subsection \<open>btoa\<close>

definition b64_alphabet :: string where
  "b64_alphabet = ''ABCDEFGHIJKLMNOPQRSTUVWXYZabcdefghijklmnopqrstuvwxyz0123456789+/''"

definition b64_char :: "nat \<Rightarrow> char" where
  "b64_char n = b64_alphabet ! (n mod 64)"

fun btoa_codes :: "nat list \<Rightarrow> string" where
  "btoa_codes [] = []"
| "btoa_codes [a] = [b64_char (a div 4), b64_char ((a mod 4) * 16), CHR ''='', CHR ''='']"
| "btoa_codes [a, b] =
     [b64_char (a div 4), b64_char ((a mod 4) * 16 + b div 16), b64_char ((b mod 16) * 4), CHR ''='']"
| "btoa_codes (a # b # c # r) =
     [b64_char (a div 4), b64_char ((a mod 4) * 16 + b div 16),
      b64_char ((b mod 16) * 4 + c div 64), b64_char (c mod 64)] @ btoa_codes r"

definition btoa :: "string \<Rightarrow> string" where
  "btoa s = btoa_codes (map of_char s)"

subsection \<open>base64UrlEncode and the PKCE pair\<close>

text \<open>The loop \<^verbatim>\<open>str += String.fromCharCode(bytes[i])\<close>.\<close>

fun from_char_codes :: "string \<Rightarrow> bytes \<Rightarrow> string" where
  "from_char_codes str [] = str"
| "from_char_codes str (b # bs) = from_char_codes (str @ [char_of (unat b)]) bs"

text \<open>\<^verbatim>\<open>replace(/=+$/, '')\<close>\<close>

definition strip_padding :: "string \<Rightarrow> string" where
  "strip_padding s = rev (dropWhile (\<lambda>c. c = CHR ''='') (rev s))"

definition base64UrlEncode :: "bytes \<Rightarrow> string" where
  "base64UrlEncode bs =
     (let str = from_char_codes [] bs in
      strip_padding (js_replace_char (CHR ''/'') (CHR ''_'')
        (js_replace_char (CHR ''+'') (CHR ''-'') (btoa str))))"

definition generateCodeVerifier :: "host \<Rightarrow> string" where
  "generateCodeVerifier h = base64UrlEncode (getRandomValues h 48)"

text \<open>\<^verbatim>\<open>TextEncoder.encode\<close>: a code unit above 127 is two UTF-8 bytes.\<close>

definition text_encode :: "string \<Rightarrow> bytes" where
  "text_encode s = concat (map (\<lambda>c. let n = of_char c :: nat in
     if n < 128 then [of_nat n] else [of_nat (192 + n div 64), of_nat (128 + n mod 64)]) s)"

definition computeS256Challenge :: "host \<Rightarrow> string \<Rightarrow> string" where
  "computeS256Challenge h verifier = base64UrlEncode (sha256 h (text_encode verifier))"

record pkce_pair =
  verifier :: string
  challenge :: string
  pkce_method :: string

definition generatePkcePair :: "host \<Rightarrow> pkce_pair" where
  "generatePkcePair h =
     (let v = generateCodeVerifier h; c = computeS256Challenge h v
      in \<lparr>verifier = v, challenge = c, pkce_method = ''S256''\<rparr>)"

subsection \<open>RFC 4648 section 5 as the reference\<close>

definition b64url_alphabet :: string where
  "b64url_alphabet = ''ABCDEFGHIJKLMNOPQRSTUVWXYZabcdefghijklmnopqrstuvwxyz0123456789-_''"

definition b64url_char :: "nat \<Rightarrow> char" where
  "b64url_char n = b64url_alphabet ! (n mod 64)"

fun b64url :: "nat list \<Rightarrow> string" where
  "b64url [] = []"
| "b64url [a] = [b64url_char (a div 4), b64url_char ((a mod 4) * 16)]"
| "b64url [a, b] =
     [b64url_char (a div 4), b64url_char ((a mod 4) * 16 + b div 16), b64url_char ((b mod 16) * 4)]"
| "b64url (a # b # c # r) =
     [b64url_char (a div 4), b64url_char ((a mod 4) * 16 + b div 16),
      b64url_char ((b mod 16) * 4 + c div 64), b64url_char (c mod 64)] @ b64url r"

fun index_of :: "char \<Rightarrow> string \<Rightarrow> nat" where
  "index_of c [] = 0"
| "index_of c (x # xs) = (if x = c then 0 else Suc (index_of c xs))"

definition b64url_value :: "char \<Rightarrow> nat" where
  "b64url_value c = index_of c b64url_alphabet"

fun b64url_decode :: "string \<Rightarrow> nat list" where
  "b64url_decode (w # x # y # z # r) =
     (let p = b64url_value w; q = b64url_value x; u = b64url_value y; v = b64url_value z
      in [p * 4 + q div 16, (q mod 16) * 16 + u div 4, (u mod 4) * 64 + v] @ b64url_decode r)"
| "b64url_decode [w, x, y] =
     (let p = b64url_value w; q = b64url_value x; u = b64url_value y
      in [p * 4 + q div 16, (q mod 16) * 16 + u div 4])"
| "b64url_decode [w, x] = (let p = b64url_value w; q = b64url_value x in [p * 4 + q div 16])"
| "b64url_decode s = []"

definition base64UrlDecode :: "string \<Rightarrow> bytes" where
  "base64UrlDecode s = map of_nat (b64url_decode s)"

subsection \<open>The alphabet\<close>

lemma b64_char_url:
  "b64url_char n = (if b64_char n = CHR ''/'' then CHR ''_''
                    else if b64_char n = CHR ''+'' then CHR ''-'' else b64_char n)"
proof -
  have "list_all (\<lambda>k. b64url_alphabet ! k = (if b64_alphabet ! k = CHR ''/'' then CHR ''_''
          else if b64_alphabet ! k = CHR ''+'' then CHR ''-'' else b64_alphabet ! k)) [0..<64]"
    by code_simp
  then show ?thesis
    by (simp add: b64url_char_def b64_char_def list_all_iff)
qed

lemma b64url_char_in: "b64url_char n \<in> set b64url_alphabet"
proof -
  have "length b64url_alphabet = 64" by (simp add: b64url_alphabet_def)
  then show ?thesis by (simp add: b64url_char_def)
qed

lemma b64_char_not_pad: "b64_char n \<noteq> CHR ''=''"
proof -
  have "length b64_alphabet = 64" by (simp add: b64_alphabet_def)
  then have "b64_char n \<in> set b64_alphabet" by (simp add: b64_char_def)
  moreover have "CHR ''='' \<notin> set b64_alphabet" by (simp add: b64_alphabet_def)
  ultimately show ?thesis by metis
qed

lemma b64url_value_char: "n < 64 \<Longrightarrow> b64url_value (b64url_char n) = n"
proof -
  assume "n < 64"
  moreover have "list_all (\<lambda>k. index_of (b64url_alphabet ! k) b64url_alphabet = k) [0..<64]"
    by code_simp
  ultimately show ?thesis by (simp add: b64url_value_def b64url_char_def list_all_iff)
qed

subsection \<open>The encoder\<close>

lemma from_char_codes_append: "from_char_codes str bs = str @ map (\<lambda>b. char_of (unat b)) bs"
  by (induction str bs rule: from_char_codes.induct) auto

lemma strip_padding_Cons: "x \<noteq> CHR ''='' \<Longrightarrow> strip_padding (x # ys) = x # strip_padding ys"
  by (simp add: strip_padding_def dropWhile_snoc_False)

abbreviation url_safe :: "string \<Rightarrow> string" where
  "url_safe s \<equiv> js_replace_char (CHR ''/'') (CHR ''_'') (js_replace_char (CHR ''+'') (CHR ''-'') s)"

lemma url_safe_b64_char: "url_safe [b64_char n] = [b64url_char n]"
  by (auto simp: js_replace_char_def b64_char_url)

lemma url_safe_simps [simp]:
  "url_safe [] = []"
  "url_safe (b64_char n # s) = b64url_char n # url_safe s"
  "url_safe (CHR ''='' # s) = CHR ''='' # url_safe s"
  using url_safe_b64_char [of n] by (auto simp: js_replace_char_def)

lemma b64url_char_not_pad: "b64url_char n \<noteq> CHR ''=''"
  using b64_char_not_pad [of n] by (auto simp: b64_char_url)

lemma strip_btoa: "strip_padding (url_safe (btoa_codes ns)) = b64url ns"
  by (induction ns rule: btoa_codes.induct)
    (simp_all add: strip_padding_Cons b64url_char_not_pad, simp_all add: strip_padding_def)

lemma unat_byte_less [simp]: "unat (b :: 8 word) < 256"
  using unsigned_less [of b] by simp

lemma base64UrlEncode_b64url: "base64UrlEncode bs = b64url (map unat bs)"
  by (simp add: base64UrlEncode_def Let_def from_char_codes_append btoa_def strip_btoa o_def)

lemma length_b64url: "length (b64url ns) = (4 * length ns + 2) div 3"
  by (induction ns rule: b64url.induct) auto

lemma set_b64url: "set (b64url ns) \<subseteq> set b64url_alphabet"
  by (induction ns rule: b64url.induct) (auto simp: b64url_char_in)

lemma sextets:
  fixes a b c :: nat
  assumes "a < 256" "b < 256" "c < 256"
  shows "a div 4 < 64" "a mod 4 * 16 + b div 16 < 64" "b mod 16 * 4 + c div 64 < 64"
    "a mod 4 * 16 < 64" "b mod 16 * 4 < 64" "b div 16 < 16" "c div 64 < 4"
    "a div 4 * 4 + (a mod 4 * 16 + b div 16) div 16 = a"
    "(a mod 4 * 16 + b div 16) mod 16 * 16 + (b mod 16 * 4 + c div 64) div 4 = b"
    "(b mod 16 * 4 + c div 64) mod 4 * 64 + c mod 64 = c"
proof -
  have *: "a div 4 < 64" "b div 16 < 16" "c div 64 < 4" "a mod 4 < 4" "b mod 16 < 16"
    using assms by (simp_all add: less_mult_imp_div_less)
  then show "a div 4 < 64" "a mod 4 * 16 + b div 16 < 64" "b mod 16 * 4 + c div 64 < 64"
    "a mod 4 * 16 < 64" "b mod 16 * 4 < 64" "b div 16 < 16" "c div 64 < 4" by linarith+
  show "a div 4 * 4 + (a mod 4 * 16 + b div 16) div 16 = a"
    "(a mod 4 * 16 + b div 16) mod 16 * 16 + (b mod 16 * 4 + c div 64) div 4 = b"
    "(b mod 16 * 4 + c div 64) mod 4 * 64 + c mod 64 = c"
    using * by simp_all
qed

lemma b64url_decode_encode: "\<forall>n \<in> set ns. n < 256 \<Longrightarrow> b64url_decode (b64url ns) = ns"
proof (induction ns rule: b64url.induct)
  case (4 a b c r)
  then show ?case using sextets [of a b c] by (simp add: b64url_value_char Let_def)
next
  case (2 a)
  then show ?case using sextets [of a 0 0] by (simp add: b64url_value_char Let_def)
next
  case (3 a b)
  then show ?case using sextets [of a b 0] by (simp add: b64url_value_char Let_def)
qed simp

lemma base64UrlDecode_Encode: "base64UrlDecode (base64UrlEncode bs) = bs"
  by (simp add: base64UrlDecode_def base64UrlEncode_b64url b64url_decode_encode o_def)

subsection \<open>Codecs\<close>

text \<open>An encoder with a decoder loses nothing: different inputs have different codes.\<close>

locale codec =
  fixes enc :: "'a \<Rightarrow> 'c" and dec :: "'c \<Rightarrow> 'a"
  assumes dec_enc: "dec (enc x) = x"
begin

lemma enc_inj: "enc x = enc y \<longleftrightarrow> x = y"
  by (metis dec_enc)

end

interpretation b64: codec base64UrlEncode base64UrlDecode
  by unfold_locales (rule base64UrlDecode_Encode)

subsection \<open>Properties\<close>

definition rfc7636_unreserved :: "char \<Rightarrow> bool" where
  "rfc7636_unreserved c \<longleftrightarrow> c \<in> set (b64url_alphabet @ ''.~'')"

text \<open>
  C30: \<^verbatim>\<open>base64UrlEncode\<close> is unpadded base64url (RFC 4648 section 5) of the bytes, its
  length is the number of sextets the bytes need, and decoding gives the bytes back.
\<close>

theorem base64UrlEncode_correct:
  "base64UrlEncode bs = b64url (map unat bs) \<and>
   length (base64UrlEncode bs) = (4 * length bs + 2) div 3 \<and>
   base64UrlDecode (base64UrlEncode bs) = bs"
  by (simp add: base64UrlEncode_b64url length_b64url base64UrlDecode_Encode [unfolded base64UrlEncode_b64url])

text \<open>
  C31: a generated pair satisfies RFC 7636: the verifier has 64 unreserved characters (the
  RFC allows 43 to 128), the challenge is the 43 characters of the base64url SHA-256
  digest of the verifier, the method is S256, and two runs with different random bytes
  have different verifiers.
\<close>

theorem generatePkcePair_rfc7636:
  assumes "host_ok h"
  shows "length (verifier (generatePkcePair h)) = 64 \<and>
    list_all rfc7636_unreserved (verifier (generatePkcePair h)) \<and>
    length (challenge (generatePkcePair h)) = 43 \<and>
    challenge (generatePkcePair h) =
      base64UrlEncode (sha256 h (text_encode (verifier (generatePkcePair h)))) \<and>
    pkce_method (generatePkcePair h) = ''S256'' \<and>
    (verifier (generatePkcePair h) = verifier (generatePkcePair h') \<longleftrightarrow>
     getRandomValues h 48 = getRandomValues h' 48)"
proof -
  have "list_all rfc7636_unreserved (base64UrlEncode bs)" for bs
    using set_b64url [of "map unat bs"]
    by (auto simp: base64UrlEncode_b64url list_all_iff rfc7636_unreserved_def)
  with assms show ?thesis
    by (simp add: generatePkcePair_def Let_def generateCodeVerifier_def computeS256Challenge_def
        host_ok_def b64.enc_inj) (simp add: base64UrlEncode_b64url length_b64url)
qed

definition sample_host :: host where
  "sample_host = \<lparr>getRandomValues = (\<lambda>n. replicate n 7), sha256 = (\<lambda>b. replicate 32 (of_nat (length b))),
     randomUUID = ''uuid-1'', env_vars = (\<lambda>_. JUndef), origin = ''https://app'',
     parseQuery = (\<lambda>_. []), stringifyQuery = (\<lambda>_. []), webauthn = False\<rparr>"

lemma sample_host_ok: "host_ok sample_host"
  by (simp add: host_ok_def sample_host_def)

theorem generatePkcePair_rfc7636_witness:
  "length (verifier (generatePkcePair sample_host)) = 64 \<and>
   length (challenge (generatePkcePair sample_host)) = 43"
  using generatePkcePair_rfc7636 [OF sample_host_ok, of sample_host] by blast

end
