(* ===== verification/Module_Copies.thy ===== *)
theory Module_Copies
  imports Error_Adapter Pkce
begin

text \<open>
  Two files of the user application exist a second time in the console:
  \<^verbatim>\<open>services/errorAdapter.ts\<close> and \<^verbatim>\<open>utils/pkce.ts\<close>. The console's copies are translated
  on their own and shown to compute the same functions, so that what is proved of one file
  holds of the other. Only what the language and the browser provide is shared.
\<close>

subsection \<open>The console's error adapter\<close>

definition admin_isObject :: "jsval \<Rightarrow> bool" where
  "admin_isObject v = (case v of JObj ps \<Rightarrow> True | JArr xs \<Rightarrow> True | _ \<Rightarrow> False)"

definition admin_isNonEmptyString :: "jsval \<Rightarrow> bool" where
  "admin_isNonEmptyString v = (case v of JStr t \<Rightarrow> length t > 0 | _ \<Rightarrow> False)"

definition admin_isRateLimitBody :: "jsval \<Rightarrow> bool" where
  "admin_isRateLimitBody data = (admin_isObject data \<and> js_get data ''error'' = JStr ''invalid_request'')"

definition admin_NORMALIZED_BRAND :: string where
  "admin_NORMALIZED_BRAND = ''__isNormalizedError__''"

definition admin_isNormalizedError :: "jsval \<Rightarrow> bool" where
  "admin_isNormalizedError v \<longleftrightarrow> admin_isObject v \<and> js_get v admin_NORMALIZED_BRAND = JBool True"

definition admin_brand :: "jsval \<Rightarrow> jsval" where
  "admin_brand n = js_set n admin_NORMALIZED_BRAND (JBool True)"

definition admin_RATE_LIMITED_CODE :: string where
  "admin_RATE_LIMITED_CODE = ''VALIDATION_RATE_LIMITED''"

definition admin_SESSION_EXPIRED_CODE :: string where
  "admin_SESSION_EXPIRED_CODE = ''AUTH_TOKEN_EXPIRED''"

text \<open>The record of every \<^verbatim>\<open>return\<close>, with the message looked up; \<^verbatim>\<open>x['request_id']\<close> or empty.\<close>

definition admin_NormalizedError :: "string \<Rightarrow> string \<Rightarrow> string \<Rightarrow> int \<Rightarrow> jsval + jsval" where
  "admin_NormalizedError loc code request_id httpStatus =
     map_sum id (\<lambda>message. JObj [(''code'', JStr code), (''message'', JStr message),
        (''request_id'', JStr request_id), (''httpStatus'', JNum httpStatus)]) (admin_getErrorMessage code loc)"

definition admin_request_id :: "jsval \<Rightarrow> string" where
  "admin_request_id v = (case js_get v ''request_id'' of JStr t \<Rightarrow> t | _ \<Rightarrow> [])"

definition admin_locale :: "jsval \<Rightarrow> string" where
  "admin_locale loc = (case loc of JStr (c # t) \<Rightarrow> c # t | _ \<Rightarrow> DEFAULT_LOCALE)"

definition admin_normalizeError :: "jsval \<Rightarrow> jsval \<Rightarrow> jsval + jsval" where
  "admin_normalizeError err loc0 =
     (if admin_isNormalizedError err then Inr err
      else let loc = admin_locale loc0;
               response = (if admin_isObject err then js_get err ''response'' else JUndef) in
      if \<not> admin_isObject response then admin_NormalizedError loc NETWORK_CODE [] 0
      else let status = js_get response ''status'';
               httpStatus = (case status of JNum n \<Rightarrow> n | _ \<Rightarrow> 0);
               data = js_get response ''data'' in
      if httpStatus = 429 \<and> admin_isRateLimitBody data then
        admin_NormalizedError loc admin_RATE_LIMITED_CODE
          (if admin_isObject data then admin_request_id data else []) httpStatus
      else if admin_isObject data then
        let envelopeError = js_get data ''error'' in
        if admin_isObject envelopeError \<and> admin_isNonEmptyString (js_get envelopeError ''code'') then
          admin_NormalizedError loc (js_to_string (js_get envelopeError ''code''))
            (if admin_isNonEmptyString (js_get envelopeError ''request_id'') then admin_request_id envelopeError
             else admin_request_id data) httpStatus
        else if admin_isNonEmptyString envelopeError then
          admin_NormalizedError loc (js_to_string envelopeError) (admin_request_id data) httpStatus
        else admin_NormalizedError loc UNKNOWN_CODE (admin_request_id data) httpStatus
      else admin_NormalizedError loc UNKNOWN_CODE [] httpStatus)"

definition admin_sessionExpiredError :: "jsval \<Rightarrow> jsval + jsval" where
  "admin_sessionExpiredError loc0 =
     map_sum id admin_brand (admin_NormalizedError (admin_locale loc0) admin_SESSION_EXPIRED_CODE [] 401)"

lemma admin_guards [simp]:
  "admin_isObject = isObject" "admin_isNonEmptyString = isNonEmptyString" "admin_isRateLimitBody = isRateLimitBody"
  "admin_isNormalizedError = isNormalizedError" "admin_brand = brand" "admin_locale = resolve_locale"
  "admin_RATE_LIMITED_CODE = RATE_LIMITED_CODE" "admin_SESSION_EXPIRED_CODE = SESSION_EXPIRED_CODE"
proof -
  show o: "admin_isObject = isObject" by (rule ext) (simp add: admin_isObject_def split: jsval.split)
  show "admin_isNonEmptyString = isNonEmptyString"
    by (rule ext) (simp add: admin_isNonEmptyString_def isNonEmptyString_def split: jsval.split)
  show "admin_isRateLimitBody = isRateLimitBody"
    by (rule ext) (auto simp: admin_isRateLimitBody_def isRateLimitBody_def o Let_def)
  show "admin_isNormalizedError = isNormalizedError"
    by (rule ext) (simp add: admin_isNormalizedError_def isNormalizedError_def o admin_NORMALIZED_BRAND_def NORMALIZED_BRAND_def)
  show "admin_locale = resolve_locale"
    by (rule ext) (auto simp: admin_locale_def resolve_locale_def isNonEmptyString_def split: jsval.split list.split)
qed (simp_all add: fun_eq_iff admin_brand_def brand_def admin_NORMALIZED_BRAND_def NORMALIZED_BRAND_def
    admin_RATE_LIMITED_CODE_def RATE_LIMITED_CODE_def admin_SESSION_EXPIRED_CODE_def SESSION_EXPIRED_CODE_def)

lemma admin_request_id [simp]: "admin_request_id v = string_or_empty (js_get v ''request_id'')"
  by (simp add: admin_request_id_def string_or_empty_def isNonEmptyString_def split: jsval.split)

lemma admin_getErrorMessage_eq: "admin_getErrorMessage = user_getErrorMessage"
  by (simp add: admin_getErrorMessage_def user_getErrorMessage_def admin_messages_def user_messages_def zhCN_mirror)

lemma admin_NormalizedError_eq: "admin_NormalizedError loc code rid st = with_message user_getErrorMessage loc code rid st"
  by (simp add: admin_NormalizedError_def with_message_def normalized_def admin_getErrorMessage_eq split: sum.split)

lemma admin_normalizeError_eq: "admin_normalizeError = user_normalizeError"
proof (intro ext)
  fix err loc
  show "admin_normalizeError err loc = user_normalizeError err loc"
    unfolding admin_normalizeError_def user_normalizeError_def normalizeError_with_def Let_def admin_NormalizedError_eq admin_guards
      admin_request_id
    by (auto simp: isRateLimitBody_def string_or_empty_def)
qed

lemma admin_sessionExpiredError_eq: "admin_sessionExpiredError = user_sessionExpiredError"
  by (rule ext) (simp add: admin_sessionExpiredError_def user_sessionExpiredError_def sessionExpiredError_with_def
      admin_NormalizedError_eq map_sum_def split: sum.split)

subsection \<open>The console's PKCE\<close>

definition admin_base64UrlEncode :: "bytes \<Rightarrow> string" where
  "admin_base64UrlEncode bytes =
     (let str = foldl (\<lambda>str b. str @ [char_of (unat b)]) [] bytes in
      strip_padding (map (\<lambda>c. if c = CHR ''/'' then CHR ''_'' else c)
        (map (\<lambda>c. if c = CHR ''+'' then CHR ''-'' else c) (btoa str))))"

definition admin_generateCodeVerifier :: "host \<Rightarrow> string" where
  "admin_generateCodeVerifier h = admin_base64UrlEncode (getRandomValues h 48)"

definition admin_computeS256Challenge :: "host \<Rightarrow> string \<Rightarrow> string" where
  "admin_computeS256Challenge h v = admin_base64UrlEncode (sha256 h (text_encode v))"

definition admin_generatePkcePair :: "host \<Rightarrow> pkce_pair" where
  "admin_generatePkcePair h =
     (let v = admin_generateCodeVerifier h in
      \<lparr>verifier = v, challenge = admin_computeS256Challenge h v, pkce_method = ''S256''\<rparr>)"

lemma foldl_char_codes: "foldl (\<lambda>str b. str @ [char_of (unat b)]) str bytes = from_char_codes str bytes"
  by (induction bytes arbitrary: str) auto

lemma admin_base64UrlEncode_eq: "admin_base64UrlEncode = base64UrlEncode"
  by (rule ext) (simp add: admin_base64UrlEncode_def base64UrlEncode_def foldl_char_codes js_replace_char_def Let_def comp_def)

lemma admin_generatePkcePair_eq [simp]: "admin_generatePkcePair = generatePkcePair"
  by (rule ext) (simp add: admin_generatePkcePair_def generatePkcePair_def admin_generateCodeVerifier_def
      generateCodeVerifier_def admin_computeS256Challenge_def computeS256Challenge_def admin_base64UrlEncode_eq Let_def)

text \<open>
  C37: the console's copies of the two modules are the user application's: the same result,
  thrown or returned, for every error, code and locale, the same encoding of all bytes and the
  same PKCE pair from every source of random bytes.
\<close>

theorem module_copies_agree:
  "admin_normalizeError = user_normalizeError \<and> admin_sessionExpiredError = user_sessionExpiredError \<and>
   admin_getErrorMessage = user_getErrorMessage \<and>
   admin_base64UrlEncode = base64UrlEncode \<and> admin_generatePkcePair = generatePkcePair"
  by (simp add: admin_normalizeError_eq admin_sessionExpiredError_eq admin_getErrorMessage_eq admin_base64UrlEncode_eq)

end
