(* ===== verification/Router.thy ===== *)
theory Router
  imports Module_Copies
begin

text \<open>
  What both front ends use of the browser and of vue-router: the storage areas, the current
  route, hard redirects, the route table lookup, and a navigation that asks the guard and
  follows the redirects it answers with.

  A target of \<^verbatim>\<open>router.push\<close> or of the guard's \<^verbatim>\<open>next\<close> is a value of the
  language, as in the source: a string is a full path, an object names a route and may carry
  a query; \<^verbatim>\<open>next()\<close> is \<^verbatim>\<open>undefined\<close>. How a query string is read and
  written (\<^verbatim>\<open>parseQuery\<close>, \<^verbatim>\<open>stringifyQuery\<close>, options of vue-router) is
  the host's.
\<close>

record route =
  rt_path :: string
  rt_name :: string
  rt_meta :: "(string \<times> jsval) list"

record location =
  loc_name :: "string option"
  loc_path :: string
  loc_fullPath :: string
  loc_query :: "(string \<times> string) list"
  loc_params :: "(string \<times> string) list"
  loc_meta :: "(string \<times> jsval) list"

text \<open>The state of a page shared by both applications.\<close>

record spa =
  localStorage :: storage
  sessionStorage :: storage
  currentRoute :: location
  hardRedirect :: "string list"

definition meta :: "location \<Rightarrow> string \<Rightarrow> jsval" where
  "meta l k = js_get (JObj (loc_meta l)) k"

definition query :: "location \<Rightarrow> string \<Rightarrow> jsval" where
  "query l k = (case map_of (loc_query l) k of Some v \<Rightarrow> JStr v | None \<Rightarrow> JUndef)"

definition param :: "location \<Rightarrow> string \<Rightarrow> jsval" where
  "param l k = (case map_of (loc_params l) k of Some v \<Rightarrow> JStr v | None \<Rightarrow> JUndef)"

subsection \<open>Matching a path\<close>

definition segments :: "string \<Rightarrow> string list" where
  "segments p = filter (\<lambda>x. x \<noteq> []) (js_split (CHR ''/'') p)"

fun match_segments :: "string list \<Rightarrow> string list \<Rightarrow> (string \<times> string) list option" where
  "match_segments [] [] = Some []"
| "match_segments (p # ps) (x # xs) =
     (case p of
        CHR '':'' # v \<Rightarrow> map_option (\<lambda>m. (v, x) # m) (match_segments ps xs)
      | _ \<Rightarrow> if js_upper p = js_upper x then match_segments ps xs else None)"
| "match_segments _ _ = None"

fun find_route :: "route list \<Rightarrow> string list \<Rightarrow> (route \<times> (string \<times> string) list) option" where
  "find_route [] xs = None"
| "find_route (r # rs) xs =
     (case match_segments (segments (rt_path r)) xs of
        Some m \<Rightarrow> Some (r, m)
      | None \<Rightarrow> find_route rs xs)"

definition path_part :: "string \<Rightarrow> string" where
  "path_part s = takeWhile (\<lambda>c. c \<noteq> CHR ''?'' \<and> c \<noteq> CHR ''#'') s"

definition query_part :: "string \<Rightarrow> string" where
  "query_part s = (case dropWhile (\<lambda>c. c \<noteq> CHR ''?'' \<and> c \<noteq> CHR ''#'') s of
     CHR ''?'' # q \<Rightarrow> takeWhile (\<lambda>c. c \<noteq> CHR ''#'') q
   | _ \<Rightarrow> [])"

definition locate_path :: "host \<Rightarrow> route list \<Rightarrow> string \<Rightarrow> location" where
  "locate_path h rs s =
     (let q = (if query_part s = [] then [] else parseQuery h (query_part s)) in
      case find_route rs (segments (path_part s)) of
        Some (r, m) \<Rightarrow> \<lparr>loc_name = Some (rt_name r), loc_path = path_part s, loc_fullPath = s,
                         loc_query = q, loc_params = m, loc_meta = rt_meta r\<rparr>
      | None \<Rightarrow> \<lparr>loc_name = None, loc_path = path_part s, loc_fullPath = s,
                  loc_query = q, loc_params = [], loc_meta = []\<rparr>)"

fun query_pairs :: "jsval \<Rightarrow> (string \<times> string) list" where
  "query_pairs (JObj ps) = map (\<lambda>(k, v). (k, js_to_string v)) ps"
| "query_pairs v = []"

definition locate_name :: "host \<Rightarrow> route list \<Rightarrow> string \<Rightarrow> jsval \<Rightarrow> location option" where
  "locate_name h rs nm q =
     (case find (\<lambda>r. rt_name r = nm) rs of
        None \<Rightarrow> None
      | Some r \<Rightarrow> Some \<lparr>loc_name = Some nm, loc_path = rt_path r,
          loc_fullPath = rt_path r @
            (if query_pairs q = [] then [] else CHR ''?'' # stringifyQuery h (query_pairs q)),
          loc_query = query_pairs q, loc_params = [], loc_meta = rt_meta r\<rparr>)"

fun resolve_target :: "host \<Rightarrow> route list \<Rightarrow> jsval \<Rightarrow> location option" where
  "resolve_target h rs (JStr s) = Some (locate_path h rs s)"
| "resolve_target h rs (JObj ps) = locate_name h rs (js_to_string (js_get (JObj ps) ''name'')) (js_get (JObj ps) ''query'')"
| "resolve_target h rs v = None"

subsection \<open>Navigation\<close>

definition to_name :: "string \<Rightarrow> jsval" where
  "to_name nm = JObj [(''name'', JStr nm)]"

definition to_name_query :: "string \<Rightarrow> (string \<times> jsval) list \<Rightarrow> jsval" where
  "to_name_query nm q = JObj [(''name'', JStr nm), (''query'', JObj q)]"

text \<open>
  A push: resolve the target, ask the guard, commit or follow the redirect. Pushing the
  location the page is already at does nothing. The first argument bounds the redirects
  followed, each of which goes through the guard again; vue-router has no such bound.
\<close>

primrec navigate ::
  "nat \<Rightarrow> host \<Rightarrow> route list \<Rightarrow> (location \<Rightarrow> 'a spa_scheme prog) \<Rightarrow> jsval \<Rightarrow> 'a spa_scheme prog" where
  "navigate 0 h rs guard t = Throw (js_error ''Error'' ''Infinite redirect in navigation guard'')"
| "navigate (Suc n) h rs guard t =
     (case resolve_target h rs t of
        None \<Rightarrow> Throw (js_error ''Error'' ''No match for location'')
      | Some l \<Rightarrow> Get (\<lambda>s.
          if loc_fullPath (currentRoute s) = loc_fullPath l \<and> loc_name (currentRoute s) = loc_name l
          then Ret JUndef
          else await (guard l) (\<lambda>d.
            if nullish d then modify (currentRoute_update (\<lambda>_. l)) (Ret JUndef)
            else navigate n h rs guard d)))"

definition assign_href :: "string \<Rightarrow> 'a spa_scheme \<Rightarrow> 'a spa_scheme" where
  "assign_href u s = s\<lparr>hardRedirect := hardRedirect s @ [u]\<rparr>"

text \<open>
  \<^verbatim>\<open>redirectToLogin\<close> of both applications: load the router module, go to the login
  route unless already there, and fall back to a hard redirect when either fails.
\<close>

definition redirect_to_login ::
  "string \<Rightarrow> 'a spa_scheme prog \<Rightarrow> 'a spa_scheme prog" where
  "redirect_to_login url push_login =
     catch
       (await (raw_send (req_get ''../router'')) (\<lambda>_.
          Get (\<lambda>s. if loc_name (currentRoute s) \<noteq> Some ''login'' then await push_login Ret
                    else Ret JUndef)))
       (\<lambda>_. modify (assign_href url) (Ret JUndef))"

lemma assign_href_fields [simp]:
  "localStorage (assign_href u s) = localStorage s"
  "sessionStorage (assign_href u s) = sessionStorage s"
  "currentRoute (assign_href u s) = currentRoute s"
  "hardRedirect (assign_href u s) = hardRedirect s @ [u]"
  by (simp_all add: assign_href_def)

lemma meta_simps [simp]: "meta l k = js_get (JObj (loc_meta l)) k"
  by (simp add: meta_def)

lemma to_name_get [simp]:
  "js_get (to_name nm) ''name'' = JStr nm" "js_get (to_name nm) ''query'' = JUndef"
  "js_get (to_name_query nm q) ''name'' = JStr nm" "js_get (to_name_query nm q) ''query'' = JObj q"
  "\<not> nullish (to_name nm)" "\<not> nullish (to_name_query nm q)"
  by (simp_all add: to_name_def to_name_query_def)

lemma resolve_to_name [simp]:
  "resolve_target h rs (to_name nm) = locate_name h rs nm JUndef"
  "resolve_target h rs (to_name_query nm q) = locate_name h rs nm (JObj q)"
  by (simp_all add: to_name_def to_name_query_def)

lemma locate_fullPath [simp]: "loc_fullPath (locate_path h rs p) = p"
  by (auto simp: locate_path_def Let_def split: option.split)

lemma locate_name_fields:
  "locate_name h rs nm q = Some l \<Longrightarrow> loc_name l = Some nm \<and>
     (\<exists>r \<in> set rs. rt_name r = nm \<and> loc_meta l = rt_meta r)"
  by (auto simp: locate_name_def find_Some_iff split: option.splits)

end
