(* ===== verification/User_Router.thy ===== *)
theory User_Router
  imports Router
begin

text \<open>
  The user application: its state (\<open>user_app\<close>: the module variables of
  \<^verbatim>\<open>services/http.ts\<close> and the refs of the store \<^verbatim>\<open>stores/auth.ts\<close>), the
  route table and the guard of \<^verbatim>\<open>router/index.ts\<close>. The store action the guard awaits is
  an argument here, since the modules import each other; \<^verbatim>\<open>stores/auth.ts\<close> gives it.
\<close>

record user_app = spa +
  ua_accessToken :: jsval
  ua_refreshToken :: jsval
  ua_user :: jsval
  ua_loading :: bool
  ua_error :: jsval
  ua_tokenPresent :: bool
  ua_sessionRestored :: bool

subsection \<open>Routes\<close>

definition guest_meta :: "(string \<times> jsval) list" where
  "guest_meta = [(''guest'', JBool True), (''layout'', JStr ''auth'')]"

definition auth_layout_meta :: "(string \<times> jsval) list" where
  "auth_layout_meta = [(''layout'', JStr ''auth'')]"

definition account_meta :: "(string \<times> jsval) list" where
  "account_meta = [(''auth'', JBool True)]"

definition user_routes :: "route list" where
  "user_routes =
     [\<lparr>rt_path = ''/login'', rt_name = ''login'', rt_meta = guest_meta\<rparr>,
      \<lparr>rt_path = ''/register'', rt_name = ''register'', rt_meta = guest_meta\<rparr>,
      \<lparr>rt_path = ''/forgot-password'', rt_name = ''forgot-password'', rt_meta = guest_meta\<rparr>,
      \<lparr>rt_path = ''/reset-password'', rt_name = ''reset-password'', rt_meta = guest_meta\<rparr>,
      \<lparr>rt_path = ''/verify-email'', rt_name = ''verify-email'', rt_meta = auth_layout_meta\<rparr>,
      \<lparr>rt_path = ''/callback'', rt_name = ''callback'', rt_meta = []\<rparr>,
      \<lparr>rt_path = ''/callback/github'', rt_name = ''github-callback'', rt_meta = []\<rparr>,
      \<lparr>rt_path = ''/consent'', rt_name = ''consent'', rt_meta = auth_layout_meta\<rparr>,
      \<lparr>rt_path = ''/device/verify'', rt_name = ''device-verify'', rt_meta = auth_layout_meta\<rparr>,
      \<lparr>rt_path = ''/'', rt_name = ''dashboard'', rt_meta = account_meta\<rparr>,
      \<lparr>rt_path = ''/profile'', rt_name = ''profile'', rt_meta = account_meta\<rparr>,
      \<lparr>rt_path = ''/security'', rt_name = ''security'', rt_meta = account_meta\<rparr>,
      \<lparr>rt_path = ''/authorized-apps'', rt_name = ''authorized-apps'', rt_meta = account_meta\<rparr>]"

subsection \<open>The guard\<close>

definition user_guard :: "'a user_app_scheme prog \<Rightarrow> location \<Rightarrow> 'a user_app_scheme prog" where
  "user_guard restoreSession l = Get (\<lambda>s.
     if truthy (meta l ''auth'') \<and> \<not> ua_tokenPresent s then
       await restoreSession (\<lambda>restored.
         if truthy restored then Ret JUndef
         else Ret (to_name_query ''login'' [(''redirect'', JStr (loc_fullPath l))]))
     else if truthy (meta l ''guest'') \<and> ua_tokenPresent s then Ret (to_name ''dashboard'')
     else Ret JUndef)"

text \<open>\<^verbatim>\<open>router.push\<close> of the user application; four redirects are more than a guard gives.\<close>

definition user_push :: "'a user_app_scheme prog \<Rightarrow> host \<Rightarrow> jsval \<Rightarrow> 'a user_app_scheme prog" where
  "user_push restoreSession h t = navigate 4 h user_routes (user_guard restoreSession) t"

text \<open>\<^verbatim>\<open>App.vue\<close>: which layout wraps the current page.\<close>

definition useAuthLayout :: "'a user_app_scheme \<Rightarrow> bool" where
  "useAuthLayout s = (meta (currentRoute s) ''layout'' = JStr ''auth'')"

subsection \<open>Lemmas\<close>

lemma meta_lookup [simp]:
  "map_of guest_meta ''auth'' = None" "map_of guest_meta ''guest'' = Some (JBool True)"
  "map_of auth_layout_meta ''auth'' = None" "map_of auth_layout_meta ''guest'' = None"
  "map_of account_meta ''auth'' = Some (JBool True)" "map_of account_meta ''guest'' = None"
  by (simp_all add: guest_meta_def auth_layout_meta_def account_meta_def)

definition at_login :: "host \<Rightarrow> (string \<times> jsval) list \<Rightarrow> location" where
  "at_login h q = \<lparr>loc_name = Some ''login'', loc_path = ''/login'',
     loc_fullPath = ''/login'' @ (if q = [] then [] else CHR ''?'' # stringifyQuery h (query_pairs (JObj q))),
     loc_query = query_pairs (JObj q), loc_params = [], loc_meta = guest_meta\<rparr>"

definition at_dashboard :: location where
  "at_dashboard = \<lparr>loc_name = Some ''dashboard'', loc_path = ''/'', loc_fullPath = ''/'',
     loc_query = [], loc_params = [], loc_meta = account_meta\<rparr>"

lemma locate_login [simp]:
  "locate_name h user_routes ''login'' JUndef = Some (at_login h [])"
  "locate_name h user_routes ''login'' (JObj q) = Some (at_login h q)"
  by (simp_all add: locate_name_def user_routes_def at_login_def)

lemma locate_dashboard [simp]: "locate_name h user_routes ''dashboard'' JUndef = Some at_dashboard"
  by (simp add: locate_name_def user_routes_def at_dashboard_def)

lemma at_meta [simp]:
  "loc_meta (at_login h q) = guest_meta" "loc_meta at_dashboard = account_meta"
  "loc_name (at_login h q) = Some ''login''" "loc_name at_dashboard = Some ''dashboard''"
  by (simp_all add: at_login_def at_dashboard_def)

text \<open>
  On the way to the login route the guard never calls \<^verbatim>\<open>restoreSession\<close>: whichever
  program stands for it, \<^verbatim>\<open>router.push({name: 'login'})\<close> is the same navigation.
\<close>

lemma guard_guest: "truthy (meta l ''auth'') = False \<Longrightarrow> user_guard r l = user_guard r' l"
  by (simp add: user_guard_def)

lemma run_push_login:
  fixes s :: "'a user_app_scheme"
  shows "run (user_push r h (to_name ''login'')) s ts as =
     halt (Done JUndef)
       (if loc_fullPath (currentRoute s) = ''/login'' \<and> loc_name (currentRoute s) = Some ''login'' then s
        else if ua_tokenPresent s
        then (if loc_fullPath (currentRoute s) = ''/'' \<and> loc_name (currentRoute s) = Some ''dashboard'' then s
              else s\<lparr>currentRoute := at_dashboard\<rparr>)
        else s\<lparr>currentRoute := at_login h []\<rparr>) ts as"
  by (simp add: user_push_def user_guard_def prog_simps numeral_eq_Suc at_login_def at_dashboard_def)

end
