(* ===== verification/Token_Store.thy ===== *)
theory Token_Store
  imports Router
begin

text \<open>
  The contract of a token store, which the HTTP layer, the services and the stores of both
  applications rely on: two tokens in memory and one of them persisted. The clients' lemmas
  are proved here once; \<^verbatim>\<open>services/http.ts\<close> of the user application and the store of
  the admin console provide it.
\<close>

text \<open>A token answer of the server.\<close>

definition token_answer :: "jsval \<Rightarrow> jsval \<Rightarrow> jsval" where
  "token_answer a r = JObj [(''access_token'', a), (''refresh_token'', r)]"

lemma token_answer_get [simp]:
  "js_get (token_answer a r) ''access_token'' = a" "js_get (token_answer a r) ''refresh_token'' = r"
  "dot (token_answer a r) k c = c (js_get (token_answer a r) k)"
  "js_prop (token_answer a r) k = Inr (js_get (token_answer a r) k)"
  by (simp_all add: token_answer_def)

locale token_store =
  fixes set_tokens :: "jsval \<Rightarrow> jsval \<Rightarrow> 's \<Rightarrow> 's"
    and clear_tokens :: "'s \<Rightarrow> 's"
    and access :: "'s \<Rightarrow> jsval"
    and refresh :: "'s \<Rightarrow> jsval"
    and persisted :: "'s \<Rightarrow> string option"
  assumes access_set: "access (set_tokens a r s) = a"
    and refresh_set: "refresh (set_tokens a r s) = r"
    and access_clear: "access (clear_tokens s) = JNull"
    and refresh_clear: "refresh (clear_tokens s) = JNull"
    and persisted_set: "persisted (set_tokens a r s) = Some v \<Longrightarrow> v = js_to_string r"
    and persisted_set_none: "persisted (set_tokens a r s) = None \<Longrightarrow> \<not> truthy r"
    and persisted_clear: "persisted (clear_tokens s) = None"
begin

text \<open>What is persisted is the refresh token in memory.\<close>

definition in_sync :: "'s \<Rightarrow> bool" where
  "in_sync s \<longleftrightarrow> (case persisted s of
       Some v \<Rightarrow> v = js_to_string (refresh s)
     | None \<Rightarrow> \<not> truthy (refresh s))"

lemma in_sync_set: "in_sync (set_tokens a r s)"
  using persisted_set persisted_set_none
  by (fastforce simp: in_sync_def refresh_set split: option.split)

lemma in_sync_clear: "in_sync (clear_tokens s)"
  by (simp add: in_sync_def persisted_clear refresh_clear)

lemma in_sync_cong:
  "refresh s' = refresh s \<Longrightarrow> persisted s' = persisted s \<Longrightarrow> in_sync s' = in_sync s"
  unfolding in_sync_def by presburger

text \<open>The weaker form: a refresh token in memory is persisted.\<close>

definition covered :: "'s \<Rightarrow> bool" where
  "covered s \<longleftrightarrow> (truthy (refresh s) \<longrightarrow> persisted s = Some (js_to_string (refresh s)))"

lemma in_sync_covered: "in_sync s \<Longrightarrow> covered s"
  by (simp add: in_sync_def covered_def split: option.splits)

lemma covered_set: "covered (set_tokens a r s)"
  by (rule in_sync_covered) (rule in_sync_set)

lemma covered_clear: "covered (clear_tokens s)"
  by (rule in_sync_covered) (rule in_sync_clear)

text \<open>A page that reloads after a store of a real token finds that token; after a clear, none.\<close>

lemma reload_set: "truthy (JStr r) \<Longrightarrow> persisted (set_tokens a (JStr r) s) = Some r"
  using persisted_set persisted_set_none
  by (cases "persisted (set_tokens a (JStr r) s)") fastforce+

lemma reload_after:
  "in_sync s \<Longrightarrow> refresh s = JStr r \<Longrightarrow> r \<noteq> [] \<Longrightarrow> persisted s = Some r"
  by (simp add: in_sync_def split: option.splits)

end

end
