(* ===== verification/User_Http.thy ===== *)
theory User_Http
  imports User_Router Token_Store
begin

text \<open>
  \<^verbatim>\<open>services/http.ts\<close> of the user application: the token variables, the silent session
  restore, and the axios instance \<^verbatim>\<open>http\<close> with its request and response interceptors.

  \<open>user_http h r\<close> is a call \<^verbatim>\<open>http(r)\<close>; its value is \<^verbatim>\<open>resp.data\<close>. The
  requests that go through the bare \<^verbatim>\<open>axios\<close> are \<open>raw_send\<close>. A response error
  carries \<^verbatim>\<open>config\<close>, the request as it was sent, or does not (the Boolean of
  \<open>Rejected\<close>). The base URL and the timeout of the instance belong to the network.
\<close>

subsection \<open>Tokens\<close>

definition setTokens :: "jsval \<Rightarrow> jsval \<Rightarrow> 'a user_app_scheme \<Rightarrow> 'a user_app_scheme" where
  "setTokens access refresh s =
     s\<lparr>ua_accessToken := access, ua_refreshToken := refresh,
       localStorage := st_set (localStorage s) ''refresh_token'' (js_to_string refresh)\<rparr>"

definition clearTokens :: "'a user_app_scheme \<Rightarrow> 'a user_app_scheme" where
  "clearTokens s =
     s\<lparr>ua_accessToken := JNull, ua_refreshToken := JNull,
       localStorage := st_remove (localStorage s) ''refresh_token''\<rparr>"

definition user_client_id :: "host \<Rightarrow> jsval" where
  "user_client_id h = js_or (env_vars h ''VITE_CLIENT_ID'') (JStr ''vue-client'')"

definition refresh_request :: "host \<Rightarrow> jsval \<Rightarrow> request" where
  "refresh_request h refresh = req_post ''/oauth2/token'' (Form
     [(''grant_type'', JStr ''refresh_token''), (''refresh_token'', refresh),
      (''client_id'', user_client_id h)])"

text \<open>
  The exchange both \<^verbatim>\<open>tryRestoreSession\<close> and the interceptor make: the refresh token of
  the moment is sent, and the tokens of the answer are stored. Its value is the new access
  token.
\<close>

definition refresh_tokens :: "host \<Rightarrow> 'a user_app_scheme prog" where
  "refresh_tokens h = Get (\<lambda>s.
     await (raw_send (refresh_request h (ua_refreshToken s))) (\<lambda>data.
       dot data ''access_token'' (\<lambda>access.
       dot data ''refresh_token'' (\<lambda>refresh.
       modify (setTokens access refresh) (Ret access)))))"

definition tryRestoreSession :: "host \<Rightarrow> 'a user_app_scheme prog" where
  "tryRestoreSession h = Get (\<lambda>s.
     if truthy (ua_accessToken s) then Ret (JBool True)
     else if \<not> truthy (ua_refreshToken s) then Ret (JBool False)
     else catch
       (bind (refresh_tokens h) (\<lambda>_. Ret (JBool True)))
       (\<lambda>_. modify clearTokens (Ret (JBool False))))"

text \<open>
  A page load: the module variables and the refs take their initial values, the refresh
  token comes from storage, and \<^verbatim>\<open>tokenPresent\<close> from the tokens.
\<close>

definition stored :: "storage \<Rightarrow> string \<Rightarrow> jsval" where
  "stored st k = (case st_get st k of Some v \<Rightarrow> JStr v | None \<Rightarrow> JNull)"

definition user_boot :: "storage \<Rightarrow> storage \<Rightarrow> location \<Rightarrow> user_app" where
  "user_boot ls ss l =
     \<lparr>localStorage = ls, sessionStorage = ss, currentRoute = l, hardRedirect = [],
      ua_accessToken = JNull, ua_refreshToken = stored ls ''refresh_token'',
      ua_user = JNull, ua_loading = False, ua_error = JStr [],
      ua_tokenPresent = truthy JNull \<or> truthy (stored ls ''refresh_token''),
      ua_sessionRestored = False\<rparr>"

subsection \<open>Interceptors\<close>

definition bearer :: "jsval \<Rightarrow> string" where
  "bearer access = ''Bearer '' @ js_to_string access"

definition http_defaults :: "request \<Rightarrow> request" where
  "http_defaults r = (if header r ''Content-Type'' = None then form_content r else r)"

definition request_interceptor :: "'a user_app_scheme \<Rightarrow> request \<Rightarrow> request" where
  "request_interceptor s r =
     (if truthy (ua_accessToken s) \<and> header r ''Authorization'' = None
      then with_header ''Authorization'' (bearer (ua_accessToken s)) r else r)"

definition user_redirectToLogin :: "host \<Rightarrow> 'a user_app_scheme prog" where
  "user_redirectToLogin h = redirect_to_login ''/login'' (user_push (Ret JUndef) h (to_name ''login''))"

definition session_expired :: "host \<Rightarrow> 'a user_app_scheme prog" where
  "session_expired h = modify clearTokens
     (of_sum (user_sessionExpiredError JUndef) (\<lambda>n.
        Async (user_redirectToLogin h) (\<lambda>_. Throw n)))"

lemma default_fields [simp]:
  "rq_retry (request_interceptor s r) = rq_retry r" "rq_retry (http_defaults r) = rq_retry r"
  "rq_url (request_interceptor s r) = rq_url r" "rq_url (http_defaults r) = rq_url r"
  "rq_body (request_interceptor s r) = rq_body r" "rq_body (http_defaults r) = rq_body r"
  "rq_method (request_interceptor s r) = rq_method r" "rq_method (http_defaults r) = rq_method r"
  by (simp_all add: request_interceptor_def http_defaults_def)

text \<open>
  The response interceptor calls \<^verbatim>\<open>http\<close> again for the retry, outside its
  \<^verbatim>\<open>try\<close>: the promise is returned, not awaited. The flag \<^verbatim>\<open>_retry\<close> that it sets
  on the request bounds the recursion.
\<close>

function user_http :: "host \<Rightarrow> request \<Rightarrow> 'a user_app_scheme prog" where
  "user_http h r0 = Get (\<lambda>s.
     let r = request_interceptor s (http_defaults r0) in
     Net [r] (\<lambda>os. case os of
         [Resolved data] \<Rightarrow> Ret data
       | [Rejected resp has_config] \<Rightarrow>
           if \<not> has_config then
             Throw (js_error ''TypeError'' ''Cannot read properties of undefined (reading 'url')'')
           else Get (\<lambda>s'.
             if js_opt resp ''status'' = JNum 401 \<and> truthy (ua_refreshToken s') \<and>
                \<not> rq_retry r0 \<and> \<not> js_includes (rq_url r0) ''/oauth2/''
             then bind (catch (refresh_tokens h) (\<lambda>_. session_expired h)) (\<lambda>access.
               user_http h (with_header ''Authorization'' (bearer access) (r\<lparr>rq_retry := True\<rparr>)))
             else Throw (axios_error resp))
       | _ \<Rightarrow> Ret JUndef))"
  by pat_completeness auto

termination
  by (relation "measure (\<lambda>(h, r). if rq_retry r then 0 else 1)") auto

declare user_http.simps [simp del]

subsection \<open>Lemmas\<close>

lemma setTokens_fields [simp]:
  "ua_accessToken (setTokens a r s) = a" "ua_refreshToken (setTokens a r s) = r"
  "localStorage (setTokens a r s) = st_set (localStorage s) ''refresh_token'' (js_to_string r)"
  "sessionStorage (setTokens a r s) = sessionStorage s" "currentRoute (setTokens a r s) = currentRoute s"
  "hardRedirect (setTokens a r s) = hardRedirect s"
  "ua_user (setTokens a r s) = ua_user s" "ua_loading (setTokens a r s) = ua_loading s"
  "ua_error (setTokens a r s) = ua_error s" "ua_tokenPresent (setTokens a r s) = ua_tokenPresent s"
  "ua_sessionRestored (setTokens a r s) = ua_sessionRestored s"
  by (simp_all add: setTokens_def)

lemma clearTokens_fields [simp]:
  "ua_accessToken (clearTokens s) = JNull" "ua_refreshToken (clearTokens s) = JNull"
  "localStorage (clearTokens s) = st_remove (localStorage s) ''refresh_token''"
  "sessionStorage (clearTokens s) = sessionStorage s" "currentRoute (clearTokens s) = currentRoute s"
  "hardRedirect (clearTokens s) = hardRedirect s"
  "ua_user (clearTokens s) = ua_user s" "ua_loading (clearTokens s) = ua_loading s"
  "ua_error (clearTokens s) = ua_error s" "ua_tokenPresent (clearTokens s) = ua_tokenPresent s"
  "ua_sessionRestored (clearTokens s) = ua_sessionRestored s"
  by (simp_all add: clearTokens_def)

interpretation ut: token_store setTokens clearTokens ua_accessToken ua_refreshToken
  "\<lambda>s :: 'a user_app_scheme. st_get (localStorage s) ''refresh_token''"
  by unfold_locales auto

text \<open>The value of the branded error that a failed refresh rejects with.\<close>

definition expired_error :: jsval where
  "expired_error = brand (normalized SESSION_EXPIRED_CODE (user_message SESSION_EXPIRED_CODE) [] 401)"

lemma user_sessionExpiredError_value [simp]: "user_sessionExpiredError JUndef = Inr expired_error"
  by (simp add: user_sessionExpiredError_def sessionExpiredError_with_def expired_error_def)

text \<open>What the exchange does with any answer.\<close>

lemma run_refresh_tokens [prog_simps]:
  "run (refresh_tokens h) s ts ([Resolved d] # as) = emit [refresh_request h (ua_refreshToken s)]
     (if nullish d then run (dot d ''access_token'' Ret) s ts as
      else halt (Done (js_get d ''access_token''))
        (setTokens (js_get d ''access_token'') (js_get d ''refresh_token'') s) ts as)"
  "run (refresh_tokens h) s ts ([Rejected resp c] # as) = emit [refresh_request h (ua_refreshToken s)]
     (halt (Raised (axios_error resp)) s ts as)"
  "run (refresh_tokens h) s ts [] = emit [refresh_request h (ua_refreshToken s)] (halt Blocked s ts [])"
  by (simp_all add: refresh_tokens_def prog_simps dot_def js_prop_total)
     (auto simp: js_prop_def)

lemma settle_redirect [simp]: "settle (user_redirectToLogin h) s ts = (user_redirectToLogin h, s, ts)"
  by (simp add: user_redirectToLogin_def redirect_to_login_def raw_send_def await_def)

lemma run_session_expired [prog_simps]:
  "run (session_expired h) s ts as =
     halt (Raised expired_error) (clearTokens s) (ts @ [user_redirectToLogin h]) as"
  by (simp add: session_expired_def)

text \<open>The request as the network sees it, and when its failure starts a refresh.\<close>

definition sent :: "'a user_app_scheme \<Rightarrow> request \<Rightarrow> request" where
  "sent s r = request_interceptor s (http_defaults r)"

definition refreshable :: "'a user_app_scheme \<Rightarrow> request \<Rightarrow> jsval \<Rightarrow> bool" where
  "refreshable s r resp \<longleftrightarrow> js_opt resp ''status'' = JNum 401 \<and> truthy (ua_refreshToken s) \<and>
     \<not> rq_retry r \<and> \<not> js_includes (rq_url r) ''/oauth2/''"

definition retry_of :: "'a user_app_scheme \<Rightarrow> request \<Rightarrow> jsval \<Rightarrow> request" where
  "retry_of s r access = with_header ''Authorization'' (bearer access) ((sent s r)\<lparr>rq_retry := True\<rparr>)"

definition no_config_error :: jsval where
  "no_config_error = js_error ''TypeError'' ''Cannot read properties of undefined (reading 'url')''"

lemma sent_fields [simp]:
  "rq_retry (sent s r) = rq_retry r" "rq_url (sent s r) = rq_url r" "rq_body (sent s r) = rq_body r"
  "rq_method (sent s r) = rq_method r"
  by (simp_all add: sent_def)

lemma sent_cong: "ua_accessToken s' = ua_accessToken s \<Longrightarrow> sent s' r = sent s r"
  by (simp add: sent_def request_interceptor_def)

lemma sent_update [simp]:
  "sent (s\<lparr>ua_error := e\<rparr>) r = sent s r" "sent (s\<lparr>ua_loading := b\<rparr>) r = sent s r"
  "sent (s\<lparr>ua_tokenPresent := b\<rparr>) r = sent s r" "sent (s\<lparr>ua_user := u\<rparr>) r = sent s r"
  "sent (s\<lparr>ua_sessionRestored := b\<rparr>) r = sent s r" "sent (s\<lparr>sessionStorage := st\<rparr>) r = sent s r"
  "sent (s\<lparr>currentRoute := l\<rparr>) r = sent s r"
  by (rule sent_cong, simp)+

lemma setTokens_update [simp]:
  "setTokens a rt (s\<lparr>ua_error := e\<rparr>) = (setTokens a rt s)\<lparr>ua_error := e\<rparr>"
  "setTokens a rt (s\<lparr>ua_loading := b\<rparr>) = (setTokens a rt s)\<lparr>ua_loading := b\<rparr>"
  by (simp_all add: setTokens_def)

lemma retry_of_fields [simp]:
  "rq_retry (retry_of s r a)" "rq_url (retry_of s r a) = rq_url r" "rq_body (retry_of s r a) = rq_body r"
  "rq_method (retry_of s r a) = rq_method r" "header (retry_of s r a) ''Authorization'' = Some (bearer a)"
  by (simp_all add: retry_of_def)

lemma header_content_type [simp]: "header (form_content r) ''Content-Type'' \<noteq> None"
  by (simp add: form_content_def)

lemma sent_retry_of [simp]: "sent s' (retry_of s r a) = retry_of s r a"
  by (auto simp: sent_def retry_of_def http_defaults_def request_interceptor_def)

lemma refreshable_retry [simp]: "\<not> refreshable s' (retry_of s r a) resp"
  by (simp add: refreshable_def)

lemma run_user_http:
  "run (user_http h r) s ts [] = emit [sent s r] (halt Blocked s ts [])"
  "run (user_http h r) s ts ([Resolved d] # as) = emit [sent s r] (halt (Done d) s ts as)"
  "run (user_http h r) s ts ([Rejected resp False] # as) =
     emit [sent s r] (halt (Raised no_config_error) s ts as)"
  "\<not> refreshable s r resp \<Longrightarrow> run (user_http h r) s ts ([Rejected resp True] # as) =
     emit [sent s r] (halt (Raised (axios_error resp)) s ts as)"
  "refreshable s r resp \<Longrightarrow> run (user_http h r) s ts ([Rejected resp True] # as) =
     emit [sent s r] (then_run (then_catch (run (refresh_tokens h) s ts as) (\<lambda>_. session_expired h))
       (\<lambda>access. user_http h (retry_of s r access)))"
  by (simp_all add: user_http.simps [of h r] Let_def sent_def [symmetric] no_config_error_def
      refreshable_def [symmetric] retry_of_def prog_simps)

text \<open>The same for the other shapes of an answer: a script that does not fit blocks the call.\<close>

lemma run_user_http_misfit:
  "length os \<noteq> 1 \<Longrightarrow> run (user_http h r) s ts (os # as) = emit [sent s r] (halt Blocked s ts (os # as))"
  by (simp add: user_http.simps [of h r] Let_def sent_def [symmetric])

text \<open>
  The pieces of a call between its suspension points, for traces of the machine: waiting for
  the answer, waiting for the exchange, and the step that stores the tokens and retries.
\<close>

definition http_answer :: "host \<Rightarrow> request \<Rightarrow> outcome list \<Rightarrow> 'a user_app_scheme prog" where
  "http_answer h r os = (case os of
       [Resolved data] \<Rightarrow> Ret data
     | [Rejected resp has_config] \<Rightarrow>
         if \<not> has_config then Throw no_config_error
         else Get (\<lambda>s'.
           if refreshable s' r resp
           then bind (catch (refresh_tokens h) (\<lambda>_. session_expired h)) (\<lambda>access.
             user_http h (with_header ''Authorization'' (bearer access) (r\<lparr>rq_retry := True\<rparr>)))
           else Throw (axios_error resp))
     | _ \<Rightarrow> Ret JUndef)"

definition refresh_store :: "host \<Rightarrow> request \<Rightarrow> jsval \<Rightarrow> 'a user_app_scheme prog" where
  "refresh_store h r data = bind (catch
       (dot data ''access_token'' (\<lambda>access. dot data ''refresh_token'' (\<lambda>refresh.
          modify (setTokens access refresh) (Ret access))))
       (\<lambda>_. session_expired h))
     (\<lambda>access. user_http h (with_header ''Authorization'' (bearer access) (r\<lparr>rq_retry := True\<rparr>)))"

definition refresh_answer :: "host \<Rightarrow> request \<Rightarrow> outcome list \<Rightarrow> 'a user_app_scheme prog" where
  "refresh_answer h r os = (case os of
       [Resolved data] \<Rightarrow> Tick (refresh_store h r data)
     | [Rejected resp c] \<Rightarrow> bind (session_expired h) (\<lambda>access.
         user_http h (with_header ''Authorization'' (bearer access) (r\<lparr>rq_retry := True\<rparr>)))
     | _ \<Rightarrow> Tick (refresh_store h r JUndef))"

lemma refreshable_sent [simp]: "refreshable s' (sent s r) resp = refreshable s' r resp"
  by (simp add: refreshable_def)

lemma user_http_eq: "user_http h r = Get (\<lambda>s. Net [sent s r] (http_answer h (sent s r)))"
  unfolding user_http.simps [of h r] Let_def http_answer_def sent_def [symmetric]
    no_config_error_def [symmetric] refreshable_def
  by (auto simp: fun_eq_iff split: list.split outcome.split)

lemma settle_user_http [simp]:
  "settle (user_http h r) s ts = (Net [sent s r] (http_answer h (sent s r)), s, ts)"
  by (simp add: user_http_eq)

lemma settle_http_answer [simp]:
  fixes s :: "'a user_app_scheme"
  shows "http_answer h r [Resolved d] = Ret d"
  "\<not> refreshable s r resp \<Longrightarrow> settle (http_answer h r [Rejected resp True]) s ts =
     (Throw (axios_error resp), s, ts)"
  "refreshable s r resp \<Longrightarrow> settle (http_answer h r [Rejected resp True]) s ts =
     (Net [refresh_request h (ua_refreshToken s)] (refresh_answer h r), s, ts)"
proof -
  have "(\<lambda>os. bind (catch (bind (case os of
       [Resolved d] \<Rightarrow> Ret d
     | [Rejected resp c] \<Rightarrow> Throw (axios_error resp)
     | _ \<Rightarrow> Ret JUndef) (\<lambda>v. Tick (dot v ''access_token'' (\<lambda>access. dot v ''refresh_token'' (\<lambda>refresh.
          modify (setTokens access refresh) (Ret access))))))
       (\<lambda>_. session_expired h))
     (\<lambda>access. user_http h (with_header ''Authorization'' (bearer access) (r\<lparr>rq_retry := True\<rparr>)))) =
     (refresh_answer h r :: outcome list \<Rightarrow> 'a user_app_scheme prog)"
    by (rule ext) (simp add: refresh_answer_def refresh_store_def split: list.split outcome.split)
  then show "refreshable s r resp \<Longrightarrow> settle (http_answer h r [Rejected resp True]) s ts =
     (Net [refresh_request h (ua_refreshToken s)] (refresh_answer h r), s, ts)"
    by (simp add: http_answer_def refresh_tokens_def raw_send_def await_def)
qed (simp_all add: http_answer_def)

lemma settle_refresh_answer [simp]:
  "refresh_answer h r [Resolved d] = Tick (refresh_store h r d)"
  "settle (refresh_answer h r [Rejected resp c]) s ts =
     (Throw expired_error, clearTokens s, ts @ [user_redirectToLogin h])"
  by (simp_all add: refresh_answer_def session_expired_def)

lemma settle_refresh_store [simp]:
  "settle (refresh_store h r (token_answer a rt)) s ts =
     settle (user_http h (with_header ''Authorization'' (bearer a) (r\<lparr>rq_retry := True\<rparr>))) (setTokens a rt s) ts"
  by (simp only: refresh_store_def token_answer_get combinators_modify bind.simps catch.simps settle_modify)

lemma sends_le_refresh_tokens: "sends_le (refresh_tokens h) 1"
  by (simp add: refresh_tokens_def sends_le_await_send sends_le_dot)

lemma sends_le_session_expired [simp]: "sends_le (session_expired h) 0"
  by (simp add: session_expired_def)

lemma sends_le_user_http:
  "sends_le (user_http h r :: 'a user_app_scheme prog)
     (if rq_retry r \<or> js_includes (rq_url r) ''/oauth2/'' then 1 else 3)"
proof -
  have one: "sends_le (user_http h r :: 'a user_app_scheme prog) 1"
    if "rq_retry r \<or> js_includes (rq_url r) ''/oauth2/''" for r
    using that by (subst user_http.simps) (auto simp: Let_def split: list.split outcome.split)
  have ref: "sends_le (catch (refresh_tokens h) (\<lambda>_. session_expired h) :: 'a user_app_scheme prog) 1"
    using sends_le_catch [OF sends_le_refresh_tokens, of "\<lambda>_. session_expired h" 0] by simp
  have "sends_le (bind (catch (refresh_tokens h) (\<lambda>_. session_expired h))
      (\<lambda>access. user_http h (f access)) :: 'a user_app_scheme prog) 2" if "\<And>a. rq_retry (f a)" for f
    using sends_le_bind [OF ref, where n = 1] one that by (simp add: numeral_2_eq_2)
  then have "sends_le (user_http h r :: 'a user_app_scheme prog) 3"
    by (subst user_http.simps) (auto simp: Let_def split: list.split outcome.split)
  with one show ?thesis by simp
qed

subsection \<open>Properties\<close>

text \<open>What a call makes of the last outcome it gets, when it does not refresh.\<close>

definition settled :: "outcome \<Rightarrow> exit" where
  "settled out = (case out of
       Resolved d \<Rightarrow> Done d
     | Rejected resp c \<Rightarrow> Raised (if c then axios_error resp else no_config_error))"

lemma run_user_http_final:
  assumes "\<And>resp. \<not> refreshable s r resp"
  shows "run (user_http h r) s ts ([out] # as) = emit [sent s r] (halt (settled out) s ts as)"
proof (cases out)
  case (Rejected resp c)
  with assms show ?thesis by (cases c) (simp_all add: run_user_http settled_def)
qed (simp add: run_user_http settled_def)

text \<open>
  C3: silent refresh. When a request to a route outside \<^verbatim>\<open>/oauth2/\<close> that was not
  retried yet is answered 401 while a refresh token is held, and the token endpoint answers
  with tokens, exactly three requests go out: the original, one exchange of the refresh token
  held, and the original again, marked as a retry and carrying the new access token. The
  call ends as the retry ends, both new tokens are stored, and nothing else changes.
\<close>

theorem user_http_refresh_retry:
  assumes "js_opt resp ''status'' = JNum 401" "truthy (ua_refreshToken s)" "\<not> rq_retry r"
    "\<not> js_includes (rq_url r) ''/oauth2/''"
  shows "\<exists>r'. run (user_http h r) s ts ([Rejected resp True] # [Resolved (token_answer a rt)] # [out] # as) =
      emit [request_interceptor s (http_defaults r), refresh_request h (ua_refreshToken s), r']
        (halt (settled out) (setTokens a rt s) ts as) \<and>
    header r' ''Authorization'' = Some (''Bearer '' @ js_to_string a) \<and> rq_retry r' \<and>
    rq_url r' = rq_url r \<and> rq_method r' = rq_method r \<and> rq_body r' = rq_body r"
proof (intro exI conjI)
  have "refreshable s r resp" using assms by (simp add: refreshable_def)
  then show "run (user_http h r) s ts ([Rejected resp True] # [Resolved (token_answer a rt)] # [out] # as) =
      emit [request_interceptor s (http_defaults r), refresh_request h (ua_refreshToken s), retry_of s r a]
        (halt (settled out) (setTokens a rt s) ts as)"
    by (simp add: run_user_http run_user_http_final prog_simps sent_def [symmetric])
       (simp add: token_answer_def run_user_http_final)
qed (simp_all add: bearer_def)

definition sample_state :: user_app where
  "sample_state = (user_boot [(''refresh_token'', ''r1'')] [] at_dashboard)\<lparr>ua_accessToken := JStr ''a1''\<rparr>"

lemma sample_state_fields [simp]:
  "ua_accessToken sample_state = JStr ''a1''" "ua_refreshToken sample_state = JStr ''r1''"
  "localStorage sample_state = [(''refresh_token'', ''r1'')]" "ua_tokenPresent sample_state"
  "currentRoute sample_state = at_dashboard" "sessionStorage sample_state = []"
  "hardRedirect sample_state = []" "\<not> ua_sessionRestored sample_state"
  by (simp_all add: sample_state_def user_boot_def stored_def st_get_def)

theorem user_http_refresh_retry_witness:
  "\<exists>r'. run (user_http sample_host (req_get ''/api/me'')) sample_state []
        [[Rejected (http_response 401 JNull) True], [Resolved (token_answer (JStr ''a2'') (JStr ''r2''))],
         [Resolved (JStr ''me'')]] =
      emit [request_interceptor sample_state (http_defaults (req_get ''/api/me'')),
            refresh_request sample_host (JStr ''r1''), r']
        (halt (Done (JStr ''me'')) (setTokens (JStr ''a2'') (JStr ''r2'') sample_state) [] [])"
  using user_http_refresh_retry [of "http_response 401 JNull" sample_state "req_get ''/api/me''"
      sample_host "[]" "JStr ''a2''" "JStr ''r2''" "Resolved (JStr ''me'')" "[]"]
  by (auto simp: http_response_def settled_def)

text \<open>The token endpoint gave no tokens: it rejected, or answered with nothing.\<close>

fun refused :: "outcome \<Rightarrow> bool" where
  "refused (Rejected resp c) = True"
| "refused (Resolved d) = nullish d"



text \<open>
  C32: no request is retried for ever. Whatever the answers, one call sends at most three
  requests, and a single one when it is a retry or goes to an \<^verbatim>\<open>/oauth2/\<close> route,
  whose 401 therefore never starts a refresh.
\<close>

theorem user_http_bounded:
  "length (r_sent (run (user_http h r) s ts as)) \<le>
     (if rq_retry r \<or> js_includes (rq_url r) ''/oauth2/'' then 1 else 3)"
proof -
  have "sends_le (user_http h r :: 'a user_app_scheme prog)
      (if rq_retry r \<or> js_includes (rq_url r) ''/oauth2/'' then 1 else 3)"
    by (rule sends_le_user_http)
  then show ?thesis by (rule run_sends_le)
qed

text \<open>
  C33: every other failure passes through. Without a refresh token, on a retry, on an
  \<^verbatim>\<open>/oauth2/\<close> route or with a status other than 401, the error of the network layer
  is rejected as it is, after that one request and with the state untouched; an error without
  \<^verbatim>\<open>config\<close> becomes a \<^verbatim>\<open>TypeError\<close> of the interceptor itself.
\<close>

theorem user_http_passthrough:
  assumes "js_opt resp ''status'' \<noteq> JNum 401 \<or> \<not> truthy (ua_refreshToken s) \<or> rq_retry r \<or>
    js_includes (rq_url r) ''/oauth2/''"
  shows "run (user_http h r) s ts ([Rejected resp c] # as) =
    emit [request_interceptor s (http_defaults r)]
      (halt (Raised (if c then axios_error resp
         else js_error ''TypeError'' ''Cannot read properties of undefined (reading 'url')'')) s ts as)"
proof -
  have "\<not> refreshable s r resp" using assms by (auto simp: refreshable_def)
  then show ?thesis
    by (cases c) (simp_all add: run_user_http sent_def [symmetric] no_config_error_def [symmetric])
qed

theorem user_http_passthrough_witness:
  "r_exit (run (user_http sample_host (req_post ''/oauth2/login'' NoBody)) sample_state []
     [[Rejected (http_response 401 JNull) True]]) = Raised (axios_error (http_response 401 JNull))"
proof -
  have "js_includes ''/oauth2/login'' ''/oauth2/''" by simp
  then show ?thesis
    using user_http_passthrough [of "http_response 401 JNull" sample_state "req_post ''/oauth2/login'' NoBody"
        sample_host "[]" True "[]"] by simp
qed

subsection \<open>Two requests at once\<close>

text \<open>
  C27: the refresh is not shared. Two requests in flight together that are both answered 401
  both exchange the same refresh token. When the server rotates it, so that the second
  exchange is refused, the second call clears the tokens the first one has just stored: the
  first call succeeds and the session is gone.
\<close>

theorem concurrent_refresh_logs_out:
  assumes "truthy (ua_refreshToken s)" "\<not> rq_retry r1" "\<not> rq_retry r2"
    "\<not> js_includes (rq_url r1) ''/oauth2/''" "\<not> js_includes (rq_url r2) ''/oauth2/''"
    and "js_opt unauthorized ''status'' = JNum 401"
  shows "\<exists>k1 k2 m. exec [(0, [Rejected unauthorized True]), (1, [Rejected unauthorized True])]
        (launch (user_http h r2) (launch (user_http h r1) \<lparr>mc_state = s, mc_tasks = []\<rparr>)) =
      Some \<lparr>mc_state = s, mc_tasks =
        [Net [refresh_request h (ua_refreshToken s)] k1, Net [refresh_request h (ua_refreshToken s)] k2]\<rparr> \<and>
    exec [(0, [Resolved (token_answer a rt)]), (0, []), (0, [Resolved d]), (1, [Rejected rotated True])]
      \<lparr>mc_state = s, mc_tasks =
        [Net [refresh_request h (ua_refreshToken s)] k1, Net [refresh_request h (ua_refreshToken s)] k2]\<rparr> = Some m \<and>
    mc_tasks m ! 0 = Ret d \<and> mc_tasks m ! 1 = Throw expired_error \<and>
    mc_state m = clearTokens (setTokens a rt s)"
proof (intro exI conjI)
  have ref: "refreshable s r1 unauthorized" "refreshable s r2 unauthorized"
    using assms by (simp_all add: refreshable_def)
  show "exec [(0, [Rejected unauthorized True]), (1, [Rejected unauthorized True])]
        (launch (user_http h r2) (launch (user_http h r1) \<lparr>mc_state = s, mc_tasks = []\<rparr>)) =
      Some \<lparr>mc_state = s, mc_tasks =
        [Net [refresh_request h (ua_refreshToken s)] (refresh_answer h (sent s r1)),
         Net [refresh_request h (ua_refreshToken s)] (refresh_answer h (sent s r2))]\<rparr>"
    using ref by (simp add: launch_def resume_def)
qed ((simp add: resume_def)+)

theorem concurrent_refresh_logs_out_witness:
  "\<exists>m. exec [(0, [Rejected (http_response 401 JNull) True]), (1, [Rejected (http_response 401 JNull) True]),
        (0, [Resolved (token_answer (JStr ''a2'') (JStr ''r2''))]), (0, []), (0, [Resolved (JStr ''me'')]),
        (1, [Rejected (http_response 400 JNull) True])]
      (launch (user_http sample_host (req_get ''/api/me/mfa''))
        (launch (user_http sample_host (req_get ''/api/me'')) \<lparr>mc_state = sample_state, mc_tasks = []\<rparr>)) = Some m \<and>
    mc_tasks m ! 0 = Ret (JStr ''me'') \<and> ua_accessToken (mc_state m) = JNull"
proof -
  have u: "js_opt (http_response 401 JNull) ''status'' = JNum 401" by (simp add: http_response_def)
  from concurrent_refresh_logs_out [OF _ _ _ _ _ u, of sample_state "req_get ''/api/me''" "req_get ''/api/me/mfa''"
      sample_host "JStr ''a2''" "JStr ''r2''" "JStr ''me''" "http_response 400 JNull"]
  obtain m1 m where e1:
    "exec [(0, [Rejected (http_response 401 JNull) True]), (1, [Rejected (http_response 401 JNull) True])]
      (launch (user_http sample_host (req_get ''/api/me/mfa''))
        (launch (user_http sample_host (req_get ''/api/me'')) \<lparr>mc_state = sample_state, mc_tasks = []\<rparr>)) = Some m1"
    and e2: "exec [(0, [Resolved (token_answer (JStr ''a2'') (JStr ''r2''))]), (0, []), (0, [Resolved (JStr ''me'')]),
        (1, [Rejected (http_response 400 JNull) True])] m1 = Some m"
    and e3: "mc_tasks m ! 0 = Ret (JStr ''me'')" and e4: "ua_accessToken (mc_state m) = JNull"
    by auto
  show ?thesis using exec_then [OF e1 e2] e3 e4 by (intro exI [of _ m] conjI)
qed

end
