(* ===== verification/User_Services.thy ===== *)
theory User_Services
  imports User_Http
begin

text \<open>
  \<^verbatim>\<open>services/authService.ts\<close> and \<^verbatim>\<open>services/userService.ts\<close>: every call the user
  application makes to the server, with the PKCE verifier that the login, the MFA step and
  the code exchange hand on through \<^verbatim>\<open>sessionStorage\<close>.
\<close>

subsection \<open>authService\<close>

definition REDIRECT_URI :: "host \<Rightarrow> jsval" where
  "REDIRECT_URI h = js_or (env_vars h ''VITE_REDIRECT_URI'') (JStr (origin h @ ''/callback''))"

definition PKCE_VERIFIER_KEY :: string where
  "PKCE_VERIFIER_KEY = ''pkce_code_verifier''"

definition login_request :: "host \<Rightarrow> jsval \<Rightarrow> jsval \<Rightarrow> jsval \<Rightarrow> pkce_pair \<Rightarrow> request" where
  "login_request h username password scope pkce = req_post ''/oauth2/login'' (Form
     [(''username'', username), (''password'', password), (''client_id'', user_client_id h),
      (''redirect_uri'', REDIRECT_URI h), (''scope'', scope), (''state'', JStr (randomUUID h)),
      (''code_challenge'', JStr (challenge pkce)),
      (''code_challenge_method'', JStr (pkce_method pkce)), (''json'', JStr ''true'')])"

definition code_request :: "host \<Rightarrow> jsval \<Rightarrow> string \<Rightarrow> request" where
  "code_request h code v = req_post ''/oauth2/token'' (Form
     [(''grant_type'', JStr ''authorization_code''), (''code'', code),
      (''redirect_uri'', REDIRECT_URI h), (''client_id'', user_client_id h),
      (''code_verifier'', JStr v)])"

text \<open>Storing the tokens of an answer, as every exchange does.\<close>

definition store_tokens :: "jsval \<Rightarrow> 'a user_app_scheme prog \<Rightarrow> 'a user_app_scheme prog" where
  "store_tokens data p = dot data ''access_token'' (\<lambda>access.
     dot data ''refresh_token'' (\<lambda>refresh. modify (setTokens access refresh) p))"

definition put_verifier :: "string \<Rightarrow> 'a spa_scheme \<Rightarrow> 'a spa_scheme" where
  "put_verifier v s = s\<lparr>sessionStorage := st_set (sessionStorage s) PKCE_VERIFIER_KEY v\<rparr>"

definition success_result :: jsval where
  "success_result = JObj [(''success'', JBool True)]"

definition authService_login :: "host \<Rightarrow> jsval \<Rightarrow> jsval \<Rightarrow> jsval \<Rightarrow> 'a user_app_scheme prog" where
  "authService_login h username password scope =
     (let pkce = generatePkcePair h in
      Tick (await (user_http h (login_request h username password scope pkce)) (\<lambda>data.
        dot data ''mfa_required'' (\<lambda>mfa.
        if truthy mfa then
          modify (put_verifier (verifier pkce))
            (dot data ''mfa_token'' (\<lambda>t. Ret (JObj [(''mfaRequired'', JBool True), (''mfaToken'', t)])))
        else dot data ''code'' (\<lambda>code.
          if \<not> truthy code then Throw (js_error ''Error'' ''No authorization code received'')
          else await (user_http h (code_request h code (verifier pkce))) (\<lambda>tokens.
            store_tokens tokens (Ret success_result)))))))"

text \<open>
  \<^verbatim>\<open>sessionStorage.getItem(PKCE_VERIFIER_KEY) || ''\<close>, removed when it is there, then
  put into the form when it is not empty.
\<close>

definition stashed_verifier :: "'a spa_scheme \<Rightarrow> string" where
  "stashed_verifier s = (case st_get (sessionStorage s) PKCE_VERIFIER_KEY of Some v \<Rightarrow> v | None \<Rightarrow> [])"

definition take_verifier :: "(string \<Rightarrow> 'a spa_scheme prog) \<Rightarrow> 'a spa_scheme prog" where
  "take_verifier k = Get (\<lambda>s.
     let codeVerifier = stashed_verifier s in
     modify (\<lambda>s. if codeVerifier \<noteq> [] then s\<lparr>sessionStorage := st_remove (sessionStorage s) PKCE_VERIFIER_KEY\<rparr> else s)
       (k codeVerifier))"

definition with_verifier :: "string \<Rightarrow> (string \<times> jsval) list \<Rightarrow> body" where
  "with_verifier v fs = Form (if v \<noteq> [] then fs @ [(''code_verifier'', JStr v)] else fs)"

definition authService_verifyMfa :: "host \<Rightarrow> jsval \<Rightarrow> jsval \<Rightarrow> 'a user_app_scheme prog" where
  "authService_verifyMfa h mfaToken code =
     take_verifier (\<lambda>codeVerifier.
       await (user_http h (req_post ''/oauth2/mfa/verify'' (with_verifier codeVerifier
           [(''mfa_token'', mfaToken), (''code'', code), (''client_id'', user_client_id h),
            (''redirect_uri'', REDIRECT_URI h)]))) (\<lambda>data.
         dot data ''access_token'' (\<lambda>access.
           if truthy access then store_tokens data (Ret success_result)
           else Ret (JObj [(''error'', JStr ''MFA verification failed'')]))))"

definition authService_exchangeCode :: "host \<Rightarrow> jsval \<Rightarrow> 'a user_app_scheme prog" where
  "authService_exchangeCode h code =
     take_verifier (\<lambda>codeVerifier.
       await (user_http h (req_post ''/oauth2/token'' (with_verifier codeVerifier
           [(''grant_type'', JStr ''authorization_code''), (''code'', code),
            (''redirect_uri'', REDIRECT_URI h), (''client_id'', user_client_id h)]))) (\<lambda>data.
         store_tokens data (Ret JUndef)))"

definition authService_register :: "host \<Rightarrow> jsval \<Rightarrow> jsval \<Rightarrow> jsval \<Rightarrow> 'a user_app_scheme prog" where
  "authService_register h username password email =
     await (user_http h (req_post ''/api/register''
       (Form [(''username'', username), (''password'', password), (''email'', email)]))) (\<lambda>_. Ret JUndef)"

definition authService_requestPasswordReset :: "host \<Rightarrow> jsval \<Rightarrow> 'a user_app_scheme prog" where
  "authService_requestPasswordReset h email =
     await (user_http h (json_content (req_post ''/api/password-reset/request''
       (Json (JObj [(''email'', email)]))))) (\<lambda>_. Ret JUndef)"

definition authService_confirmPasswordReset :: "host \<Rightarrow> jsval \<Rightarrow> jsval \<Rightarrow> 'a user_app_scheme prog" where
  "authService_confirmPasswordReset h token newPassword =
     await (user_http h (json_content (req_post ''/api/password-reset/confirm''
       (Json (JObj [(''token'', token), (''new_password'', newPassword)]))))) (\<lambda>_. Ret JUndef)"

definition revoke_request :: "jsval \<Rightarrow> jsval \<Rightarrow> request" where
  "revoke_request client_id token =
     (form_content (req_post ''/oauth2/revoke'' (Form [(''token'', token), (''client_id'', client_id)])))
       \<lparr>rq_keepalive := True\<rparr>"

definition revokes :: "host \<Rightarrow> 'a user_app_scheme \<Rightarrow> request list" where
  "revokes h s =
     (let access = ua_accessToken s; refresh = stored (localStorage s) ''refresh_token'' in
      (if truthy access then [revoke_request (user_client_id h) access] else []) @
      (if truthy refresh then [revoke_request (user_client_id h) refresh] else []))"

definition end_session_request :: "host \<Rightarrow> request" where
  "end_session_request h = req_post ''/oauth2/end_session'' (Form
     [(''client_id'', user_client_id h), (''post_logout_redirect_uri'', REDIRECT_URI h)])"

definition authService_logout :: "host \<Rightarrow> 'a user_app_scheme prog" where
  "authService_logout h =
     finally_do
       (catch
         (Get (\<lambda>s. await (fetch_all (revokes h s)) (\<lambda>_.
            await (user_http h (end_session_request h)) (\<lambda>_. Ret JUndef))))
         (\<lambda>_. Ret JUndef))
       (modify clearTokens (Ret JUndef))"

subsection \<open>userService\<close>

definition getUserInfo :: "host \<Rightarrow> 'a user_app_scheme prog" where
  "getUserInfo h = await (user_http h (req_get ''/oauth2/userinfo'')) Ret"

definition getProfile :: "host \<Rightarrow> 'a user_app_scheme prog" where
  "getProfile h = await (user_http h (req_get ''/api/me'')) Ret"

definition changePassword :: "host \<Rightarrow> jsval \<Rightarrow> jsval \<Rightarrow> 'a user_app_scheme prog" where
  "changePassword h oldPassword newPassword =
     await (user_http h (json_content (req_put ''/api/me/password''
       (Json (JObj [(''old_password'', oldPassword), (''new_password'', newPassword)]))))) (\<lambda>_. Ret JUndef)"

definition setupMfa :: "host \<Rightarrow> 'a user_app_scheme prog" where
  "setupMfa h = await (user_http h (req_post ''/api/me/mfa/setup'' NoBody)) Ret"

definition verifyMfaSetup :: "host \<Rightarrow> jsval \<Rightarrow> 'a user_app_scheme prog" where
  "verifyMfaSetup h code =
     await (user_http h (req_post ''/api/me/mfa/verify'' (Form [(''code'', code)]))) (\<lambda>_. Ret JUndef)"

definition disableMfa :: "host \<Rightarrow> jsval \<Rightarrow> 'a user_app_scheme prog" where
  "disableMfa h password =
     await (user_http h (req_post ''/api/me/mfa/disable'' (Form [(''password'', password)]))) (\<lambda>_. Ret JUndef)"

definition getAuthorizedApps :: "host \<Rightarrow> 'a user_app_scheme prog" where
  "getAuthorizedApps h = await (user_http h (req_get ''/api/me/authorized-apps'')) (\<lambda>data.
     dot data ''apps'' (\<lambda>apps. Ret (js_or (js_or apps data) (JArr []))))"

definition revokeApp :: "host \<Rightarrow> jsval \<Rightarrow> 'a user_app_scheme prog" where
  "revokeApp h clientId =
     await (user_http h (req_delete (''/api/me/authorized-apps/'' @ js_to_string clientId))) (\<lambda>_. Ret JUndef)"

definition resendVerificationEmail :: "host \<Rightarrow> 'a user_app_scheme prog" where
  "resendVerificationEmail h =
     await (user_http h (req_post ''/api/verify-email/resend'' NoBody)) (\<lambda>_. Ret JUndef)"

definition verifyEmail :: "host \<Rightarrow> jsval \<Rightarrow> 'a user_app_scheme prog" where
  "verifyEmail h token =
     await (user_http h (req_get (''/api/verify-email?token='' @ encodeURIComponent (js_to_string token))))
       (\<lambda>data. Ret (js_or (js_opt data ''message'') (JStr ''Email verified'')))"

definition getSocialLinks :: "host \<Rightarrow> 'a user_app_scheme prog" where
  "getSocialLinks h = await (user_http h (req_get ''/api/me/social/links''))
     (\<lambda>data. Ret (js_or (js_opt data ''social_links'') (JArr [])))"

definition linkSocialAccount :: "host \<Rightarrow> jsval \<Rightarrow> jsval \<Rightarrow> 'a user_app_scheme prog" where
  "linkSocialAccount h provider code =
     await (user_http h (json_content (req_post
       (''/api/me/social/links/'' @ encodeURIComponent (js_to_string provider))
       (Json (JObj [(''code'', code)]))))) (\<lambda>_. Ret JUndef)"

definition unlinkSocialAccount :: "host \<Rightarrow> jsval \<Rightarrow> 'a user_app_scheme prog" where
  "unlinkSocialAccount h provider =
     await (user_http h (req_delete (''/api/me/social/links/'' @ encodeURIComponent (js_to_string provider))))
       (\<lambda>_. Ret JUndef)"

subsection \<open>Lemmas\<close>

lemma oauth_urls [simp]:
  "js_includes ''/oauth2/login'' ''/oauth2/''" "js_includes ''/oauth2/token'' ''/oauth2/''"
  "js_includes ''/oauth2/mfa/verify'' ''/oauth2/''" "js_includes ''/oauth2/end_session'' ''/oauth2/''"
  "js_includes ''/oauth2/userinfo'' ''/oauth2/''"
  by simp_all

text \<open>A call to an \<^verbatim>\<open>/oauth2/\<close> route is one request and changes no state.\<close>

lemma run_oauth [prog_simps]:
  assumes "js_includes (rq_url r) ''/oauth2/''"
  shows "run (user_http h r) s ts ([out] # as) = emit [sent s r] (halt (settled out) s ts as)"
  using assms by (intro run_user_http_final) (simp add: refreshable_def)

lemma settled_simps [simp]:
  "settled (Resolved d) = Done d"
  "settled (Rejected resp c) = Raised (if c then axios_error resp else no_config_error)"
  by (simp_all add: settled_def)

lemma url_simps [simp]:
  "rq_url (login_request h u p sc pk) = ''/oauth2/login''" "rq_url (code_request h c v) = ''/oauth2/token''"
  "rq_url (end_session_request h) = ''/oauth2/end_session''"
  by (simp_all add: login_request_def code_request_def end_session_request_def)

lemma put_verifier_fields [simp]:
  "sessionStorage (put_verifier v s) = st_set (sessionStorage s) PKCE_VERIFIER_KEY v"
  "localStorage (put_verifier v s) = localStorage s"
  "stashed_verifier (put_verifier v s) = v"
  by (simp_all add: put_verifier_def stashed_verifier_def)

lemma run_store_tokens [prog_simps]:
  "run (store_tokens d p) s ts as =
     (if nullish d then halt (Raised (null_read ''access_token'')) s ts as
      else run p (setTokens (js_get d ''access_token'') (js_get d ''refresh_token'') s) ts as)"
  by (simp add: store_tokens_def prog_simps)

lemma verifier_length: "host_ok h \<Longrightarrow> length (generateCodeVerifier h) = 64"
  by (simp add: generateCodeVerifier_def host_ok_def base64UrlEncode_b64url length_b64url)

text \<open>What the MFA verification does, up to what it makes of the answer.\<close>

definition mfa_request :: "host \<Rightarrow> jsval \<Rightarrow> jsval \<Rightarrow> string \<Rightarrow> request" where
  "mfa_request h mfaToken code v = req_post ''/oauth2/mfa/verify'' (with_verifier v
     [(''mfa_token'', mfaToken), (''code'', code), (''client_id'', user_client_id h),
      (''redirect_uri'', REDIRECT_URI h)])"

definition drop_verifier :: "'a spa_scheme \<Rightarrow> 'a spa_scheme" where
  "drop_verifier s = (if stashed_verifier s \<noteq> []
     then s\<lparr>sessionStorage := st_remove (sessionStorage s) PKCE_VERIFIER_KEY\<rparr> else s)"

lemma run_take_verifier [prog_simps]:
  "run (take_verifier k) s ts as = run (k (stashed_verifier s)) (drop_verifier s) ts as"
  by (simp add: take_verifier_def drop_verifier_def Let_def)

lemma run_verifyMfa:
  fixes s :: "'a user_app_scheme"
  shows "r_sent (run (authService_verifyMfa h t c) s ts ([out] # as)) =
      [sent (drop_verifier s) (mfa_request h t c (stashed_verifier s))] \<and>
    sessionStorage (r_state (run (authService_verifyMfa h t c) s ts ([out] # as))) =
      (if stashed_verifier s \<noteq> [] then st_remove (sessionStorage s) PKCE_VERIFIER_KEY else sessionStorage s)"
proof (cases out)
  case (Resolved d)
  then show ?thesis
    by (cases "nullish d") (auto simp: authService_verifyMfa_def mfa_request_def prog_simps drop_verifier_def)
qed (auto simp: authService_verifyMfa_def mfa_request_def prog_simps drop_verifier_def)

lemma form_field_sent [simp]: "form_field (sent s r) k = form_field r k"
  by (simp add: form_field.simps)

subsection \<open>Properties\<close>



text \<open>
  A login that gets no tokens stores none. If MFA is required the verifier is put into
  \<^verbatim>\<open>sessionStorage\<close> and the MFA token returned; without a code the call throws; when the
  request itself fails, its error is passed on. In each case one request was sent and the
  tokens are as before.
\<close>

lemma login_without_tokens:
  fixes s :: "'a user_app_scheme" and h username password scope
  defines "r1 \<equiv> request_interceptor s (http_defaults
      (login_request h username password scope (generatePkcePair h)))"
  shows "run (authService_login h username password scope) s ts
      ([Resolved (JObj [(''mfa_required'', JBool True), (''mfa_token'', t)])] # as) =
    emit [r1] (halt (Done (JObj [(''mfaRequired'', JBool True), (''mfaToken'', t)]))
      (s\<lparr>sessionStorage := st_set (sessionStorage s) ''pkce_code_verifier'' (generateCodeVerifier h)\<rparr>) ts as) \<and>
    run (authService_login h username password scope) s ts ([Resolved (JObj [])] # as) =
      emit [r1] (halt (Raised (js_error ''Error'' ''No authorization code received'')) s ts as) \<and>
    run (authService_login h username password scope) s ts ([Rejected resp True] # as) =
      emit [r1] (halt (Raised (axios_error resp)) s ts as)"
  unfolding r1_def sent_def [symmetric]
  by (simp add: authService_login_def Let_def prog_simps put_verifier_def PKCE_VERIFIER_KEY_def
      generatePkcePair_def)

text \<open>
  C34: the stashed verifier is used once. After a login that asked for MFA, the verification
  request carries the verifier of that login, and whatever the answers, the verifier is gone
  from \<^verbatim>\<open>sessionStorage\<close>; a second verification in that state sends none.
\<close>

theorem mfa_verifier_one_shot:
  fixes s :: "'a user_app_scheme" and h username password scope t as ts
  assumes "host_ok h"
  defines "s1 \<equiv> r_state (run (authService_login h username password scope) s ts
      ([Resolved (JObj [(''mfa_required'', JBool True), (''mfa_token'', t)])] # as))"
  shows "\<exists>r r' s2. r_sent (run (authService_verifyMfa h t code) s1 ts' [[out]]) = [r] \<and>
    r_state (run (authService_verifyMfa h t code) s1 ts' [[out]]) = s2 \<and>
    form_field r ''mfa_token'' = Some t \<and>
    form_field r ''code_verifier'' = Some (JStr (generateCodeVerifier h)) \<and>
    st_get (sessionStorage s2) ''pkce_code_verifier'' = None \<and>
    r_sent (run (authService_verifyMfa h t code) s2 ts' [[out']]) = [r'] \<and>
    form_field r' ''code_verifier'' = None"
proof -
  have v: "generateCodeVerifier h \<noteq> []"
    using verifier_length [OF assms(1)] by auto
  have s1: "s1 = put_verifier (generateCodeVerifier h) s"
    by (simp add: s1_def authService_login_def Let_def prog_simps generatePkcePair_def)
  then have st: "stashed_verifier s1 = generateCodeVerifier h" by simp
  define s2 where "s2 = r_state (run (authService_verifyMfa h t code) s1 ts' [[out]])"
  have "sessionStorage s2 = st_remove (sessionStorage s1) PKCE_VERIFIER_KEY"
    using run_verifyMfa [of h t code s1 ts' out "[]"] v st by (auto simp: s2_def)
  then have gone: "st_get (sessionStorage s2) ''pkce_code_verifier'' = None" "stashed_verifier s2 = []"
    by (simp_all add: stashed_verifier_def PKCE_VERIFIER_KEY_def)
  have "\<exists>r. r_sent (run (authService_verifyMfa h t code) s1 ts' [[out]]) = [r] \<and>
    form_field r ''mfa_token'' = Some t \<and> form_field r ''code_verifier'' = Some (JStr (generateCodeVerifier h))"
    using run_verifyMfa [of h t code s1 ts' out "[]"] v st by (auto simp: with_verifier_def mfa_request_def)
  moreover have "\<exists>r'. r_sent (run (authService_verifyMfa h t code) s2 ts' [[out']]) = [r'] \<and>
    form_field r' ''code_verifier'' = None"
    using run_verifyMfa [of h t code s2 ts' out' "[]"] gone(2) by (auto simp: with_verifier_def mfa_request_def)
  ultimately show ?thesis using gone(1) s2_def by blast
qed

theorem mfa_verifier_one_shot_witness:
  "\<exists>r. r_sent (run (authService_verifyMfa sample_host (JStr ''t'') (JStr ''123456''))
      (r_state (run (authService_login sample_host (JStr ''ada'') (JStr ''pw'') (JStr ''openid'')) sample_state []
        [[Resolved (JObj [(''mfa_required'', JBool True), (''mfa_token'', JStr ''t'')])]])) []
      [[Resolved (token_answer (JStr ''a2'') (JStr ''r2''))]]) = [r] \<and>
    form_field r ''code_verifier'' = Some (JStr (generateCodeVerifier sample_host))"
  using mfa_verifier_one_shot [OF sample_host_ok, where username = "JStr ''ada''" and password = "JStr ''pw''"
      and scope = "JStr ''openid''" and s = sample_state and t = "JStr ''t''" and as = "[]" and ts = "[]"
      and code = "JStr ''123456''" and ts' = "[]" and out = "Resolved (token_answer (JStr ''a2'') (JStr ''r2''))"]
  by metis

text \<open>
  The exchange of the redirect flow takes whatever verifier is stashed. Nothing in the
  application stashes one before an authorize redirect; the only writer is a login that
  stopped for MFA. After such a login the exchange of any code sends that login's verifier.
\<close>

lemma exchange_uses_mfa_verifier:
  fixes s :: "'a user_app_scheme" and h username password scope t as ts
  assumes "host_ok h"
  defines "s1 \<equiv> r_state (run (authService_login h username password scope) s ts
      ([Resolved (JObj [(''mfa_required'', JBool True), (''mfa_token'', t)])] # as))"
  shows "\<exists>r. run (authService_exchangeCode h code) s1 ts' [[Resolved (token_answer a rt)]] =
      emit [r] (halt (Done JUndef) (setTokens a rt (drop_verifier s1)) ts' []) \<and>
    form_field r ''code'' = Some code \<and>
    form_field r ''code_verifier'' = Some (JStr (generateCodeVerifier h))"
proof (intro exI conjI)
  have v: "generateCodeVerifier h \<noteq> []"
    using verifier_length [OF assms(1)] by auto
  have "s1 = put_verifier (generateCodeVerifier h) s"
    by (simp add: s1_def authService_login_def Let_def prog_simps generatePkcePair_def)
  then have st: "stashed_verifier s1 = generateCodeVerifier h" by simp
  define r where "r = sent (drop_verifier s1) (req_post ''/oauth2/token'' (with_verifier (generateCodeVerifier h)
    [(''grant_type'', JStr ''authorization_code''), (''code'', code),
     (''redirect_uri'', REDIRECT_URI h), (''client_id'', user_client_id h)]))"
  show "run (authService_exchangeCode h code) s1 ts' [[Resolved (token_answer a rt)]] =
      emit [r] (halt (Done JUndef) (setTokens a rt (drop_verifier s1)) ts' [])"
    by (simp add: authService_exchangeCode_def prog_simps st r_def) (simp add: token_answer_def)
  show "form_field r ''code'' = Some code" "form_field r ''code_verifier'' = Some (JStr (generateCodeVerifier h))"
    using v by (simp_all add: r_def with_verifier_def)
qed

lemma exchange_uses_mfa_verifier_sample:
  "\<exists>r. r_sent (run (authService_exchangeCode sample_host (JStr ''other''))
      (r_state (run (authService_login sample_host (JStr ''ada'') (JStr ''pw'') (JStr ''openid'')) sample_state []
        [[Resolved (JObj [(''mfa_required'', JBool True), (''mfa_token'', JStr ''t'')])]])) []
      [[Resolved (token_answer (JStr ''a2'') (JStr ''r2''))]]) = [r] \<and>
    form_field r ''code_verifier'' = Some (JStr (generateCodeVerifier sample_host))"
  using exchange_uses_mfa_verifier [OF sample_host_ok, where username = "JStr ''ada''" and password = "JStr ''pw''"
      and scope = "JStr ''openid''" and s = sample_state and t = "JStr ''t''" and as = "[]" and ts = "[]"
      and code = "JStr ''other''" and ts' = "[]" and a = "JStr ''a2''" and rt = "JStr ''r2''"]
  by force

text \<open>
  C13: logout always ends logged out. Whatever the network answers, the call returns without
  an error and both tokens are cleared from memory and storage. Before that it asked for the
  revocation of every token held, with requests that survive the page; the end-session
  request follows only when no revocation failed to be sent.
\<close>

theorem logout_clears_and_revokes:
  fixes s :: "'a user_app_scheme"
  assumes "length os = length (revokes h s)"
  shows "run (authService_logout h) s ts ((if revokes h s = [] then [] else [os]) @ [out] # as) =
      (if list_ex failed os
       then emit (revokes h s) (halt (Done JUndef) (clearTokens s) ts ([out] # as))
       else emit (revokes h s @ [request_interceptor s (http_defaults (end_session_request h))])
         (halt (Done JUndef) (clearTokens s) ts as)) \<and>
    list_all rq_keepalive (revokes h s) \<and>
    (\<forall>tok \<in> {ua_accessToken s, stored (localStorage s) ''refresh_token''}. truthy tok \<longrightarrow>
       (\<exists>r \<in> set (revokes h s). rq_url r = ''/oauth2/revoke'' \<and> form_field r ''token'' = Some tok))"
proof (intro conjI)
  show "list_all rq_keepalive (revokes h s)"
    by (simp add: revokes_def Let_def revoke_request_def)
  show "\<forall>tok \<in> {ua_accessToken s, stored (localStorage s) ''refresh_token''}. truthy tok \<longrightarrow>
       (\<exists>r \<in> set (revokes h s). rq_url r = ''/oauth2/revoke'' \<and> form_field r ''token'' = Some tok)"
    by (auto simp: revokes_def Let_def revoke_request_def)
  show "run (authService_logout h) s ts ((if revokes h s = [] then [] else [os]) @ [out] # as) =
      (if list_ex failed os
       then emit (revokes h s) (halt (Done JUndef) (clearTokens s) ts ([out] # as))
       else emit (revokes h s @ [request_interceptor s (http_defaults (end_session_request h))])
         (halt (Done JUndef) (clearTokens s) ts as))"
    unfolding sent_def [symmetric]
    using assms by (cases out) (auto simp: authService_logout_def fetch_all_def prog_simps)
qed

theorem logout_clears_and_revokes_witness:
  "r_exit (run (authService_logout sample_host) sample_state []
      [[Resolved JNull, Rejected JUndef True], [Resolved JNull]]) = Done JUndef"
proof -
  have two: "length (revokes sample_host sample_state) = 2"
    by (simp add: revokes_def stored_def st_get_def Let_def)
  then have "revokes sample_host sample_state \<noteq> []" by auto
  with two show ?thesis
    using logout_clears_and_revokes [of "[Resolved JNull, Rejected JUndef True]" sample_host sample_state "[]"
        "Resolved JNull" "[]"] by auto
qed

end
