(* ===== verification/User_Store.thy ===== *)
theory User_Store
  imports User_Services
begin

text \<open>
  \<^verbatim>\<open>stores/auth.ts\<close> of the user application: the authentication store, its actions, and
  what happens when a page loads (\<^verbatim>\<open>main.ts\<close>, the first navigation and the store's own
  initialisation). The guard of \<^verbatim>\<open>router/index.ts\<close> gets its \<^verbatim>\<open>restoreSession\<close>
  here.
\<close>

subsection \<open>Actions\<close>

definition markAuthenticated :: "'a user_app_scheme \<Rightarrow> 'a user_app_scheme" where
  "markAuthenticated s = s\<lparr>ua_tokenPresent := True\<rparr>"

definition markUnauthenticated :: "'a user_app_scheme \<Rightarrow> 'a user_app_scheme" where
  "markUnauthenticated s = s\<lparr>ua_tokenPresent := False\<rparr>"

definition isAuthenticated :: "'a user_app_scheme \<Rightarrow> bool" where
  "isAuthenticated s = ua_tokenPresent s"

definition fetchUser :: "host \<Rightarrow> 'a user_app_scheme prog" where
  "fetchUser h = catch
     (await (getUserInfo h) (\<lambda>u. modify (ua_user_update (\<lambda>_. u)) (Ret JUndef)))
     (\<lambda>_. modify (ua_user_update (\<lambda>_. JNull)) (Ret JUndef))"

definition restoreSession :: "host \<Rightarrow> 'a user_app_scheme prog" where
  "restoreSession h = Get (\<lambda>s.
     if ua_sessionRestored s then Ret (JBool (truthy (ua_accessToken s)))
     else modify (ua_sessionRestored_update (\<lambda>_. True))
       (if truthy (ua_accessToken s) then Ret (JBool True)
        else if \<not> truthy (ua_refreshToken s) then modify markUnauthenticated (Ret (JBool False))
        else await (tryRestoreSession h) (\<lambda>restored.
          if truthy restored then
            modify markAuthenticated (await (fetchUser h) (\<lambda>_. Ret restored))
          else modify markUnauthenticated (Ret restored))))"

text \<open>The body that \<^verbatim>\<open>login\<close> and \<^verbatim>\<open>verifyMfa\<close> share, around the service call.\<close>

definition authenticate :: "host \<Rightarrow> 'a user_app_scheme prog \<Rightarrow> 'a user_app_scheme prog" where
  "authenticate h call =
     modify (\<lambda>s. s\<lparr>ua_error := JStr [], ua_loading := True\<rparr>)
       (finally_do
         (catch
           (await call (\<lambda>result.
              dot result ''success'' (\<lambda>ok.
                if truthy ok then modify markAuthenticated (await (fetchUser h) (\<lambda>_. Ret result))
                else Ret result)))
           (\<lambda>e. of_sum (user_normalizeError e JUndef) (\<lambda>n. dot n ''message'' (\<lambda>m.
              modify (ua_error_update (\<lambda>_. m)) (Ret (JObj [(''error'', m)]))))))
         (modify (ua_loading_update (\<lambda>_. False)) (Ret JUndef)))"

definition store_login :: "host \<Rightarrow> jsval \<Rightarrow> jsval \<Rightarrow> 'a user_app_scheme prog" where
  "store_login h username password =
     authenticate h (authService_login h username password (JStr ''openid profile email''))"

definition store_verifyMfa :: "host \<Rightarrow> jsval \<Rightarrow> jsval \<Rightarrow> 'a user_app_scheme prog" where
  "store_verifyMfa h mfaToken code = authenticate h (authService_verifyMfa h mfaToken code)"

definition store_exchangeCode :: "host \<Rightarrow> jsval \<Rightarrow> 'a user_app_scheme prog" where
  "store_exchangeCode h code =
     await (authService_exchangeCode h code) (\<lambda>_.
       modify markAuthenticated (await (fetchUser h) (\<lambda>_. Ret JUndef)))"

definition store_logout :: "host \<Rightarrow> 'a user_app_scheme prog" where
  "store_logout h =
     await (authService_logout h) (\<lambda>_.
       modify (\<lambda>s. markUnauthenticated (clearTokens (s\<lparr>ua_user := JNull\<rparr>))) (Ret JUndef))"

text \<open>Initialisation, at the first \<^verbatim>\<open>useAuthStore()\<close>: the promise is not awaited.\<close>

definition store_init :: "host \<Rightarrow> 'a user_app_scheme prog \<Rightarrow> 'a user_app_scheme prog" where
  "store_init h p = Get (\<lambda>s.
     if truthy (ua_refreshToken s) then Async (restoreSession h) (\<lambda>_. p) else p)"

subsection \<open>Navigation with the store\<close>

definition user_router_push :: "host \<Rightarrow> jsval \<Rightarrow> 'a user_app_scheme prog" where
  "user_router_push h t = user_push (restoreSession h) h t"

text \<open>A page load at the given address: the guard creates the store, then decides.\<close>

definition user_main :: "host \<Rightarrow> string \<Rightarrow> 'a user_app_scheme prog" where
  "user_main h path = store_init h (user_router_push h (JStr path))"

subsection \<open>Lemmas\<close>

lemma dot_success [simp]: "dot success_result ''success'' k = k (JBool True)"
  by (simp add: success_result_def)

lemma verifier_pair [simp]: "verifier (generatePkcePair h) = generateCodeVerifier h"
  by (simp add: generatePkcePair_def Let_def)

text \<open>The user the store holds after a profile request.\<close>

definition fetched :: "outcome \<Rightarrow> jsval" where
  "fetched out = (case out of Resolved d \<Rightarrow> d | Rejected resp c \<Rightarrow> JNull)"

lemma fetched_simps [simp]: "fetched (Resolved d) = d" "fetched (Rejected resp c) = JNull"
  by (simp_all add: fetched_def)

lemma run_fetchUser [prog_simps]:
  "run (fetchUser h) s ts ([out] # as) =
     emit [sent s (req_get ''/oauth2/userinfo'')] (halt (Done JUndef) (s\<lparr>ua_user := fetched out\<rparr>) ts as)"
  by (cases out) (simp_all add: fetchUser_def getUserInfo_def prog_simps)

subsection \<open>Everything the application may start\<close>

text \<open>
  The calls that pages make, in any number and order: the store's actions, navigations and
  requests through \<^verbatim>\<open>http\<close>.
\<close>

inductive_set user_calls :: "host \<Rightarrow> 'a user_app_scheme prog set" for h where
  "user_router_push h t \<in> user_calls h"
| "user_main h path \<in> user_calls h"
| "restoreSession h \<in> user_calls h"
| "fetchUser h \<in> user_calls h"
| "store_login h username password \<in> user_calls h"
| "store_verifyMfa h mfaToken code \<in> user_calls h"
| "store_exchangeCode h code \<in> user_calls h"
| "store_logout h \<in> user_calls h"
| "authService_register h username password email \<in> user_calls h"
| "authService_requestPasswordReset h email \<in> user_calls h"
| "authService_confirmPasswordReset h token newPassword \<in> user_calls h"
| "getProfile h \<in> user_calls h"
| "changePassword h oldPassword newPassword \<in> user_calls h"
| "setupMfa h \<in> user_calls h"
| "verifyMfaSetup h code \<in> user_calls h"
| "disableMfa h password \<in> user_calls h"
| "getAuthorizedApps h \<in> user_calls h"
| "revokeApp h clientId \<in> user_calls h"
| "resendVerificationEmail h \<in> user_calls h"
| "verifyEmail h token \<in> user_calls h"
| "getSocialLinks h \<in> user_calls h"
| "linkSocialAccount h provider code \<in> user_calls h"
| "unlinkSocialAccount h provider \<in> user_calls h"

inductive_set user_actions :: "host \<Rightarrow> 'a user_app_scheme prog set" for h where
  "user_http h r \<in> user_actions h"
| "p \<in> user_calls h \<Longrightarrow> p \<in> user_actions h"

text \<open>
  The rule for invariants of the whole application: a property of the state that each
  elementary update keeps holds in every state any interleaving reaches.
\<close>

locale user_invariant =
  fixes I :: "'a user_app_scheme \<Rightarrow> bool"
  assumes set_tokens: "I s \<Longrightarrow> I (setTokens a r s)"
    and clear_tokens: "I s \<Longrightarrow> I (clearTokens s)"
    and session_storage: "I s \<Longrightarrow> I (s\<lparr>sessionStorage := st\<rparr>)"
    and route: "I s \<Longrightarrow> I (s\<lparr>currentRoute := l\<rparr>)"
    and href: "I s \<Longrightarrow> I (assign_href u s)"
    and user: "I s \<Longrightarrow> I (s\<lparr>ua_user := v\<rparr>)"
    and error: "I s \<Longrightarrow> I (s\<lparr>ua_error := v\<rparr>)"
    and loading: "I s \<Longrightarrow> I (s\<lparr>ua_loading := b\<rparr>)"
    and present: "I s \<Longrightarrow> I (s\<lparr>ua_tokenPresent := b\<rparr>)"
    and restored: "I s \<Longrightarrow> I (s\<lparr>ua_sessionRestored := True\<rparr>)"
begin

lemma navigate_keeps: "(\<And>l. keeps I (guard l)) \<Longrightarrow> keeps I (navigate n h rs guard t)"
proof (induction n arbitrary: t)
  case (Suc n)
  then show ?case
    by (auto split: option.split intro!: keeps_intros route)
qed (simp add: keeps_Throw)

lemma push_keeps: "keeps I r \<Longrightarrow> keeps I (user_push r h t)"
  unfolding user_push_def by (rule navigate_keeps) (auto simp: user_guard_def intro!: keeps_intros)

lemma redirect_keeps: "keeps I (user_redirectToLogin h)"
  unfolding user_redirectToLogin_def redirect_to_login_def
  by (intro keeps_intros push_keeps href)

lemma refresh_keeps: "keeps I (refresh_tokens h)"
  unfolding refresh_tokens_def by (intro keeps_intros set_tokens)

lemma expired_keeps: "keeps I (session_expired h)"
  unfolding session_expired_def by (intro keeps_intros clear_tokens redirect_keeps)

lemma http_keeps: "keeps I (user_http h r)"
proof -
  have retry: "keeps I (user_http h r)" if "rq_retry r" for r
    using that by (subst user_http.simps)
      (auto simp: Let_def intro!: keeps_intros split: list.split outcome.split)
  show ?thesis
    by (subst user_http.simps)
      (auto simp: Let_def intro!: keeps_intros refresh_keeps expired_keeps retry split: list.split outcome.split)
qed

lemma verifier_keeps: "(\<And>v. keeps I (k v)) \<Longrightarrow> keeps I (take_verifier k)"
  unfolding take_verifier_def Let_def by (intro keeps_intros) (simp add: session_storage)

lemma store_keeps: "keeps I p \<Longrightarrow> keeps I (store_tokens d p)"
  unfolding store_tokens_def by (intro keeps_intros set_tokens)

lemmas call_keeps = keeps_intros http_keeps store_keeps verifier_keeps

lemma login_keeps: "keeps I (authService_login h u p sc)"
  unfolding authService_login_def Let_def put_verifier_def by (intro call_keeps session_storage)

lemma service_keeps:
  "keeps I (authService_verifyMfa h t c)" "keeps I (authService_exchangeCode h c)" "keeps I (authService_logout h)"
  unfolding authService_verifyMfa_def authService_exchangeCode_def authService_logout_def
  by (intro call_keeps clear_tokens)+

lemma fetchUser_keeps: "keeps I (fetchUser h)"
  unfolding fetchUser_def getUserInfo_def by (intro call_keeps user)

lemma restore_keeps: "keeps I (restoreSession h)"
  unfolding restoreSession_def tryRestoreSession_def markAuthenticated_def markUnauthenticated_def
  by (intro call_keeps refresh_keeps fetchUser_keeps restored present clear_tokens)

lemma authenticate_keeps: "keeps I call \<Longrightarrow> keeps I (authenticate h call)"
  unfolding authenticate_def markAuthenticated_def
  by (intro call_keeps fetchUser_keeps present error loading)

lemma main_keeps: "keeps I (user_main h path)"
  unfolding user_main_def store_init_def user_router_push_def
  by (intro call_keeps restore_keeps push_keeps)

lemma request_keeps:
  "keeps I (authService_register h u pw em)" "keeps I (authService_requestPasswordReset h em)"
  "keeps I (authService_confirmPasswordReset h tok pw)" "keeps I (getProfile h)"
  "keeps I (changePassword h o1 n1)" "keeps I (setupMfa h)" "keeps I (verifyMfaSetup h c)"
  "keeps I (disableMfa h pw)" "keeps I (getAuthorizedApps h)" "keeps I (revokeApp h cid)"
  "keeps I (resendVerificationEmail h)" "keeps I (verifyEmail h tok)" "keeps I (getSocialLinks h)"
  "keeps I (linkSocialAccount h pr c)" "keeps I (unlinkSocialAccount h pr)"
  unfolding authService_register_def authService_requestPasswordReset_def
    authService_confirmPasswordReset_def getProfile_def changePassword_def setupMfa_def
    verifyMfaSetup_def disableMfa_def getAuthorizedApps_def revokeApp_def
    resendVerificationEmail_def verifyEmail_def getSocialLinks_def linkSocialAccount_def
    unlinkSocialAccount_def
  by (intro call_keeps)+

lemma store_action_keeps:
  "keeps I (store_login h u pw)" "keeps I (store_verifyMfa h t c)" "keeps I (store_exchangeCode h c)"
  "keeps I (store_logout h)" "keeps I (user_router_push h t)"
  unfolding store_login_def store_verifyMfa_def store_exchangeCode_def store_logout_def
    user_router_push_def markAuthenticated_def markUnauthenticated_def
  by ((intro call_keeps push_keeps restore_keeps fetchUser_keeps authenticate_keeps
      login_keeps service_keeps present clear_tokens user; assumption?)+)

lemma action_keeps: "p \<in> user_actions h \<Longrightarrow> keeps I p"
  by (erule user_actions.cases, simp only: http_keeps, erule user_calls.cases)
     (simp_all only: http_keeps restore_keeps fetchUser_keeps main_keeps store_action_keeps request_keeps)

lemma reachable:
  assumes "reach (user_actions h) m0 m" "machine_ok I m0"
  shows "machine_ok I m"
  using assms by (rule reach_safe) (rule action_keeps)

end

text \<open>Three invariants: token storage, the rest of storage, and the restore flag.\<close>

interpretation sync: user_invariant ut.in_sync
  by unfold_locales (auto simp: ut.in_sync_set ut.in_sync_clear ut.in_sync_def assign_href_def split: option.splits)

interpretation once: user_invariant ua_sessionRestored
  by unfold_locales (auto simp: assign_href_def)

definition other_keys :: "storage \<Rightarrow> 'a user_app_scheme \<Rightarrow> bool" where
  "other_keys ls s \<longleftrightarrow> (\<forall>k. k \<noteq> ''refresh_token'' \<longrightarrow> st_get (localStorage s) k = st_get ls k)"

interpretation frame: user_invariant "other_keys ls" for ls
  by unfold_locales (auto simp: other_keys_def assign_href_def)

subsection \<open>Properties\<close>



text \<open>
  A session is restored at most once per page load. From the moment
  \<^verbatim>\<open>restoreSession\<close> has been called, in whatever state the application gets to, another
  call ends at once: it sends nothing, changes nothing and tells whether there is an access
  token.
\<close>

lemma restoreSession_once:
  fixes s :: "'a user_app_scheme"
  assumes "reach (user_actions h) (launch (restoreSession h) \<lparr>mc_state = s, mc_tasks = []\<rparr>) m"
  shows "launch (restoreSession h) m =
    \<lparr>mc_state = mc_state m, mc_tasks = mc_tasks m @ [Ret (JBool (truthy (ua_accessToken (mc_state m))))]\<rparr>"
proof -
  have "keeps (ua_sessionRestored :: 'a user_app_scheme \<Rightarrow> bool) (await (tryRestoreSession h) (\<lambda>restored.
      if truthy restored then modify markAuthenticated (await (fetchUser h) (\<lambda>_. Ret restored))
      else modify markUnauthenticated (Ret restored)))"
    unfolding tryRestoreSession_def markAuthenticated_def markUnauthenticated_def
    by (intro once.call_keeps once.refresh_keeps once.fetchUser_keeps once.present once.clear_tokens)
  then have "safe ua_sessionRestored (restoreSession h) s"
    by (auto simp: restoreSession_def markUnauthenticated_def intro: keepsD)
  then have "machine_ok ua_sessionRestored (launch (restoreSession h) \<lparr>mc_state = s, mc_tasks = []\<rparr>)"
    unfolding launch_def by (intro resume_ok) (auto simp: keeps_def)
  with assms have "ua_sessionRestored (mc_state m)"
    using once.reachable by (auto simp: machine_ok_def)
  then show ?thesis by (simp add: launch_def resume_def restoreSession_def)
qed

text \<open>The message a store action shows is never missing: the catch clause itself cannot throw.\<close>

lemma message_prog [simp]:
  "of_sum (user_normalizeError e JUndef) (\<lambda>n. dot n ''message'' k) = k (user_error_message e)"
  using user_normalizeError_Inr [of e] user_normalizeError_default [of e] by (auto simp: dot_def)

lemma fetchUser_no_throw: "no_throw (fetchUser h)"
  unfolding fetchUser_def by (rule no_throw_catch) simp

lemma authenticate_no_throw: "no_throw (authenticate h call)"
  unfolding authenticate_def by (auto intro!: no_throw_intros)

lemma logout_no_throw: "no_throw (authService_logout h)"
  unfolding authService_logout_def by (intro no_throw_intros) simp_all

lemma restore_no_throw: "no_throw (tryRestoreSession h)" "no_throw (restoreSession h)"
  unfolding restoreSession_def tryRestoreSession_def
  by (auto intro!: no_throw_intros fetchUser_no_throw)

text \<open>
  The store's actions never reject and never leave the page waiting. Whatever the
  network answers, \<^verbatim>\<open>login\<close>, \<^verbatim>\<open>verifyMfa\<close>, \<^verbatim>\<open>fetchUser\<close>,
  \<^verbatim>\<open>restoreSession\<close> and \<^verbatim>\<open>logout\<close> do not throw, and when \<^verbatim>\<open>login\<close> or
  \<^verbatim>\<open>verifyMfa\<close> ends, the loading flag is down.
\<close>

lemma store_actions_settle:
  fixes s :: "'a user_app_scheme"
  shows "(case r_exit (run (store_login h u p) s ts as) of
      Done v \<Rightarrow> \<not> ua_loading (r_state (run (store_login h u p) s ts as))
    | Raised e \<Rightarrow> False | Blocked \<Rightarrow> True) \<and>
   (case r_exit (run (store_verifyMfa h t c) s ts as) of
      Done v \<Rightarrow> \<not> ua_loading (r_state (run (store_verifyMfa h t c) s ts as))
    | Raised e \<Rightarrow> False | Blocked \<Rightarrow> True) \<and>
   r_exit (run (fetchUser h) s ts as) \<noteq> Raised e \<and> r_exit (run (restoreSession h) s ts as) \<noteq> Raised e \<and>
   r_exit (run (store_logout h) s ts as) \<noteq> Raised e"
proof -
  have auth: "case r_exit (run (authenticate h call) s ts as) of
      Done v \<Rightarrow> \<not> ua_loading (r_state (run (authenticate h call) s ts as))
    | Raised e \<Rightarrow> False | Blocked \<Rightarrow> True" for call
  proof -
    have "r_exit (run (authenticate h call) s ts as) \<noteq> Blocked \<Longrightarrow>
        \<not> ua_loading (r_state (run (authenticate h call) s ts as))"
      unfolding authenticate_def run_modify by (drule run_finally_effect) auto
    then show ?thesis by (simp add: run_no_throw authenticate_no_throw split: exit.split)
  qed
  have "no_throw (store_logout h :: 'a user_app_scheme prog)"
    unfolding store_logout_def by (intro no_throw_intros logout_no_throw) simp
  then show ?thesis
    unfolding store_login_def store_verifyMfa_def
    by (intro conjI auth run_no_throw fetchUser_no_throw restore_no_throw)
qed



end
