(* ===== verification/User_Navigation.thy ===== *)
theory User_Navigation
  imports User_Store
begin

text \<open>
  Navigation in the user application: what the guard lets through, what a page load with a
  stored refresh token shows, and where a failed refresh takes the user.
\<close>

definition protected_paths :: "string list" where
  "protected_paths = [''/'', ''/profile'', ''/security'', ''/authorized-apps'']"

definition guest_paths :: "string list" where
  "guest_paths = [''/login'', ''/register'', ''/forgot-password'', ''/reset-password'']"

lemma find_paths:
  "list_all (\<lambda>p. map_option (\<lambda>(r, m). rt_meta r) (find_route user_routes (segments (path_part p))) =
     Some account_meta) protected_paths"
  "list_all (\<lambda>p. map_option (\<lambda>(r, m). rt_meta r) (find_route user_routes (segments (path_part p))) =
     Some guest_meta) guest_paths"
  by (simp_all add: protected_paths_def guest_paths_def user_routes_def path_part_def segments_def js_upper_def)

lemma locate_paths:
  "p \<in> set protected_paths \<Longrightarrow> loc_meta (locate_path h user_routes p) = account_meta"
  "p \<in> set guest_paths \<Longrightarrow> loc_meta (locate_path h user_routes p) = guest_meta"
  using find_paths by (auto simp: list_all_iff locate_path_def Let_def split: option.split)

lemma locate_named:
  "p \<in> set protected_paths \<or> p \<in> set guest_paths \<Longrightarrow> loc_name (locate_path h user_routes p) \<noteq> None"
  using find_paths by (auto simp: list_all_iff locate_path_def Let_def split: option.split)

text \<open>
  C24: what the guard decides. Without tokens a navigation to any account page sends nothing
  and ends on the login page, whose query remembers the page asked for. With the store
  authenticated, the account page is shown, and a login, registration or password page is
  replaced by the dashboard; a visitor without a session sees the latter. (The page the user
  comes from is another one than those the navigation can end on.)
\<close>

theorem user_guard_decides:
  fixes s :: "'a user_app_scheme"
  assumes "loc_name (currentRoute s) \<notin> {Some ''login'', Some ''dashboard'',
      loc_name (locate_path h user_routes p), loc_name (locate_path h user_routes q)}"
    and "p \<in> set protected_paths" "q \<in> set guest_paths"
  shows "(\<not> ua_tokenPresent s \<and> \<not> truthy (ua_accessToken s) \<and> \<not> truthy (ua_refreshToken s) \<longrightarrow>
      run (user_router_push h (JStr p)) s ts as = halt (Done JUndef)
        (s\<lparr>ua_sessionRestored := True, currentRoute := at_login h [(''redirect'', JStr p)]\<rparr>) ts as) \<and>
    (ua_tokenPresent s \<longrightarrow> run (user_router_push h (JStr p)) s ts as =
        halt (Done JUndef) (s\<lparr>currentRoute := locate_path h user_routes p\<rparr>) ts as) \<and>
    (ua_tokenPresent s \<longrightarrow> run (user_router_push h (JStr q)) s ts as =
        halt (Done JUndef) (s\<lparr>currentRoute := at_dashboard\<rparr>) ts as) \<and>
    (\<not> ua_tokenPresent s \<longrightarrow> run (user_router_push h (JStr q)) s ts as =
        halt (Done JUndef) (s\<lparr>currentRoute := locate_path h user_routes q\<rparr>) ts as)"
  using assms
  by (auto simp: user_router_push_def user_push_def user_guard_def numeral_eq_Suc prog_simps locate_paths
      restoreSession_def markUnauthenticated_def)

definition start_location :: location where
  "start_location = \<lparr>loc_name = None, loc_path = ''/'', loc_fullPath = ''/'', loc_query = [],
     loc_params = [], loc_meta = []\<rparr>"

theorem user_guard_decides_witness:
  "currentRoute (r_state (run (user_router_push sample_host (JStr ''/profile'')) (user_boot [] [] start_location) [] [])) =
     at_login sample_host [(''redirect'', JStr ''/profile'')]"
proof -
  have "loc_name (currentRoute (user_boot [] [] start_location)) = None"
    by (simp add: user_boot_def start_location_def)
  moreover have "loc_name (locate_path sample_host user_routes ''/profile'') \<noteq> None"
    "loc_name (locate_path sample_host user_routes ''/login'') \<noteq> None"
    by (rule locate_named, simp add: protected_paths_def guest_paths_def)+
  ultimately show ?thesis
    using user_guard_decides [of "user_boot [] [] start_location" sample_host "''/profile''" "''/login''" "[]" "[]"]
    by (auto simp: protected_paths_def guest_paths_def user_boot_def stored_def)
qed

text \<open>
  A stored refresh token opens the door before it is checked. On a page load at an
  account page with a refresh token in storage, the page is committed at once, while the
  exchange is still in flight; when the exchange is then refused the tokens are cleared and
  the store is unauthenticated, but the page stays.
\<close>

lemma stale_session_stays:
  assumes "p \<in> set protected_paths" "st_get ls ''refresh_token'' = Some r" "r \<noteq> []"
  shows "\<exists>m m'. exec [(0, [])] (launch (user_main h p)
        \<lparr>mc_state = user_boot ls ss start_location, mc_tasks = []\<rparr>) = Some m \<and>
    currentRoute (mc_state m) = locate_path h user_routes p \<and>
    (\<exists>k. mc_tasks m ! 1 = Net [refresh_request h (JStr r)] k) \<and>
    exec [(1, [Rejected resp True]), (1, [])] m = Some m' \<and>
    \<not> ua_tokenPresent (mc_state m') \<and> ua_accessToken (mc_state m') = JNull \<and>
    currentRoute (mc_state m') = locate_path h user_routes p"
  using assms locate_named [of p h]
  by (auto simp: launch_def resume_def user_main_def store_init_def user_router_push_def user_push_def
      numeral_eq_Suc user_guard_def restoreSession_def tryRestoreSession_def refresh_tokens_def raw_send_def
      await_def user_boot_def stored_def start_location_def locate_paths markUnauthenticated_def split: option.split)

text \<open>
  C36: a session that expires under way does not reach the login page. After a failed refresh
  the tokens are cleared, but the store still counts as authenticated, so the guard turns the
  navigation to the login page into one to the dashboard: the user ends there, without tokens.
\<close>

theorem expired_session_bounces:
  fixes s :: "'a user_app_scheme"
  assumes "js_opt resp ''status'' = JNum 401" "truthy (ua_refreshToken s)" "\<not> rq_retry r"
    "\<not> js_includes (rq_url r) ''/oauth2/''" "ua_tokenPresent s"
    "loc_name (currentRoute s) \<notin> {Some ''login'', Some ''dashboard''}"
  shows "\<exists>redirect s' s''. r_tasks (run (user_http h r) s [] [[Rejected resp True], [Rejected resp' True]]) = [redirect] \<and>
    r_state (run (user_http h r) s [] [[Rejected resp True], [Rejected resp' True]]) = s' \<and>
    run redirect s' [] [[Resolved router]] = emit [req_get ''../router''] (halt (Done JUndef) s'' [] []) \<and>
    currentRoute s'' = at_dashboard \<and> ua_accessToken s'' = JNull \<and> ua_refreshToken s'' = JNull \<and> ua_tokenPresent s''"
proof (intro exI conjI)
  have "refreshable s r resp" using assms by (simp add: refreshable_def)
  then have run: "run (user_http h r) s [] [[Rejected resp True], [Rejected resp' True]] =
      emit [sent s r, refresh_request h (ua_refreshToken s)]
        (halt (Raised expired_error) (clearTokens s) [user_redirectToLogin h] [])"
    by (simp add: run_user_http prog_simps)
  show "r_tasks (run (user_http h r) s [] [[Rejected resp True], [Rejected resp' True]]) = [user_redirectToLogin h]"
    by (simp add: run)
  show "run (user_redirectToLogin h)
      (r_state (run (user_http h r) s [] [[Rejected resp True], [Rejected resp' True]])) [] [[Resolved router]] =
    emit [req_get ''../router''] (halt (Done JUndef) ((clearTokens s)\<lparr>currentRoute := at_dashboard\<rparr>) [] [])"
    using assms(5,6) by (auto simp: run user_redirectToLogin_def redirect_to_login_def prog_simps run_push_login)
qed (use assms in simp_all)

theorem expired_session_bounces_witness:
  "\<exists>redirect. r_tasks (run (user_http sample_host (req_get ''/api/me''))
      (sample_state\<lparr>currentRoute := locate_path sample_host user_routes ''/profile''\<rparr>) []
      [[Rejected (http_response 401 JNull) True], [Rejected (http_response 400 JNull) True]]) = [redirect]"
proof -
  have "loc_name (locate_path sample_host user_routes ''/profile'') = Some ''profile''"
    by (simp add: locate_path_def user_routes_def path_part_def query_part_def segments_def js_upper_def)
  then show ?thesis
    using expired_session_bounces [of "http_response 401 JNull"
        "sample_state\<lparr>currentRoute := locate_path sample_host user_routes ''/profile''\<rparr>"
        "req_get ''/api/me''" sample_host "http_response 400 JNull" JNull]
    by (auto simp: http_response_def)
qed

end
