(* ===== verification/Admin_Store.thy ===== *)
theory Admin_Store
  imports Token_Store
begin

text \<open>
  \<^verbatim>\<open>stores/auth.ts\<close> and \<^verbatim>\<open>router/index.ts\<close> of the admin console: the tokens, the
  interceptors installed on the global axios, the shared refresh, login, logout, session
  restore and the guard.

  A promise kept in a variable (\<^verbatim>\<open>refreshInFlight\<close>, \<^verbatim>\<open>sessionRestorePromise\<close>) is the
  index of the call in the pool. The refresh goes through the same intercepted axios it
  serves; \<open>depth\<close> bounds how often an exchange may start another one from inside. It is never
  used up: while an exchange runs, \<^verbatim>\<open>refreshInFlight\<close> holds its promise and a call of
  \<^verbatim>\<open>refreshAccessToken\<close> from inside waits for that promise (\<open>refresh_joins\<close>), at every
  depth. Storage is taken to be available: the \<^verbatim>\<open>try\<close> around it only matters when it is not.
\<close>

record admin_app = spa +
  aa_accessToken :: jsval
  aa_refreshToken :: jsval
  aa_user :: jsval
  aa_loginError :: jsval
  aa_refreshInFlight :: "nat option"
  aa_sessionRestorePromise :: "nat option"

subsection \<open>Tokens\<close>

definition REFRESH_TOKEN_STORAGE_KEY :: string where
  "REFRESH_TOKEN_STORAGE_KEY = ''admin_refresh_token''"

definition persistRefreshToken :: "jsval \<Rightarrow> 'a spa_scheme \<Rightarrow> 'a spa_scheme" where
  "persistRefreshToken token s =
     (if truthy token
      then s\<lparr>sessionStorage := st_set (sessionStorage s) REFRESH_TOKEN_STORAGE_KEY (js_to_string token)\<rparr>
      else s\<lparr>sessionStorage := st_remove (sessionStorage s) REFRESH_TOKEN_STORAGE_KEY\<rparr>)"

definition loadPersistedRefreshToken :: "'a spa_scheme \<Rightarrow> jsval" where
  "loadPersistedRefreshToken s =
     (case st_get (sessionStorage s) REFRESH_TOKEN_STORAGE_KEY of Some v \<Rightarrow> JStr v | None \<Rightarrow> JNull)"

text \<open>The three assignments after every exchange, and the four at the end of a logout.\<close>

definition admin_setTokens :: "jsval \<Rightarrow> jsval \<Rightarrow> 'a admin_app_scheme \<Rightarrow> 'a admin_app_scheme" where
  "admin_setTokens access refresh s =
     persistRefreshToken refresh (s\<lparr>aa_accessToken := access, aa_refreshToken := refresh\<rparr>)"

definition admin_clearSession :: "'a admin_app_scheme \<Rightarrow> 'a admin_app_scheme" where
  "admin_clearSession s =
     persistRefreshToken JNull (s\<lparr>aa_accessToken := JNull, aa_refreshToken := JNull, aa_user := JNull\<rparr>)"

definition admin_isAuthenticated :: "'a admin_app_scheme \<Rightarrow> bool" where
  "admin_isAuthenticated s = truthy (aa_accessToken s)"

definition admin_bearer :: "jsval \<Rightarrow> string" where
  "admin_bearer access = ''Bearer '' @ js_to_string access"

definition admin_request_interceptor :: "'a admin_app_scheme \<Rightarrow> request \<Rightarrow> request" where
  "admin_request_interceptor s r =
     (if truthy (aa_accessToken s) \<and> header r ''Authorization'' = None
      then with_header ''Authorization'' (admin_bearer (aa_accessToken s)) r else r)"

subsection \<open>Logout\<close>

definition admin_revoke_request :: "jsval \<Rightarrow> request" where
  "admin_revoke_request refresh =
     (form_content (req_post ''/oauth2/revoke''
        (Form [(''token'', refresh), (''client_id'', JStr ''admin-console'')])))\<lparr>rq_keepalive := True\<rparr>"

definition admin_logout_request :: "jsval \<Rightarrow> request" where
  "admin_logout_request access =
     (with_header ''Authorization'' (admin_bearer access) (req_post ''/oauth2/logout'' NoBody))\<lparr>rq_keepalive := True\<rparr>"

definition logout_requests :: "'a admin_app_scheme \<Rightarrow> request list" where
  "logout_requests s =
     (if truthy (aa_accessToken s) then [admin_logout_request (aa_accessToken s)] else []) @
     (if truthy (aa_refreshToken s) then [admin_revoke_request (aa_refreshToken s)] else [])"

definition admin_logout :: "'a admin_app_scheme prog" where
  "admin_logout =
     bind (catch (Get (\<lambda>s. await (fetch_all (logout_requests s)) Ret)) (\<lambda>_. Ret JUndef))
       (\<lambda>_. modify admin_clearSession (Ret JUndef))"

subsection \<open>The route table and the guard\<close>

definition open_meta :: "(string \<times> jsval) list" where
  "open_meta = [(''requiresAuth'', JBool False)]"

definition console_meta :: "(string \<times> jsval) list" where
  "console_meta = [(''requiresAuth'', JBool True)]"

definition admin_routes :: "route list" where
  "admin_routes =
     [\<lparr>rt_path = ''/login'', rt_name = ''login'', rt_meta = open_meta\<rparr>,
      \<lparr>rt_path = ''/callback'', rt_name = ''callback'', rt_meta = open_meta\<rparr>,
      \<lparr>rt_path = ''/'', rt_name = ''dashboard'', rt_meta = console_meta\<rparr>,
      \<lparr>rt_path = ''/applications'', rt_name = ''applications'', rt_meta = console_meta\<rparr>,
      \<lparr>rt_path = ''/applications/:id'', rt_name = ''application-detail'', rt_meta = console_meta\<rparr>,
      \<lparr>rt_path = ''/users'', rt_name = ''users'', rt_meta = console_meta\<rparr>,
      \<lparr>rt_path = ''/users/:id'', rt_name = ''user-detail'', rt_meta = console_meta\<rparr>,
      \<lparr>rt_path = ''/roles'', rt_name = ''roles'', rt_meta = console_meta\<rparr>,
      \<lparr>rt_path = ''/scopes'', rt_name = ''scopes'', rt_meta = console_meta\<rparr>,
      \<lparr>rt_path = ''/logs'', rt_name = ''logs'', rt_meta = console_meta\<rparr>,
      \<lparr>rt_path = ''/tokens'', rt_name = ''tokens'', rt_meta = console_meta\<rparr>,
      \<lparr>rt_path = ''/settings'', rt_name = ''settings'', rt_meta = console_meta\<rparr>]"

definition admin_guard :: "'a admin_app_scheme prog \<Rightarrow> location \<Rightarrow> 'a admin_app_scheme prog" where
  "admin_guard ensureSessionRestored l = Get (\<lambda>s.
     if meta l ''requiresAuth'' \<noteq> JBool False \<and> \<not> admin_isAuthenticated s then
       await ensureSessionRestored (\<lambda>restored.
         if truthy restored then Ret JUndef else Ret (to_name ''login''))
     else Ret JUndef)"

definition admin_push :: "'a admin_app_scheme prog \<Rightarrow> host \<Rightarrow> jsval \<Rightarrow> 'a admin_app_scheme prog" where
  "admin_push ensureSessionRestored h t = navigate 4 h admin_routes (admin_guard ensureSessionRestored) t"

definition admin_redirectToLogin :: "host \<Rightarrow> 'a admin_app_scheme prog" where
  "admin_redirectToLogin h =
     redirect_to_login ''/admin/login'' (admin_push (Ret JUndef) h (to_name ''login''))"

subsection \<open>The intercepted axios and the refresh\<close>

definition admin_session_expired :: "host \<Rightarrow> 'a admin_app_scheme prog" where
  "admin_session_expired h =
     Async admin_logout (\<lambda>_.
       of_sum (admin_sessionExpiredError JUndef) (\<lambda>expired.
         dot expired ''message'' (\<lambda>m.
           modify (aa_loginError_update (\<lambda>_. m))
             (Async (admin_redirectToLogin h) (\<lambda>_. Throw expired)))))"

lemma admin_interceptor_fields [simp]:
  "rq_retry (admin_request_interceptor s r) = rq_retry r" "rq_url (admin_request_interceptor s r) = rq_url r"
  "rq_body (admin_request_interceptor s r) = rq_body r" "rq_method (admin_request_interceptor s r) = rq_method r"
  by (simp_all add: admin_request_interceptor_def)

function axios_with ::
  "'a admin_app_scheme prog \<Rightarrow> host \<Rightarrow> request \<Rightarrow> 'a admin_app_scheme prog" where
  "axios_with refreshAccessToken h r0 = Get (\<lambda>s.
     let r = admin_request_interceptor s r0 in
     Net [r] (\<lambda>os. case os of
         [Resolved data] \<Rightarrow> Ret data
       | [Rejected resp has_config] \<Rightarrow> Get (\<lambda>s'.
           if js_opt resp ''status'' = JNum 401 \<and> truthy (aa_refreshToken s') \<and> has_config \<and> \<not> rq_retry r0
           then await refreshAccessToken (\<lambda>refreshed.
             if truthy refreshed then Get (\<lambda>s''.
               axios_with refreshAccessToken h
                 (with_header ''Authorization'' (admin_bearer (aa_accessToken s'')) (r\<lparr>rq_retry := True\<rparr>)))
             else admin_session_expired h)
           else Throw (axios_error resp))
       | _ \<Rightarrow> Ret JUndef))"
  by pat_completeness auto

termination
  by (relation "measure (\<lambda>(_, h, r). if rq_retry r then 0 else 1)") auto

declare axios_with.simps [simp del]

definition admin_refresh_request :: "jsval \<Rightarrow> request" where
  "admin_refresh_request refresh = form_content (req_post ''/oauth2/token'' (Form
     [(''grant_type'', JStr ''refresh_token''), (''refresh_token'', refresh),
      (''client_id'', JStr ''admin-console'')]))"

text \<open>The body of the shared exchange, given the axios that sends its request.\<close>

definition exchange :: "(request \<Rightarrow> 'a admin_app_scheme prog) \<Rightarrow> 'a admin_app_scheme prog" where
  "exchange axios =
     finally_do
       (catch
         (Get (\<lambda>s. await (axios (admin_refresh_request (aa_refreshToken s))) (\<lambda>data.
            dot data ''access_token'' (\<lambda>access. dot data ''refresh_token'' (\<lambda>refresh.
              modify (admin_setTokens access refresh) (Ret (JBool True)))))))
         (\<lambda>_. Async admin_logout (\<lambda>_. Ret (JBool False))))
       (modify (aa_refreshInFlight_update (\<lambda>_. None)) (Ret JUndef))"

primrec refreshAccessToken :: "nat \<Rightarrow> host \<Rightarrow> 'a admin_app_scheme prog" where
  "refreshAccessToken 0 h = Get (\<lambda>s.
     if \<not> truthy (aa_refreshToken s) then Ret (JBool False)
     else case aa_refreshInFlight s of
       Some n \<Rightarrow> Await n (\<lambda>r. of_sum r Ret)
     | None \<Rightarrow> Throw (js_error ''RangeError'' ''nesting bound''))"
| "refreshAccessToken (Suc depth) h = Get (\<lambda>s.
     if \<not> truthy (aa_refreshToken s) then Ret (JBool False)
     else case aa_refreshInFlight s of
       Some n \<Rightarrow> Await n (\<lambda>r. of_sum r Ret)
     | None \<Rightarrow> Async (exchange (axios_with (refreshAccessToken depth h) h)) (\<lambda>n.
         modify (aa_refreshInFlight_update (\<lambda>_. Some n)) (Await n (\<lambda>r. of_sum r Ret))))"

text \<open>The console's axios, and its refresh as components call it.\<close>

definition admin_refresh :: "host \<Rightarrow> 'a admin_app_scheme prog" where
  "admin_refresh h = refreshAccessToken 1 h"

definition admin_axios :: "host \<Rightarrow> request \<Rightarrow> 'a admin_app_scheme prog" where
  "admin_axios h r = axios_with (admin_refresh h) h r"

subsection \<open>Login and session restore\<close>

definition fetchUserInfo :: "host \<Rightarrow> 'a admin_app_scheme prog" where
  "fetchUserInfo h = Get (\<lambda>s.
     if \<not> truthy (aa_accessToken s) then Ret JUndef
     else catch
       (await (admin_axios h (with_header ''Authorization'' (admin_bearer (aa_accessToken s))
            (req_get ''/oauth2/userinfo''))) (\<lambda>data.
          modify (aa_user_update (\<lambda>_. data)) (Ret JUndef)))
       (\<lambda>_. Async admin_logout (\<lambda>_. Ret JUndef)))"

text \<open>
  \<^verbatim>\<open>user.value?.roles?.includes('admin')\<close>: the method of arrays and of strings; any other
  value has none and the call throws.
\<close>

fun js_call_includes :: "jsval \<Rightarrow> string \<Rightarrow> jsval + jsval" where
  "js_call_includes (JArr xs) x = Inr (JBool (JStr x \<in> set xs))"
| "js_call_includes (JStr s) x = Inr (JBool (x = [] \<or> js_includes s x))"
| "js_call_includes JUndef x = Inr JUndef"
| "js_call_includes JNull x = Inr JUndef"
| "js_call_includes v x = Inl (js_error ''TypeError'' ''includes is not a function'')"

definition has_admin_role :: "jsval \<Rightarrow> jsval + jsval" where
  "has_admin_role user = js_call_includes (js_opt user ''roles'') ''admin''"

definition admin_redirect_uri :: "host \<Rightarrow> jsval" where
  "admin_redirect_uri h = JStr (origin h @ ''/admin/callback'')"

definition admin_login_request :: "host \<Rightarrow> jsval \<Rightarrow> jsval \<Rightarrow> pkce_pair \<Rightarrow> request" where
  "admin_login_request h username password pkce = form_content (req_post ''/oauth2/login'' (Form
     [(''username'', username), (''password'', password), (''client_id'', JStr ''admin-console''),
      (''redirect_uri'', admin_redirect_uri h), (''scope'', JStr ''openid profile admin''),
      (''state'', JStr (randomUUID h)), (''code_challenge'', JStr (challenge pkce)),
      (''code_challenge_method'', JStr (pkce_method pkce)), (''json'', JStr ''true'')]))"

definition admin_code_request :: "host \<Rightarrow> jsval \<Rightarrow> string \<Rightarrow> request" where
  "admin_code_request h code v = form_content (req_post ''/oauth2/token'' (Form
     [(''grant_type'', JStr ''authorization_code''), (''code'', code),
      (''redirect_uri'', admin_redirect_uri h), (''client_id'', JStr ''admin-console''),
      (''code_verifier'', JStr v)]))"

definition admin_login :: "host \<Rightarrow> jsval \<Rightarrow> jsval \<Rightarrow> 'a admin_app_scheme prog" where
  "admin_login h username password =
     modify (aa_loginError_update (\<lambda>_. JStr []))
       (catch
         (let pkce = admin_generatePkcePair h in
          Tick (await (admin_axios h (admin_login_request h username password pkce)) (\<lambda>data.
            dot data ''mfa_required'' (\<lambda>mfa.
            if truthy mfa then
              modify (\<lambda>s. s\<lparr>sessionStorage := st_set (sessionStorage s) ''pkce_code_verifier'' (verifier pkce)\<rparr>)
                (dot data ''mfa_token'' (\<lambda>t. Ret (JObj [(''mfaRequired'', JBool True), (''mfaToken'', t)])))
            else dot data ''code'' (\<lambda>code.
              if \<not> truthy code then Throw (js_error ''Error'' ''No authorization code received'')
              else await (admin_axios h (admin_code_request h code (verifier pkce))) (\<lambda>tokens.
                dot tokens ''access_token'' (\<lambda>access. dot tokens ''refresh_token'' (\<lambda>refresh.
                modify (admin_setTokens access refresh)
                  (await (fetchUserInfo h) (\<lambda>_. Get (\<lambda>s.
                    of_sum (has_admin_role (aa_user s)) (\<lambda>is_admin.
                    if \<not> truthy is_admin then
                      Async admin_logout (\<lambda>_.
                        modify (aa_loginError_update (\<lambda>_. JStr ''Admin role required to access this console''))
                          (Ret (JObj [(''error'', JStr ''forbidden'')])))
                    else Ret (JObj [(''success'', JBool True)])))))))))))))
         (\<lambda>e. of_sum (admin_normalizeError e JUndef) (\<lambda>n. dot n ''message'' (\<lambda>m.
            modify (aa_loginError_update (\<lambda>_. m)) (Ret (JObj [(''error'', m)]))))))"

definition admin_restoreSession :: "host \<Rightarrow> 'a admin_app_scheme prog" where
  "admin_restoreSession h = Get (\<lambda>s.
     let persisted = loadPersistedRefreshToken s in
     if \<not> truthy persisted then Ret (JBool False)
     else modify (aa_refreshToken_update (\<lambda>_. persisted))
       (await (admin_refresh h) (\<lambda>ok.
         if \<not> truthy ok then Ret (JBool False)
         else await (fetchUserInfo h) (\<lambda>_. Get (\<lambda>s'.
           of_sum (has_admin_role (aa_user s')) (\<lambda>is_admin. Ret (JBool (truthy is_admin))))))))"

definition ensureSessionRestored :: "host \<Rightarrow> 'a admin_app_scheme prog" where
  "ensureSessionRestored h = Get (\<lambda>s. case aa_sessionRestorePromise s of
     Some n \<Rightarrow> Await n (\<lambda>r. of_sum r Ret)
   | None \<Rightarrow> Async (admin_restoreSession h) (\<lambda>n.
       modify (aa_sessionRestorePromise_update (\<lambda>_. Some n)) (Await n (\<lambda>r. of_sum r Ret))))"

subsection \<open>Page load\<close>

definition admin_router_push :: "host \<Rightarrow> jsval \<Rightarrow> 'a admin_app_scheme prog" where
  "admin_router_push h t = admin_push (ensureSessionRestored h) h t"

definition admin_boot :: "storage \<Rightarrow> storage \<Rightarrow> location \<Rightarrow> admin_app" where
  "admin_boot ls ss l =
     \<lparr>localStorage = ls, sessionStorage = ss, currentRoute = l, hardRedirect = [],
      aa_accessToken = JNull, aa_refreshToken = JNull, aa_user = JNull, aa_loginError = JStr [],
      aa_refreshInFlight = None, aa_sessionRestorePromise = None\<rparr>"

text \<open>
  \<^verbatim>\<open>main.ts\<close>: installing the router starts the first navigation, which reaches its guard
  after a turn of the event loop; then the restore is called, and not awaited.
\<close>

definition admin_main :: "host \<Rightarrow> string \<Rightarrow> 'a admin_app_scheme prog" where
  "admin_main h path =
     Async (Tick (admin_router_push h (JStr path))) (\<lambda>_. Async (admin_restoreSession h) (\<lambda>_. Ret JUndef))"

end
