(* ===== verification/Admin_Session.thy ===== *)
theory Admin_Session
  imports Admin_Store
begin

text \<open>
  Behaviour of the admin console's session: the pieces of its calls between suspension points,
  the contract of its token store, and the properties of the shared refresh, of login, logout,
  session restore and of the guard.
\<close>

subsection \<open>Tokens\<close>

lemma admin_setTokens_fields [simp]:
  "aa_accessToken (admin_setTokens a r s) = a" "aa_refreshToken (admin_setTokens a r s) = r"
  "aa_user (admin_setTokens a r s) = aa_user s" "aa_loginError (admin_setTokens a r s) = aa_loginError s"
  "aa_refreshInFlight (admin_setTokens a r s) = aa_refreshInFlight s"
  "aa_sessionRestorePromise (admin_setTokens a r s) = aa_sessionRestorePromise s"
  "currentRoute (admin_setTokens a r s) = currentRoute s" "localStorage (admin_setTokens a r s) = localStorage s"
  "sessionStorage (admin_setTokens a r s) = (if truthy r
     then st_set (sessionStorage s) REFRESH_TOKEN_STORAGE_KEY (js_to_string r)
     else st_remove (sessionStorage s) REFRESH_TOKEN_STORAGE_KEY)"
  by (simp_all add: admin_setTokens_def persistRefreshToken_def)

lemma admin_clearSession_fields [simp]:
  "aa_accessToken (admin_clearSession s) = JNull" "aa_refreshToken (admin_clearSession s) = JNull"
  "aa_user (admin_clearSession s) = JNull" "aa_loginError (admin_clearSession s) = aa_loginError s"
  "aa_refreshInFlight (admin_clearSession s) = aa_refreshInFlight s"
  "aa_sessionRestorePromise (admin_clearSession s) = aa_sessionRestorePromise s"
  "currentRoute (admin_clearSession s) = currentRoute s" "localStorage (admin_clearSession s) = localStorage s"
  "sessionStorage (admin_clearSession s) = st_remove (sessionStorage s) REFRESH_TOKEN_STORAGE_KEY"
  by (simp_all add: admin_clearSession_def persistRefreshToken_def)

lemma storage_key [simp]:
  "REFRESH_TOKEN_STORAGE_KEY \<noteq> ''pkce_code_verifier''" "''pkce_code_verifier'' \<noteq> REFRESH_TOKEN_STORAGE_KEY"
  by (simp_all add: REFRESH_TOKEN_STORAGE_KEY_def)

interpretation ad: token_store admin_setTokens admin_clearSession aa_accessToken aa_refreshToken
  "\<lambda>s :: 'a admin_app_scheme. st_get (sessionStorage s) REFRESH_TOKEN_STORAGE_KEY"
  by unfold_locales (auto split: if_splits)

subsection \<open>The pieces of a call\<close>

definition asent :: "'a admin_app_scheme \<Rightarrow> request \<Rightarrow> request" where
  "asent s r = admin_request_interceptor s r"

definition stale :: "'a admin_app_scheme \<Rightarrow> request \<Rightarrow> jsval \<Rightarrow> bool" where
  "stale s r resp \<longleftrightarrow> js_opt resp ''status'' = JNum 401 \<and> truthy (aa_refreshToken s) \<and> \<not> rq_retry r"

text \<open>After the refresh: retry with the token of the moment, or end the session.\<close>

definition axios_resume ::
  "'a admin_app_scheme prog \<Rightarrow> host \<Rightarrow> request \<Rightarrow> jsval \<Rightarrow> 'a admin_app_scheme prog" where
  "axios_resume rf h r refreshed =
     (if truthy refreshed then Get (\<lambda>s.
        axios_with rf h (with_header ''Authorization'' (admin_bearer (aa_accessToken s)) (r\<lparr>rq_retry := True\<rparr>)))
      else admin_session_expired h)"

definition axios_answer ::
  "'a admin_app_scheme prog \<Rightarrow> host \<Rightarrow> request \<Rightarrow> outcome list \<Rightarrow> 'a admin_app_scheme prog" where
  "axios_answer rf h r os = (case os of
       [Resolved data] \<Rightarrow> Ret data
     | [Rejected resp has_config] \<Rightarrow> Get (\<lambda>s'.
         if stale s' r resp \<and> has_config then await rf (axios_resume rf h r)
         else Throw (axios_error resp))
     | _ \<Rightarrow> Ret JUndef)"

lemma stale_asent [simp]: "stale s' (asent s r) resp = stale s' r resp"
  by (simp add: stale_def asent_def)

lemma axios_with_eq: "axios_with rf h r = Get (\<lambda>s. Net [asent s r] (axios_answer rf h (asent s r)))"
  unfolding axios_with.simps [of rf h r] Let_def axios_answer_def asent_def [symmetric] stale_def axios_resume_def
  by (auto simp: fun_eq_iff asent_def split: list.split outcome.split)

lemma axios_answer_simps [simp]:
  "axios_answer rf h r [Resolved d] = Ret d"
  "axios_answer rf h r [Rejected resp False] = Get (\<lambda>_. Throw (axios_error resp))"
  "axios_answer rf h r [Rejected resp True] = Get (\<lambda>s'.
     if stale s' r resp then await rf (axios_resume rf h r) else Throw (axios_error resp))"
  by (simp_all add: axios_answer_def)

text \<open>What a caller does with the promise of the refresh it waits for.\<close>

definition joined :: "(jsval \<Rightarrow> 's prog) \<Rightarrow> jsval + jsval \<Rightarrow> 's prog" where
  "joined k r = bind (of_sum r Ret) (\<lambda>v. Tick (k v))"

lemma joined_simps [simp]: "joined k (Inr v) = Tick (k v)" "joined k (Inl e) = Throw e"
  by (simp_all add: joined_def)

lemma await_Await: "await (Await n (\<lambda>r. of_sum r Ret)) k = Await n (joined k)"
  by (simp add: await_def joined_def fun_eq_iff)

text \<open>The exchange: around the answer of its request, and storing the tokens.\<close>

definition exchange_end :: "'a admin_app_scheme prog \<Rightarrow> 'a admin_app_scheme prog" where
  "exchange_end p = finally_do (catch p (\<lambda>_. Async admin_logout (\<lambda>_. Ret (JBool False))))
     (modify (aa_refreshInFlight_update (\<lambda>_. None)) (Ret JUndef))"

definition exchange_store :: "jsval \<Rightarrow> 'a admin_app_scheme prog" where
  "exchange_store data = dot data ''access_token'' (\<lambda>access. dot data ''refresh_token'' (\<lambda>refresh.
     modify (admin_setTokens access refresh) (Ret (JBool True))))"

definition exchange_answer ::
  "'a admin_app_scheme prog \<Rightarrow> host \<Rightarrow> request \<Rightarrow> outcome list \<Rightarrow> 'a admin_app_scheme prog" where
  "exchange_answer rf h r os = exchange_end (bind (axios_answer rf h r os) (\<lambda>v. Tick (exchange_store v)))"

lemma settle_exchange [simp]:
  "settle (exchange (axios_with rf h)) s ts =
     (Net [asent s (admin_refresh_request (aa_refreshToken s))]
        (exchange_answer rf h (asent s (admin_refresh_request (aa_refreshToken s)))), s, ts)"
  by (simp add: exchange_def axios_with_eq await_def exchange_answer_def [abs_def] exchange_end_def exchange_store_def)

text \<open>The logout after its requests are answered.\<close>

definition logout_answer :: "outcome list \<Rightarrow> 'a admin_app_scheme prog" where
  "logout_answer os =
     bind (catch (bind (if list_ex failed os then Throw (js_error ''TypeError'' ''Failed to fetch'') else Ret JUndef)
         (\<lambda>v. Tick (Ret v))) (\<lambda>_. Ret JUndef))
       (\<lambda>_. modify admin_clearSession (Ret JUndef))"

lemma settle_logout [simp]:
  "settle admin_logout s ts = (if logout_requests s = [] then (Tick (Tick (modify admin_clearSession (Ret JUndef))), s, ts)
     else (Net (logout_requests s) logout_answer, s, ts))"
  by (auto simp: admin_logout_def fetch_all_def await_def logout_answer_def [abs_def])

lemma run_logout_answer [simp]: "run (logout_answer os) s ts as = halt (Done JUndef) (admin_clearSession s) ts as"
  by (simp add: logout_answer_def)

lemma settle_exchange_answer [simp]:
  "exchange_answer rf h r [Resolved d] = Tick (exchange_end (exchange_store d))"
  "settle (exchange_end (exchange_store (token_answer a rt))) s ts =
     (Ret (JBool True), (admin_setTokens a rt s)\<lparr>aa_refreshInFlight := None\<rparr>, ts)"
  by (simp_all add: exchange_answer_def exchange_end_def exchange_store_def)

declare refreshAccessToken.simps [simp del]

text \<open>
  A refresh asked for while one is in flight waits for that one, at any nesting depth; else it
  starts one, which takes the next slot of the pool.
\<close>

lemma refresh_joins:
  assumes "truthy (aa_refreshToken s)" "aa_refreshInFlight s = Some n"
  shows "settle (await (refreshAccessToken d h) k) s ts = (Await n (joined k), s, ts)"
  using assms by (cases d) (simp_all add: refreshAccessToken.simps await_def joined_def [abs_def])

lemma refresh_starts:
  assumes "truthy (aa_refreshToken s)" "aa_refreshInFlight s = None"
  shows "settle (await (refreshAccessToken (Suc d) h) k) s ts =
    (Await (length ts) (joined k), s\<lparr>aa_refreshInFlight := Some (length ts)\<rparr>,
     ts @ [Net [asent s (admin_refresh_request (aa_refreshToken s))]
       (exchange_answer (refreshAccessToken d h) h (asent s (admin_refresh_request (aa_refreshToken s))))])"
  using assms by (simp add: refreshAccessToken.simps await_def joined_def [abs_def])

definition exchange_wait ::
  "'a admin_app_scheme prog \<Rightarrow> host \<Rightarrow> request \<Rightarrow> jsval + jsval \<Rightarrow> 'a admin_app_scheme prog" where
  "exchange_wait rf h r res =
     exchange_end (bind (joined (axios_resume rf h r) res) (\<lambda>v. Tick (exchange_store v)))"

lemma exchange_joins [simp]:
  assumes "stale s r resp" "aa_refreshInFlight s = Some n"
  shows "settle (exchange_answer (refreshAccessToken d h) h r [Rejected resp True]) s ts =
    (Await n (exchange_wait (refreshAccessToken d h) h r), s, ts)"
proof -
  have "truthy (aa_refreshToken s)" using assms(1) by (simp add: stale_def)
  with assms show ?thesis
    by (cases d) (simp_all add: exchange_answer_def exchange_end_def await_def refreshAccessToken.simps
        exchange_wait_def [abs_def] joined_def)
qed

lemma admin_refresh_joins [simp]:
  "truthy (aa_refreshToken s) \<Longrightarrow> aa_refreshInFlight s = Some n \<Longrightarrow>
   settle (await (admin_refresh h) k) s ts = (Await n (joined k), s, ts)"
  by (simp add: admin_refresh_def refresh_joins)

lemma admin_refresh_starts [simp]:
  "truthy (aa_refreshToken s) \<Longrightarrow> aa_refreshInFlight s = None \<Longrightarrow>
   settle (await (admin_refresh h) k) s ts =
    (Await (length ts) (joined k), s\<lparr>aa_refreshInFlight := Some (length ts)\<rparr>,
     ts @ [Net [asent s (admin_refresh_request (aa_refreshToken s))]
       (exchange_answer (refreshAccessToken 0 h) h (asent s (admin_refresh_request (aa_refreshToken s))))])"
  by (simp add: admin_refresh_def refresh_starts)

lemma settle_axios [simp]:
  "settle (axios_with rf h r) s ts = (Net [asent s r] (axios_answer rf h (asent s r)), s, ts)"
  by (simp add: axios_with_eq)

lemma asent_update [simp]:
  "asent (s\<lparr>aa_refreshInFlight := p\<rparr>) r = asent s r" "asent (s\<lparr>aa_user := u\<rparr>) r = asent s r"
  "asent (s\<lparr>aa_loginError := e\<rparr>) r = asent s r"
  by (simp_all add: asent_def admin_request_interceptor_def)

lemma stale_update [simp]: "stale (s\<lparr>aa_refreshInFlight := p\<rparr>) r resp = stale s r resp"
  by (simp add: stale_def)

lemma asent_authorized [simp]:
  "header r ''Authorization'' = Some v \<Longrightarrow> asent s r = r"
  by (simp add: asent_def admin_request_interceptor_def)

lemma admin_setTokens_inflight [simp]:
  "admin_setTokens a rt (s\<lparr>aa_refreshInFlight := p\<rparr>) = (admin_setTokens a rt s)\<lparr>aa_refreshInFlight := p\<rparr>"
  by (simp add: admin_setTokens_def persistRefreshToken_def)

lemma inflight_id: "aa_refreshInFlight s = p \<Longrightarrow> s\<lparr>aa_refreshInFlight := p\<rparr> = s"
  by (cases s) simp

subsection \<open>Properties of the refresh\<close>

definition retry :: "jsval \<Rightarrow> 'a admin_app_scheme \<Rightarrow> request \<Rightarrow> request" where
  "retry a s r = with_header ''Authorization'' (admin_bearer a) ((asent s r)\<lparr>rq_retry := True\<rparr>)"

text \<open>
  C7: one exchange for all. Two requests in flight together that are both answered 401 share
  one exchange: the second waits for the promise of the first. When the tokens arrive, both
  requests are sent again with the new access token, the tokens are stored and persisted, and
  the way is free for the next refresh.
\<close>

theorem concurrent_refresh_shared:
  fixes s :: "'a admin_app_scheme"
  assumes "truthy (aa_refreshToken s)" "aa_refreshInFlight s = None" "\<not> rq_retry r1" "\<not> rq_retry r2"
    and "js_opt unauthorized ''status'' = JNum 401"
  shows "\<exists>k0 k1 k2 m p1 p2 c1 c2.
    exec [(0, [Rejected unauthorized True]), (1, [Rejected unauthorized True])]
      (launch (admin_axios h r2) (launch (admin_axios h r1) \<lparr>mc_state = s, mc_tasks = []\<rparr>)) = Some m \<and>
    mc_tasks m = [Await 2 k0, Await 2 k1, Net [admin_request_interceptor s (admin_refresh_request (aa_refreshToken s))] k2] \<and>
    exec [(2, [Resolved (token_answer a rt)]), (2, []), (0, []), (0, []), (1, []), (1, [])] m =
      Some \<lparr>mc_state = admin_setTokens a rt s, mc_tasks = [Net [p1] c1, Net [p2] c2, Ret (JBool True)]\<rparr> \<and>
    rq_url p1 = rq_url r1 \<and> rq_url p2 = rq_url r2 \<and>
    header p1 ''Authorization'' = Some (admin_bearer a) \<and> header p2 ''Authorization'' = Some (admin_bearer a)"
proof -
  let ?rf = "admin_refresh h :: 'a admin_app_scheme prog" and ?q = "asent s (admin_refresh_request (aa_refreshToken s))"
  let ?m = "\<lparr>mc_state = s\<lparr>aa_refreshInFlight := Some 2\<rparr>, mc_tasks =
    [Await 2 (joined (axios_resume ?rf h (asent s r1))), Await 2 (joined (axios_resume ?rf h (asent s r2))),
     Net [?q] (exchange_answer (refreshAccessToken 0 h) h ?q)]\<rparr>"
  have st: "stale s r1 unauthorized" "stale s r2 unauthorized" using assms by (simp_all add: stale_def)
  have "exec [(0, [Rejected unauthorized True]), (1, [Rejected unauthorized True])]
      (launch (admin_axios h r2) (launch (admin_axios h r1) \<lparr>mc_state = s, mc_tasks = []\<rparr>)) = Some ?m"
    using st assms(1,2)
    by (simp add: launch_def resume_def admin_axios_def numeral_eq_Suc)
  moreover have "exec [(2, [Resolved (token_answer a rt)]), (2, []), (0, []), (0, []), (1, []), (1, [])] ?m =
      Some \<lparr>mc_state = admin_setTokens a rt s, mc_tasks =
        [Net [retry a s r1] (axios_answer ?rf h (retry a s r1)),
         Net [retry a s r2] (axios_answer ?rf h (retry a s r2)), Ret (JBool True)]\<rparr>"
    using assms(2) inflight_id [of "admin_setTokens a rt s" None]
    by (simp add: resume_def axios_resume_def numeral_eq_Suc retry_def)
  ultimately show ?thesis
    by (intro exI conjI) (assumption | simp add: asent_def retry_def)+
qed

definition sample_admin :: admin_app where
  "sample_admin = (admin_boot [] [(''admin_refresh_token'', ''r1'')] \<lparr>loc_name = None, loc_path = ''/'',
     loc_fullPath = ''/'', loc_query = [], loc_params = [], loc_meta = []\<rparr>)
     \<lparr>aa_accessToken := JStr ''a1'', aa_refreshToken := JStr ''r1''\<rparr>"

lemma sample_admin_fields [simp]:
  "aa_accessToken sample_admin = JStr ''a1''" "aa_refreshToken sample_admin = JStr ''r1''"
  "aa_refreshInFlight sample_admin = None" "aa_sessionRestorePromise sample_admin = None"
  "loc_name (currentRoute sample_admin) = None"
  by (simp_all add: sample_admin_def admin_boot_def)

theorem concurrent_refresh_shared_witness:
  "\<exists>m. exec [(0, [Rejected (http_response 401 JNull) True]), (1, [Rejected (http_response 401 JNull) True])]
      (launch (admin_axios sample_host (req_get ''/api/admin/users''))
        (launch (admin_axios sample_host (req_get ''/api/admin/stats''))
          \<lparr>mc_state = sample_admin, mc_tasks = []\<rparr>)) = Some m \<and> length (mc_tasks m) = 3"
proof -
  have "js_opt (http_response 401 JNull) ''status'' = JNum 401" by (simp add: http_response_def)
  from concurrent_refresh_shared [OF _ _ _ _ this, of sample_admin "req_get ''/api/admin/stats''"
      "req_get ''/api/admin/users''" sample_host]
  show ?thesis by fastforce
qed

text \<open>
  C12: a refresh that is itself refused with 401 never ends. The exchange goes through the same
  interceptor, which asks for a refresh again and so waits for the exchange it is part of.
  Whatever happens afterwards, neither the exchange nor the request that needed it ever
  settles, and the session-expired handling is never reached.
\<close>

theorem refresh_401_deadlocks:
  fixes s :: "'a admin_app_scheme"
  assumes "truthy (aa_refreshToken s)" "aa_refreshInFlight s = None" "\<not> rq_retry r"
    and "js_opt unauthorized ''status'' = JNum 401"
  shows "\<exists>m k0 k1. exec [(0, [Rejected unauthorized True]), (1, [Rejected unauthorized True])]
      (launch (admin_axios h r) \<lparr>mc_state = s, mc_tasks = []\<rparr>) = Some m \<and>
    (\<forall>H m'. reach H m m' \<longrightarrow> mc_tasks m' ! 0 = Await 1 k0 \<and> mc_tasks m' ! 1 = Await 1 k1)"
proof -
  let ?rf = "admin_refresh h :: 'a admin_app_scheme prog" and ?q = "asent s (admin_refresh_request (aa_refreshToken s))"
  let ?k1 = "exchange_wait (refreshAccessToken 0 h) h ?q"
  let ?m = "\<lparr>mc_state = s\<lparr>aa_refreshInFlight := Some 1\<rparr>,
    mc_tasks = [Await 1 (joined (axios_resume ?rf h (asent s r))), Await 1 ?k1]\<rparr>"
  have "stale s r unauthorized" "stale s (admin_refresh_request (aa_refreshToken s)) unauthorized"
    using assms by (simp_all add: stale_def admin_refresh_request_def)
  then have "exec [(0, [Rejected unauthorized True]), (1, [Rejected unauthorized True])]
      (launch (admin_axios h r) \<lparr>mc_state = s, mc_tasks = []\<rparr>) = Some ?m"
    using assms(1,2) by (simp add: launch_def resume_def admin_axios_def)
  moreover have "mc_tasks m' ! 0 = Await 1 (joined (axios_resume ?rf h (asent s r))) \<and> mc_tasks m' ! 1 = Await 1 ?k1"
    if "reach H ?m m'" for H m'
    using waits_for_ever [OF that, of 1 ?k1 0] self_await_stuck [OF that, of 1 ?k1] by simp
  ultimately show ?thesis by blast
qed

theorem refresh_401_deadlocks_witness:
  "\<exists>m k. exec [(0, [Rejected (http_response 401 JNull) True]), (1, [Rejected (http_response 401 JNull) True])]
      (launch (admin_axios sample_host (req_get ''/api/admin/users'')) \<lparr>mc_state = sample_admin, mc_tasks = []\<rparr>) = Some m \<and>
    mc_tasks m ! 0 = Await 1 k"
proof -
  have "js_opt (http_response 401 JNull) ''status'' = JNum 401" by (simp add: http_response_def)
  from refresh_401_deadlocks [OF _ _ _ this, of sample_admin "req_get ''/api/admin/users''" sample_host]
  show ?thesis using reach.start by fastforce
qed

subsection \<open>Everything the console may start\<close>

inductive_set admin_calls :: "host \<Rightarrow> 'a admin_app_scheme prog set" for h where
  "admin_router_push h t \<in> admin_calls h"
| "admin_main h path \<in> admin_calls h"
| "admin_login h username password \<in> admin_calls h"
| "admin_logout \<in> admin_calls h"
| "fetchUserInfo h \<in> admin_calls h"
| "admin_refresh h \<in> admin_calls h"
| "admin_restoreSession h \<in> admin_calls h"
| "ensureSessionRestored h \<in> admin_calls h"

inductive_set admin_actions :: "host \<Rightarrow> 'a admin_app_scheme prog set" for h where
  "admin_axios h r \<in> admin_actions h"
| "p \<in> admin_calls h \<Longrightarrow> p \<in> admin_actions h"

locale admin_invariant =
  fixes I :: "'a admin_app_scheme \<Rightarrow> bool"
  assumes set_tokens: "I s \<Longrightarrow> I (admin_setTokens a r s)"
    and clear_session: "I s \<Longrightarrow> I (admin_clearSession s)"
    and verifier: "I s \<Longrightarrow> I (s\<lparr>sessionStorage := st_set (sessionStorage s) ''pkce_code_verifier'' cv\<rparr>)"
    and reload: "I s \<Longrightarrow> truthy (loadPersistedRefreshToken s) \<Longrightarrow>
      I (s\<lparr>aa_refreshToken := loadPersistedRefreshToken s\<rparr>)"
    and route: "I s \<Longrightarrow> I (s\<lparr>currentRoute := l\<rparr>)"
    and href: "I s \<Longrightarrow> I (assign_href u s)"
    and user: "I s \<Longrightarrow> I (s\<lparr>aa_user := v\<rparr>)"
    and login_error: "I s \<Longrightarrow> I (s\<lparr>aa_loginError := v\<rparr>)"
    and in_flight: "I s \<Longrightarrow> I (s\<lparr>aa_refreshInFlight := p\<rparr>)"
    and restore_promise: "I s \<Longrightarrow> I (s\<lparr>aa_sessionRestorePromise := p\<rparr>)"
begin

lemma navigate_keeps: "(\<And>l. keeps I (guard l)) \<Longrightarrow> keeps I (navigate n h rs guard t)"
proof (induction n arbitrary: t)
  case (Suc n)
  then show ?case
    by (auto split: option.split intro!: keeps_intros route)
qed (simp add: keeps_Throw)

lemma push_keeps: "keeps I r \<Longrightarrow> keeps I (admin_push r h t)"
  unfolding admin_push_def by (rule navigate_keeps) (auto simp: admin_guard_def intro!: keeps_intros)

lemma logout_keeps: "keeps I admin_logout"
  unfolding admin_logout_def by (intro keeps_intros clear_session)

lemma redirect_keeps: "keeps I (admin_redirectToLogin h)"
  unfolding admin_redirectToLogin_def redirect_to_login_def
  by (intro keeps_intros push_keeps href)

lemma expired_keeps: "keeps I (admin_session_expired h)"
  unfolding admin_session_expired_def by (intro keeps_intros logout_keeps redirect_keeps login_error)

lemma axios_keeps: "keeps I rf \<Longrightarrow> keeps I (axios_with rf h r)"
proof -
  assume rf: "keeps I rf"
  have retry: "keeps I (axios_with rf h r)" if "rq_retry r" for r
    using that by (subst axios_with.simps)
      (auto simp: Let_def intro!: keeps_intros split: list.split outcome.split)
  show ?thesis
    by (subst axios_with.simps)
      (auto simp: Let_def intro!: keeps_intros rf expired_keeps retry split: list.split outcome.split)
qed

lemma exchange_keeps: "(\<And>r. keeps I (ax r)) \<Longrightarrow> keeps I (exchange ax)"
  unfolding exchange_def by (intro keeps_intros set_tokens in_flight logout_keeps)

lemma refresh_keeps: "keeps I (refreshAccessToken d h)"
proof (induction d)
  case (Suc d)
  then show ?case
    unfolding refreshAccessToken.simps by (intro keeps_intros exchange_keeps axios_keeps in_flight)
next
  case 0
  show ?case unfolding refreshAccessToken.simps by (intro keeps_intros)
qed

lemma admin_axios_keeps: "keeps I (admin_refresh h)" "keeps I (admin_axios h r)"
  unfolding admin_axios_def admin_refresh_def by (intro axios_keeps refresh_keeps)+

lemma fetchUserInfo_keeps: "keeps I (fetchUserInfo h)"
  unfolding fetchUserInfo_def by (intro keeps_intros admin_axios_keeps logout_keeps user)

lemma login_keeps: "keeps I (admin_login h u p)"
  unfolding admin_login_def Let_def
  by (intro keeps_intros admin_axios_keeps fetchUserInfo_keeps logout_keeps login_error set_tokens verifier)

lemma restoreSession_keeps: "keeps I (admin_restoreSession h)"
proof (rule keepsI)
  fix s assume I: "I s"
  have rest: "keeps I (await (admin_refresh h) (\<lambda>ok.
         if \<not> truthy ok then Ret (JBool False)
         else await (fetchUserInfo h) (\<lambda>_. Get (\<lambda>s'.
           of_sum (has_admin_role (aa_user s')) (\<lambda>is_admin. Ret (JBool (truthy is_admin)))))))"
    by (intro keeps_intros admin_axios_keeps fetchUserInfo_keeps)
  show "safe I (admin_restoreSession h) s"
    using I reload [OF I] by (auto simp: admin_restoreSession_def Let_def intro: keepsD [OF rest])
qed

lemma ensure_keeps: "keeps I (ensureSessionRestored h)"
  unfolding ensureSessionRestored_def
  by (intro keeps_intros restoreSession_keeps restore_promise)

lemma action_keeps: "p \<in> admin_actions h \<Longrightarrow> keeps I p"
  by (erule admin_actions.cases, simp only: admin_axios_keeps, erule admin_calls.cases)
     (auto simp: admin_router_push_def admin_main_def intro!: keeps_intros admin_axios_keeps push_keeps
       ensure_keeps restoreSession_keeps login_keeps logout_keeps fetchUserInfo_keeps)

lemma reachable:
  assumes "reach (admin_actions h) m0 m" "machine_ok I m0"
  shows "machine_ok I m"
  using assms by (rule reach_safe) (rule action_keeps)

end

interpretation asyn: admin_invariant ad.covered
  by unfold_locales
    (auto simp: ad.covered_set ad.covered_clear ad.covered_def assign_href_def loadPersistedRefreshToken_def
      split: option.splits)

definition untouched :: "storage \<Rightarrow> storage \<Rightarrow> 'a spa_scheme \<Rightarrow> bool" where
  "untouched ls ss s \<longleftrightarrow> localStorage s = ls \<and>
     (\<forall>k. k \<notin> {''admin_refresh_token'', ''pkce_code_verifier''} \<longrightarrow> st_get (sessionStorage s) k = st_get ss k)"

interpretation aframe: admin_invariant "untouched ls ss" for ls ss
  by unfold_locales (auto simp: untouched_def assign_href_def REFRESH_TOKEN_STORAGE_KEY_def)

text \<open>
  C8: what the console persists. From a page load, under every interleaving of its calls and
  every sequence of answers, a refresh token in memory is the one in \<^verbatim>\<open>sessionStorage\<close>
  (from the moment the session is restored or established), \<^verbatim>\<open>localStorage\<close> is never
  touched, and the only other key written is that of the PKCE verifier: the access token stays
  in memory.
\<close>

theorem admin_storage_invariant:
  assumes "reach (admin_actions h) \<lparr>mc_state = admin_boot ls ss l, mc_tasks = []\<rparr> m"
  shows "(truthy (aa_refreshToken (mc_state m)) \<longrightarrow>
      st_get (sessionStorage (mc_state m)) ''admin_refresh_token'' =
        Some (js_to_string (aa_refreshToken (mc_state m)))) \<and>
    localStorage (mc_state m) = ls \<and>
    (\<forall>k. k \<notin> {''admin_refresh_token'', ''pkce_code_verifier''} \<longrightarrow>
       st_get (sessionStorage (mc_state m)) k = st_get ss k)"
proof -
  have "machine_ok ad.covered m"
    by (rule asyn.reachable [OF assms]) (simp add: machine_ok_def ad.covered_def admin_boot_def)
  moreover have "machine_ok (untouched ls ss) m"
    by (rule aframe.reachable [OF assms]) (simp add: machine_ok_def untouched_def admin_boot_def)
  ultimately have "ad.covered (mc_state m)" "untouched ls ss (mc_state m)"
    by (simp_all only: machine_ok_def)
  note 1 = this(1) [unfolded ad.covered_def, unfolded REFRESH_TOKEN_STORAGE_KEY_def]
    and 2 = this(2) [unfolded untouched_def]
  show ?thesis using 1 conjunct1 [OF 2] conjunct2 [OF 2] by (intro conjI)
qed

theorem admin_storage_invariant_witness:
  "\<exists>m. reach (admin_actions sample_host)
      \<lparr>mc_state = admin_boot [(''k'', ''v'')] [(''admin_refresh_token'', ''r1'')] (currentRoute sample_admin), mc_tasks = []\<rparr> m \<and>
    localStorage (mc_state m) = [(''k'', ''v'')]"
proof -
  have "reach (admin_actions sample_host)
      \<lparr>mc_state = admin_boot [(''k'', ''v'')] [(''admin_refresh_token'', ''r1'')] (currentRoute sample_admin), mc_tasks = []\<rparr>
      (launch (admin_restoreSession sample_host)
        \<lparr>mc_state = admin_boot [(''k'', ''v'')] [(''admin_refresh_token'', ''r1'')] (currentRoute sample_admin), mc_tasks = []\<rparr>)"
    by (intro reach.call reach.start admin_actions.intros admin_calls.intros)
  with admin_storage_invariant [OF this] show ?thesis by blast
qed

subsection \<open>Logout, login and the guard\<close>

text \<open>
  C26: logout always ends logged out. Whatever the answers, and if no request can be sent at
  all, the call returns without an error with tokens, user and persisted token cleared, having
  asked for the revocation of each token held by requests that survive the page.
\<close>

theorem admin_logout_clears:
  fixes s :: "'a admin_app_scheme"
  assumes "length os = length (logout_requests s)"
  shows "run admin_logout s ts ((if logout_requests s = [] then [] else [os]) @ as) =
      emit (logout_requests s) (halt (Done JUndef) (admin_clearSession s) ts as) \<and>
    st_get (sessionStorage (admin_clearSession s)) ''admin_refresh_token'' = None \<and>
    list_all rq_keepalive (logout_requests s) \<and>
    (truthy (aa_accessToken s) \<longrightarrow> (\<exists>r \<in> set (logout_requests s). rq_url r = ''/oauth2/logout'' \<and>
       header r ''Authorization'' = Some (admin_bearer (aa_accessToken s)))) \<and>
    (truthy (aa_refreshToken s) \<longrightarrow> (\<exists>r \<in> set (logout_requests s). rq_url r = ''/oauth2/revoke'' \<and>
       form_field r ''token'' = Some (aa_refreshToken s)))"
proof -
  have "run admin_logout s ts ((if logout_requests s = [] then [] else [os]) @ as) =
      emit (logout_requests s) (halt (Done JUndef) (admin_clearSession s) ts as)"
    using assms by (auto simp: admin_logout_def fetch_all_def prog_simps)
  then show ?thesis
    by (auto simp: logout_requests_def admin_logout_request_def admin_revoke_request_def
        REFRESH_TOKEN_STORAGE_KEY_def)
qed

theorem admin_logout_clears_witness:
  "r_exit (run admin_logout sample_admin [] [[Rejected JUndef True, Rejected JUndef True]]) = Done JUndef"
  using admin_logout_clears [of "[Rejected JUndef True, Rejected JUndef True]" sample_admin "[]" "[]"]
  by (simp add: logout_requests_def)

text \<open>The requests of a login, and a run of the intercepted axios that is not refused with 401.\<close>

lemma run_axios:
  "run (axios_with rf h r) s ts ([Resolved d] # as) = emit [asent s r] (halt (Done d) s ts as)"
  "\<not> stale s r resp \<Longrightarrow> run (axios_with rf h r) s ts ([Rejected resp c] # as) =
     emit [asent s r] (halt (Raised (axios_error resp)) s ts as)"
  by (simp add: axios_with_eq) (cases c; simp add: axios_with_eq)

lemma run_fetchUserInfo:
  "truthy (aa_accessToken s) \<Longrightarrow> run (fetchUserInfo h) s ts ([Resolved info] # as) =
     emit [with_header ''Authorization'' (admin_bearer (aa_accessToken s)) (req_get ''/oauth2/userinfo'')]
       (halt (Done JUndef) (s\<lparr>aa_user := info\<rparr>) ts as)"
  by (simp add: fetchUserInfo_def admin_axios_def prog_simps run_axios)

text \<open>
  C25: the console admits administrators only, once it has asked. With the code exchanged and
  the profile read, a user whose roles include admin gets success. For any other user the
  result is forbidden and the error is shown; but the logout is only started, so at that moment
  the console still holds the tokens and counts as authenticated. When the logout's requests
  are answered, in whatever way, the session is cleared.
\<close>

theorem admin_login_role:
  fixes s :: "'a admin_app_scheme" and h a rt info
  assumes "truthy code" "truthy a" "has_admin_role info = Inr v"
  defines "s1 \<equiv> (admin_setTokens a rt (s\<lparr>aa_loginError := JStr []\<rparr>))\<lparr>aa_user := info\<rparr>"
    and "answers \<equiv> [[Resolved (JObj [(''code'', code)])], [Resolved (token_answer a rt)], [Resolved info]]"
  shows "(truthy v \<longrightarrow>
      r_exit (run (admin_login h u p) s ts answers) = Done (JObj [(''success'', JBool True)]) \<and>
      r_state (run (admin_login h u p) s ts answers) = s1) \<and>
    (\<not> truthy v \<longrightarrow> (\<exists>k. 
      r_exit (run (admin_login h u p) s [] answers) = Done (JObj [(''error'', JStr ''forbidden'')]) \<and>
      r_state (run (admin_login h u p) s [] answers) =
        s1\<lparr>aa_loginError := JStr ''Admin role required to access this console''\<rparr> \<and>
      admin_isAuthenticated (r_state (run (admin_login h u p) s [] answers)) \<and>
      r_tasks (run (admin_login h u p) s [] answers) = [Net (logout_requests s1) k] \<and>
      (\<forall>os s2. r_state (run (k os) s2 [] []) = admin_clearSession s2)))"
proof -
  have nonempty: "logout_requests s1 \<noteq> []" using assms(2) by (simp add: logout_requests_def s1_def)
  have run: "\<exists>rs. run (admin_login h u p) s ts answers = emit rs (run
      (if \<not> truthy v then Async admin_logout (\<lambda>_.
         modify (aa_loginError_update (\<lambda>_. JStr ''Admin role required to access this console''))
           (Ret (JObj [(''error'', JStr ''forbidden'')])))
       else Ret (JObj [(''success'', JBool True)])) s1 ts [])" for ts
    using assms(1-3) unfolding answers_def s1_def
    by (intro exI [of _ "[asent s (admin_login_request h u p (generatePkcePair h)),
            asent s (admin_code_request h code (verifier (generatePkcePair h))),
            with_header ''Authorization'' (admin_bearer a) (req_get ''/oauth2/userinfo'')]"])
       (simp add: admin_login_def Let_def prog_simps admin_axios_def run_axios run_fetchUserInfo)
  show ?thesis
  proof (intro conjI impI)
    assume "\<not> truthy v"
    with run [of "[]"] nonempty show "\<exists>k. 
      r_exit (run (admin_login h u p) s [] answers) = Done (JObj [(''error'', JStr ''forbidden'')]) \<and>
      r_state (run (admin_login h u p) s [] answers) =
        s1\<lparr>aa_loginError := JStr ''Admin role required to access this console''\<rparr> \<and>
      admin_isAuthenticated (r_state (run (admin_login h u p) s [] answers)) \<and>
      r_tasks (run (admin_login h u p) s [] answers) = [Net (logout_requests s1) k] \<and>
      (\<forall>os s2. r_state (run (k os) s2 [] []) = admin_clearSession s2)"
      using assms(2) by (intro exI [of _ logout_answer]) (auto simp: admin_isAuthenticated_def s1_def)
  qed (use run [of ts] in auto)
qed

theorem admin_login_role_witness:
  "r_exit (run (admin_login sample_host (JStr ''bob'') (JStr ''pw'')) sample_admin []
     [[Resolved (JObj [(''code'', JStr ''c'')])], [Resolved (token_answer (JStr ''a2'') (JStr ''r2''))],
      [Resolved (JObj [(''roles'', JArr [JStr ''user''])])]]) = Done (JObj [(''error'', JStr ''forbidden'')])"
proof -
  have "has_admin_role (JObj [(''roles'', JArr [JStr ''user''])]) = Inr (JBool False)"
    by (simp add: has_admin_role_def)
  from admin_login_role [OF _ _ this, of "JStr ''c''" "JStr ''a2''" sample_host "JStr ''bob''" "JStr ''pw''"
      sample_admin _ "JStr ''r2''"]
  show ?thesis by auto
qed

lemma admin_login_location:
  "locate_name h admin_routes ''login'' JUndef =
     Some \<lparr>loc_name = Some ''login'', loc_path = ''/login'', loc_fullPath = ''/login'',
       loc_query = [], loc_params = [], loc_meta = open_meta\<rparr>"
  "map_of open_meta ''requiresAuth'' = Some (JBool False)"
  by (simp_all add: locate_name_def admin_routes_def open_meta_def)

text \<open>
  C35: the guard remembers a session that is gone. The promise of the restore is kept for the
  life of the page. Once it has resolved to true, the guard lets a user without tokens, such as
  one who has just logged out, go to any page of the console; without it the guard sends that
  user to the login page.
\<close>

theorem cached_restore_admits:
  fixes s :: "'a admin_app_scheme"
  assumes "length os = length (logout_requests s)" "logout_requests s \<noteq> []"
    and "aa_sessionRestorePromise s = Some n" "n < length ts"
    and "meta (locate_path h admin_routes p) ''requiresAuth'' \<noteq> JBool False"
    and "loc_name (currentRoute s) \<notin> {loc_name (locate_path h admin_routes p), Some ''login''}"
  defines "s' \<equiv> r_state (run admin_logout s ts [os])"
  shows "\<not> admin_isAuthenticated s' \<and>
    (ts ! n = Ret (JBool True) \<longrightarrow> run (admin_router_push h (JStr p)) s' ts as =
       halt (Done JUndef) (s'\<lparr>currentRoute := locate_path h admin_routes p\<rparr>) ts as) \<and>
    (ts ! n = Ret (JBool False) \<longrightarrow>
       loc_name (currentRoute (r_state (run (admin_router_push h (JStr p)) s' ts as))) = Some ''login'')"
proof -
  have s': "s' = admin_clearSession s"
    using assms(1,2) by (auto simp: s'_def admin_logout_def fetch_all_def prog_simps)
  then show ?thesis
    using assms(3-6)
    by (auto simp: admin_router_push_def admin_push_def admin_guard_def admin_isAuthenticated_def prog_simps
        numeral_eq_Suc ensureSessionRestored_def admin_login_location)
qed

lemma locate_users:
  "locate_path h admin_routes ''/users'' = \<lparr>loc_name = Some ''users'', loc_path = ''/users'',
     loc_fullPath = ''/users'', loc_query = [], loc_params = [], loc_meta = console_meta\<rparr>"
  by (simp add: locate_path_def admin_routes_def path_part_def query_part_def segments_def js_upper_def)

theorem cached_restore_admits_witness:
  "\<exists>s :: admin_app. \<not> admin_isAuthenticated s \<and>
     r_state (run (admin_router_push sample_host (JStr ''/users'')) s [Ret (JBool True)] []) =
       s\<lparr>currentRoute := locate_path sample_host admin_routes ''/users''\<rparr>"
proof -
  let ?s = "sample_admin\<lparr>aa_sessionRestorePromise := Some 0\<rparr>"
  have "meta (locate_path sample_host admin_routes ''/users'') ''requiresAuth'' \<noteq> JBool False"
    by (simp add: locate_users console_meta_def)
  from cached_restore_admits [OF _ _ _ _ this, of "[Resolved JNull, Resolved JNull]" ?s 0 "[Ret (JBool True)]" "[]"]
  show ?thesis
    by (intro exI [of _ "r_state (run admin_logout ?s [Ret (JBool True)] [[Resolved JNull, Resolved JNull]])"])
       (auto simp: logout_requests_def locate_users)
qed

text \<open>The restore after the refresh it waits for.\<close>

definition restore_rest :: "host \<Rightarrow> jsval \<Rightarrow> 'a admin_app_scheme prog" where
  "restore_rest h ok =
     (if \<not> truthy ok then Ret (JBool False)
      else await (fetchUserInfo h) (\<lambda>_. Get (\<lambda>s'.
        of_sum (has_admin_role (aa_user s')) (\<lambda>is_admin. Ret (JBool (truthy is_admin))))))"

lemma settle_restore [simp]:
  "st_get (sessionStorage s) ''admin_refresh_token'' = Some r \<Longrightarrow> r \<noteq> [] \<Longrightarrow>
   settle (admin_restoreSession h) s ts =
     settle (await (admin_refresh h) (restore_rest h)) (s\<lparr>aa_refreshToken := JStr r\<rparr>) ts"
  by (simp add: admin_restoreSession_def loadPersistedRefreshToken_def REFRESH_TOKEN_STORAGE_KEY_def Let_def
      restore_rest_def [abs_def])

lemma settle_restore_rest:
  "truthy (aa_accessToken s) \<Longrightarrow> truthy ok \<Longrightarrow> \<exists>k. \<forall>ts. settle (restore_rest h ok) s ts =
     (Net [with_header ''Authorization'' (admin_bearer (aa_accessToken s)) (req_get ''/oauth2/userinfo'')] k, s, ts)"
  by (simp add: restore_rest_def fetchUserInfo_def await_simps admin_axios_def axios_with_eq)

lemma settle_push_waits:
  fixes s :: "'a admin_app_scheme"
  assumes "st_get (sessionStorage s) ''admin_refresh_token'' = Some r" "r \<noteq> []"
    and "\<not> admin_isAuthenticated s" "aa_sessionRestorePromise s = None" "aa_refreshInFlight s = Some n"
    and "meta (locate_path h admin_routes p) ''requiresAuth'' \<noteq> JBool False"
    and "loc_name (currentRoute s) \<noteq> loc_name (locate_path h admin_routes p)"
  shows "\<exists>K. settle (admin_router_push h (JStr p)) s ts =
    (Await (length ts) K, s\<lparr>aa_refreshToken := JStr r, aa_sessionRestorePromise := Some (length ts)\<rparr>,
     ts @ [Await n (joined (restore_rest h))])"
  using assms
  by (simp add: admin_router_push_def admin_push_def numeral_eq_Suc admin_guard_def ensureSessionRestored_def await_simps)

text \<open>
  A page load with a persisted token makes one exchange and reads the profile twice. The
  restore that \<^verbatim>\<open>main.ts\<close> starts and the one the guard starts share the exchange of the
  refresh token; after it, both go on to read the profile, so the restore as a whole runs twice.
\<close>

lemma page_load_restores_twice:
  assumes "st_get ss ''admin_refresh_token'' = Some r" "r \<noteq> []" "truthy a" "loc_name start = None"
    and "meta (locate_path h admin_routes p) ''requiresAuth'' \<noteq> JBool False"
    and "loc_name (locate_path h admin_routes p) \<noteq> None"
  shows "\<exists>m1 m2 k k2 k4 q.
    exec [(1, [])] (launch (admin_main h p) \<lparr>mc_state = admin_boot ls ss start, mc_tasks = []\<rparr>) = Some m1 \<and>
    mc_tasks m1 ! 3 = Net [admin_refresh_request (JStr r)] k \<and> length (mc_tasks m1) = 5 \<and>
    (\<exists>k. mc_tasks m1 ! 2 = Await 3 k) \<and> (\<exists>k. mc_tasks m1 ! 4 = Await 3 k) \<and>
    exec [(3, [Resolved (token_answer a rt)]), (3, []), (2, []), (2, []), (4, []), (4, [])] m1 = Some m2 \<and>
    mc_tasks m2 ! 2 = Net [q] k2 \<and> mc_tasks m2 ! 4 = Net [q] k4 \<and> rq_url q = ''/oauth2/userinfo''"
proof -
  let ?s = "(admin_boot ls ss start)\<lparr>aa_refreshToken := JStr r, aa_refreshInFlight := Some 3\<rparr>"
  let ?push = "admin_router_push h (JStr p)" and ?rr = "joined (restore_rest h)"
  let ?q = "admin_refresh_request (JStr r)"
  let ?ex = "Net [?q] (exchange_answer (refreshAccessToken 0 h) h ?q)"
  have q: "asent t ?q = ?q" if "aa_accessToken t = JNull" for t :: admin_app
    using that by (simp add: asent_def admin_request_interceptor_def)
  have l: "launch (admin_main h p) \<lparr>mc_state = admin_boot ls ss start, mc_tasks = []\<rparr> =
      \<lparr>mc_state = ?s, mc_tasks = [Ret JUndef, Tick ?push, Await 3 ?rr, ?ex]\<rparr>"
    using assms(1,2)
    by (simp add: launch_def resume_def admin_main_def admin_boot_def numeral_eq_Suc q)
  obtain K where K: "settle ?push ?s [Ret JUndef, running, Await 3 ?rr, ?ex] =
    (Await 4 K, ?s\<lparr>aa_sessionRestorePromise := Some 4\<rparr>, [Ret JUndef, running, Await 3 ?rr, ?ex, Await 3 ?rr])"
    using settle_push_waits [of ?s r 3 h p "[Ret JUndef, running, Await 3 ?rr, ?ex]"] assms
    by (auto simp: admin_isAuthenticated_def admin_boot_def numeral_eq_Suc)
  let ?m1 = "\<lparr>mc_state = ?s\<lparr>aa_sessionRestorePromise := Some 4\<rparr>,
    mc_tasks = [Ret JUndef, Await 4 K, Await 3 ?rr, ?ex, Await 3 ?rr]\<rparr>"
  have e1: "exec [(1, [])] (launch (admin_main h p) \<lparr>mc_state = admin_boot ls ss start, mc_tasks = []\<rparr>) = Some ?m1"
    unfolding l using K by (simp add: resume_def)
  let ?t = "(admin_setTokens a rt (?s\<lparr>aa_sessionRestorePromise := Some 4\<rparr>))\<lparr>aa_refreshInFlight := None\<rparr>"
  let ?u = "with_header ''Authorization'' (admin_bearer a) (req_get ''/oauth2/userinfo'')"
  obtain k where k: "\<And>ts. settle (restore_rest h (JBool True)) ?t ts = (Net [?u] k, ?t, ts)"
    using settle_restore_rest [of ?t "JBool True" h] assms(3) by auto
  have e2: "exec [(3, [Resolved (token_answer a rt)]), (3, []), (2, []), (2, []), (4, []), (4, [])] ?m1 =
      Some \<lparr>mc_state = ?t, mc_tasks = [Ret JUndef, Await 4 K, Net [?u] k, Ret (JBool True), Net [?u] k]\<rparr>"
    using k by (simp add: resume_def numeral_eq_Suc)
  show ?thesis by (intro exI conjI, rule e1) ((simp add: e2)+)
qed

end
