(* ===== verification/Navigation_Bound.thy ===== *)
theory Navigation_Bound
  imports User_Navigation Admin_Session
begin

text \<open>
  Navigation ends. vue-router follows the redirects of a guard without a bound, and \<open>navigate\<close>
  has one that makes it a function. Here the bound is shown not to matter for either
  application: their guards never redirect the target of a redirect, so a navigation is a
  \<open>navigate_once\<close>, which has no bound and at most one redirect.
\<close>

definition no_match :: jsval where
  "no_match = js_error ''Error'' ''No match for location''"

definition commit :: "location \<Rightarrow> 'a spa_scheme prog" where
  "commit l = modify (currentRoute_update (\<lambda>_. l)) (Ret JUndef)"

definition unless_there :: "location \<Rightarrow> 'a spa_scheme prog \<Rightarrow> 'a spa_scheme prog" where
  "unless_there l p = Get (\<lambda>s.
     if loc_fullPath (currentRoute s) = loc_fullPath l \<and> loc_name (currentRoute s) = loc_name l then Ret JUndef else p)"

definition navigate_once ::
  "host \<Rightarrow> route list \<Rightarrow> (location \<Rightarrow> 'a spa_scheme prog) \<Rightarrow> jsval \<Rightarrow> 'a spa_scheme prog" where
  "navigate_once h rs guard t = (case resolve_target h rs t of
       None \<Rightarrow> Throw no_match
     | Some l \<Rightarrow> unless_there l (await (guard l) (\<lambda>d.
         if nullish d then commit l
         else case resolve_target h rs d of
           None \<Rightarrow> Throw no_match
         | Some l' \<Rightarrow> unless_there l' (commit l'))))"

text \<open>
  The contract that makes it so, for a guard and a route table: wherever the guard sends a
  navigation, in the state it leaves, it lets that navigation pass.
\<close>

locale settling_guard =
  fixes rs :: "route list" and guard :: "host \<Rightarrow> location \<Rightarrow> 'a spa_scheme prog"
  assumes redirect_passes:
    "r_exit (run (guard h l) s ts as) = Done d \<Longrightarrow> \<not> nullish d \<Longrightarrow> resolve_target h rs d = Some l' \<Longrightarrow>
     run (guard h l') (r_state (run (guard h l) s ts as)) ts' as' =
       halt (Done JUndef) (r_state (run (guard h l) s ts as)) ts' as'"
begin

lemma run_navigate:
  "run (navigate (Suc (Suc n)) h rs (guard h) t) s ts as = run (navigate_once h rs (guard h) t) s ts as"
proof (cases "resolve_target h rs t")
  case None
  then show ?thesis by (simp add: navigate_once_def no_match_def)
next
  case (Some l)
  show ?thesis
  proof (cases "r_exit (run (guard h l) s ts as)")
    case (Done d)
    have "run (navigate (Suc n) h rs (guard h) d) s' ts' as' =
        run (case resolve_target h rs d of None \<Rightarrow> Throw no_match | Some l' \<Rightarrow> unless_there l' (commit l')) s' ts' as'"
      if "\<not> nullish d" "s' = r_state (run (guard h l) s ts as)" for s' ts' as'
      using that redirect_passes [OF Done] by (auto simp: no_match_def unless_there_def commit_def run_await split: option.split)
    with Some Done show ?thesis
      by (auto simp: navigate_once_def unless_there_def commit_def run_await then_run_def simp del: navigate.simps(2) split: option.split)
         (simp_all add: run_await then_run_def)
  qed (auto simp: Some navigate_once_def unless_there_def run_await then_run_def)
qed

lemma never_unbounded:
  assumes "\<And>l. no_throw (guard h l)" "r_exit (run (navigate (Suc (Suc n)) h rs (guard h) t) s ts as) = Raised e"
  shows "e = no_match"
proof -
  from assms(1) have g: "\<And>l s ts as e. r_exit (run (guard h l) s ts as) \<noteq> Raised e" by (simp add: run_no_throw)
  from assms(2) show ?thesis
    unfolding run_navigate
    by (auto simp: navigate_once_def unless_there_def commit_def run_await then_run_def g
        split: option.splits if_splits exit.splits)
qed

end

subsection \<open>The two guards\<close>

lemma restore_refused:
  assumes "r_exit (run (restoreSession h) s ts as) = Done v" "\<not> truthy v" "\<not> ua_tokenPresent s"
  shows "\<not> ua_tokenPresent (r_state (run (restoreSession h) s ts as))"
  using assms by (auto simp: restoreSession_def run_await then_run_def markUnauthenticated_def
      split: exit.splits if_splits)

lemma user_guard_redirect:
  assumes "r_exit (run (user_guard (restoreSession h) l) s ts as) = Done d" "\<not> nullish d"
  defines "s' \<equiv> r_state (run (user_guard (restoreSession h) l) s ts as)"
  shows "(\<exists>q. d = to_name_query ''login'' q) \<and> \<not> ua_tokenPresent s' \<or> d = to_name ''dashboard'' \<and> ua_tokenPresent s'"
  using assms restore_refused [of h s ts as]
  by (auto simp: user_guard_def run_await then_run_def split: exit.splits if_splits)

interpretation user_nav: settling_guard user_routes "\<lambda>h. user_guard (restoreSession h)"
proof
  fix h l s ts as d l' ts' as'
  let ?s = "r_state (run (user_guard (restoreSession h) l) s ts as)"
  assume d: "r_exit (run (user_guard (restoreSession h) l) s ts as) = Done d" "\<not> nullish d"
    and l': "resolve_target h user_routes d = Some l'"
  from user_guard_redirect [OF d]
  show "run (user_guard (restoreSession h) l') ?s ts' as' = halt (Done JUndef) ?s ts' as'"
    using l' by (auto simp: user_guard_def)
qed

interpretation admin_nav: settling_guard admin_routes "\<lambda>h. admin_guard (ensureSessionRestored h)"
proof
  fix h l s ts as d l' ts' as'
  let ?s = "r_state (run (admin_guard (ensureSessionRestored h) l) s ts as)"
  assume "r_exit (run (admin_guard (ensureSessionRestored h) l) s ts as) = Done d" "\<not> nullish d"
  then have "d = to_name ''login''"
    by (auto simp: admin_guard_def run_await then_run_def split: exit.splits if_splits)
  moreover assume "resolve_target h admin_routes d = Some l'"
  ultimately have "loc_meta l' = open_meta"
    by (auto simp: locate_name_def admin_routes_def)
  then show "run (admin_guard (ensureSessionRestored h) l') ?s ts' as' = halt (Done JUndef) ?s ts' as'"
    by (simp add: admin_guard_def open_meta_def)
qed

text \<open>
  C18: navigation ends. In both applications, from every state, to every target and whatever
  the server answers, a push follows at most one redirect: it computes what the version
  without a bound computes, and so does every bound of two or more. In the user application a
  push only ever rejects because the target matches no route.
\<close>

theorem navigation_terminates:
  fixes s :: "'a user_app_scheme" and s' :: "'b admin_app_scheme"
  shows "run (user_router_push h t) s ts as = run (navigate_once h user_routes (user_guard (restoreSession h)) t) s ts as \<and>
    run (navigate (n + 2) h user_routes (user_guard (restoreSession h)) t) s ts as = run (user_router_push h t) s ts as \<and>
    run (admin_router_push h t) s' ts' as =
      run (navigate_once h admin_routes (admin_guard (ensureSessionRestored h)) t) s' ts' as \<and>
    run (navigate (n + 2) h admin_routes (admin_guard (ensureSessionRestored h)) t) s' ts' as =
      run (admin_router_push h t) s' ts' as \<and>
    (\<forall>e. r_exit (run (user_router_push h t) s ts as) = Raised e \<longrightarrow> e = no_match)"
proof (intro conjI allI impI)
  have four: "(4 :: nat) = Suc (Suc 2)" and two: "n + 2 = Suc (Suc n)" by simp_all
  show u: "run (user_router_push h t) s ts as =
      run (navigate_once h user_routes (user_guard (restoreSession h)) t) s ts as"
    unfolding user_router_push_def user_push_def four by (rule user_nav.run_navigate)
  then show "run (navigate (n + 2) h user_routes (user_guard (restoreSession h)) t) s ts as =
      run (user_router_push h t) s ts as"
    unfolding two by (simp only: user_nav.run_navigate)
  show a: "run (admin_router_push h t) s' ts' as =
      run (navigate_once h admin_routes (admin_guard (ensureSessionRestored h)) t) s' ts' as"
    unfolding admin_router_push_def admin_push_def four by (rule admin_nav.run_navigate)
  then show "run (navigate (n + 2) h admin_routes (admin_guard (ensureSessionRestored h)) t) s' ts' as =
      run (admin_router_push h t) s' ts' as"
    unfolding two by (simp only: admin_nav.run_navigate)
  have "no_throw (user_guard (restoreSession h :: 'a user_app_scheme prog) l)" for l
    unfolding user_guard_def by (auto intro!: no_throw_intros restore_no_throw)
  then show "e = no_match" if "r_exit (run (user_router_push h t) s ts as) = Raised e" for e
    using that unfolding user_router_push_def user_push_def four by (rule user_nav.never_unbounded)
qed

theorem navigation_terminates_witness:
  "r_exit (run (user_router_push sample_host JNull) sample_state [] []) = Raised no_match \<and>
   run (navigate (5 + 2) sample_host user_routes (user_guard (restoreSession sample_host)) JNull) sample_state [] [] =
     run (user_router_push sample_host JNull) sample_state [] []"
proof -
  obtain e where "r_exit (run (user_router_push sample_host JNull) sample_state [] []) = Raised e"
    by (simp add: user_router_push_def user_push_def numeral_eq_Suc)
  then show ?thesis
    using navigation_terminates [where h = sample_host and t = JNull and s = sample_state and s' = sample_admin
        and ts = "[]" and ts' = "[]" and as = "[]" and n = 5] by blast
qed

end
