(* ===== verification/Page_Lib.thy ===== *)
theory Page_Lib
  imports Router JS_Machine
begin

text \<open>
  What the pages of both applications share. A page component is a record that extends the
  state of its application with the component's refs; its handlers are programs over that
  record and its template is a function from the record to the elements on display, each
  enabled button with the handler it calls. Styles, icons and nesting are left out.

  \<open>settles\<close> and \<open>resets\<close> say that a handler ends well: it does not reject and does
  not leave the page's busy flag up. The locale \<open>busy_flag\<close> is the interface a page gives
  for that flag. \<open>sends_only\<close> bounds which requests a handler can ever send.
\<close>

subsection \<open>Handlers\<close>

text \<open>\<^verbatim>\<open>setTimeout(() => q, n)\<close>, and a call that is not awaited.\<close>

definition later :: "'s prog \<Rightarrow> 's prog \<Rightarrow> 's prog" where
  "later q p = Async (Tick q) (\<lambda>_. p)"

definition no_await :: "'s prog \<Rightarrow> 's prog \<Rightarrow> 's prog" where
  "no_await q p = Async q (\<lambda>_. p)"

text \<open>\<^verbatim>\<open>if (!confirm(...)) return\<close>, with the answer of the dialog as argument.\<close>

definition confirmed :: "bool \<Rightarrow> 's prog \<Rightarrow> 's prog" where
  "confirmed answer p = (if answer then p else Ret JUndef)"

text \<open>\<^verbatim>\<open>s.split(sep).map(x => x.trim()).filter(x => x)\<close>\<close>

definition split_trim :: "char \<Rightarrow> string \<Rightarrow> string list" where
  "split_trim sep s = filter (\<lambda>x. x \<noteq> []) (map js_trim (js_split sep s))"

definition strs :: "string list \<Rightarrow> jsval" where
  "strs xs = JArr (map JStr xs)"

subsection \<open>Templates\<close>

text \<open>
  What \<^verbatim>\<open>v-for\<close> iterates over: the items of an array, the characters of a string, the
  values of an object, the numbers from 1. A read of a property in a template is \<open>js_opt\<close>:
  the error of a template that reads a property of \<^verbatim>\<open>null\<close> is not modelled.
\<close>

fun js_items :: "jsval \<Rightarrow> jsval list" where
  "js_items (JArr xs) = xs"
| "js_items (JStr s) = map (\<lambda>c. JStr [c]) s"
| "js_items (JObj ps) = map snd ps"
| "js_items (JNum n) = map JNum [1..n]"
| "js_items v = []"

text \<open>\<^verbatim>\<open>v > 0\<close> for a number; \<^verbatim>\<open>undefined > 0\<close> is false.\<close>

fun js_positive :: "jsval \<Rightarrow> bool" where
  "js_positive (JNum n) = (n > 0)"
| "js_positive v = False"

text \<open>
  Elements: a fixed text, an interpolated value, a link, an input bound to the named ref
  (with its \<^verbatim>\<open>required\<close> attribute), a form's submit button and a button, each with its
  \<^verbatim>\<open>disabled\<close> attribute, its label and its handler.
\<close>

datatype 's el =
    Txt string
  | Val jsval
  | Lnk string string
  | Inp string bool
  | Sub bool string "'s prog"
  | Btn bool string "'s prog"

definition v_if :: "bool \<Rightarrow> 's el list \<Rightarrow> 's el list" where
  "v_if b els = (if b then els else [])"

text \<open>What a user can start on the page on display.\<close>

fun action :: "'s el \<Rightarrow> 's prog list" where
  "action (Sub disabled l p) = (if disabled then [] else [p])"
| "action (Btn disabled l p) = (if disabled then [] else [p])"
| "action e = []"

definition offered :: "'s el list \<Rightarrow> 's prog list" where
  "offered els = concat (map action els)"

lemma v_if_simps [simp]: "v_if True els = els" "v_if False els = []"
  by (simp_all add: v_if_def)

lemma offered_simps [simp]:
  "offered [] = []" "offered (e # es) = action e @ offered es" "offered (es @ fs) = offered es @ offered fs"
  by (simp_all add: offered_def)

lemma offered_v_if: "offered (v_if b els) = (if b then offered els else [])"
  by (simp add: v_if_def)

lemma offered_concat: "set (offered (concat (map f xs))) = (\<Union>x \<in> set xs. set (offered (f x)))"
  by (induction xs) simp_all

subsection \<open>Handlers that end well\<close>

definition settles :: "('s \<Rightarrow> bool) \<Rightarrow> 's prog \<Rightarrow> bool" where
  "settles busy p \<longleftrightarrow> (\<forall>s ts as.
     (\<forall>e. r_exit (run p s ts as) \<noteq> Raised e) \<and>
     (\<not> busy s \<longrightarrow> r_exit (run p s ts as) \<noteq> Blocked \<longrightarrow> \<not> busy (r_state (run p s ts as))))"

definition resets :: "('s \<Rightarrow> bool) \<Rightarrow> 's prog \<Rightarrow> bool" where
  "resets busy p \<longleftrightarrow> (\<forall>s ts as.
     (\<forall>e. r_exit (run p s ts as) \<noteq> Raised e) \<and>
     (r_exit (run p s ts as) \<noteq> Blocked \<longrightarrow> \<not> busy (r_state (run p s ts as))))"

lemma resets_settles: "resets busy p \<Longrightarrow> settles busy p"
  by (auto simp: resets_def settles_def)

lemma settlesD:
  "settles busy p \<Longrightarrow> r_exit (run p s ts as) \<noteq> Raised e"
  "settles busy p \<Longrightarrow> \<not> busy s \<Longrightarrow> r_exit (run p s ts as) = Done v \<Longrightarrow> \<not> busy (r_state (run p s ts as))"
  by (auto simp: settles_def)

lemma settles_Ret: "settles busy (Ret v)"
  by (simp add: settles_def)

lemma settles_Get: "(\<And>s. settles busy (f s)) \<Longrightarrow> settles busy (Get f)"
  by (simp add: settles_def)

lemma settles_if: "(b \<Longrightarrow> settles busy p) \<Longrightarrow> (\<not> b \<Longrightarrow> settles busy q) \<Longrightarrow> settles busy (if b then p else q)"
  by simp

lemma settles_modify:
  "(\<And>s. \<not> busy s \<Longrightarrow> \<not> busy (f s)) \<Longrightarrow> settles busy p \<Longrightarrow> settles busy (modify f p)"
  by (simp add: settles_def)

lemma settles_confirmed: "settles busy p \<Longrightarrow> settles busy (confirmed a p)"
  by (simp add: confirmed_def settles_Ret)

lemma resets_modify: "resets busy p \<Longrightarrow> resets busy (modify f p)"
  by (simp add: resets_def)

lemma resets_Get: "(\<And>s. resets busy (f s)) \<Longrightarrow> resets busy (Get f)"
  by (simp add: resets_def)

lemma resets_Tick: "resets busy p \<Longrightarrow> resets busy (Tick p)"
  by (simp add: resets_def)

lemma resets_then:
  "no_throw p \<Longrightarrow> (\<And>v. resets busy (k v)) \<Longrightarrow> resets busy (bind p k)"
  by (auto simp: resets_def run_bind then_run_def run_no_throw split: exit.split)

lemma no_throw_later [simp]: "no_throw (later q p) = no_throw p"
  by (simp add: later_def)

lemma no_throw_no_await [simp]: "no_throw (no_await q p) = no_throw p"
  by (simp add: no_await_def)

locale busy_flag =
  fixes busy :: "'s \<Rightarrow> bool" and lower :: "'s \<Rightarrow> 's"
  assumes not_busy: "\<not> busy (lower s)"
begin

text \<open>\<^verbatim>\<open>try\<close> ... \<^verbatim>\<open>catch\<close> ... \<^verbatim>\<open>finally { busy = false }\<close>\<close>

lemma resets_finally:
  assumes "no_throw p"
  shows "resets busy (finally_do p (modify lower (Ret u)))"
proof -
  have "no_throw (finally_do p (modify lower (Ret u)))"
    using assms by (intro no_throw_finally) simp_all
  then show ?thesis
    unfolding resets_def using run_finally_effect [of _ lower] not_busy
    by (metis run_no_throw)
qed

lemma resets_lower: "resets busy (modify lower (Ret v))"
  by (simp add: resets_def not_busy)

text \<open>A handler that raises the flag and then runs such a block.\<close>

lemma settles_try:
  "(\<And>e. no_throw (h e)) \<Longrightarrow>
   settles busy (modify f (finally_do (catch p h) (modify lower (Ret u))))"
  by (intro resets_settles resets_modify resets_finally no_throw_catch)

lemmas settle_intros = settles_try settles_Ret settles_Get settles_if settles_confirmed settles_modify

end

subsection \<open>Which requests a call can send\<close>

lemma hd_run_Net [simp]: "hd (r_sent (run (Net [r] k) s ts as)) = r"
  by (simp split: list.split)

text \<open>Every request the call, or a call it starts, sends on any path satisfies \<open>P\<close>.\<close>

primrec sends_only :: "(request \<Rightarrow> bool) \<Rightarrow> 's prog \<Rightarrow> bool" where
  "sends_only P (Ret v) = True"
| "sends_only P (Throw e) = True"
| "sends_only P (Get f) = (\<forall>s. sends_only P (f s))"
| "sends_only P (Put s p) = sends_only P p"
| "sends_only P (Net rs k) = (list_all P rs \<and> (\<forall>os. sends_only P (k os)))"
| "sends_only P (Async c k) = (sends_only P c \<and> (\<forall>n. sends_only P (k n)))"
| "sends_only P (Await i k) = (\<forall>r. sends_only P (k r))"
| "sends_only P (Tick p) = sends_only P p"

lemma run_sends_only: "sends_only P p \<Longrightarrow> list_all P (r_sent (run p s ts as))"
proof (induction p arbitrary: s ts as)
  case (Net rs k)
  then show ?case by (auto split: list.split)
qed (auto split: prod.split prog.split)

text \<open>The same of what it leaves running in the background.\<close>

lemma settle_sends_only:
  "sends_only P p \<Longrightarrow> list_all (sends_only P) ts \<Longrightarrow> settle p s ts = (p', s', ts') \<Longrightarrow>
   sends_only P p' \<and> list_all (sends_only P) ts'"
proof (induction p arbitrary: s ts p' s' ts')
  case (Get f)
  from Get.prems show ?case by (intro Get.IH [OF rangeI]) auto
next
  case (Async c k)
  obtain c1 s1 ts1 where c: "settle c s (ts @ [running]) = (c1, s1, ts1)" by (rule prod_cases3)
  have "sends_only P c1 \<and> list_all (sends_only P) ts1"
    using Async.prems by (intro Async.IH(1) [OF _ _ c]) auto
  then have "list_all (sends_only P) (ts1[length ts := c1])"
    using set_update_subset_insert [of ts1 "length ts" c1] by (auto simp: list_all_iff)
  moreover have "settle (k (length ts)) s1 (ts1[length ts := c1]) = (p', s', ts')"
    using Async.prems(3) c by simp
  ultimately show ?case using Async.prems(1) by (intro Async.IH(2) [OF rangeI]) simp_all
qed auto

lemma run_tasks_sends_only:
  "sends_only P p \<Longrightarrow> list_all (sends_only P) ts \<Longrightarrow> list_all (sends_only P) (r_tasks (run p s ts as))"
proof (induction p arbitrary: s ts as)
  case (Net rs k)
  then show ?case by (auto split: list.split)
next
  case (Async c k)
  obtain c1 s1 ts1 where c: "settle c s (ts @ [running]) = (c1, s1, ts1)" by (rule prod_cases3)
  have "sends_only P c1 \<and> list_all (sends_only P) ts1"
    using Async.prems by (intro settle_sends_only [OF _ _ c]) auto
  then have "list_all (sends_only P) (ts1[length ts := c1])"
    using set_update_subset_insert [of ts1 "length ts" c1] by (auto simp: list_all_iff)
  then have "list_all (sends_only P) (r_tasks (run (k (length ts)) s1 (ts1[length ts := c1]) as))"
    using Async.prems(1) by (intro Async.IH(2) [OF rangeI]) simp_all
  with c show ?case by simp
next
  case (Await n k)
  then show ?case by (auto split: prog.split)
qed auto

lemma sends_only_bind: "sends_only P p \<Longrightarrow> (\<And>v. sends_only P (k v)) \<Longrightarrow> sends_only P (bind p k)"
  by (induction p) auto

lemma sends_only_catch: "sends_only P p \<Longrightarrow> (\<And>e. sends_only P (h e)) \<Longrightarrow> sends_only P (catch p h)"
  by (induction p) auto

lemma sends_only_finally: "sends_only P p \<Longrightarrow> sends_only P q \<Longrightarrow> sends_only P (finally_do p q)"
  by (induction p) (auto intro: sends_only_bind)

lemma sends_only_await: "sends_only P p \<Longrightarrow> (\<And>v. sends_only P (k v)) \<Longrightarrow> sends_only P (await p k)"
  by (simp add: await_def sends_only_bind)

lemma sends_only_modify: "sends_only P p \<Longrightarrow> sends_only P (modify f p)"
  by (simp add: modify_def)

lemma sends_only_Get: "(\<And>s. sends_only P (f s)) \<Longrightarrow> sends_only P (Get f)"
  by simp

lemma sends_only_Ret: "sends_only P (Ret v)" and sends_only_Throw: "sends_only P (Throw e)"
  by simp_all

lemma sends_only_if:
  "(b \<Longrightarrow> sends_only P p) \<Longrightarrow> (\<not> b \<Longrightarrow> sends_only P q) \<Longrightarrow> sends_only P (if b then p else q)"
  by simp

lemma sends_only_Async: "sends_only P c \<Longrightarrow> (\<And>n. sends_only P (k n)) \<Longrightarrow> sends_only P (Async c k)"
  by simp

lemma sends_only_no_await: "sends_only P q \<Longrightarrow> sends_only P p \<Longrightarrow> sends_only P (no_await q p)"
  by (simp add: no_await_def)

lemma sends_only_of_sum: "(\<And>v. sends_only P (k v)) \<Longrightarrow> sends_only P (of_sum r k)"
  by (simp add: of_sum_def split: sum.split)

lemma sends_only_dot: "(\<And>v. sends_only P (k v)) \<Longrightarrow> sends_only P (dot v key k)"
  by (simp add: dot_def sends_only_of_sum)

lemma sends_only_raw_send: "P r \<Longrightarrow> sends_only P (raw_send r)"
  by (simp add: raw_send_def split: list.split outcome.split)

lemmas sends_only_intros = sends_only_bind sends_only_catch sends_only_finally sends_only_await
  sends_only_modify sends_only_Get sends_only_Ret sends_only_Throw sends_only_if sends_only_Async
  sends_only_no_await sends_only_of_sum sends_only_dot sends_only_raw_send

subsection \<open>What a call can throw\<close>

primrec throws_only :: "(jsval \<Rightarrow> bool) \<Rightarrow> 's prog \<Rightarrow> bool" where
  "throws_only P (Ret v) = True"
| "throws_only P (Throw e) = P e"
| "throws_only P (Get f) = (\<forall>s. throws_only P (f s))"
| "throws_only P (Put s p) = throws_only P p"
| "throws_only P (Net rs k) = (\<forall>os. throws_only P (k os))"
| "throws_only P (Async c k) = (\<forall>n. throws_only P (k n))"
| "throws_only P (Await i k) = (\<forall>r. throws_only P (k r))"
| "throws_only P (Tick p) = throws_only P p"

lemma throws_only_bind: "throws_only P p \<Longrightarrow> (\<And>v. throws_only P (k v)) \<Longrightarrow> throws_only P (bind p k)"
  by (induction p) auto

lemma throws_only_catch: "(\<And>e. throws_only P (h e)) \<Longrightarrow> throws_only P (catch p h)"
  by (induction p) auto

lemma throws_only_await: "throws_only P p \<Longrightarrow> (\<And>v. throws_only P (k v)) \<Longrightarrow> throws_only P (await p k)"
  by (simp add: await_def throws_only_bind)

lemma throws_only_modify: "throws_only P p \<Longrightarrow> throws_only P (modify f p)"
  by (simp add: modify_def)

lemma throws_only_set_timeout: "throws_only P p \<Longrightarrow> throws_only P (set_timeout f p)"
  by (simp add: set_timeout_def)

lemma throws_only_Get: "(\<And>s. throws_only P (f s)) \<Longrightarrow> throws_only P (Get f)"
  by simp

lemma throws_only_Ret: "throws_only P (Ret v)"
  by simp

text \<open>A catch clause that copes with what can be thrown makes a call that never rejects.\<close>

lemma no_throw_catch_only:
  "throws_only P p \<Longrightarrow> (\<And>e. P e \<Longrightarrow> no_throw (h e)) \<Longrightarrow> no_throw (catch p h)"
  by (induction p) auto

fun is_obj :: "jsval \<Rightarrow> bool" where
  "is_obj (JObj ps) = True"
| "is_obj v = False"

lemma is_obj_error [simp]: "is_obj (js_error nm msg)" "is_obj (axios_error resp)"
  by (simp_all add: js_error_def axios_error_def)

lemma throws_only_dot: "(\<And>v. throws_only is_obj (k v)) \<Longrightarrow> throws_only is_obj (dot v key k)"
  by (auto simp: dot_def of_sum_def js_prop_def split: sum.split jsval.split)

lemma throws_only_raw_send: "throws_only is_obj (raw_send r)"
  by (simp add: raw_send_def split: list.split outcome.split)

lemma is_obj_dot: "is_obj e \<Longrightarrow> (\<And>v. no_throw (k v)) \<Longrightarrow> no_throw (dot e key k)"
  by (cases e) auto

lemmas throws_only_intros = throws_only_await throws_only_catch throws_only_bind throws_only_modify
  throws_only_set_timeout throws_only_Get throws_only_Ret throws_only_dot throws_only_raw_send

subsection \<open>Lists of trimmed parts\<close>

lemma split_trim_parts:
  assumes "x \<in> set (split_trim sep s)"
  shows "x \<noteq> [] \<and> js_trim x = x \<and> sep \<notin> set x"
  using assms js_split_no_sep set_js_trim by (fastforce simp: split_trim_def)

lemma split_trim_Nil [simp]: "split_trim sep [] = []"
  by (simp add: split_trim_def)

text \<open>A list of clean parts survives joining and splitting.\<close>

lemma split_trim_join:
  assumes "\<forall>x \<in> set xs. x \<noteq> [] \<and> js_trim x = x \<and> sep \<notin> set x"
  shows "split_trim sep (js_join [sep] xs) = xs"
proof (cases "xs = []")
  case False
  with assms have "js_split sep (js_join [sep] xs) = xs" by (intro js_split_join) auto
  moreover have "map js_trim xs = xs" using assms by (intro map_idI) auto
  moreover have "filter (\<lambda>x. x \<noteq> []) xs = xs" using assms by (intro filter_True) auto
  ultimately show ?thesis by (simp add: split_trim_def)
qed simp

end
