(* ===== verification/Page_Machine.thy ===== *)
theory Page_Machine
  imports Page_Lib
begin

text \<open>
  A page and its user: the machine of \<open>JS_Machine\<close> where the calls that start are those the
  template offers in the state of the moment, and where the user changes other parts of the
  state between the steps. The locale \<open>form_lock\<close> is the contract of a form whose busy
  flag gates it: a call the template offers is \<open>quiet\<close> (leaves the flag alone and never sends
  the form's request) or is offered only while the flag is down and is \<open>locked\<close> (the flag is up
  whenever the call waits). It gives that at most one request of the form is ever under way.
\<close>

inductive page_reach ::
  "('s \<Rightarrow> 's el list) \<Rightarrow> ('s \<Rightarrow> 's \<Rightarrow> bool) \<Rightarrow> 's machine \<Rightarrow> 's machine \<Rightarrow> bool"
  for tmpl edit m0 where
  start: "page_reach tmpl edit m0 m0"
| press: "page_reach tmpl edit m0 m \<Longrightarrow> p \<in> set (offered (tmpl (mc_state m))) \<Longrightarrow>
    page_reach tmpl edit m0 (launch p m)"
| edited: "page_reach tmpl edit m0 m \<Longrightarrow> edit (mc_state m) s \<Longrightarrow> page_reach tmpl edit m0 (m\<lparr>mc_state := s\<rparr>)"
| move: "page_reach tmpl edit m0 m \<Longrightarrow> mstep m m' \<Longrightarrow> page_reach tmpl edit m0 m'"

fun waits_for :: "(request \<Rightarrow> bool) \<Rightarrow> 's prog \<Rightarrow> bool" where
  "waits_for P (Net rs k) = list_ex P rs"
| "waits_for P p = False"

text \<open>The calls of the pool that wait for the answer of a request in \<open>P\<close>.\<close>

definition in_flight :: "(request \<Rightarrow> bool) \<Rightarrow> 's machine \<Rightarrow> nat list" where
  "in_flight P m = filter (\<lambda>i. waits_for P (mc_tasks m ! i)) [0..<length (mc_tasks m)]"

text \<open>
  A page opened in \<open>s0\<close>: its \<^verbatim>\<open>onMounted\<close> callback starts, then the user acts; between the
  steps anything may change that keeps \<open>held\<close>: the inputs, other components.
\<close>

definition page_run :: "'s prog \<Rightarrow> ('s \<Rightarrow> 's el list) \<Rightarrow> ('s \<Rightarrow> 'b) \<Rightarrow> 's \<Rightarrow> 's machine \<Rightarrow> bool" where
  "page_run mounted tmpl held s0 m \<longleftrightarrow>
     page_reach tmpl (\<lambda>s s'. held s' = held s) (launch mounted \<lparr>mc_state = s0, mc_tasks = []\<rparr>) m"

text \<open>At most one request of the form waits for its answer, and then the flag is up.\<close>

definition single_submission :: "('s \<Rightarrow> bool) \<Rightarrow> (request \<Rightarrow> bool) \<Rightarrow> 's machine \<Rightarrow> bool" where
  "single_submission busy P m \<longleftrightarrow>
     length (in_flight P m) \<le> 1 \<and> (in_flight P m \<noteq> [] \<longrightarrow> busy (mc_state m))"

text \<open>The requests of a form: POST to one of its addresses.\<close>

definition posts :: "string set \<Rightarrow> request \<Rightarrow> bool" where
  "posts U r \<longleftrightarrow> rq_method r = ''POST'' \<and> rq_url r \<in> U"

subsection \<open>Quiet and locked programs\<close>

text \<open>
  \<open>hushed busy P p A b s\<close>: from \<open>s\<close> the program has the flag at \<open>b\<close> when it first waits
  or ends, and after each wait leaves the flag as it found it; its own requests are in \<open>A\<close>,
  those of the calls it starts are not in \<open>P\<close>.
\<close>

primrec hushed :: "('s \<Rightarrow> bool) \<Rightarrow> (request \<Rightarrow> bool) \<Rightarrow> 's prog \<Rightarrow> (request \<Rightarrow> bool) \<Rightarrow> bool \<Rightarrow> 's \<Rightarrow> bool" where
  "hushed busy P (Ret v) = (\<lambda>A b s. busy s = b)"
| "hushed busy P (Throw e) = (\<lambda>A b s. busy s = b)"
| "hushed busy P (Get f) = (\<lambda>A b s. hushed busy P (f s) A b s)"
| "hushed busy P (Put s' p) = (\<lambda>A b s. hushed busy P p A b s')"
| "hushed busy P (Net rs k) = (\<lambda>A b s. busy s = b \<and> list_all A rs \<and> (\<forall>os s'. hushed busy P (k os) A (busy s') s'))"
| "hushed busy P (Async c k) = (\<lambda>A b s.
     hushed busy P c (\<lambda>r. \<not> P r) b s \<and> (\<forall>n s'. busy s' = b \<longrightarrow> hushed busy P (k n) A b s'))"
| "hushed busy P (Await n k) = (\<lambda>A b s. busy s = b \<and> (\<forall>r s'. hushed busy P (k r) A (busy s') s'))"
| "hushed busy P (Tick p) = (\<lambda>A b s. busy s = b \<and> (\<forall>s'. hushed busy P p A (busy s') s'))"

definition steady :: "('s \<Rightarrow> bool) \<Rightarrow> (request \<Rightarrow> bool) \<Rightarrow> (request \<Rightarrow> bool) \<Rightarrow> 's prog \<Rightarrow> bool" where
  "steady busy P A p \<longleftrightarrow> (\<forall>s. hushed busy P p A (busy s) s)"

abbreviation quiet :: "('s \<Rightarrow> bool) \<Rightarrow> (request \<Rightarrow> bool) \<Rightarrow> 's prog \<Rightarrow> bool" where
  "quiet busy P \<equiv> steady busy P (\<lambda>r. \<not> P r)"

text \<open>
  \<open>locked busy P p s\<close>: whenever the program waits, the flag is up, or what remains of it is
  quiet; the calls it starts are quiet.
\<close>

primrec locked :: "('s \<Rightarrow> bool) \<Rightarrow> (request \<Rightarrow> bool) \<Rightarrow> 's prog \<Rightarrow> 's \<Rightarrow> bool" where
  "locked busy P (Ret v) = (\<lambda>s. True)"
| "locked busy P (Throw e) = (\<lambda>s. True)"
| "locked busy P (Get f) = (\<lambda>s. locked busy P (f s) s)"
| "locked busy P (Put s' p) = (\<lambda>s. locked busy P p s')"
| "locked busy P (Net rs k) = (\<lambda>s. busy s \<and> (\<forall>os s'. busy s' \<longrightarrow> locked busy P (k os) s'))"
| "locked busy P (Async c k) = (\<lambda>s.
     \<exists>b. hushed busy P c (\<lambda>r. \<not> P r) b s \<and> (\<forall>n s'. busy s' = b \<longrightarrow> locked busy P (k n) s'))"
| "locked busy P (Await n k) = (\<lambda>s. busy s \<and> (\<forall>r s'. busy s' \<longrightarrow> locked busy P (k r) s'))"
| "locked busy P (Tick p) = (\<lambda>s. quiet busy P p \<or> busy s \<and> (\<forall>s'. busy s' \<longrightarrow> locked busy P p s'))"

subsection \<open>Rules for steady programs\<close>

lemma steadyD: "steady busy P A p \<Longrightarrow> busy s = b \<Longrightarrow> hushed busy P p A b s"
  by (auto simp: steady_def)

lemma hushed_bind:
  "hushed busy P p A b s \<Longrightarrow> (\<And>v. steady busy P A (k v)) \<Longrightarrow> hushed busy P (bind p k) A b s"
  by (induction p arbitrary: b s) (auto simp: steady_def)

lemma hushed_catch:
  "hushed busy P p A b s \<Longrightarrow> (\<And>e. steady busy P A (h e)) \<Longrightarrow> hushed busy P (catch p h) A b s"
  by (induction p arbitrary: b s) (auto simp: steady_def)

lemma hushed_finally:
  "hushed busy P p A b s \<Longrightarrow> steady busy P A q \<Longrightarrow> hushed busy P (finally_do p q) A b s"
  by (induction p arbitrary: b s) (auto simp: steady_def intro!: hushed_bind)

lemma steady_bind: "steady busy P A p \<Longrightarrow> (\<And>v. steady busy P A (k v)) \<Longrightarrow> steady busy P A (bind p k)"
  by (metis steady_def hushed_bind)

lemma steady_catch: "steady busy P A p \<Longrightarrow> (\<And>e. steady busy P A (h e)) \<Longrightarrow> steady busy P A (catch p h)"
  by (metis steady_def hushed_catch)

lemma steady_finally: "steady busy P A p \<Longrightarrow> steady busy P A q \<Longrightarrow> steady busy P A (finally_do p q)"
  by (metis steady_def hushed_finally)

lemma steady_Ret: "steady busy P A (Ret v)" and steady_Throw: "steady busy P A (Throw e)"
  by (simp_all add: steady_def)

lemma steady_Tick: "steady busy P A p \<Longrightarrow> steady busy P A (Tick p)"
  by (simp add: steady_def)

lemma steady_await: "steady busy P A p \<Longrightarrow> (\<And>v. steady busy P A (k v)) \<Longrightarrow> steady busy P A (await p k)"
  by (simp add: await_def steady_bind steady_Tick)

lemma steady_Get: "(\<And>s. steady busy P A (f s)) \<Longrightarrow> steady busy P A (Get f)"
  by (simp add: steady_def)

lemma steadyI: "(\<And>b s. busy s = b \<Longrightarrow> hushed busy P p A b s) \<Longrightarrow> steady busy P A p"
  by (simp add: steady_def)

lemma steady_modify: "(\<And>s. busy (f s) = busy s) \<Longrightarrow> steady busy P A p \<Longrightarrow> steady busy P A (modify f p)"
  by (rule steadyI) (simp add: modify_def steadyD)

lemma steady_Net: "list_all A rs \<Longrightarrow> (\<And>os. steady busy P A (k os)) \<Longrightarrow> steady busy P A (Net rs k)"
  by (simp add: steady_def)

lemma steady_Async: "quiet busy P c \<Longrightarrow> (\<And>n. steady busy P A (k n)) \<Longrightarrow> steady busy P A (Async c k)"
  by (rule steadyI) (simp add: steadyD)

lemma steady_no_await: "quiet busy P q \<Longrightarrow> steady busy P A p \<Longrightarrow> steady busy P A (no_await q p)"
  by (simp add: no_await_def steady_Async)

lemma steady_later: "quiet busy P q \<Longrightarrow> steady busy P A p \<Longrightarrow> steady busy P A (later q p)"
  by (simp add: later_def steady_Async steady_Tick)

lemma steady_Await: "(\<And>r. steady busy P A (k r)) \<Longrightarrow> steady busy P A (Await n k)"
  by (simp add: steady_def)

lemma steady_of_sum: "(\<And>v. steady busy P A (k v)) \<Longrightarrow> steady busy P A (of_sum r k)"
  by (simp add: of_sum_def steady_Throw split: sum.split)

lemma steady_dot: "(\<And>v. steady busy P A (k v)) \<Longrightarrow> steady busy P A (dot v key k)"
  by (simp add: dot_def steady_of_sum)

lemma steady_raw_send: "A r \<Longrightarrow> steady busy P A (raw_send r)"
  by (auto simp: raw_send_def steady_def split: list.split outcome.split)

lemma steady_fetch_all: "list_all A rs \<Longrightarrow> steady busy P A (fetch_all rs)"
  by (auto simp: fetch_all_def steady_def)

lemma steady_set_timeout:
  "(\<And>s. busy (f s) = busy s) \<Longrightarrow> steady busy P A p \<Longrightarrow> steady busy P A (set_timeout f p)"
  by (simp add: set_timeout_def steady_Async steady_Tick steady_modify steady_Ret)

lemma steady_if: "(c \<Longrightarrow> steady busy P A p) \<Longrightarrow> (\<not> c \<Longrightarrow> steady busy P A q) \<Longrightarrow> steady busy P A (if c then p else q)"
  by simp

lemma steady_confirmed: "steady busy P A p \<Longrightarrow> steady busy P A (confirmed c p)"
  by (simp add: confirmed_def steady_Ret)

lemma steady_option:
  "(x = None \<Longrightarrow> steady busy P A p) \<Longrightarrow> (\<And>n. x = Some n \<Longrightarrow> steady busy P A (q n)) \<Longrightarrow>
   steady busy P A (case x of None \<Rightarrow> p | Some n \<Rightarrow> q n)"
  by (simp split: option.split)

lemmas steady_intros =
  steady_Ret steady_Throw steady_catch steady_finally steady_await steady_bind steady_Tick steady_Get
  steady_modify steady_Async steady_no_await steady_later steady_Await steady_of_sum steady_dot steady_raw_send
  steady_fetch_all steady_set_timeout steady_if steady_confirmed steady_option

subsection \<open>Rules for locked programs\<close>

lemma hushed_up:
  assumes "\<forall>x s. hushed busy P (k x) A (busy s) s" "busy s"
  shows "hushed busy P (k x) A True s"
proof -
  from assms(1) have "hushed busy P (k x) A (busy s) s" by blast
  with assms(2) show ?thesis by simp
qed

lemma hushed_locked: "hushed busy P p A True s \<Longrightarrow> locked busy P p s"
proof (induction p arbitrary: s)
  case (Async c k)
  then show ?case by (auto intro!: exI [of _ True] Async.IH(2) [OF rangeI])
next
  case (Net rs k)
  then show ?case by (auto intro!: Net.IH [OF rangeI] intro: hushed_up)
next
  case (Await n k)
  then show ?case by (auto intro!: Await.IH [OF rangeI] intro: hushed_up)
qed (auto intro: hushed_up [of _ _ "\<lambda>_. _"])

lemma locked_finally_hushed:
  "hushed busy P p A True s \<Longrightarrow> locked busy P (finally_do p (modify f (Ret u))) s"
proof (induction p arbitrary: s)
  case (Async c k)
  then show ?case by (auto intro!: exI [of _ True] Async.IH(2) [OF rangeI])
next
  case (Net rs k)
  then show ?case by (auto intro!: Net.IH [OF rangeI] intro: hushed_up)
next
  case (Await n k)
  then show ?case by (auto intro!: Await.IH [OF rangeI] intro: hushed_up)
qed (auto simp: modify_def [of _ "Ret _"] intro: hushed_up [of _ _ "\<lambda>_. _"])

text \<open>A handler that raises its flag, does steady work and lowers it.\<close>

lemma locked_try:
  "(\<And>s. busy (raise s)) \<Longrightarrow> steady busy P A p \<Longrightarrow>
   locked busy P (modify raise (finally_do p (modify f (Ret u)))) s"
  by (auto simp: modify_def [of raise] intro!: locked_finally_hushed [OF steadyD])

text \<open>
  Some handlers lower their flag themselves on a path that ends at once, and then again at the
  end. \<open>owned\<close> is \<open>locked\<close> for what stands inside such a \<^verbatim>\<open>try\<close>: it waits only
  while the flag is up.
\<close>

primrec owned :: "('s \<Rightarrow> bool) \<Rightarrow> (request \<Rightarrow> bool) \<Rightarrow> 's prog \<Rightarrow> 's \<Rightarrow> bool" where
  "owned busy P (Ret v) = (\<lambda>s. True)"
| "owned busy P (Throw e) = (\<lambda>s. True)"
| "owned busy P (Get f) = (\<lambda>s. owned busy P (f s) s)"
| "owned busy P (Put s' p) = (\<lambda>s. owned busy P p s')"
| "owned busy P (Net rs k) = (\<lambda>s. busy s \<and> (\<forall>os s'. busy s' \<longrightarrow> owned busy P (k os) s'))"
| "owned busy P (Async c k) = (\<lambda>s.
     \<exists>b. hushed busy P c (\<lambda>r. \<not> P r) b s \<and> (\<forall>n s'. busy s' = b \<longrightarrow> owned busy P (k n) s'))"
| "owned busy P (Await n k) = (\<lambda>s. busy s \<and> (\<forall>r s'. busy s' \<longrightarrow> owned busy P (k r) s'))"
| "owned busy P (Tick p) = (\<lambda>s. busy s \<and> (\<forall>s'. busy s' \<longrightarrow> owned busy P p s'))"

lemma hushed_owned: "hushed busy P p A True s \<Longrightarrow> owned busy P p s"
proof (induction p arbitrary: s)
  case (Async c k)
  then show ?case by (auto intro!: exI [of _ True] Async.IH(2) [OF rangeI])
next
  case (Net rs k)
  then show ?case by (auto intro!: Net.IH [OF rangeI] intro: hushed_up)
next
  case (Await n k)
  then show ?case by (auto intro!: Await.IH [OF rangeI] intro: hushed_up)
qed (auto intro: hushed_up [of _ _ "\<lambda>_. _"])

lemma owned_steady: "steady busy P A p \<Longrightarrow> busy s \<Longrightarrow> owned busy P p s"
  by (intro hushed_owned steadyD) simp_all

lemma owned_catch: "owned busy P p s \<Longrightarrow> (\<And>e s. owned busy P (h e) s) \<Longrightarrow> owned busy P (catch p h) s"
proof (induction p arbitrary: s)
  case (Async c k)
  then show ?case by simp (metis rangeI)
qed auto

lemma owned_finally: "owned busy P p s \<Longrightarrow> locked busy P (finally_do p (modify f (Ret u))) s"
proof (induction p arbitrary: s)
  case (Async c k)
  then show ?case by simp (metis rangeI)
qed (auto simp: modify_def [of _ "Ret _"])

lemma locked_hold:
  "(\<And>s. busy (raise s)) \<Longrightarrow> (\<And>s. busy s \<Longrightarrow> owned busy P p s) \<Longrightarrow>
   locked busy P (modify raise (finally_do p (modify f (Ret u)))) s"
  by (auto simp: modify_def [of raise] intro!: owned_finally)

lemma locked_Get: "locked busy P (f s) s \<Longrightarrow> locked busy P (Get f) s"
  by simp

lemma locked_modify: "locked busy P p (f s) \<Longrightarrow> locked busy P (modify f p) s"
  by (simp add: modify_def)

lemma locked_if: "(c \<Longrightarrow> locked busy P p s) \<Longrightarrow> (\<not> c \<Longrightarrow> locked busy P q s) \<Longrightarrow> locked busy P (if c then p else q) s"
  by simp

text \<open>What follows such a handler may be anything quiet.\<close>

lemma locked_await:
  assumes "locked busy P p s" "\<And>v. quiet busy P (k v)"
  shows "locked busy P (await p k) s"
proof -
  have "locked busy P (bind p (\<lambda>v. Tick (k v))) s" using assms(1)
  proof (induction p arbitrary: s)
    case (Async c f)
    then show ?case by simp (metis rangeI)
  next
    case (Tick p)
    show ?case
    proof (cases "quiet busy P p")
      case True
      then have "quiet busy P (bind p (\<lambda>v. Tick (k v)))" by (intro steady_bind steady_Tick assms(2))
      then show ?thesis by simp
    qed (use Tick in auto)
  qed (auto simp: assms(2))
  then show ?thesis by (simp add: await_def)
qed

subsection \<open>At most one request of a form\<close>

text \<open>The calls a program leaves in the pool: those of a call it starts, that call, and the rest's.\<close>

lemma fresh_tasks:
  assumes c: "settle c s (ts @ [running]) = (c1, s1, ts1)"
    and k: "settle q s1 (ts1[length ts := c1]) = (p', s', ts')"
    and "Q c1" "\<forall>t \<in> set (drop (Suc (length ts)) ts1). Q t" "\<forall>t \<in> set (drop (length ts1) ts'). Q t"
  shows "\<forall>t \<in> set (drop (length ts) ts'). Q t"
proof
  fix t assume "t \<in> set (drop (length ts) ts')"
  then obtain j where j: "length ts \<le> j" "j < length ts'" "t = ts' ! j"
    by (auto simp: in_set_conv_nth) (metis add.commute le_add1 less_diff_conv)
  from settle_frame [OF c] have len: "length ts < length ts1" by auto
  show "Q t"
  proof (cases "j < length ts1")
    case True
    with settle_frame [OF k] j have "t = ts1[length ts := c1] ! j" by auto
    moreover have "ts1 ! j \<in> set (drop (Suc (length ts)) ts1)" if "j \<noteq> length ts"
      using True j(1) that by (auto simp: in_set_conv_nth intro!: exI [of _ "j - Suc (length ts)"])
    ultimately show ?thesis using assms(3,4) len True by (cases "j = length ts") auto
  next
    case False
    with j have "t \<in> set (drop (length ts1) ts')"
      by (auto simp: in_set_conv_nth intro!: exI [of _ "j - length ts1"])
    with assms(5) show ?thesis by blast
  qed
qed

lemma settle_hushed:
  "hushed busy P p A b s \<Longrightarrow> settle p s ts = (p', s', ts') \<Longrightarrow>
   busy s' = b \<and> steady busy P A p' \<and> (\<forall>t \<in> set (drop (length ts) ts'). quiet busy P t)"
proof (induction p arbitrary: A b s ts p' s' ts')
  case (Get f)
  then show ?case using Get.IH [OF rangeI] by simp
next
  case (Async c k)
  obtain c1 s1 ts1 where c: "settle c s (ts @ [running]) = (c1, s1, ts1)" by (rule prod_cases3)
  from Async.IH(1) [OF _ c] Async.prems(1)
  have 1: "busy s1 = b" "quiet busy P c1" "\<forall>t \<in> set (drop (Suc (length ts)) ts1). quiet busy P t" by auto
  have 2: "settle (k (length ts)) s1 (ts1[length ts := c1]) = (p', s', ts')"
    using Async.prems(2) c by simp
  have "hushed busy P (k (length ts)) A b s1" using Async.prems(1) 1(1) by simp
  from Async.IH(2) [OF rangeI this 2]
  have "busy s' = b" "steady busy P A p'" "\<forall>t \<in> set (drop (length ts1) ts'). quiet busy P t" by auto
  with fresh_tasks [OF c 2 1(2,3)] show ?case by blast
qed (auto simp: steady_def)

text \<open>A call that owns the flag: it is up, and the call continues locked whenever it is.\<close>

definition owner :: "('s \<Rightarrow> bool) \<Rightarrow> (request \<Rightarrow> bool) \<Rightarrow> 's \<Rightarrow> 's prog \<Rightarrow> bool" where
  "owner busy P s p \<longleftrightarrow> busy s \<and> (\<forall>s'. busy s' \<longrightarrow> locked busy P p s')"

lemma settle_locked:
  "locked busy P p s \<Longrightarrow> settle p s ts = (p', s', ts') \<Longrightarrow>
   (quiet busy P p' \<or> owner busy P s' p') \<and> (\<forall>t \<in> set (drop (length ts) ts'). quiet busy P t)"
proof (induction p arbitrary: s ts p' s' ts')
  case (Get f)
  then show ?case using Get.IH [OF rangeI] by simp
next
  case (Async c k)
  obtain c1 s1 ts1 where c: "settle c s (ts @ [running]) = (c1, s1, ts1)" by (rule prod_cases3)
  from Async.prems(1) obtain b where b: "hushed busy P c (\<lambda>r. \<not> P r) b s" "\<And>n s'. busy s' = b \<Longrightarrow> locked busy P (k n) s'"
    by auto
  from settle_hushed [OF b(1) c]
  have 1: "busy s1 = b" "quiet busy P c1" "\<forall>t \<in> set (drop (Suc (length ts)) ts1). quiet busy P t" by auto
  have 2: "settle (k (length ts)) s1 (ts1[length ts := c1]) = (p', s', ts')"
    using Async.prems(2) c by simp
  from Async.IH(2) [OF rangeI b(2) [OF 1(1)] 2]
  have "quiet busy P p' \<or> owner busy P s' p'" "\<forall>t \<in> set (drop (length ts1) ts'). quiet busy P t" by auto
  with fresh_tasks [OF c 2 1(2,3)] show ?case by blast
next
  case (Tick p)
  then show ?case by (auto simp: owner_def intro: steady_Tick)
qed (auto simp: owner_def steady_Ret steady_Throw)

text \<open>All calls are quiet but the one in slot \<open>w\<close>, which owns the flag.\<close>

definition one_owner :: "('s \<Rightarrow> bool) \<Rightarrow> (request \<Rightarrow> bool) \<Rightarrow> nat option \<Rightarrow> 's machine \<Rightarrow> bool" where
  "one_owner busy P w m \<longleftrightarrow>
     (\<forall>j < length (mc_tasks m). w \<noteq> Some j \<longrightarrow> quiet busy P (mc_tasks m ! j)) \<and>
     (\<forall>i. w = Some i \<longrightarrow> i < length (mc_tasks m) \<and> owner busy P (mc_state m) (mc_tasks m ! i))"

lemma resume_slots:
  assumes "settle p s (ts[i := running]) = (p', s', ts')" "i < length ts"
    and "\<forall>t \<in> set (drop (length ts) ts'). Q t"
  shows "resume i p s ts = \<lparr>mc_state = s', mc_tasks = ts'[i := p']\<rparr>" "length ts \<le> length ts'"
    "\<And>j. j < length ts \<Longrightarrow> j \<noteq> i \<Longrightarrow> ts'[i := p'] ! j = ts ! j"
    "\<And>j. j < length ts' \<Longrightarrow> length ts \<le> j \<Longrightarrow> Q (ts' ! j)"
proof -
  note frame = settle_frame [OF assms(1)]
  show "resume i p s ts = \<lparr>mc_state = s', mc_tasks = ts'[i := p']\<rparr>" by (simp add: resume_def assms(1))
  show "length ts \<le> length ts'" using frame by simp
  show "ts'[i := p'] ! j = ts ! j" if "j < length ts" "j \<noteq> i" for j using frame that by simp
  show "Q (ts' ! j)" if "j < length ts'" "length ts \<le> j" for j
  proof -
    have "ts' ! j \<in> set (drop (length ts) ts')"
      using that by (auto simp: in_set_conv_nth intro!: exI [of _ "j - length ts"])
    with assms(3) show ?thesis by blast
  qed
qed

lemma resume_quiet:
  assumes "one_owner busy P w \<lparr>mc_state = s, mc_tasks = ts\<rparr>" "i < length ts" "w \<noteq> Some i"
    and "hushed busy P p (\<lambda>r. \<not> P r) (busy s) s"
  shows "one_owner busy P w (resume i p s ts)"
proof -
  obtain p' s' ts' where st: "settle p s (ts[i := running]) = (p', s', ts')" by (rule prod_cases3)
  from settle_hushed [OF assms(4) st]
  have 1: "busy s' = busy s" "quiet busy P p'" "\<forall>t \<in> set (drop (length ts) ts'). quiet busy P t" by auto
  note r = resume_slots [OF st assms(2) 1(3)]
  have "quiet busy P (ts'[i := p'] ! j)" if j: "j < length ts'" "w \<noteq> Some j" for j
    using j assms(1,2) 1(2) r(2) r(3) [of j] r(4) [of j]
    by (cases "j = i"; cases "j < length ts") (auto simp: one_owner_def)
  moreover have "k < length ts' \<and> owner busy P s' (ts'[i := p'] ! k)" if "w = Some k" for k
    using that assms(1,3) 1(1) r(2) r(3) [of k] by (auto simp: one_owner_def owner_def)
  ultimately show ?thesis unfolding r(1) by (simp add: one_owner_def)
qed

lemma resume_owner:
  assumes "\<And>j. j < length ts \<Longrightarrow> j \<noteq> i \<Longrightarrow> quiet busy P (ts ! j)" "i < length ts" "locked busy P p s"
  shows "\<exists>w. one_owner busy P w (resume i p s ts)"
proof -
  obtain p' s' ts' where st: "settle p s (ts[i := running]) = (p', s', ts')" by (rule prod_cases3)
  from settle_locked [OF assms(3) st]
  have 1: "quiet busy P p' \<or> owner busy P s' p'" "\<forall>t \<in> set (drop (length ts) ts'). quiet busy P t" by auto
  note r = resume_slots [OF st assms(2) 1(2)]
  have 2: "quiet busy P (ts'[i := p'] ! j)" if j: "j < length ts'" "j \<noteq> i" for j
    using j assms(1) r(2) r(3) [of j] r(4) [of j] by (cases "j < length ts") auto
  from 1(1) show ?thesis
  proof
    assume "quiet busy P p'"
    with 2 r(2) assms(2) have "quiet busy P (ts'[i := p'] ! j)" if "j < length ts'" for j
      using that by (cases "j = i") auto
    then show ?thesis unfolding r(1) by (intro exI [of _ None]) (simp add: one_owner_def)
  next
    assume "owner busy P s' p'"
    with 2 r(2) assms(2) show ?thesis unfolding r(1) by (intro exI [of _ "Some i"]) (auto simp: one_owner_def)
  qed
qed

lemma step_resumes:
  assumes "step i os m = Some m'"
  shows "\<exists>q. i < length (mc_tasks m) \<and> m' = resume i q (mc_state m) (mc_tasks m) \<and>
    (quiet busy P (mc_tasks m ! i) \<longrightarrow> hushed busy P q (\<lambda>r. \<not> P r) (busy (mc_state m)) (mc_state m)) \<and>
    (owner busy P (mc_state m) (mc_tasks m ! i) \<longrightarrow> locked busy P q (mc_state m) \<or> quiet busy P (mc_tasks m ! i))"
  using assms
  by (auto simp: step_def Let_def steady_def [of _ _ _ "Net _ _"] steady_def [of _ _ _ "Await _ _"]
      steady_def [of _ _ _ "Tick _"] owner_def steadyD intro: steady_Tick split: prog.splits if_splits)

lemma one_owner_step:
  assumes "one_owner busy P w m" "step i os m = Some m'"
  shows "\<exists>w. one_owner busy P w m'"
proof -
  from step_resumes [OF assms(2), of busy P]
  obtain q where q: "i < length (mc_tasks m)" "m' = resume i q (mc_state m) (mc_tasks m)"
    "quiet busy P (mc_tasks m ! i) \<longrightarrow> hushed busy P q (\<lambda>r. \<not> P r) (busy (mc_state m)) (mc_state m)"
    "owner busy P (mc_state m) (mc_tasks m ! i) \<longrightarrow> locked busy P q (mc_state m) \<or> quiet busy P (mc_tasks m ! i)"
    by blast
  have m: "\<lparr>mc_state = mc_state m, mc_tasks = mc_tasks m\<rparr> = m" by simp
  show ?thesis
  proof (cases "w = Some i \<and> \<not> quiet busy P (mc_tasks m ! i)")
    case True
    with assms(1) q have "locked busy P q (mc_state m)" by (auto simp: one_owner_def)
    with True assms(1) q(1) show ?thesis
      unfolding q(2) by (intro resume_owner) (auto simp: one_owner_def)
  next
    case False
    define v where "v = (if w = Some i then None else w)"
    have "quiet busy P (mc_tasks m ! i)" using False assms(1) q(1) by (auto simp: one_owner_def)
    moreover from this assms(1) have "one_owner busy P v m" "v \<noteq> Some i" by (auto simp: one_owner_def v_def)
    ultimately show ?thesis
      unfolding q(2) using q(1,3) resume_quiet [of busy P v "mc_state m" "mc_tasks m" i q] m by auto
  qed
qed

lemma one_owner_snoc:
  "one_owner busy P w m \<Longrightarrow> one_owner busy P w \<lparr>mc_state = mc_state m, mc_tasks = mc_tasks m @ [running]\<rparr>"
  by (auto simp: one_owner_def nth_append less_Suc_eq intro: steady_Tick steady_Ret)

lemma one_owner_press:
  assumes "one_owner busy P w m"
    and "quiet busy P p \<or> \<not> busy (mc_state m) \<and> locked busy P p (mc_state m)"
  shows "\<exists>w. one_owner busy P w (launch p m)"
  using assms(2)
proof
  assume "quiet busy P p"
  moreover have "w \<noteq> Some (length (mc_tasks m))" using assms(1) by (auto simp: one_owner_def)
  ultimately show ?thesis
    using resume_quiet [OF one_owner_snoc [OF assms(1)]] unfolding launch_def by (auto intro: steadyD)
next
  assume "\<not> busy (mc_state m) \<and> locked busy P p (mc_state m)"
  moreover from this assms(1) have "w = None" by (cases w) (auto simp: one_owner_def owner_def)
  ultimately show ?thesis
    using assms(1) unfolding launch_def
    by (intro resume_owner) (auto simp: one_owner_def nth_append less_Suc_eq)
qed

lemma quiet_waits: "quiet busy P t \<Longrightarrow> \<not> waits_for P t"
  by (cases t) (auto simp: steady_def list_all_iff list_ex_iff)

lemma one_owner_in_flight:
  assumes "one_owner busy P w m"
  shows "length (in_flight P m) \<le> 1" "in_flight P m \<noteq> [] \<Longrightarrow> busy (mc_state m)"
proof -
  let ?f = "\<lambda>i. waits_for P (mc_tasks m ! i)"
  have only: "w = Some i" if "i < length (mc_tasks m)" "?f i" for i
    using that assms quiet_waits by (auto simp: one_owner_def)
  then have "set (in_flight P m) \<subseteq> set_option w" by (auto simp: in_flight_def)
  then have "card (set (in_flight P m)) \<le> card (set_option w)" by (intro card_mono) auto
  also have "\<dots> \<le> 1" by (cases w) auto
  finally have "card (set (in_flight P m)) \<le> 1" .
  moreover have "distinct (in_flight P m)" by (simp add: in_flight_def)
  ultimately show "length (in_flight P m) \<le> 1" by (simp only: distinct_card)
  show "busy (mc_state m)" if ne: "in_flight P m \<noteq> []"
  proof -
    from ne obtain i where "i \<in> set (in_flight P m)" by (cases "in_flight P m") auto
    with only [of i] assms show ?thesis by (auto simp: in_flight_def one_owner_def owner_def)
  qed
qed

locale form_lock =
  fixes busy :: "'s \<Rightarrow> bool" and P :: "request \<Rightarrow> bool" and mounted :: "'s prog" and tmpl :: "'s \<Rightarrow> 's el list"
  assumes mounted: "quiet busy P mounted"
    and gated: "p \<in> set (offered (tmpl s)) \<Longrightarrow> quiet busy P p \<or> \<not> busy s \<and> locked busy P p s"
begin

lemma reach_one_owner:
  assumes "page_reach tmpl edit m0 m" "one_owner busy P w0 m0" "\<And>s s'. edit s s' \<Longrightarrow> busy s' = busy s"
  shows "\<exists>w. one_owner busy P w m"
  using assms
proof (induction rule: page_reach.induct)
  case (press m p)
  then show ?case using one_owner_press gated by metis
next
  case (edited m s)
  then obtain w where "one_owner busy P w m" by auto
  moreover have "busy s = busy (mc_state m)" using edited by blast
  ultimately show ?case by (auto simp: one_owner_def owner_def)
next
  case (move m m')
  then show ?case by (auto simp: mstep_iff dest: one_owner_step)
qed auto

text \<open>\<open>held\<close> is what changes from outside leave alone: the flag, perhaps with others.\<close>

lemma at_most_one_held:
  assumes r: "page_run mounted tmpl held s0 m" and held: "\<And>s s'. held s' = held s \<Longrightarrow> busy s' = busy s"
  shows "single_submission busy P m"
proof -
  have "one_owner busy P None \<lparr>mc_state = s0, mc_tasks = []\<rparr>" by (simp add: one_owner_def)
  from one_owner_press [OF this] mounted
  obtain w0 where "one_owner busy P w0 (launch mounted \<lparr>mc_state = s0, mc_tasks = []\<rparr>)" by blast
  with r held obtain w where "one_owner busy P w m"
    unfolding page_run_def using reach_one_owner by blast
  from one_owner_in_flight [OF this] show ?thesis by (simp add: single_submission_def)
qed

lemma at_most_one: "page_run mounted tmpl busy s0 m \<Longrightarrow> single_submission busy P m"
  by (rule at_most_one_held)

end

subsection \<open>Invariants of a page\<close>

lemma page_reach_safe:
  assumes "page_reach tmpl edit m0 m" "machine_ok I m0"
    and "\<And>s p. p \<in> set (offered (tmpl s)) \<Longrightarrow> keeps I p" "\<And>s s'. edit s s' \<Longrightarrow> I s \<Longrightarrow> I s'"
  shows "machine_ok I m"
  using assms
proof (induction rule: page_reach.induct)
  case (edited m s)
  then have "machine_ok I m" by blast
  with edited.prems(3) edited.hyps(2) show ?case by (auto simp: machine_ok_def)
next
  case (move m m')
  then show ?case by (auto simp: mstep_iff intro: step_ok)
qed (auto intro: launch_ok)

lemma page_run_invariant:
  assumes "page_run mounted tmpl held s0 m" "I s0" "keeps I mounted"
    and "\<And>s p. p \<in> set (offered (tmpl s)) \<Longrightarrow> keeps I p" "\<And>s s'. held s' = held s \<Longrightarrow> I s \<Longrightarrow> I s'"
  shows "I (mc_state m)"
proof -
  have "machine_ok I (launch mounted \<lparr>mc_state = s0, mc_tasks = []\<rparr>)"
    using assms(2,3) by (intro launch_ok) (auto simp: machine_ok_def)
  with assms(1) have "machine_ok I m"
    unfolding page_run_def by (rule page_reach_safe) (use assms(4,5) in auto)
  then show ?thesis by (simp add: machine_ok_def)
qed

lemma page_run_start: "page_run mounted tmpl held s0 (launch mounted \<lparr>mc_state = s0, mc_tasks = []\<rparr>)"
  by (simp add: page_run_def page_reach.start)

lemma page_run_press:
  "page_run mounted tmpl held s0 m \<Longrightarrow> p \<in> set (offered (tmpl (mc_state m))) \<Longrightarrow>
   page_run mounted tmpl held s0 (launch p m)"
  unfolding page_run_def by (rule page_reach.press)

lemma page_run_exec:
  "exec es m = Some m' \<Longrightarrow> page_run mounted tmpl held s0 m \<Longrightarrow> page_run mounted tmpl held s0 m'"
proof (induction es arbitrary: m)
  case (Cons e es)
  obtain i os where e: "e = (i, os)" by (cases e)
  with Cons.prems obtain m1 where m1: "step i os m = Some m1" "exec es m1 = Some m'"
    by (auto simp: exec.simps(2) split: option.splits)
  from Cons.prems(2) m1(1) have "page_run mounted tmpl held s0 m1"
    unfolding page_run_def by (auto intro: page_reach.move mstep.resumed)
  with m1(2) show ?case by (rule Cons.IH)
qed simp

end
