(* ===== verification/UI_Components.thy ===== *)
theory UI_Components
  imports Page_Lib
begin

text \<open>
  The presentational components (\<^verbatim>\<open>components/ui\<close>, \<^verbatim>\<open>components/shared\<close>): their
  properties are arguments, their slots element lists, what they emit a program of the parent.
  An optional string property that is absent is the empty string where the code only tests its
  truth, and \<^const>\<open>None\<close> where it compares it. The classes a component chooses are string
  lists; drawings are named by what they show.
\<close>

definition put :: "('s \<Rightarrow> 's) \<Rightarrow> 's prog" where
  "put f = modify f (Ret JUndef)"

subsection \<open>AppAlert\<close>

datatype alert_type = Info | Success | Warning | Error

record app_alert =
  visible :: bool

definition new_alert :: app_alert where
  "new_alert = \<lparr>visible = True\<rparr>"

text \<open>The parent's part of the state is the second component; \<open>dismiss\<close> is its listener.\<close>

definition handleDismiss :: "('s \<Rightarrow> 's) \<Rightarrow> app_alert \<times> 's \<Rightarrow> app_alert \<times> 's" where
  "handleDismiss dismiss = (\<lambda>(a, s). (a\<lparr>visible := False\<rparr>, dismiss s))"

definition alert_class :: "alert_type option \<Rightarrow> string list" where
  "alert_class ty =
     [''flex items-start gap-3 rounded-lg px-4 py-3 text-sm border transition-all duration-200'',
      (if ty = Some Success then ''bg-emerald-50 text-emerald-800 border-emerald-200''
       else if ty = Some Warning then ''bg-amber-50 text-amber-800 border-amber-200''
       else if ty = Some Error then ''bg-rose-50 text-rose-800 border-rose-200''
       else ''bg-sky-50 text-sky-800 border-sky-200'')]"

definition alert_icon :: "alert_type option \<Rightarrow> string" where
  "alert_icon ty =
     (if ty = Some Success then ''check'' else if ty = Some Warning then ''triangle''
      else if ty = Some Error then ''cross'' else ''info'')"

definition alert_template ::
  "string \<Rightarrow> bool \<Rightarrow> ('s \<Rightarrow> 's) \<Rightarrow> (app_alert \<times> 's) el list \<Rightarrow> app_alert \<times> 's \<Rightarrow> (app_alert \<times> 's) el list" where
  "alert_template title dismissible dismiss slot = (\<lambda>(a, s). v_if (visible a)
     (v_if (title \<noteq> []) [Txt title] @ slot @
      v_if dismissible [Btn False ''Dismiss'' (put (handleDismiss dismiss))]))"

text \<open>The user application's component has the same text.\<close>

definition user_handleDismiss :: "('s \<Rightarrow> 's) \<Rightarrow> app_alert \<times> 's \<Rightarrow> app_alert \<times> 's" where
  "user_handleDismiss = handleDismiss"

definition user_alert_template ::
  "string \<Rightarrow> bool \<Rightarrow> ('s \<Rightarrow> 's) \<Rightarrow> (app_alert \<times> 's) el list \<Rightarrow> app_alert \<times> 's \<Rightarrow> (app_alert \<times> 's) el list" where
  "user_alert_template = alert_template"

text \<open>
  An alert under \<^verbatim>\<open>v-if\<close>: a render with the condition true mounts a new instance unless one
  is mounted, a render with the condition false unmounts it.
\<close>

definition alert_render :: "bool \<Rightarrow> app_alert option \<Rightarrow> app_alert option" where
  "alert_render cond inst =
     (if cond then Some (case inst of None \<Rightarrow> new_alert | Some a \<Rightarrow> a) else None)"

definition alert_shown :: "app_alert option \<Rightarrow> bool" where
  "alert_shown inst = (case inst of None \<Rightarrow> False | Some a \<Rightarrow> visible a)"

subsection \<open>AppBadge, AppButton, AppCard, AppEmptyState, AppLogo\<close>

definition badge_class :: "string \<Rightarrow> string \<Rightarrow> string list" where
  "badge_class variant sz =
     [''inline-flex items-center font-medium rounded-full select-none'',
      (if sz = ''sm'' then ''px-2 py-0.5 text-xs'' else ''px-2.5 py-0.5 text-sm''),
      (if variant = ''success'' then ''bg-emerald-100 text-emerald-700''
       else if variant = ''warning'' then ''bg-amber-100 text-amber-700''
       else if variant = ''error'' then ''bg-rose-100 text-rose-700''
       else if variant = ''info'' then ''bg-sky-100 text-sky-700''
       else ''bg-neutral-100 text-neutral-700'')]"

definition appButton_disabled :: "bool \<Rightarrow> bool \<Rightarrow> bool" where
  "appButton_disabled disabled loading = (disabled \<or> loading)"

definition button_class :: "bool \<Rightarrow> string \<Rightarrow> string \<Rightarrow> string list" where
  "button_class block sz variant =
     [''inline-flex items-center justify-center gap-2 font-medium'',
      ''rounded-lg transition-all duration-150 select-none'',
      ''focus-visible:outline-none focus-visible:ring-2 focus-visible:ring-offset-2'',
      ''disabled:opacity-50 disabled:cursor-not-allowed'',
      ''active:scale-[0.98]'',
      (if block then ''w-full'' else []),
      (if sz = ''sm'' then ''px-3 py-1.5 text-xs leading-4 gap-1.5''
       else if sz = ''lg'' then ''px-6 py-3 text-base leading-6 gap-2.5''
       else ''px-4 py-2.5 text-sm leading-5''),
      (if variant = ''secondary'' then ''bg-white text-neutral-700 border border-neutral-300 hover:bg-neutral-50 hover:border-neutral-400 focus-visible:ring-neutral-300 shadow-sm''
       else if variant = ''danger'' then ''bg-rose-600 text-white hover:bg-rose-700 focus-visible:ring-rose-500 shadow-sm''
       else if variant = ''ghost'' then ''text-neutral-600 hover:text-neutral-900 hover:bg-neutral-100 focus-visible:ring-neutral-300''
       else ''bg-sky-700 text-white hover:bg-sky-800 focus-visible:ring-sky-500 shadow-sm'')]"

text \<open>
  A submit button starts what the form submits, any other what is bound to its click; \<open>go\<close> is
  that program. The spinner is the text shown while loading.
\<close>

definition appButton :: "string \<Rightarrow> bool \<Rightarrow> bool \<Rightarrow> string \<Rightarrow> 's prog \<Rightarrow> 's el list" where
  "appButton ty disabled loading slot go =
     v_if loading [Txt ''spinner''] @
     [if ty = ''submit'' then Sub (appButton_disabled disabled loading) slot go
      else Btn (appButton_disabled disabled loading) slot go]"

definition user_appButton :: "string \<Rightarrow> bool \<Rightarrow> bool \<Rightarrow> string \<Rightarrow> 's prog \<Rightarrow> 's el list" where
  "user_appButton = appButton"

definition card_class :: "string \<Rightarrow> bool \<Rightarrow> string list" where
  "card_class padding hover =
     [''bg-white border border-neutral-200 rounded-xl overflow-hidden transition-all duration-150'',
      (if hover then ''hover:border-neutral-300 hover:shadow-md'' else ''shadow-sm''),
      (if padding = ''none'' then [] else if padding = ''sm'' then ''p-4''
       else if padding = ''lg'' then ''p-8'' else ''p-6'')]"

definition card_template :: "'s el list option \<Rightarrow> 's el list \<Rightarrow> 's el list" where
  "card_template hd_slot slot = (case hd_slot of None \<Rightarrow> [] | Some es \<Rightarrow> es) @ slot"

definition empty_state_template :: "string \<Rightarrow> string \<Rightarrow> string \<Rightarrow> 's prog \<Rightarrow> 's el list" where
  "empty_state_template title description actionLabel emit_action =
     [Txt title] @ v_if (description \<noteq> []) [Txt description] @
     v_if (actionLabel \<noteq> []) [Btn False actionLabel emit_action]"

definition logo_template :: "string \<Rightarrow> 's el list" where
  "logo_template sz = [Txt ''AF'', Txt ''AuthForge''] @ v_if (sz = ''lg'') [Txt ''Identity Platform'']"

definition user_logo_template :: "'s el list" where
  "user_logo_template = [Txt ''AF'', Txt ''AuthForge'']"

definition auth_layout_template :: "'s el list \<Rightarrow> 's el list" where
  "auth_layout_template slot =
     [Txt ''AF'', Txt ''Secure Identity Made Simple'',
      Txt ''Enterprise-grade OAuth2 authentication with multi-factor security, single sign-on, and fine-grained access control.'',
      Txt ''RFC 6749 Compliant'', Txt ''OIDC Ready'', Txt ''MFA Support''] @ user_logo_template @ slot @
     [Txt ''AuthForge Identity Platform'', Lnk ''#'' ''Privacy'', Lnk ''#'' ''Terms'']"

subsection \<open>AppInput and AppSelect\<close>

record app_input =
  ip_modelValue :: string
  ip_label :: string
  ip_type :: string
  ip_placeholder :: string
  ip_autocomplete :: string
  ip_inputmode :: string
  ip_maxlength :: "nat option"
  ip_error :: string
  ip_hint :: string
  ip_required :: bool
  ip_disabled :: bool
  ip_readonly :: bool

text \<open>The attributes of the input; the identifiers come from \<^verbatim>\<open>useId\<close>.\<close>

record input_attrs =
  at_id :: string
  at_type :: string
  at_value :: string
  at_placeholder :: string
  at_autocomplete :: string
  at_inputmode :: string
  at_maxlength :: "nat option"
  at_required :: bool
  at_disabled :: bool
  at_readonly :: bool
  at_invalid :: bool
  at_describedby :: "string option"

definition input_attributes :: "string \<Rightarrow> string \<Rightarrow> app_input \<Rightarrow> input_attrs" where
  "input_attributes inputId errorId p =
     \<lparr>at_id = inputId, at_type = (if ip_type p = [] then ''text'' else ip_type p),
      at_value = ip_modelValue p, at_placeholder = ip_placeholder p, at_autocomplete = ip_autocomplete p,
      at_inputmode = ip_inputmode p, at_maxlength = ip_maxlength p, at_required = ip_required p, at_disabled = ip_disabled p,
      at_readonly = ip_readonly p, at_invalid = (ip_error p \<noteq> []),
      at_describedby = (if ip_error p \<noteq> [] then Some errorId else None)\<rparr>"

definition field_border :: "string \<Rightarrow> string" where
  "field_border err =
     (if err \<noteq> [] then ''border border-rose-300 focus:ring-rose-500/20 focus:border-rose-500''
      else ''border border-neutral-300 focus:ring-sky-500/20 focus:border-sky-600'')"

text \<open>The paragraph under the field with its identifier, if it has one.\<close>

definition input_note :: "string \<Rightarrow> app_input \<Rightarrow> (string option \<times> string) option" where
  "input_note errorId p =
     (if ip_error p \<noteq> [] then Some (Some errorId, ip_error p)
      else if ip_hint p \<noteq> [] then Some (None, ip_hint p) else None)"

definition input_template :: "string \<Rightarrow> string \<Rightarrow> app_input \<Rightarrow> 's el list" where
  "input_template name errorId p =
     v_if (ip_label p \<noteq> []) ([Txt (ip_label p)] @ v_if (ip_required p) [Txt ''*'', Txt ''(required)'']) @
     [Inp name (ip_required p)] @
     (case input_note errorId p of None \<Rightarrow> [] | Some (i, t) \<Rightarrow> [Txt t])"

definition user_input_template :: "string \<Rightarrow> string \<Rightarrow> app_input \<Rightarrow> 's el list" where
  "user_input_template name errorId p =
     v_if (ip_label p \<noteq> []) ([Txt (ip_label p)] @ v_if (ip_required p) [Txt ''*'']) @
     [Inp name (ip_required p)] @
     (case input_note errorId p of None \<Rightarrow> [] | Some (i, t) \<Rightarrow> [Txt t])"

record select_option =
  op_value :: string
  op_label :: string
  op_disabled :: bool

text \<open>The options in the order shown, the placeholder first.\<close>

definition select_options :: "string \<Rightarrow> select_option list \<Rightarrow> select_option list" where
  "select_options placeholder os =
     (if placeholder \<noteq> [] then [\<lparr>op_value = [], op_label = placeholder, op_disabled = True\<rparr>] else []) @ os"

text \<open>What a change can emit: the value of an option that is not disabled.\<close>

definition select_choices :: "bool \<Rightarrow> string \<Rightarrow> select_option list \<Rightarrow> string list" where
  "select_choices disabled placeholder os =
     (if disabled then [] else map op_value (filter (\<lambda>x. \<not> op_disabled x) (select_options placeholder os)))"

definition select_template :: "string \<Rightarrow> string \<Rightarrow> string \<Rightarrow> bool \<Rightarrow> string \<Rightarrow> select_option list \<Rightarrow> 's el list" where
  "select_template name label err required placeholder os =
     v_if (label \<noteq> []) ([Txt label] @ v_if required [Txt ''*'']) @ [Inp name required] @
     map (\<lambda>x. Txt (op_label x)) (select_options placeholder os) @ v_if (err \<noteq> []) [Txt err]"

subsection \<open>AppSkeleton and AppTable\<close>

text \<open>\<^verbatim>\<open>v-for="i in (count || n)"\<close>: a count of 0 is replaced too.\<close>

definition skeleton_blocks :: "string \<Rightarrow> nat \<Rightarrow> nat list" where
  "skeleton_blocks ty count =
     (let or_else = (\<lambda>n. if count = 0 then n else count) in
      if ty = ''card'' \<or> ty = [] then [1..<Suc (or_else 3)]
      else if ty = ''table-row'' then [1..<Suc (or_else 5)]
      else [1..<Suc (or_else 3)])"

record column =
  co_key :: string
  co_label :: string
  co_sortable :: bool
  co_align :: string

definition colAlign :: "column \<Rightarrow> string" where
  "colAlign col =
     (if co_align col = ''center'' then ''text-center'' else if co_align col = ''right'' then ''text-right''
      else ''text-left'')"

definition table_head :: "(string \<Rightarrow> 's prog) \<Rightarrow> column list \<Rightarrow> 's el list" where
  "table_head emit_sort cols =
     map (\<lambda>col. if co_sortable col then Btn False (co_label col) (emit_sort (co_key col)) else Txt (co_label col)) cols"

text \<open>A cell: the slot of its column if the parent gives one, else the row's value.\<close>

definition table_cell ::
  "(string \<Rightarrow> (jsval \<Rightarrow> jsval \<Rightarrow> nat \<Rightarrow> 's el list) option) \<Rightarrow> jsval \<Rightarrow> nat \<Rightarrow> column \<Rightarrow> 's el list" where
  "table_cell slots row idx col =
     (case slots (''cell-'' @ co_key col) of
        Some f \<Rightarrow> f row (js_opt row (co_key col)) idx
      | None \<Rightarrow> [Val (js_opt row (co_key col))])"

definition table_row_key :: "string \<Rightarrow> jsval \<Rightarrow> nat \<Rightarrow> jsval" where
  "table_row_key rowKey row idx = (if rowKey \<noteq> [] then js_opt row rowKey else JNum (int idx))"

definition table_body ::
  "(string \<Rightarrow> (jsval \<Rightarrow> jsval \<Rightarrow> nat \<Rightarrow> 's el list) option) \<Rightarrow> bool \<Rightarrow> string \<Rightarrow> column list \<Rightarrow> jsval list \<Rightarrow> 's el list list" where
  "table_body slots loading emptyText cols rows =
     (if loading then replicate 5 (map (\<lambda>_. Txt []) cols)
      else if rows = [] then [[Txt (if emptyText = [] then ''No data found'' else emptyText)]]
      else map (\<lambda>(idx, row). concat (map (table_cell slots row idx) cols)) (enumerate 0 rows))"

definition table_template ::
  "(string \<Rightarrow> 's prog) \<Rightarrow> (string \<Rightarrow> (jsval \<Rightarrow> jsval \<Rightarrow> nat \<Rightarrow> 's el list) option) \<Rightarrow> 's el list \<Rightarrow> bool \<Rightarrow> string \<Rightarrow>
   column list \<Rightarrow> jsval list \<Rightarrow> 's el list" where
  "table_template emit_sort slots footer loading emptyText cols rows =
     table_head emit_sort cols @ concat (table_body slots loading emptyText cols rows) @ footer"

subsection \<open>AppModal\<close>

text \<open>
  What the modal sees of the document: the element with the focus, the style of the body, the
  panel when the modal is rendered, and how often \<^verbatim>\<open>close\<close> was emitted. \<open>focusable panel\<close> is
  what the selector finds in the panel; where the browser moves the focus on Tab when the
  handler does not prevent it is the argument \<open>browser_tab\<close> of \<open>keydown\<close>.
\<close>

record 'e modal =
  modalRef :: "'e option"
  previousActiveElement :: "'e option"
  activeElement :: 'e
  overflow :: string
  closes :: nat

record keyboard_event =
  ke_key :: string
  ke_shiftKey :: bool

definition handleKeydown :: "('e \<Rightarrow> 'e list) \<Rightarrow> keyboard_event \<Rightarrow> 'e modal \<Rightarrow> 'e modal \<times> bool" where
  "handleKeydown focusable e m =
     (let m' = (if ke_key e = ''Escape'' then m\<lparr>closes := Suc (closes m)\<rparr> else m) in
      case modalRef m of
        None \<Rightarrow> (m', False)
      | Some panel \<Rightarrow>
          if ke_key e \<noteq> ''Tab'' then (m', False)
          else (case focusable panel of
              [] \<Rightarrow> (m', False)
            | x # xs \<Rightarrow>
                if ke_shiftKey e \<and> activeElement m = x then (m'\<lparr>activeElement := last (x # xs)\<rparr>, True)
                else if \<not> ke_shiftKey e \<and> activeElement m = last (x # xs) then (m'\<lparr>activeElement := x\<rparr>, True)
                else (m', False)))"

text \<open>A key press: the handler, then the browser's own move unless it was prevented.\<close>

definition keydown :: "('e \<Rightarrow> 'e list) \<Rightarrow> (bool \<Rightarrow> 'e \<Rightarrow> 'e) \<Rightarrow> keyboard_event \<Rightarrow> 'e modal \<Rightarrow> 'e modal" where
  "keydown focusable browser_tab e m =
     (let (m', prevented) = handleKeydown focusable e m in
      if ke_key e = ''Tab'' \<and> \<not> prevented
      then m'\<lparr>activeElement := browser_tab (ke_shiftKey e) (activeElement m')\<rparr> else m')"

text \<open>
  The watcher of \<^verbatim>\<open>open\<close>: before the render it notes the focus and stops the body's
  scrolling; after it (\<^verbatim>\<open>nextTick\<close>) the panel takes the focus. Closing gives the focus back.
\<close>

definition watch_open :: "bool \<Rightarrow> 'e modal \<Rightarrow> 'e modal" where
  "watch_open isOpen m =
     (if isOpen then m\<lparr>previousActiveElement := Some (activeElement m), overflow := ''hidden''\<rparr>
      else m\<lparr>overflow := [], activeElement := (case previousActiveElement m of None \<Rightarrow> activeElement m | Some e \<Rightarrow> e)\<rparr>)"

definition after_tick :: "'e modal \<Rightarrow> 'e modal" where
  "after_tick m = m\<lparr>activeElement := (case modalRef m of None \<Rightarrow> activeElement m | Some panel \<Rightarrow> panel)\<rparr>"

definition modal_onUnmounted :: "'e modal \<Rightarrow> 'e modal" where
  "modal_onUnmounted m = m\<lparr>overflow := []\<rparr>"

definition modal_template :: "bool \<Rightarrow> string \<Rightarrow> 's el list option \<Rightarrow> 's el list \<Rightarrow> 's el list option \<Rightarrow> 's prog \<Rightarrow> 's el list" where
  "modal_template isOpen title hd_slot slot ft_slot emit_close = v_if isOpen
     ([Btn False ''backdrop'' emit_close] @
      v_if (title \<noteq> [] \<or> hd_slot \<noteq> None)
        (v_if (title \<noteq> []) [Txt title] @ (case hd_slot of None \<Rightarrow> [] | Some es \<Rightarrow> es) @
         [Btn False ''Close dialog'' emit_close]) @
      slot @ (case ft_slot of None \<Rightarrow> [] | Some es \<Rightarrow> es))"

subsection \<open>Behaviour\<close>

text \<open>A dismissed alert stays hidden until a render without its condition, then it is new.\<close>

lemma alert_render_simps:
  "alert_shown (alert_render False i) = False"
  "alert_shown (alert_render True None)"
  "alert_shown (alert_render True (Some a)) = visible a"
  by (simp_all add: alert_shown_def alert_render_def new_alert_def)

text \<open>
  An alert whose listener lowers its condition is gone after one render and new for the next
  message; one without a listener shows no further message until its condition was false at
  a render.
\<close>

lemma dismissed_alert:
  assumes "alert_render True i = Some a" "handleDismiss dismiss (a, s) = (a', s')"
  shows "\<not> cond (dismiss s) \<Longrightarrow> alert_render (cond s') (Some a') = None"
    "\<not> alert_shown (alert_render True (Some a'))"
    "alert_shown (alert_render True (alert_render False (Some a')))"
  using assms by (auto simp: handleDismiss_def alert_render_def alert_shown_def new_alert_def)

text \<open>While a button is loading or disabled it starts nothing.\<close>

lemma appButton_offers: "offered (appButton ty d l t p) = (if d \<or> l then [] else [p])"
  by (simp add: appButton_def appButton_disabled_def offered_v_if)

text \<open>What \<^verbatim>\<open>aria-describedby\<close> names is on the page, and a hint gives way to an error.\<close>

lemma described_by_note:
  "at_describedby (input_attributes i e p) = Some d \<longleftrightarrow> (\<exists>t. input_note e p = Some (Some d, t))"
  "at_invalid (input_attributes i e p) \<longleftrightarrow> at_describedby (input_attributes i e p) \<noteq> None"
  by (auto simp: input_attributes_def input_note_def)

text \<open>A select emits the value of an option given by the parent, never the placeholder's.\<close>

lemma select_choices_subset:
  "set (select_choices d ph os) \<subseteq> op_value ` {x \<in> set os. \<not> op_disabled x}"
  by (auto simp: select_choices_def select_options_def split: if_splits)

lemma skeleton_never_empty: "skeleton_blocks ty n \<noteq> []"
  by (auto simp: skeleton_blocks_def Let_def)

text \<open>The table: one element per row and column without slots; sorting only by sortable columns.\<close>

lemma table_cell_at:
  assumes "i < length rows" "j < length cols" "\<And>k. slots k = None"
  shows "table_body slots False et cols rows ! i ! j = Val (js_opt (rows ! i) (co_key (cols ! j)))"
proof -
  have "concat (map (table_cell slots row idx) cols) = map (\<lambda>c. Val (js_opt row (co_key c))) cols" for row idx
    using assms(3) by (induction cols) (simp_all add: table_cell_def)
  then show ?thesis using assms(1,2) by (auto simp: table_body_def nth_enumerate_eq)
qed

lemma table_head_offers: "offered (table_head f cols) = map (f \<circ> co_key) (filter co_sortable cols)"
  by (induction cols) (simp_all add: table_head_def)

lemma table_row_keys_distinct: "distinct (map (\<lambda>(idx, row). table_row_key [] row idx) (enumerate 0 rows))"
  by (auto simp: table_row_key_def distinct_conv_nth nth_enumerate_eq)

text \<open>A modal opened and closed gives focus and scrolling back; Escape, backdrop and cross close it.\<close>

lemma modal_restores:
  "activeElement (watch_open False ((after_tick (watch_open True m))\<lparr>activeElement := e, modalRef := r\<rparr>)) = activeElement m"
  "overflow (watch_open False m) = []" "overflow (modal_onUnmounted m) = []"
  "closes (fst (handleKeydown f \<lparr>ke_key = ''Escape'', ke_shiftKey = b\<rparr> m)) = Suc (closes m)"
  by (simp_all add: watch_open_def after_tick_def modal_onUnmounted_def handleKeydown_def Let_def split: option.split)

text \<open>
  The focus trap, where the browser's own move goes through the panel's elements in their
  order: Tab and Shift+Tab walk round the panel.
\<close>

definition tab :: "bool \<Rightarrow> keyboard_event" where
  "tab back = \<lparr>ke_key = ''Tab'', ke_shiftKey = back\<rparr>"

lemma focus_walks_round:
  assumes "modalRef m = Some panel" "focusable panel = xs" "distinct xs" "i < length xs" "activeElement m = xs ! i"
    and fwd: "\<And>k. Suc k < length xs \<Longrightarrow> browser_tab False (xs ! k) = xs ! Suc k"
    and bwd: "\<And>k. Suc k < length xs \<Longrightarrow> browser_tab True (xs ! Suc k) = xs ! k"
  shows "activeElement (keydown focusable browser_tab (tab False) m) = xs ! (Suc i mod length xs)"
    "activeElement (keydown focusable browser_tab (tab True) m) = xs ! ((i + length xs - 1) mod length xs)"
proof -
  from assms(4) obtain x ys where xs: "xs = x # ys" by (cases xs) auto
  have last: "last xs = xs ! (length xs - 1)" using xs by (simp add: last_conv_nth)
  have at: "xs ! i = xs ! j \<longleftrightarrow> i = j" if "j < length xs" for j
    using that assms(3,4) by (simp add: nth_eq_iff_index_eq)
  have isl: "xs ! i = last xs \<longleftrightarrow> Suc i = length xs" using at [of "length xs - 1"] assms(4) last by fastforce
  have ish: "xs ! i = x \<longleftrightarrow> i = 0" using at [of 0] assms(4) xs by auto
  have md: "(i + length xs - 1) mod length xs = (if i = 0 then length xs - 1 else i - 1)"
    using assms(4) by (cases i) auto
  show "activeElement (keydown focusable browser_tab (tab False) m) = xs ! (Suc i mod length xs)"
    using assms(1,2,4,5) isl fwd [of i] xs by (auto simp: keydown_def handleKeydown_def tab_def Let_def)
  show "activeElement (keydown focusable browser_tab (tab True) m) = xs ! ((i + length xs - 1) mod length xs)"
    unfolding md using assms(1,2,4,5) ish bwd [of "i - 1"] xs last
    by (auto simp: keydown_def handleKeydown_def tab_def Let_def)
qed

text \<open>
  The panel itself has the focus after the modal opens and is not among the elements the
  selector finds: Shift+Tab there is left to the browser, which moves backwards out of it.
\<close>

lemma panel_shift_tab_not_trapped:
  assumes "modalRef m = Some panel" "panel \<notin> set (focusable panel)"
  shows "activeElement (keydown focusable browser_tab (tab True) (after_tick m)) = browser_tab True panel"
  using assms by (auto simp: keydown_def handleKeydown_def tab_def after_tick_def Let_def split: list.split)

end
