(* ===== verification/User_Auth_Pages.thy ===== *)
theory User_Auth_Pages
  imports User_Store UI_Components
begin

text \<open>
  \<^verbatim>\<open>pages/auth\<close> of the user application: login with its MFA step, registration,
  forgotten password, password reset and e-mail verification. One record, one group of
  handlers and one template per page. The pages other than the login use the bare axios.
\<close>

text \<open>\<^verbatim>\<open>normalizeError(e).message\<close>\<close>

abbreviation user_caught :: "jsval \<Rightarrow> (jsval \<Rightarrow> 's prog) \<Rightarrow> 's prog" where
  "user_caught e k \<equiv> of_sum (user_normalizeError e JUndef) (\<lambda>n. dot n ''message'' k)"

subsection \<open>ForgotPasswordPage\<close>

record forgot_page = user_app +
  fp_email :: string
  fp_loading :: bool
  fp_sent :: bool
  fp_error :: jsval

definition forgot_request :: "string \<Rightarrow> request" where
  "forgot_request email = json_content (req_post ''/api/password-reset/request''
     (Json (JObj [(''email'', JStr email)])))"

definition handleSubmit :: "'a forgot_page_scheme prog" where
  "handleSubmit =
     modify (\<lambda>s. s\<lparr>fp_error := JStr [], fp_loading := True\<rparr>)
       (finally_do
         (catch
           (Get (\<lambda>s. await (raw_send (forgot_request (fp_email s))) (\<lambda>_.
              modify (fp_sent_update (\<lambda>_. True)) (Ret JUndef))))
           (\<lambda>_. modify (fp_sent_update (\<lambda>_. True)) (Ret JUndef)))
         (modify (fp_loading_update (\<lambda>_. False)) (Ret JUndef)))"

definition forgot_template :: "'a forgot_page_scheme \<Rightarrow> 'a forgot_page_scheme el list" where
  "forgot_template s =
     [Txt ''Reset Password'', Txt ''Enter your email to receive a reset link''] @
     (if fp_sent s then
        [Txt ''If an account with that email exists, we've sent a password reset link.'',
         Txt ''Check your inbox and spam folder.'', Lnk ''/login'' ''Back to Login'']
      else
        [Txt ''Email Address'', Inp ''email'' True,
         Sub (fp_loading s) (if fp_loading s then ''Sending...'' else ''Send Reset Link'') handleSubmit,
         Lnk ''/login'' ''Back to Login''])"

subsection \<open>LoginPage\<close>

record login_page = user_app +
  lg_username :: string
  lg_password :: string
  lg_mfaCode :: string
  lg_mfaToken :: jsval
  lg_showMfa :: bool

definition GITHUB_CLIENT_ID :: "host \<Rightarrow> jsval" where
  "GITHUB_CLIENT_ID h = js_or (env_vars h ''VITE_GITHUB_CLIENT_ID'') (JStr [])"

definition githubAuthUrl :: "host \<Rightarrow> string" where
  "githubAuthUrl h = ''https://github.com/login/oauth/authorize?client_id='' @
     js_to_string (GITHUB_CLIENT_ID h) @ ''&scope=user:email&redirect_uri='' @
     encodeURIComponent (origin h @ ''/callback/github'')"

text \<open>\<^verbatim>\<open>router.push(route.query.redirect || '/')\<close>, not awaited.\<close>

definition push_redirect :: "host \<Rightarrow> 'a user_app_scheme prog" where
  "push_redirect h = Get (\<lambda>s.
     no_await (user_router_push h (js_or (query (currentRoute s) ''redirect'') (JStr ''/''))) (Ret JUndef))"

definition handleLogin :: "host \<Rightarrow> 'a login_page_scheme prog" where
  "handleLogin h = Get (\<lambda>s.
     await (store_login h (JStr (lg_username s)) (JStr (lg_password s))) (\<lambda>result.
       dot result ''mfaRequired'' (\<lambda>mfa.
       if truthy mfa then dot result ''mfaToken'' (\<lambda>t.
         modify (\<lambda>s. s\<lparr>lg_mfaToken := t, lg_showMfa := True\<rparr>) (Ret JUndef))
       else dot result ''success'' (\<lambda>ok.
         if truthy ok then push_redirect h else Ret JUndef))))"

definition handleMfa :: "host \<Rightarrow> 'a login_page_scheme prog" where
  "handleMfa h = Get (\<lambda>s.
     await (store_verifyMfa h (lg_mfaToken s) (JStr (lg_mfaCode s))) (\<lambda>result.
       dot result ''success'' (\<lambda>ok. if truthy ok then push_redirect h else Ret JUndef)))"

definition back_to_sign_in :: "'a login_page_scheme prog" where
  "back_to_sign_in = modify (\<lambda>s. s\<lparr>lg_showMfa := False, lg_mfaCode := []\<rparr>) (Ret JUndef)"

definition mfa_form :: "host \<Rightarrow> 'a login_page_scheme \<Rightarrow> 'a login_page_scheme el list" where
  "mfa_form h s =
     [Txt ''Two-Factor Authentication'', Txt ''Enter the 6-digit code from your authenticator app'',
      Inp ''mfaCode'' False,
      Sub (appButton_disabled (length (lg_mfaCode s) \<noteq> 6) (ua_loading s)) ''Verify Code'' (handleMfa h),
      Btn False ''Back to sign in'' back_to_sign_in]"

definition login_form :: "host \<Rightarrow> 'a login_page_scheme \<Rightarrow> 'a login_page_scheme el list" where
  "login_form h s =
     [Txt ''Email or Username'', Inp ''username'' True, Txt ''Password'', Inp ''password'' True,
      Lnk ''/forgot-password'' ''Forgot password?'',
      Sub (appButton_disabled False (ua_loading s)) ''Sign In'' (handleLogin h)] @
     v_if (truthy (GITHUB_CLIENT_ID h)) [Txt ''or continue with''] @
     v_if (truthy (GITHUB_CLIENT_ID h)) [Lnk (githubAuthUrl h) ''Sign in with GitHub'']"

definition login_template :: "host \<Rightarrow> 'a login_page_scheme \<Rightarrow> 'a login_page_scheme el list" where
  "login_template h s =
     [Txt ''Sign in to your account'', Lnk ''/register'' ''create a new account''] @
     v_if (truthy (ua_error s)) [Val (ua_error s)] @
     (if lg_showMfa s then mfa_form h s else login_form h s)"

subsection \<open>RegisterPage\<close>

record register_page = user_app +
  rg_username :: string
  rg_email :: string
  rg_password :: string
  rg_confirmPassword :: string
  rg_error :: jsval
  rg_loading :: bool
  rg_success :: bool

definition register_request :: "'a register_page_scheme \<Rightarrow> request" where
  "register_request s = req_post ''/api/register'' (Form
     [(''username'', JStr (rg_username s)), (''password'', JStr (rg_password s)),
      (''email'', JStr (rg_email s))])"

definition handleRegister :: "host \<Rightarrow> 'a register_page_scheme prog" where
  "handleRegister h =
     modify (rg_error_update (\<lambda>_. JStr [])) (Get (\<lambda>s.
       if rg_password s \<noteq> rg_confirmPassword s then
         modify (rg_error_update (\<lambda>_. JStr ''Passwords do not match'')) (Ret JUndef)
       else if length (rg_password s) < 6 then
         modify (rg_error_update (\<lambda>_. JStr ''Password must be at least 6 characters'')) (Ret JUndef)
       else modify (rg_loading_update (\<lambda>_. True))
         (finally_do
           (catch
             (await (raw_send (register_request s)) (\<lambda>_.
                modify (rg_success_update (\<lambda>_. True))
                  (later (user_router_push h (JStr ''/login'')) (Ret JUndef))))
             (\<lambda>e. user_caught e (\<lambda>m. modify (rg_error_update (\<lambda>_. m)) (Ret JUndef))))
           (modify (rg_loading_update (\<lambda>_. False)) (Ret JUndef)))))"

definition register_template :: "host \<Rightarrow> 'a register_page_scheme \<Rightarrow> 'a register_page_scheme el list" where
  "register_template h s =
     [Txt ''Create Account'', Txt ''Join us today''] @
     v_if (rg_success s) [Txt ''Account created successfully!'', Txt ''Redirecting to login...''] @
     v_if (truthy (rg_error s)) [Val (rg_error s)] @
     v_if (\<not> rg_success s)
       [Txt ''Email'', Inp ''email'' True, Txt ''Username (optional)'', Inp ''username'' False,
        Txt ''Password'', Inp ''password'' True, Txt ''Confirm Password'', Inp ''confirmPassword'' True,
        Sub (rg_loading s) (if rg_loading s then ''Creating...'' else ''Create Account'') (handleRegister h)] @
     [Txt ''Already have an account?'', Lnk ''/login'' ''Sign in'']"

subsection \<open>ResetPasswordPage\<close>

record reset_page = user_app +
  rp_token :: jsval
  rp_newPassword :: string
  rp_confirmPassword :: string
  rp_loading :: bool
  rp_error :: jsval
  rp_success :: bool

definition reset_token :: "location \<Rightarrow> jsval" where
  "reset_token l = js_or (query l ''token'') (JStr [])"

definition confirm_reset_request :: "jsval \<Rightarrow> string \<Rightarrow> request" where
  "confirm_reset_request token newPassword = json_content (req_post ''/api/password-reset/confirm''
     (Json (JObj [(''token'', token), (''new_password'', JStr newPassword)])))"

definition handleReset :: "host \<Rightarrow> 'a reset_page_scheme prog" where
  "handleReset h = Get (\<lambda>s.
     if rp_newPassword s \<noteq> rp_confirmPassword s then
       modify (rp_error_update (\<lambda>_. JStr ''Passwords do not match'')) (Ret JUndef)
     else if length (rp_newPassword s) < 6 then
       modify (rp_error_update (\<lambda>_. JStr ''Password must be at least 6 characters'')) (Ret JUndef)
     else modify (\<lambda>s. s\<lparr>rp_error := JStr [], rp_loading := True\<rparr>)
       (finally_do
         (catch
           (await (raw_send (confirm_reset_request (rp_token s) (rp_newPassword s))) (\<lambda>_.
              modify (rp_success_update (\<lambda>_. True))
                (later (user_router_push h (JStr ''/login'')) (Ret JUndef))))
           (\<lambda>e. user_caught e (\<lambda>m. modify (rp_error_update (\<lambda>_. m)) (Ret JUndef))))
         (modify (rp_loading_update (\<lambda>_. False)) (Ret JUndef))))"

definition reset_template :: "host \<Rightarrow> 'a reset_page_scheme \<Rightarrow> 'a reset_page_scheme el list" where
  "reset_template h s =
     [Txt ''Set New Password''] @
     (if \<not> truthy (rp_token s) then
        [Txt ''Invalid or missing reset token.'', Lnk ''/forgot-password'' ''Request a new link'']
      else if rp_success s then
        [Txt ''Password reset successfully!'', Txt ''Redirecting to login...'']
      else
        v_if (truthy (rp_error s)) [Val (rp_error s)] @
        [Txt ''New Password'', Inp ''newPassword'' True, Txt ''Confirm Password'', Inp ''confirmPassword'' True,
         Sub (rp_loading s) (if rp_loading s then ''Resetting...'' else ''Reset Password'') (handleReset h)])"

subsection \<open>VerifyEmailPage\<close>

datatype verify_status = VLoading | VSuccess | VError

record verify_page = user_app +
  ve_status :: verify_status
  ve_message :: jsval

definition verify_request :: "jsval \<Rightarrow> request" where
  "verify_request token = req_get (''/api/verify-email?token='' @ encodeURIComponent (js_to_string token))"

definition verify_onMounted :: "'a verify_page_scheme prog" where
  "verify_onMounted = Get (\<lambda>s.
     let token = query (currentRoute s) ''token'' in
     if \<not> truthy token then
       modify (\<lambda>s. s\<lparr>ve_status := VError, ve_message := JStr ''Missing verification token''\<rparr>) (Ret JUndef)
     else catch
       (await (raw_send (verify_request token)) (\<lambda>data.
          modify (\<lambda>s. s\<lparr>ve_status := VSuccess,
              ve_message := js_or (js_opt data ''message'') (JStr ''Email verified successfully!'')\<rparr>)
            (Ret JUndef)))
       (\<lambda>e. modify (ve_status_update (\<lambda>_. VError))
          (user_caught e (\<lambda>m. modify (ve_message_update (\<lambda>_. m)) (Ret JUndef)))))"

definition verify_template :: "'a verify_page_scheme \<Rightarrow> 'a verify_page_scheme el list" where
  "verify_template s = (case ve_status s of
       VLoading \<Rightarrow> [Txt ''Verifying your email...'']
     | VSuccess \<Rightarrow> [Txt ''Email Verified!'', Val (ve_message s), Lnk ''/login'' ''Go to Login'']
     | VError \<Rightarrow> [Txt ''Verification Failed'', Val (ve_message s), Lnk ''/login'' ''Go to Login''])"

subsection \<open>Behaviour of the handlers\<close>

interpretation forgot: busy_flag fp_loading "fp_loading_update (\<lambda>_. False)"
  by unfold_locales simp

interpretation register: busy_flag rg_loading "rg_loading_update (\<lambda>_. False)"
  by unfold_locales simp

interpretation reset: busy_flag rp_loading "rp_loading_update (\<lambda>_. False)"
  by unfold_locales simp

lemma auth_pages_settle:
  "settles fp_loading handleSubmit" "settles rg_loading (handleRegister h)" "settles rp_loading (handleReset h)"
  unfolding handleSubmit_def handleRegister_def handleReset_def
  by ((intro forgot.settle_intros register.settle_intros reset.settle_intros; simp)+)

text \<open>
  C20: the forgotten-password page tells nobody whether an address has an account. Whatever
  the server answers, success or any failure, the handler ends without an exception in one
  and the same state, so the page on display is the same; exactly one request goes out and it
  carries the address typed. While the request is under way the page offers nothing to press.
\<close>

theorem forgot_password_reveals_nothing:
  fixes s :: "'a forgot_page_scheme"
  shows "run handleSubmit s ts ([out] # as) =
      emit [forgot_request (fp_email s)]
        (halt (Done JUndef) (s\<lparr>fp_error := JStr [], fp_loading := False, fp_sent := True\<rparr>) ts as) \<and>
    forgot_template (r_state (run handleSubmit s ts ([out] # as))) =
      [Txt ''Reset Password'', Txt ''Enter your email to receive a reset link'',
       Txt ''If an account with that email exists, we've sent a password reset link.'',
       Txt ''Check your inbox and spam folder.'', Lnk ''/login'' ''Back to Login''] \<and>
    offered (forgot_template (r_state (run handleSubmit s ts []))) = []"
proof -
  have "run handleSubmit s ts ([out] # as) =
      emit [forgot_request (fp_email s)]
        (halt (Done JUndef) (s\<lparr>fp_error := JStr [], fp_loading := False, fp_sent := True\<rparr>) ts as)"
    by (cases out) (simp_all add: handleSubmit_def prog_simps)
  then show ?thesis by (simp add: forgot_template_def handleSubmit_def prog_simps)
qed

end
