(* ===== verification/User_Form_Locks.thy ===== *)
theory User_Form_Locks
  imports Page_Machine User_Auth_Pages
begin

text \<open>
  The forms of the user application's authentication pages are never sent twice at the same
  time. The locale \<open>user_flag\<close> says that a flag of a page is none of the application's own
  business; in it the calls of the HTTP layer, the session restore and the router are quiet.
\<close>

locale user_flag =
  fixes busy :: "'a user_app_scheme \<Rightarrow> bool" and P :: "request \<Rightarrow> bool"
  assumes flag: "busy (setTokens a rt s) = busy s" "busy (clearTokens s) = busy s"
      "busy (s\<lparr>currentRoute := l\<rparr>) = busy s" "busy (assign_href u s) = busy s" "busy (s\<lparr>ua_user := v\<rparr>) = busy s"
      "busy (s\<lparr>ua_tokenPresent := b\<rparr>) = busy s" "busy (s\<lparr>ua_sessionRestored := b\<rparr>) = busy s"
      "busy (s\<lparr>sessionStorage := st\<rparr>) = busy s" "busy (s\<lparr>ua_error := v\<rparr>) = busy s"
    and same: "rq_method q = rq_method r \<Longrightarrow> rq_url q = rq_url r \<Longrightarrow> rq_body q = rq_body r \<Longrightarrow> P q = P r"
    and not_session: "P r \<Longrightarrow> rq_url r \<notin> {''/oauth2/token'', ''/oauth2/userinfo'', ''../router''}"
begin

lemma navigate_steady:
  "(\<And>l. steady busy P A (guard l)) \<Longrightarrow> steady busy P A (navigate n h rs guard t)"
proof (induction n arbitrary: t)
  case (Suc n)
  then show ?case by (auto split: option.split intro!: steady_intros flag)
qed (simp add: steady_Throw)

lemma push_steady: "steady busy P A r \<Longrightarrow> steady busy P A (user_push r h t)"
  unfolding user_push_def by (rule navigate_steady) (auto simp: user_guard_def intro!: steady_intros)

lemma redirect_quiet: "quiet busy P (user_redirectToLogin h)"
  unfolding user_redirectToLogin_def redirect_to_login_def
  by (intro steady_intros push_steady flag) (use not_session in fastforce)

lemma refresh_quiet: "quiet busy P (refresh_tokens h)"
  unfolding refresh_tokens_def refresh_request_def
  by (intro steady_intros flag) (use not_session in fastforce)

lemma refresh_steady: "steady busy P (\<lambda>_. True) (refresh_tokens h)"
  unfolding refresh_tokens_def by (intro steady_intros flag) simp

lemma expired_steady: "steady busy P A (session_expired h)"
  unfolding session_expired_def by (intro steady_intros flag redirect_quiet)

text \<open>A call of \<^verbatim>\<open>http\<close> sends its request, perhaps twice, and the exchange.\<close>

lemma http_steady:
  assumes "\<And>q. rq_method q = rq_method r \<Longrightarrow> rq_url q = rq_url r \<Longrightarrow> rq_body q = rq_body r \<Longrightarrow> A q"
    and ref: "steady busy P A (refresh_tokens h)"
  shows "steady busy P A (user_http h r)"
proof -
  have retry: "steady busy P A (user_http h q)" if "rq_retry q" "rq_method q = rq_method r" "rq_url q = rq_url r" "rq_body q = rq_body r" for q
    using that assms(1) by (subst user_http.simps)
      (auto simp: Let_def intro!: steady_intros steady_Net split: list.split outcome.split)
  show ?thesis
    using assms(1) by (subst user_http.simps)
      (auto simp: Let_def intro!: steady_intros steady_Net ref expired_steady retry split: list.split outcome.split)
qed

lemma http_quiet: "\<not> P r \<Longrightarrow> quiet busy P (user_http h r)"
  by (intro http_steady refresh_quiet) (metis same)

lemma http_any: "steady busy P (\<lambda>_. True) (user_http h r)"
  by (intro http_steady refresh_steady) simp

lemma fetchUser_quiet: "quiet busy P (fetchUser h)"
  unfolding fetchUser_def getUserInfo_def
  by (intro steady_intros flag http_quiet) (use not_session in fastforce)

lemma fetchUser_any: "steady busy P (\<lambda>_. True) (fetchUser h)"
  unfolding fetchUser_def getUserInfo_def by (intro steady_intros flag http_any)

lemma restore_quiet: "quiet busy P (restoreSession h)"
  unfolding restoreSession_def tryRestoreSession_def markAuthenticated_def markUnauthenticated_def
  by (intro steady_intros refresh_quiet fetchUser_quiet flag)

lemma router_quiet: "quiet busy P (user_router_push h t)"
  unfolding user_router_push_def by (intro push_steady restore_quiet)

lemma redirect_after_login_quiet: "quiet busy P (push_redirect h)"
  unfolding push_redirect_def by (intro steady_intros router_quiet)

end

subsection \<open>The forms\<close>

interpretation register_flag: user_flag rg_loading "posts {''/api/register''}"
  by unfold_locales (auto simp: setTokens_def clearTokens_def assign_href_def posts_def)

interpretation reset_flag: user_flag rp_loading "posts {''/api/password-reset/confirm''}"
  by unfold_locales (auto simp: setTokens_def clearTokens_def assign_href_def posts_def)

interpretation login_flag: user_flag ua_loading "posts {''/oauth2/login'', ''/oauth2/mfa/verify''}"
  by unfold_locales (auto simp: setTokens_def clearTokens_def assign_href_def posts_def)

lemma handleSubmit_locked: "locked fp_loading P handleSubmit s"
  unfolding handleSubmit_def
  by (rule locked_try [where A = "\<lambda>_. True"]) (simp_all, (intro steady_intros; simp))

interpretation forgot_form: form_lock fp_loading "posts {''/api/password-reset/request''}" "Ret JUndef" forgot_template
  by unfold_locales (auto simp: forgot_template_def handleSubmit_locked steady_Ret split: if_splits)

lemma handleRegister_locked: "locked rg_loading (posts {''/api/register''}) (handleRegister h) s"
  unfolding handleRegister_def
  by (intro locked_modify locked_Get locked_if locked_try [where A = "\<lambda>_. True"])
    (simp_all, (intro steady_intros register_flag.router_quiet; simp))

interpretation register_form: form_lock rg_loading "posts {''/api/register''}" "Ret JUndef" "register_template h" for h
  by unfold_locales (auto simp: register_template_def offered_v_if handleRegister_locked steady_Ret split: if_splits)

lemma handleReset_locked: "locked rp_loading (posts {''/api/password-reset/confirm''}) (handleReset h) s"
  unfolding handleReset_def
  by (intro locked_modify locked_Get locked_if locked_try [where A = "\<lambda>_. True"])
    (simp_all, (intro steady_intros reset_flag.router_quiet; simp))

interpretation reset_form: form_lock rp_loading "posts {''/api/password-reset/confirm''}" "Ret JUndef" "reset_template h" for h
  by unfold_locales (auto simp: reset_template_def offered_v_if handleReset_locked steady_Ret split: if_splits)

text \<open>The two forms of the login page share the store's flag.\<close>

abbreviation auth_posts :: "request \<Rightarrow> bool" where
  "auth_posts \<equiv> posts {''/oauth2/login'', ''/oauth2/mfa/verify''}"

lemma authenticate_locked:
  "steady ua_loading auth_posts (\<lambda>_. True) call \<Longrightarrow> locked ua_loading auth_posts (authenticate h call) s"
  unfolding authenticate_def markAuthenticated_def
  by (rule locked_try [where A = "\<lambda>_. True"])
    (simp_all, (intro steady_intros login_flag.fetchUser_any; simp add: markAuthenticated_def))

lemma services_steady:
  "steady ua_loading auth_posts (\<lambda>_. True) (authService_login h u p sc)"
  "steady ua_loading auth_posts (\<lambda>_. True) (authService_verifyMfa h t c)"
  unfolding authService_login_def authService_verifyMfa_def take_verifier_def store_tokens_def Let_def put_verifier_def
  by ((intro steady_intros login_flag.http_any login_flag.flag; simp add: login_flag.flag)+)

lemma login_handlers_locked:
  "locked ua_loading auth_posts (handleLogin h) s" "locked ua_loading auth_posts (handleMfa h) s"
  unfolding handleLogin_def handleMfa_def store_login_def store_verifyMfa_def
  by (intro locked_Get locked_await authenticate_locked services_steady steady_intros
      login_flag.redirect_after_login_quiet; simp)+

lemma back_quiet: "quiet ua_loading auth_posts back_to_sign_in"
  unfolding back_to_sign_in_def by (intro steady_intros) simp

interpretation login_form_lock: form_lock ua_loading auth_posts "Ret JUndef" "login_template h" for h
  by unfold_locales
    (auto simp: login_template_def mfa_form_def login_form_def offered_v_if appButton_disabled_def
      login_handlers_locked back_quiet steady_Ret split: if_splits)

end
