(* ===== verification/User_OAuth_Pages.thy ===== *)
theory User_OAuth_Pages
  imports User_Auth_Pages
begin

text \<open>
  \<^verbatim>\<open>pages/oauth\<close> of the user application: the callback of the redirect flow, the GitHub
  callback with its login and link flows, the consent page and the device page.

  \<^verbatim>\<open>router.replace\<close> is \<open>user_router_push\<close>: the history of the browser is not part of
  the state. What a page reads from its route when it is set up is an argument.
\<close>

subsection \<open>CallbackPage\<close>

record callback_page = user_app +
  cb_error :: jsval

definition callback_onMounted :: "host \<Rightarrow> 'a callback_page_scheme prog" where
  "callback_onMounted h = Get (\<lambda>s.
     let code = query (currentRoute s) ''code''; errorParam = query (currentRoute s) ''error'' in
     if truthy errorParam then
       modify (cb_error_update (\<lambda>_. js_or (query (currentRoute s) ''error_description'') errorParam)) (Ret JUndef)
     else if \<not> truthy code then
       modify (cb_error_update (\<lambda>_. JStr ''No authorization code received'')) (Ret JUndef)
     else catch
       (await (store_exchangeCode h code) (\<lambda>_.
          no_await (user_router_push h (JStr ''/'')) (Ret JUndef)))
       (\<lambda>e. user_caught e (\<lambda>m. modify (cb_error_update (\<lambda>_. m)) (Ret JUndef))))"

definition callback_template :: "'a callback_page_scheme \<Rightarrow> 'a callback_page_scheme el list" where
  "callback_template s =
     (if truthy (cb_error s)
      then [Txt ''Authentication Error'', Val (cb_error s), Lnk ''/login'' ''Back to Login'']
      else [Txt ''Completing sign in...''])"

subsection \<open>GitHubCallbackPage\<close>

record github_page = user_app +
  gh_error :: jsval

definition github_login_request :: "jsval \<Rightarrow> request" where
  "github_login_request code = json_content (req_post ''/api/github/login'' (Json (JObj [(''code'', code)])))"

definition github_show :: "jsval \<Rightarrow> 'a github_page_scheme prog" where
  "github_show m = modify (gh_error_update (\<lambda>_. m)) (Ret JUndef)"

definition github_link :: "host \<Rightarrow> jsval \<Rightarrow> 'a github_page_scheme prog" where
  "github_link h code = Get (\<lambda>s.
     bind (if truthy (ua_accessToken s) then Ret (JBool True) else await (tryRestoreSession h) Ret) (\<lambda>hasSession.
       if \<not> truthy hasSession then
         github_show (JStr ''Please sign in first, then retry linking your GitHub account.'')
       else catch
         (await (linkSocialAccount h (JStr ''github'') code) (\<lambda>_.
            no_await (user_router_push h (JStr ''/security'')) (Ret JUndef)))
         (\<lambda>e. user_caught e github_show)))"

definition github_login :: "host \<Rightarrow> jsval \<Rightarrow> 'a github_page_scheme prog" where
  "github_login h code = catch
     (await (raw_send (github_login_request code)) (\<lambda>data.
        dot data ''access_token'' (\<lambda>access.
        if truthy access then
          dot data ''access_token'' (\<lambda>a. dot data ''refresh_token'' (\<lambda>r.
            modify (setTokens a r) (modify markAuthenticated
              (await (fetchUser h) (\<lambda>_.
                no_await (user_router_push h (JStr ''/'')) (Ret JUndef))))))
        else github_show (JStr ''GitHub login did not return an access token''))))
     (\<lambda>e. user_caught e github_show)"

definition github_onMounted :: "host \<Rightarrow> 'a github_page_scheme prog" where
  "github_onMounted h = Get (\<lambda>s.
     let code = query (currentRoute s) ''code'' in
     if \<not> truthy code then github_show (JStr ''No authorization code from GitHub'')
     else if query (currentRoute s) ''state'' = JStr ''link'' then github_link h code
     else github_login h code)"

definition github_template :: "'a github_page_scheme \<Rightarrow> 'a github_page_scheme el list" where
  "github_template s =
     (if truthy (gh_error s)
      then [Txt ''GitHub Login Failed'', Val (gh_error s), Lnk ''/login'' ''Back to Login'']
      else [Txt ''Signing in with GitHub...''])"

subsection \<open>ConsentPage\<close>

record consent_page = user_app +
  cs_loading :: bool

definition consent_param :: "location \<Rightarrow> string \<Rightarrow> jsval" where
  "consent_param l k = js_or (query l k) (JStr [])"

definition consent_scopes :: "location \<Rightarrow> string list" where
  "consent_scopes l = filter (\<lambda>x. x \<noteq> []) (js_split (CHR '' '') (js_to_string (consent_param l ''scope'')))"

definition scopeDescriptions :: jsval where
  "scopeDescriptions = JObj
     [(''openid'', JStr ''Verify your identity''),
      (''profile'', JStr ''Access your basic profile (username)''),
      (''email'', JStr ''Access your email address''),
      (''admin'', JStr ''Administrative access''),
      (''users:read'', JStr ''Read user accounts''),
      (''users:write'', JStr ''Manage user accounts''),
      (''clients:read'', JStr ''View registered applications''),
      (''clients:write'', JStr ''Manage registered applications''),
      (''tokens:read'', JStr ''View active tokens''),
      (''tokens:write'', JStr ''Revoke tokens''),
      (''roles:read'', JStr ''View roles and scopes''),
      (''roles:write'', JStr ''Manage roles and scopes''),
      (''audit:read'', JStr ''View audit logs and statistics'')]"

definition consent_fields :: "location \<Rightarrow> jsval \<Rightarrow> string \<Rightarrow> (string \<times> jsval) list" where
  "consent_fields l user act =
     [(''client_id'', consent_param l ''client_id''), (''user_id'', js_or (js_opt user ''sub'') (JStr [])),
      (''scope'', consent_param l ''scope''), (''redirect_uri'', consent_param l ''redirect_uri''),
      (''state'', consent_param l ''state''), (''action'', JStr act)] @
     (if truthy (consent_param l ''code_challenge'') then
        [(''code_challenge'', consent_param l ''code_challenge''),
         (''code_challenge_method'', consent_param l ''code_challenge_method'')]
      else []) @
     (if truthy (consent_param l ''nonce'') then [(''nonce'', consent_param l ''nonce'')] else [])"

text \<open>The form is posted by the browser; the handler does not wait for the answer.\<close>

definition handleConsent :: "location \<Rightarrow> string \<Rightarrow> 'a consent_page_scheme prog" where
  "handleConsent l act = modify (cs_loading_update (\<lambda>_. True)) (Get (\<lambda>s.
     no_await (raw_send (form_content (req_post ''/oauth2/consent'' (Form (consent_fields l (ua_user s) act)))))
       (Ret JUndef)))"

definition consent_template :: "location \<Rightarrow> 'a consent_page_scheme \<Rightarrow> 'a consent_page_scheme el list" where
  "consent_template l s =
     [Txt ''Authorize Application'', Val (consent_param l ''client_id''),
      Txt ''is requesting access to your account'', Txt ''This application will be able to:''] @
     map (\<lambda>sc. Val (js_or (js_get scopeDescriptions sc) (JStr sc))) (consent_scopes l) @
     [Txt ''Signed in as'', Val (js_or (js_opt (ua_user s) ''name'') (js_opt (ua_user s) ''sub'')),
      Btn (cs_loading s) ''Deny'' (handleConsent l ''deny''),
      Btn (cs_loading s) (if cs_loading s then ''Authorizing...'' else ''Authorize'') (handleConsent l ''approve'')]"

subsection \<open>DeviceVerifyPage\<close>

datatype device_status = DInput | DSuccess | DError

record device_page = user_app +
  dv_userCode :: string
  dv_loading :: bool
  dv_status :: device_status
  dv_error :: jsval

definition device_userCode :: "location \<Rightarrow> string" where
  "device_userCode l = js_to_string (js_or (query l ''user_code'') (JStr []))"

definition device_request :: "string \<Rightarrow> request" where
  "device_request code = req_post ''/oauth2/device/verify'' (Form [(''user_code'', JStr (js_upper (js_trim code)))])"

definition handleVerify :: "'a device_page_scheme prog" where
  "handleVerify = Get (\<lambda>s.
     if js_trim (dv_userCode s) = [] then Ret JUndef
     else modify (\<lambda>s. s\<lparr>dv_loading := True, dv_error := JStr []\<rparr>)
       (finally_do
         (catch
           (await (raw_send (device_request (dv_userCode s))) (\<lambda>_.
              modify (dv_status_update (\<lambda>_. DSuccess)) (Ret JUndef)))
           (\<lambda>e. user_caught e (\<lambda>m. modify (\<lambda>s. s\<lparr>dv_error := m, dv_status := DError\<rparr>) (Ret JUndef))))
         (modify (dv_loading_update (\<lambda>_. False)) (Ret JUndef))))"

definition device_retry :: "'a device_page_scheme prog" where
  "device_retry = modify (\<lambda>s. s\<lparr>dv_status := DInput, dv_error := JStr []\<rparr>) (Ret JUndef)"

definition device_template :: "'a device_page_scheme \<Rightarrow> 'a device_page_scheme el list" where
  "device_template s =
     [Txt ''Device Authorization'', Txt ''Enter the code shown on your device''] @
     (case dv_status s of
        DSuccess \<Rightarrow> [Txt ''Device authorized successfully!'',
          Txt ''You can close this page and return to your device.'']
      | DError \<Rightarrow> [Val (dv_error s), Btn False ''Try again'' device_retry]
      | DInput \<Rightarrow> [Txt ''Device Code'', Inp ''userCode'' True,
          Sub (dv_loading s \<or> js_trim (dv_userCode s) = [])
            (if dv_loading s then ''Verifying...'' else ''Authorize Device'') handleVerify])"

subsection \<open>Behaviour of the handlers\<close>

interpretation device: busy_flag dv_loading "dv_loading_update (\<lambda>_. False)"
  by unfold_locales simp

lemma device_settles: "settles dv_loading handleVerify"
  unfolding handleVerify_def by (intro device.settle_intros; simp)

lemma oauth_pages_no_throw:
  "no_throw (callback_onMounted h)" "no_throw (github_onMounted h)" "no_throw (handleConsent l a)"
  unfolding callback_onMounted_def github_onMounted_def github_link_def github_login_def github_show_def
    handleConsent_def Let_def
  by (auto intro!: no_throw_intros restore_no_throw)

text \<open>No request of \<^verbatim>\<open>http\<close>, its refresh and its redirect included, is another route's.\<close>

definition not_github_login :: "request \<Rightarrow> bool" where
  "not_github_login r \<longleftrightarrow> rq_url r \<noteq> ''/api/github/login''"

lemma not_github_login_simps [simp]:
  "not_github_login (request_interceptor s r) = not_github_login r"
  "not_github_login (http_defaults r) = not_github_login r" "not_github_login (with_header k v r) = not_github_login r"
  "not_github_login (r\<lparr>rq_retry := b\<rparr>) = not_github_login r" "not_github_login (json_content r) = not_github_login r"
  "not_github_login (mk_request mt u bd) = (u \<noteq> ''/api/github/login'')"
  "not_github_login (refresh_request h rt)"
  by (simp_all add: not_github_login_def refresh_request_def)

lemma navigate_sends_only:
  "(\<And>l. sends_only P (guard l)) \<Longrightarrow> sends_only P (navigate n h rs guard t)"
proof (induction n arbitrary: t)
  case (Suc n)
  then show ?case by (auto intro!: sends_only_intros split: option.split)
qed simp

lemma push_sends_only: "sends_only P r \<Longrightarrow> sends_only P (user_push r h t)"
  unfolding user_push_def
  by (rule navigate_sends_only) (auto simp: user_guard_def intro!: sends_only_intros)

lemma refresh_sends: "sends_only not_github_login (refresh_tokens h)"
  unfolding refresh_tokens_def by (intro sends_only_intros) simp

lemma expired_sends: "sends_only not_github_login (session_expired h)"
  unfolding session_expired_def user_redirectToLogin_def redirect_to_login_def
  by (intro sends_only_intros push_sends_only) simp

lemma http_sends:
  assumes "not_github_login r"
  shows "sends_only not_github_login (user_http h r)"
proof -
  have retry: "sends_only not_github_login (user_http h r)" if "rq_retry r" "not_github_login r" for r
    using that by (subst user_http.simps)
      (auto simp: Let_def intro!: sends_only_intros split: list.split outcome.split)
  show ?thesis
    using assms by (subst user_http.simps)
      (auto simp: Let_def intro!: sends_only_intros refresh_sends expired_sends retry split: list.split outcome.split)
qed

lemma fetchUser_sends: "sends_only not_github_login (fetchUser h)"
  unfolding fetchUser_def getUserInfo_def by (intro sends_only_intros http_sends) simp

lemma tryRestore_sends: "sends_only not_github_login (tryRestoreSession h)"
  unfolding tryRestoreSession_def by (intro sends_only_intros refresh_sends)

lemma restore_sends: "sends_only not_github_login (restoreSession h)"
  unfolding restoreSession_def by (intro sends_only_intros tryRestore_sends fetchUser_sends)

lemma router_sends: "sends_only not_github_login (user_router_push h t)"
  unfolding user_router_push_def by (intro push_sends_only restore_sends)

lemma github_link_sends: "sends_only not_github_login (github_link h code)"
  unfolding github_link_def linkSocialAccount_def github_show_def
  by (intro sends_only_intros tryRestore_sends http_sends router_sends)
     (simp_all add: encodeURIComponent_def)

lemma github_onMounted_link:
  "query (currentRoute s) ''state'' = JStr ''link'' \<Longrightarrow> truthy (query (currentRoute s) ''code'') \<Longrightarrow>
   run (github_onMounted h) s ts as = run (github_link h (query (currentRoute s) ''code'')) s ts as"
  by (simp add: github_onMounted_def)

subsection \<open>Properties\<close>

definition sign_in_first :: jsval where
  "sign_in_first = JStr ''Please sign in first, then retry linking your GitHub account.''"

text \<open>
  C15: linking a GitHub account never turns into a login. With \<^verbatim>\<open>state=link\<close> in the
  address, whatever tokens are held and whatever the network answers, neither the page nor
  anything it leaves running ever asks \<^verbatim>\<open>/api/github/login\<close> for a session. Without a
  session (no token, or the restore refused) the page sends nothing more and asks to sign in
  first; with an access token exactly one link request goes out.
\<close>

theorem github_link_never_logs_in:
  fixes s :: "'a github_page_scheme"
  assumes "query (currentRoute s) ''state'' = JStr ''link''"
  shows "list_all (\<lambda>r. rq_url r \<noteq> ''/api/github/login'') (r_sent (run (github_onMounted h) s [] as)) \<and>
    list_all (sends_only (\<lambda>r. rq_url r \<noteq> ''/api/github/login'')) (r_tasks (run (github_onMounted h) s [] as)) \<and>
    (truthy (query (currentRoute s) ''code'') \<longrightarrow>
      (\<not> truthy (ua_accessToken s) \<and> \<not> truthy (ua_refreshToken s) \<longrightarrow>
        run (github_onMounted h) s ts as = halt (Done JUndef) (s\<lparr>gh_error := sign_in_first\<rparr>) ts as) \<and>
      (\<not> truthy (ua_accessToken s) \<and> truthy (ua_refreshToken s) \<longrightarrow>
        run (github_onMounted h) s ts ([Rejected resp c] # as) =
          emit [refresh_request h (ua_refreshToken s)]
            (halt (Done JUndef) ((clearTokens s)\<lparr>gh_error := sign_in_first\<rparr>) ts as)) \<and>
      (truthy (ua_accessToken s) \<longrightarrow>
        map rq_url (r_sent (run (github_onMounted h) s ts ([Resolved d] # as))) = [''/api/me/social/links/github'']))"
proof -
  define code where "code = query (currentRoute s) ''code''"
  let ?p = "if truthy code then github_link h code else github_show (JStr ''No authorization code from GitHub'')"
  have p: "run (github_onMounted h) s ts as = run ?p s ts as" for ts as
    using assms by (simp add: github_onMounted_def code_def)
  have "sends_only not_github_login ?p"
    by (simp add: github_link_sends github_show_def sends_only_modify)
  then have "list_all not_github_login (r_sent (run ?p s [] as))"
    "list_all (sends_only not_github_login) (r_tasks (run ?p s [] as))"
    by (auto intro: run_sends_only run_tasks_sends_only)
  moreover have "run ?p s ts as = halt (Done JUndef) (s\<lparr>gh_error := sign_in_first\<rparr>) ts as"
    if "truthy code" "\<not> truthy (ua_accessToken s)" "\<not> truthy (ua_refreshToken s)"
    using that by (simp add: github_link_def github_show_def sign_in_first_def tryRestoreSession_def prog_simps)
  moreover have "run ?p s ts ([Rejected resp c] # as) = emit [refresh_request h (ua_refreshToken s)]
      (halt (Done JUndef) ((clearTokens s)\<lparr>gh_error := sign_in_first\<rparr>) ts as)"
    if "truthy code" "\<not> truthy (ua_accessToken s)" "truthy (ua_refreshToken s)"
    using that by (simp add: github_link_def github_show_def sign_in_first_def tryRestoreSession_def prog_simps)
  moreover have "map rq_url (r_sent (run ?p s ts ([Resolved d] # as))) = [''/api/me/social/links/github'']"
    if "truthy code" "truthy (ua_accessToken s)"
    using that by (simp add: github_link_def linkSocialAccount_def prog_simps run_user_http no_await_def
        encodeURIComponent_def encode_uri_char_def uri_unreserved_def split: prod.split)
  ultimately show ?thesis
    unfolding p not_github_login_def [abs_def] code_def by blast
qed

definition at_github_link :: location where
  "at_github_link = \<lparr>loc_name = Some ''github-callback'', loc_path = ''/callback/github'',
     loc_fullPath = ''/callback/github?code=c1&state=link'', loc_query = [(''code'', ''c1''), (''state'', ''link'')],
     loc_params = [], loc_meta = []\<rparr>"

definition sample_github :: github_page where
  "sample_github = user_app.extend (sample_state\<lparr>currentRoute := at_github_link\<rparr>) (github_page.fields (JStr []))"

theorem github_link_never_logs_in_witness:
  "map rq_url (r_sent (run (github_onMounted sample_host) sample_github [] ([[Resolved JNull]]))) =
     [''/api/me/social/links/github'']"
proof -
  have "currentRoute sample_github = at_github_link" "ua_accessToken sample_github = JStr ''a1''"
    by (simp_all add: sample_github_def user_app.defs github_page.defs)
  then show ?thesis
    using github_link_never_logs_in [of sample_github sample_host "[]" "[]"]
    by (simp add: at_github_link_def query_def)
qed

text \<open>
  C16: the authorization request passes through the consent page unchanged. Pressing a button
  posts one form in the background, with the choice, and then offers no button any more.
  Every parameter of the request that is not empty is a field of the form with the same
  value; the PKCE challenge goes with its method, and neither is there when the request had
  no challenge; a nonce is there just when the request had one.
\<close>

theorem consent_form_round_trip:
  fixes s :: "'a consent_page_scheme" and l act
  defines "r \<equiv> form_content (req_post ''/oauth2/consent'' (Form (consent_fields l (ua_user s) act)))"
  shows "run (handleConsent l act) s ts as =
      halt (Done JUndef) (s\<lparr>cs_loading := True\<rparr>) (ts @ [raw_send r]) as \<and>
    offered (consent_template l (s\<lparr>cs_loading := True\<rparr>)) = [] \<and>
    form_field r ''action'' = Some (JStr act) \<and>
    (\<forall>k \<in> {''client_id'', ''scope'', ''redirect_uri'', ''state'', ''code_challenge'', ''nonce''}.
      truthy (query l k) \<longrightarrow> form_field r k = Some (query l k)) \<and>
    (truthy (query l ''code_challenge'') \<longrightarrow>
      form_field r ''code_challenge_method'' = Some (js_or (query l ''code_challenge_method'') (JStr []))) \<and>
    (\<not> truthy (query l ''code_challenge'') \<longrightarrow>
      form_field r ''code_challenge'' = None \<and> form_field r ''code_challenge_method'' = None) \<and>
    (\<not> truthy (query l ''nonce'') \<longrightarrow> form_field r ''nonce'' = None)"
proof (intro conjI)
  show "run (handleConsent l act) s ts as =
      halt (Done JUndef) (s\<lparr>cs_loading := True\<rparr>) (ts @ [raw_send r]) as"
    by (simp add: handleConsent_def no_await_def r_def raw_send_def)
  have "offered (map (\<lambda>x. Val (f x)) xs) = []" for f and xs :: "string list"
    by (induction xs) auto
  then show "offered (consent_template l (s\<lparr>cs_loading := True\<rparr>)) = []"
    by (simp add: consent_template_def)
qed (auto simp: r_def consent_fields_def consent_param_def)

definition sample_consent :: "string \<Rightarrow> consent_page" where
  "sample_consent sub = user_app.extend (sample_state\<lparr>ua_user := JObj [(''sub'', JStr sub)]\<rparr>) (consent_page.fields False)"

definition at_consent :: location where
  "at_consent = \<lparr>loc_name = Some ''consent'', loc_path = ''/consent'', loc_fullPath = ''/consent'',
     loc_query = [(''client_id'', ''app''), (''scope'', ''openid email''), (''redirect_uri'', ''https://app/cb''),
       (''code_challenge'', ''abc''), (''code_challenge_method'', ''S256'')],
     loc_params = [], loc_meta = auth_layout_meta\<rparr>"

theorem consent_form_round_trip_witness:
  "form_field (form_content (req_post ''/oauth2/consent''
      (Form (consent_fields at_consent (ua_user (sample_consent ''u1'')) ''approve'')))) ''code_challenge'' =
      Some (JStr ''abc'') \<and>
   form_field (form_content (req_post ''/oauth2/consent''
      (Form (consent_fields at_consent (ua_user (sample_consent ''u1'')) ''approve'')))) ''nonce'' = None"
  using consent_form_round_trip [of at_consent "''approve''" "sample_consent ''u1''" "[]" "[]"]
  by (simp add: at_consent_def query_def)

end
