(* ===== verification/User_Account_Pages.thy ===== *)
theory User_Account_Pages
  imports User_OAuth_Pages
begin

text \<open>
  \<^verbatim>\<open>pages/account\<close> and \<^verbatim>\<open>layouts/AppLayout.vue\<close> of the user application: dashboard,
  profile, authorized applications, the security page (password, MFA, passkeys, social
  accounts, deletion of the account) and the frame around them with its logout.

  The answer a user gives to \<^verbatim>\<open>confirm\<close> is an argument of the handler. WebAuthn and
  \<^verbatim>\<open>atob\<close> are the browser's: a record \<open>authenticator\<close> of functions. How a date is shown
  is the argument \<open>show_date\<close> of a template.
\<close>

subsection \<open>AuthorizedAppsPage\<close>

record apps_page = user_app +
  ap_apps :: jsval
  ap_loading :: bool
  ap_error :: jsval
  ap_success :: jsval

definition fetchApps :: "host \<Rightarrow> 'a apps_page_scheme prog" where
  "fetchApps h = modify (ap_loading_update (\<lambda>_. True))
     (finally_do
       (catch
         (await (user_http h (req_get ''/api/me/authorized-apps'')) (\<lambda>data.
            dot data ''apps'' (\<lambda>a. dot data ''authorized_apps'' (\<lambda>b.
              modify (ap_apps_update (\<lambda>_. js_or (js_or a b) (JArr []))) (Ret JUndef)))))
         (\<lambda>e. modify (ap_error_update (\<lambda>_. JStr ''Failed to load authorized apps'')) (Ret JUndef)))
       (modify (ap_loading_update (\<lambda>_. False)) (Ret JUndef)))"

definition page_revokeApp :: "host \<Rightarrow> bool \<Rightarrow> jsval \<Rightarrow> jsval \<Rightarrow> 'a apps_page_scheme prog" where
  "page_revokeApp h yes clientId appName = confirmed yes
     (catch
       (await (user_http h (req_delete (''/api/me/authorized-apps/'' @ js_to_string clientId))) (\<lambda>_.
          modify (ap_success_update (\<lambda>_. JStr (''Access revoked for \"'' @ js_to_string appName @ ''\"'')))
            (set_timeout (ap_success_update (\<lambda>_. JStr []))
              (await (fetchApps h) (\<lambda>_. Ret JUndef)))))
       (\<lambda>e. user_caught e (\<lambda>m. modify (ap_error_update (\<lambda>_. m)) (Ret JUndef))))"

definition apps_template :: "host \<Rightarrow> bool \<Rightarrow> 'a apps_page_scheme \<Rightarrow> 'a apps_page_scheme el list" where
  "apps_template h yes s =
     [Txt ''Authorized Applications'', Txt ''These applications have been granted access to your account.''] @
     v_if (truthy (ap_success s)) [Val (ap_success s)] @
     v_if (truthy (ap_error s)) [Val (ap_error s)] @
     (if ap_loading s then [Txt ''Loading...'']
      else if js_opt (ap_apps s) ''length'' = JNum 0 then
        [Txt ''No authorized applications'', Txt ''When you authorize third-party apps, they'll appear here.'']
      else concat (map (\<lambda>app.
        let nm = js_or (js_opt app ''name'') (js_opt app ''client_id'') in
        [Val nm, Txt ''Client ID:'', Val (js_opt app ''client_id'')] @
        v_if (truthy (js_opt app ''scope'')) [Txt ''Scopes:'', Val (js_opt app ''scope'')] @
        [Btn False ''Revoke'' (page_revokeApp h yes (js_opt app ''client_id'') nm)]) (js_items (ap_apps s))))"

subsection \<open>ProfilePage\<close>

record profile_page = user_app +
  pf_profile :: jsval
  pf_loading :: bool
  pf_success :: jsval
  pf_error :: jsval

definition profile_fetchProfile :: "host \<Rightarrow> 'a profile_page_scheme prog" where
  "profile_fetchProfile h = modify (pf_loading_update (\<lambda>_. True))
     (finally_do
       (catch
         (await (user_http h (req_get ''/api/me'')) (\<lambda>data.
            modify (pf_profile_update (\<lambda>_. data)) (Ret JUndef)))
         (\<lambda>e. modify (pf_error_update (\<lambda>_. JStr ''Failed to load profile'')) (Ret JUndef)))
       (modify (pf_loading_update (\<lambda>_. False)) (Ret JUndef)))"

definition resendVerification :: "host \<Rightarrow> 'a profile_page_scheme prog" where
  "resendVerification h = catch
     (await (user_http h (req_post ''/api/verify-email/resend'' NoBody)) (\<lambda>_.
        modify (pf_success_update (\<lambda>_. JStr ''Verification email sent!''))
          (set_timeout (pf_success_update (\<lambda>_. JStr [])) (Ret JUndef))))
     (\<lambda>e. user_caught e (\<lambda>m. modify (pf_error_update (\<lambda>_. m)) (Ret JUndef)))"

definition profile_template :: "host \<Rightarrow> 'a profile_page_scheme \<Rightarrow> 'a profile_page_scheme el list" where
  "profile_template h s =
     [Txt ''Profile''] @
     v_if (truthy (pf_success s)) [Val (pf_success s)] @
     v_if (truthy (pf_error s)) [Val (pf_error s)] @
     (if pf_loading s then [Txt ''Loading...'']
      else
        [Txt ''Username'', Val (js_or (js_opt (pf_profile s) ''username'') (js_opt (ua_user s) ''name'')),
         Txt ''Account ID (sub)'', Val (js_opt (ua_user s) ''sub''),
         Txt ''Email'', Val (js_or (js_opt (pf_profile s) ''email'') (JStr ''N/A'')),
         (if truthy (js_opt (pf_profile s) ''email_verified'') then Txt ''Verified'' else Txt ''Unverified'')] @
        v_if (truthy (js_opt (pf_profile s) ''email'') \<and> \<not> truthy (js_opt (pf_profile s) ''email_verified''))
          [Btn False ''Resend verification email'' (resendVerification h)] @
        [Txt ''Roles''] @
        map Val (js_items (js_or (js_opt (ua_user s) ''roles'') (JArr []))))"

subsection \<open>DashboardPage and AppLayout\<close>

text \<open>\<^verbatim>\<open>(auth.user?.name || 'U')[0].toUpperCase()\<close>\<close>

definition initial :: "jsval \<Rightarrow> string" where
  "initial user = js_upper (take 1 (js_to_string (js_or (js_opt user ''name'') (JStr ''U''))))"

definition dashboard_template :: "'a user_app_scheme \<Rightarrow> 'a user_app_scheme el list" where
  "dashboard_template s =
     (let user = ua_user s; name = js_opt user ''name'' in
      [Txt ''Dashboard'',
       Txt (''Welcome back'' @ (if truthy name then '', '' @ js_to_string name else [])),
       Txt (initial user), Val (js_or name (JStr ''User'')), Val (js_or (js_opt user ''email'') (JStr ''No email'')),
       Txt ''Account ID'', Val (js_or (js_opt user ''sub'') (JStr ''N/A'')),
       Txt ''Email'', Val (js_or (js_opt user ''email'') (JStr ''N/A'')), Txt ''Roles''] @
      map Val (js_items (js_or (js_opt user ''roles'') (JArr []))) @
      v_if (\<not> truthy (js_opt (js_opt user ''roles'') ''length'')) [Txt ''None''] @
      [Lnk ''/profile'' ''Edit Profile'', Txt ''Update your personal information'',
       Lnk ''/security'' ''Security Settings'', Txt ''Manage MFA, password, and passkeys'',
       Lnk ''/authorized-apps'' ''Authorized Apps'', Txt ''Review connected applications''])"

record layout_page = user_app +
  ly_showUserMenu :: bool

text \<open>The watcher of \<^verbatim>\<open>route.path\<close>: a navigation closes the menu.\<close>

definition layout_watch :: "'a layout_page_scheme \<Rightarrow> 'a layout_page_scheme" where
  "layout_watch s = s\<lparr>ly_showUserMenu := False\<rparr>"

definition handleLogout :: "host \<Rightarrow> 'a user_app_scheme prog" where
  "handleLogout h = await (store_logout h) (\<lambda>_.
     no_await (user_router_push h (JStr ''/login'')) (Ret JUndef))"

definition navItems :: "(string \<times> string) list" where
  "navItems = [(''Overview'', ''/''), (''Profile'', ''/profile''), (''Security'', ''/security''),
     (''Authorized Apps'', ''/authorized-apps'')]"

definition toggle_menu :: "'a layout_page_scheme prog" where
  "toggle_menu = modify (\<lambda>s. s\<lparr>ly_showUserMenu := \<not> ly_showUserMenu s\<rparr>) (Ret JUndef)"

definition user_menu :: "host \<Rightarrow> 'a layout_page_scheme \<Rightarrow> 'a layout_page_scheme el list" where
  "user_menu h s =
     [Val (js_opt (ua_user s) ''name''), Val (js_opt (ua_user s) ''email''),
      Lnk ''/profile'' ''Profile'', Lnk ''/security'' ''Security'', Btn False ''Sign out'' (handleLogout h)]"

definition layout_template :: "host \<Rightarrow> 'a layout_page_scheme \<Rightarrow> 'a layout_page_scheme el list" where
  "layout_template h s =
     [Lnk ''/'' ''AppLogo''] @ map (\<lambda>(nm, path). Lnk path nm) navItems @
     [Txt (initial (ua_user s)), Btn False (js_to_string (js_or (js_opt (ua_user s) ''name'') (JStr ''User''))) toggle_menu] @
     v_if (ly_showUserMenu s) (user_menu h s) @
     [Txt ''AuthForge Identity Platform'']"

subsection \<open>Behaviour of the handlers\<close>

interpretation apps: busy_flag ap_loading "ap_loading_update (\<lambda>_. False)"
  by unfold_locales simp

interpretation profile: busy_flag pf_loading "pf_loading_update (\<lambda>_. False)"
  by unfold_locales simp

lemma account_pages_settle: "settles ap_loading (fetchApps h)" "settles pf_loading (profile_fetchProfile h)"
  unfolding fetchApps_def profile_fetchProfile_def by (intro apps.settles_try profile.settles_try; simp)+

lemma account_pages_no_throw:
  "no_throw (page_revokeApp h yes c n)" "no_throw (resendVerification h)" "no_throw (handleLogout h)"
  unfolding page_revokeApp_def resendVerification_def handleLogout_def confirmed_def store_logout_def
  by (auto intro!: no_throw_intros logout_no_throw)

text \<open>Declining the dialog revokes nothing.\<close>

lemma revokeApp_declined: "run (page_revokeApp h False c n) s ts as = halt (Done JUndef) s ts as"
  by (simp add: page_revokeApp_def confirmed_def)

end
