(* ===== verification/User_Security_Page.thy ===== *)
theory User_Security_Page
  imports User_Account_Pages
begin

text \<open>
  \<^verbatim>\<open>pages/account/SecurityPage.vue\<close>: the page with the most state of the user
  application. Its handlers share the two message refs; each has a busy flag of its own.
\<close>

record security_page = user_app +
  sc_loading :: bool
  sc_profile :: jsval
  sc_success :: jsval
  sc_error :: jsval
  sc_oldPassword :: string
  sc_newPassword :: string
  sc_confirmNewPassword :: string
  sc_changingPassword :: bool
  sc_mfaSetupData :: jsval
  sc_mfaVerifyCode :: string
  sc_settingUpMfa :: bool
  sc_disablingMfa :: bool
  sc_disablePassword :: string
  sc_socialLinks :: jsval
  sc_socialLinksLoaded :: bool
  sc_unlinkingProvider :: jsval
  sc_deleteConfirmUsername :: string
  sc_deletingAccount :: bool
  sc_webauthnCredentials :: jsval
  sc_registeringPasskey :: bool

subsection \<open>Messages\<close>

definition showSuccess :: "string \<Rightarrow> 'a security_page_scheme prog \<Rightarrow> 'a security_page_scheme prog" where
  "showSuccess msg p = modify (\<lambda>s. s\<lparr>sc_success := JStr msg, sc_error := JStr []\<rparr>)
     (set_timeout (sc_success_update (\<lambda>_. JStr [])) p)"

definition showError :: "jsval \<Rightarrow> 'a security_page_scheme prog \<Rightarrow> 'a security_page_scheme prog" where
  "showError msg p = modify (\<lambda>s. s\<lparr>sc_error := msg, sc_success := JStr []\<rparr>) p"

subsection \<open>Social accounts\<close>

definition githubLinkAuthUrl :: "host \<Rightarrow> string" where
  "githubLinkAuthUrl h = ''https://github.com/login/oauth/authorize?client_id='' @
     js_to_string (GITHUB_CLIENT_ID h) @ ''&scope=user:email&state=link&redirect_uri='' @
     encodeURIComponent (origin h @ ''/callback/github'')"

definition providerLabels :: jsval where
  "providerLabels = JObj [(''github'', JStr ''GitHub''), (''google'', JStr ''Google''), (''wechat'', JStr ''WeChat'')]"

definition provider_label :: "jsval \<Rightarrow> jsval" where
  "provider_label provider = js_or (js_get providerLabels (js_to_string provider)) provider"

definition fetchSocialLinks :: "host \<Rightarrow> 'a security_page_scheme prog" where
  "fetchSocialLinks h = finally_do
     (catch
       (await (getSocialLinks h) (\<lambda>links. modify (sc_socialLinks_update (\<lambda>_. links)) (Ret JUndef)))
       (\<lambda>_. modify (sc_socialLinks_update (\<lambda>_. JArr [])) (Ret JUndef)))
     (modify (sc_socialLinksLoaded_update (\<lambda>_. True)) (Ret JUndef))"

definition unlinkSocial :: "host \<Rightarrow> bool \<Rightarrow> jsval \<Rightarrow> 'a security_page_scheme prog" where
  "unlinkSocial h yes provider = confirmed yes
     (modify (sc_unlinkingProvider_update (\<lambda>_. provider))
       (finally_do
         (catch
           (await (unlinkSocialAccount h provider) (\<lambda>_.
              showSuccess (js_to_string (provider_label provider) @ '' account unlinked'')
                (await (fetchSocialLinks h) (\<lambda>_. Ret JUndef))))
           (\<lambda>e. user_caught e (\<lambda>m. showError m (Ret JUndef))))
         (modify (sc_unlinkingProvider_update (\<lambda>_. JStr [])) (Ret JUndef))))"

subsection \<open>Profile, password and MFA\<close>

definition fetchWebauthnCredentials :: "host \<Rightarrow> 'a security_page_scheme prog" where
  "fetchWebauthnCredentials h = catch
     (await (user_http h (req_get ''/api/me/webauthn/credentials'')) (\<lambda>data.
        dot data ''credentials'' (\<lambda>c.
          modify (sc_webauthnCredentials_update (\<lambda>_. js_or (js_or c data) (JArr []))) (Ret JUndef))))
     (\<lambda>_. Ret JUndef)"

definition security_fetchProfile :: "host \<Rightarrow> 'a security_page_scheme prog" where
  "security_fetchProfile h = bind
     (finally_do
       (catch
         (await (user_http h (req_get ''/api/me'')) (\<lambda>data.
            modify (sc_profile_update (\<lambda>_. data))
              (if webauthn h then no_await (fetchWebauthnCredentials h) (Ret JUndef) else Ret JUndef)))
         (\<lambda>_. Ret JUndef))
       (modify (sc_loading_update (\<lambda>_. False)) (Ret JUndef)))
     (\<lambda>_. no_await (fetchSocialLinks h) (Ret JUndef))"

definition page_changePassword :: "host \<Rightarrow> 'a security_page_scheme prog" where
  "page_changePassword h = Get (\<lambda>s.
     if sc_newPassword s \<noteq> sc_confirmNewPassword s then
       showError (JStr ''Passwords do not match'') (Ret JUndef)
     else if length (sc_newPassword s) < 6 then
       showError (JStr ''Password must be at least 6 characters'') (Ret JUndef)
     else modify (sc_changingPassword_update (\<lambda>_. True))
       (finally_do
         (catch
           (await (user_http h (json_content (req_put ''/api/me/password'' (Json (JObj
                [(''old_password'', JStr (sc_oldPassword s)), (''new_password'', JStr (sc_newPassword s))]))))) (\<lambda>_.
              showSuccess ''Password changed successfully''
                (modify (\<lambda>s. s\<lparr>sc_oldPassword := [], sc_newPassword := [], sc_confirmNewPassword := []\<rparr>) (Ret JUndef))))
           (\<lambda>e. user_caught e (\<lambda>m. showError m (Ret JUndef))))
         (modify (sc_changingPassword_update (\<lambda>_. False)) (Ret JUndef))))"

definition page_setupMfa :: "host \<Rightarrow> 'a security_page_scheme prog" where
  "page_setupMfa h = modify (sc_settingUpMfa_update (\<lambda>_. True))
     (catch
       (await (user_http h (req_post ''/api/me/mfa/setup'' NoBody)) (\<lambda>data.
          modify (sc_mfaSetupData_update (\<lambda>_. data)) (Ret JUndef)))
       (\<lambda>e. user_caught e (\<lambda>m. showError m
          (modify (sc_settingUpMfa_update (\<lambda>_. False)) (Ret JUndef)))))"

definition page_verifyMfaSetup :: "host \<Rightarrow> 'a security_page_scheme prog" where
  "page_verifyMfaSetup h = catch
     (Get (\<lambda>s. await (user_http h (req_post ''/api/me/mfa/verify'' (Form [(''code'', JStr (sc_mfaVerifyCode s))]))) (\<lambda>_.
        showSuccess ''MFA enabled successfully!''
          (modify (\<lambda>s. s\<lparr>sc_mfaSetupData := JNull, sc_settingUpMfa := False, sc_mfaVerifyCode := []\<rparr>)
            (await (security_fetchProfile h) (\<lambda>_. Ret JUndef))))))
     (\<lambda>e. user_caught e (\<lambda>m. showError m (Ret JUndef)))"

definition page_disableMfa :: "host \<Rightarrow> 'a security_page_scheme prog" where
  "page_disableMfa h = Get (\<lambda>s.
     if sc_disablePassword s = [] then showError (JStr ''Password required to disable MFA'') (Ret JUndef)
     else modify (sc_disablingMfa_update (\<lambda>_. True))
       (finally_do
         (catch
           (await (user_http h (req_post ''/api/me/mfa/disable'' (Form [(''password'', JStr (sc_disablePassword s))]))) (\<lambda>_.
              showSuccess ''MFA disabled''
                (modify (sc_disablePassword_update (\<lambda>_. []))
                  (await (security_fetchProfile h) (\<lambda>_. Ret JUndef)))))
           (\<lambda>e. user_caught e (\<lambda>m. showError m (Ret JUndef))))
         (modify (sc_disablingMfa_update (\<lambda>_. False)) (Ret JUndef))))"

subsection \<open>Passkeys\<close>

text \<open>
  A new credential as the browser returns it, and the browser's part: \<^verbatim>\<open>atob\<close>, which fails
  on what is not base64, and \<^verbatim>\<open>navigator.credentials.create\<close>, which rejects with a named
  error, or resolves with a credential or \<^verbatim>\<open>null\<close>.
\<close>

record credential =
  cr_id :: string
  cr_rawId :: bytes
  cr_type :: string
  cr_attestationObject :: bytes
  cr_clientDataJSON :: bytes

record authenticator =
  atob :: "string \<Rightarrow> string option"
  create :: "jsval \<Rightarrow> (string \<times> string) + credential option"
  hostname :: string

definition byte_array :: "authenticator \<Rightarrow> string \<Rightarrow> (jsval \<Rightarrow> 's prog) \<Rightarrow> 's prog" where
  "byte_array au str k = (case atob au str of
       None \<Rightarrow> Throw (js_error ''InvalidCharacterError'' ''The string to be decoded is not correctly encoded.'')
     | Some t \<Rightarrow> k (JArr (map (\<lambda>c. JNum (int (of_char c))) t)))"

definition public_key :: "authenticator \<Rightarrow> jsval \<Rightarrow> jsval \<Rightarrow> (jsval \<Rightarrow> 's prog) \<Rightarrow> 's prog" where
  "public_key au options username k =
     dot options ''challenge'' (\<lambda>ch. byte_array au (js_to_string ch) (\<lambda>challenge.
     (let user = js_opt options ''user'' in
      byte_array au (js_to_string (js_or (js_opt user ''id'')
          (JStr (btoa (js_to_string (js_or username (JStr ''user''))))))) (\<lambda>uid.
      k (JObj [(''challenge'', challenge),
        (''rp'', js_or (js_opt options ''rp'')
          (JObj [(''name'', JStr ''OAuth2 App''), (''id'', JStr (hostname au))])),
        (''user'', JObj [(''id'', uid),
          (''name'', js_or (js_or (js_opt user ''name'') username) (JStr ''user'')),
          (''displayName'', js_or (js_or (js_opt user ''displayName'') username) (JStr ''User''))]),
        (''pubKeyCredParams'', js_or (js_opt options ''pubKeyCredParams'') (JArr
          [JObj [(''alg'', JNum (-7)), (''type'', JStr ''public-key'')],
           JObj [(''alg'', JNum (-257)), (''type'', JStr ''public-key'')]])),
        (''authenticatorSelection'', js_or (js_opt options ''authenticatorSelection'')
          (JObj [(''userVerification'', JStr ''preferred'')])),
        (''timeout'', js_or (js_opt options ''timeout'') (JNum 60000))])))))"

definition finish_request :: "credential \<Rightarrow> request" where
  "finish_request c = json_content (req_post ''/api/me/webauthn/register/finish'' (Json (JObj
     [(''id'', JStr (cr_id c)), (''rawId'', JStr (btoa (from_char_codes [] (cr_rawId c)))),
      (''type'', JStr (cr_type c)),
      (''response'', JObj
        [(''attestationObject'', JStr (btoa (from_char_codes [] (cr_attestationObject c)))),
         (''clientDataJSON'', JStr (btoa (from_char_codes [] (cr_clientDataJSON c))))])])))"

definition create_credential :: "authenticator \<Rightarrow> jsval \<Rightarrow> (credential option \<Rightarrow> 's prog) \<Rightarrow> 's prog" where
  "create_credential au pk k = (case create au (JObj [(''publicKey'', pk)]) of
       Inl (name, msg) \<Rightarrow> Tick (Throw (js_error name msg))
     | Inr c \<Rightarrow> Tick (k c))"

definition registerPasskey :: "host \<Rightarrow> authenticator \<Rightarrow> 'a security_page_scheme prog" where
  "registerPasskey h au = modify (sc_registeringPasskey_update (\<lambda>_. True))
     (finally_do
       (catch
         (await (user_http h (req_post ''/api/me/webauthn/register/begin'' NoBody)) (\<lambda>options. Get (\<lambda>s.
            public_key au options (js_opt (sc_profile s) ''username'') (\<lambda>pk.
            create_credential au pk (\<lambda>credential. case credential of
              None \<Rightarrow> showError (JStr ''Passkey registration cancelled'') (Ret JUndef)
            | Some c \<Rightarrow> await (user_http h (finish_request c)) (\<lambda>_.
                showSuccess ''Passkey registered successfully!''
                  (await (fetchWebauthnCredentials h) (\<lambda>_. Ret JUndef))))))))
         (\<lambda>e. dot e ''name'' (\<lambda>nm.
            if nm = JStr ''NotAllowedError'' then
              showError (JStr ''Passkey registration was cancelled or timed out'') (Ret JUndef)
            else user_caught e (\<lambda>m. showError m (Ret JUndef)))))
       (modify (sc_registeringPasskey_update (\<lambda>_. False)) (Ret JUndef)))"

subsection \<open>Deleting the account\<close>

definition deleteAccount :: "host \<Rightarrow> 'a security_page_scheme prog" where
  "deleteAccount h = Get (\<lambda>s.
     if JStr (sc_deleteConfirmUsername s) \<noteq> js_opt (sc_profile s) ''username'' then
       showError (JStr ''Username does not match. Please type your username to confirm.'') (Ret JUndef)
     else modify (sc_deletingAccount_update (\<lambda>_. True))
       (finally_do
         (catch
           (await (user_http h (req_delete ''/api/me'')) (\<lambda>_.
              modify (\<lambda>s. assign_href ''/login'' (s\<lparr>localStorage := []\<rparr>)) (Ret JUndef)))
           (\<lambda>e. user_caught e (\<lambda>m. showError m (Ret JUndef))))
         (modify (sc_deletingAccount_update (\<lambda>_. False)) (Ret JUndef))))"

subsection \<open>The template\<close>

definition password_card :: "host \<Rightarrow> 'a security_page_scheme \<Rightarrow> 'a security_page_scheme el list" where
  "password_card h s =
     [Txt ''Change Password'', Txt ''Current Password'', Inp ''oldPassword'' True,
      Txt ''New Password'', Inp ''newPassword'' True,
      Txt ''Confirm New Password'', Inp ''confirmNewPassword'' True,
      Sub (sc_changingPassword s) (if sc_changingPassword s then ''Changing...'' else ''Change Password'')
        (page_changePassword h)]"

definition cancel_mfa_setup :: "'a security_page_scheme prog" where
  "cancel_mfa_setup = modify (\<lambda>s. s\<lparr>sc_mfaSetupData := JNull, sc_settingUpMfa := False\<rparr>) (Ret JUndef)"

definition mfa_card :: "host \<Rightarrow> 'a security_page_scheme \<Rightarrow> 'a security_page_scheme el list" where
  "mfa_card h s =
     [Txt ''Two-Factor Authentication (MFA)''] @
     (if truthy (js_opt (sc_profile s) ''mfa_enabled'') then
        [Txt ''Enabled'', Txt ''Your account is protected with TOTP-based MFA.'',
         Txt ''Enter your password to disable MFA:'', Inp ''disablePassword'' False,
         Btn (sc_disablingMfa s) (if sc_disablingMfa s then ''Disabling...'' else ''Disable MFA'') (page_disableMfa h)]
      else if truthy (sc_mfaSetupData s) then
        [Txt ''Scan this QR code with your authenticator app (Google Authenticator, Authy, etc.):'',
         Txt ''Manual entry key:'', Val (js_opt (sc_mfaSetupData s) ''secret''),
         Txt ''Verification Code'', Inp ''mfaVerifyCode'' False,
         Btn (length (sc_mfaVerifyCode s) \<noteq> 6) ''Verify & Enable'' (page_verifyMfaSetup h),
         Btn False ''Cancel'' cancel_mfa_setup]
      else
        [Txt ''Add an extra layer of security to your account with time-based one-time passwords (TOTP).'',
         Btn (sc_settingUpMfa s) (if sc_settingUpMfa s then ''Setting up...'' else ''Enable MFA'') (page_setupMfa h)])"

definition passkey_card ::
  "host \<Rightarrow> authenticator \<Rightarrow> (jsval \<Rightarrow> string) \<Rightarrow> 'a security_page_scheme \<Rightarrow> 'a security_page_scheme el list" where
  "passkey_card h au show_date s = v_if (webauthn h)
     ([Txt ''Passkeys (WebAuthn)'', Txt ''Use your fingerprint, face, or security key for passwordless sign-in.''] @
      (if js_positive (js_opt (sc_webauthnCredentials s) ''length'') then
         concat (map (\<lambda>cred.
           [Val (js_or (js_opt cred ''name'') (JStr ''Passkey'')), Txt ''Registered:'',
            Txt (if truthy (js_opt cred ''created_at'') then show_date (js_opt cred ''created_at'') else ''Unknown''),
            Txt ''Active'']) (js_items (sc_webauthnCredentials s)))
       else [Txt ''No passkeys registered yet.'']) @
      [Btn (sc_registeringPasskey s) (if sc_registeringPasskey s then ''Registering...'' else ''+ Add Passkey'')
         (registerPasskey h au)])"

definition social_card ::
  "host \<Rightarrow> bool \<Rightarrow> (jsval \<Rightarrow> string) \<Rightarrow> 'a security_page_scheme \<Rightarrow> 'a security_page_scheme el list" where
  "social_card h yes show_date s =
     [Txt ''Connected Accounts'',
      Txt ''Link social identities to sign in with them. Unlinking removes the association but does not revoke active sessions.''] @
     (if sc_socialLinksLoaded s \<and> js_positive (js_opt (sc_socialLinks s) ''length'') then
        concat (map (\<lambda>link.
          (let provider = js_opt link ''provider''; busy = (sc_unlinkingProvider s = provider) in
           [Val (provider_label provider), Txt ''Linked'',
            Txt (if truthy (js_opt link ''linked_at'') then show_date (js_opt link ''linked_at'') else []),
            Btn busy (if busy then ''Unlinking...'' else ''Unlink'') (unlinkSocial h yes provider)]))
          (js_items (sc_socialLinks s)))
      else v_if (sc_socialLinksLoaded s) [Txt ''No social accounts linked.'']) @
     v_if (truthy (GITHUB_CLIENT_ID h)) [Lnk (githubLinkAuthUrl h) ''Link GitHub Account'']"

definition delete_card :: "host \<Rightarrow> 'a security_page_scheme \<Rightarrow> 'a security_page_scheme el list" where
  "delete_card h s =
     [Txt ''Danger Zone'',
      Txt ''Permanently delete your account and all associated data. This action cannot be undone.'',
      Txt ''Type'', Val (js_opt (sc_profile s) ''username''), Txt ''to confirm'', Inp ''deleteConfirmUsername'' False,
      Btn (sc_deletingAccount s \<or> JStr (sc_deleteConfirmUsername s) \<noteq> js_opt (sc_profile s) ''username'')
        (if sc_deletingAccount s then ''Deleting...'' else ''Delete My Account'') (deleteAccount h)]"

definition security_template ::
  "host \<Rightarrow> authenticator \<Rightarrow> bool \<Rightarrow> (jsval \<Rightarrow> string) \<Rightarrow> 'a security_page_scheme \<Rightarrow> 'a security_page_scheme el list" where
  "security_template h au yes show_date s =
     [Txt ''Security Settings''] @
     v_if (truthy (sc_success s)) [Val (sc_success s)] @
     v_if (truthy (sc_error s)) [Val (sc_error s)] @
     (if sc_loading s then [Txt ''Loading...'']
      else password_card h s @ mfa_card h s @ passkey_card h au show_date s @
        social_card h yes show_date s @ delete_card h s)"

subsection \<open>What is thrown is an object\<close>

text \<open>
  The catch clause of \<^verbatim>\<open>registerPasskey\<close> reads \<^verbatim>\<open>e.name\<close>, which would itself throw on
  \<^verbatim>\<open>undefined\<close> and \<^verbatim>\<open>null\<close>. Everything a call can throw there is an object.
\<close>

lemma expired_is_obj [simp]: "is_obj expired_error"
  by (simp add: expired_error_def brand_def normalized_def)

lemma expired_throws: "throws_only is_obj (session_expired h)"
  by (simp add: session_expired_def throws_only_modify)

lemma refresh_throws: "throws_only is_obj (refresh_tokens h)"
  unfolding refresh_tokens_def by (intro throws_only_intros)

lemma http_throws: "throws_only is_obj (user_http h r)"
proof -
  have retry: "throws_only is_obj (user_http h r)" if "rq_retry r" for r
    using that by (subst user_http.simps) (auto simp: Let_def split: list.split outcome.split)
  show ?thesis
    by (subst user_http.simps)
      (auto simp: Let_def intro!: throws_only_intros expired_throws retry split: list.split outcome.split)
qed

lemma byte_array_throws: "(\<And>v. throws_only is_obj (k v)) \<Longrightarrow> throws_only is_obj (byte_array au t k)"
  by (simp add: byte_array_def split: option.split)

lemma create_throws: "(\<And>c. throws_only is_obj (k c)) \<Longrightarrow> throws_only is_obj (create_credential au pk k)"
  by (simp add: create_credential_def split: sum.split)

lemma fetchWebauthn_no_throw: "no_throw (fetchWebauthnCredentials h)"
  unfolding fetchWebauthnCredentials_def by (intro no_throw_catch) simp

lemma show_no_throw [simp]: "no_throw (showSuccess t p) = no_throw p" "no_throw (showError m p) = no_throw p"
  by (simp_all add: showSuccess_def showError_def set_timeout_def)

lemma throws_only_mono: "no_throw p \<Longrightarrow> throws_only P p"
  by (induction p) auto

lemma registerPasskey_no_throw:
  "no_throw (catch
     (await (user_http h (req_post ''/api/me/webauthn/register/begin'' NoBody)) (\<lambda>options. Get (\<lambda>s.
        public_key au options (js_opt (sc_profile s) ''username'') (\<lambda>pk.
        create_credential au pk (\<lambda>credential. case credential of
          None \<Rightarrow> showError (JStr ''Passkey registration cancelled'') (Ret JUndef)
        | Some c \<Rightarrow> await (user_http h (finish_request c)) (\<lambda>_.
            showSuccess ''Passkey registered successfully!''
              (await (fetchWebauthnCredentials h) (\<lambda>_. Ret JUndef))))))))
     (\<lambda>e. dot e ''name'' (\<lambda>nm.
        if nm = JStr ''NotAllowedError'' then
          showError (JStr ''Passkey registration was cancelled or timed out'') (Ret JUndef)
        else user_caught e (\<lambda>m. showError m (Ret JUndef)))))"
proof (rule no_throw_catch_only)
  have shown: "throws_only is_obj (showError m (Ret JUndef))" for m
    by (simp add: throws_only_mono)
  have finish: "throws_only is_obj (await (user_http h (finish_request c)) (\<lambda>_.
      showSuccess ''Passkey registered successfully!''
        (await (fetchWebauthnCredentials h) (\<lambda>_. Ret JUndef))))" for c
    by (intro throws_only_await http_throws throws_only_mono)
       (simp add: no_throw_await fetchWebauthn_no_throw)
  show "throws_only is_obj (await (user_http h (req_post ''/api/me/webauthn/register/begin'' NoBody)) (\<lambda>options.
      Get (\<lambda>s. public_key au options (js_opt (sc_profile s) ''username'') (\<lambda>pk.
        create_credential au pk (\<lambda>credential. case credential of
          None \<Rightarrow> showError (JStr ''Passkey registration cancelled'') (Ret JUndef)
        | Some c \<Rightarrow> await (user_http h (finish_request c)) (\<lambda>_.
            showSuccess ''Passkey registered successfully!''
              (await (fetchWebauthnCredentials h) (\<lambda>_. Ret JUndef))))))))"
    unfolding public_key_def Let_def
    by (intro throws_only_await http_throws throws_only_Get throws_only_dot byte_array_throws create_throws)
       (auto simp: shown finish split: option.split)
qed (auto intro!: is_obj_dot)

subsection \<open>Behaviour of the handlers\<close>

interpretation changing: busy_flag sc_changingPassword "sc_changingPassword_update (\<lambda>_. False)"
  by unfold_locales simp

interpretation disabling: busy_flag sc_disablingMfa "sc_disablingMfa_update (\<lambda>_. False)"
  by unfold_locales simp

interpretation registering: busy_flag sc_registeringPasskey "sc_registeringPasskey_update (\<lambda>_. False)"
  by unfold_locales simp

interpretation deleting: busy_flag sc_deletingAccount "sc_deletingAccount_update (\<lambda>_. False)"
  by unfold_locales simp

interpretation unlinking: busy_flag "\<lambda>s. truthy (sc_unlinkingProvider s)" "sc_unlinkingProvider_update (\<lambda>_. JStr [])"
  by unfold_locales simp

lemma settles_showError:
  "(\<And>s m. busy (s\<lparr>sc_error := m, sc_success := JStr []\<rparr>) = busy s) \<Longrightarrow> settles busy (showError m (Ret v))"
  unfolding showError_def by (rule settles_modify) (simp_all add: settles_Ret)

lemma security_page_settles:
  "settles sc_changingPassword (page_changePassword h)" "settles sc_disablingMfa (page_disableMfa h)"
  "settles sc_registeringPasskey (registerPasskey h au)" "settles sc_deletingAccount (deleteAccount h)"
  "settles (\<lambda>s. truthy (sc_unlinkingProvider s)) (unlinkSocial h yes provider)"
  unfolding page_changePassword_def page_disableMfa_def deleteAccount_def unlinkSocial_def
  subgoal by (intro settles_Get settles_if changing.settles_try settles_showError) simp_all
  subgoal by (intro settles_Get settles_if disabling.settles_try settles_showError) simp_all
  subgoal unfolding registerPasskey_def
    by (intro resets_settles resets_modify registering.resets_finally registerPasskey_no_throw)
  subgoal by (intro settles_Get settles_if deleting.settles_try settles_showError) simp_all
  subgoal by (intro settles_confirmed unlinking.settles_try) simp_all
  done

text \<open>
  C19: an account is deleted only by its own name. Unless the name typed is the user name of
  the profile on display, nothing is sent and the page says so; the button is not offered
  either. With the right name exactly one request goes out, \<^verbatim>\<open>DELETE /api/me\<close>; answered
  with success the stored data are gone and the browser leaves for the login page; answered
  with a failure that starts no refresh, the page shows the catalog message and nothing else
  has changed.
\<close>

theorem deleteAccount_needs_name:
  fixes s :: "'a security_page_scheme"
  shows "(JStr (sc_deleteConfirmUsername s) \<noteq> js_opt (sc_profile s) ''username'' \<longrightarrow>
      run (deleteAccount h) s ts as = halt (Done JUndef)
        (s\<lparr>sc_error := JStr ''Username does not match. Please type your username to confirm.'', sc_success := JStr []\<rparr>) ts as \<and>
      offered (delete_card h s) = []) \<and>
    (JStr (sc_deleteConfirmUsername s) = js_opt (sc_profile s) ''username'' \<longrightarrow>
      run (deleteAccount h) s ts ([Resolved d] # as) =
        emit [request_interceptor s (http_defaults (req_delete ''/api/me''))]
          (halt (Done JUndef) ((assign_href ''/login'' (s\<lparr>localStorage := []\<rparr>))\<lparr>sc_deletingAccount := False\<rparr>) ts as) \<and>
      (js_opt resp ''status'' \<noteq> JNum 401 \<or> \<not> truthy (ua_refreshToken s) \<longrightarrow>
        run (deleteAccount h) s ts ([Rejected resp True] # as) =
          emit [request_interceptor s (http_defaults (req_delete ''/api/me''))]
            (halt (Done JUndef) (s\<lparr>sc_error := user_error_message (axios_error resp), sc_success := JStr [],
               sc_deletingAccount := False\<rparr>) ts as)))"
proof (intro conjI impI)
  assume "JStr (sc_deleteConfirmUsername s) \<noteq> js_opt (sc_profile s) ''username''"
  then show "run (deleteAccount h) s ts as = halt (Done JUndef)
      (s\<lparr>sc_error := JStr ''Username does not match. Please type your username to confirm.'', sc_success := JStr []\<rparr>) ts as"
    "offered (delete_card h s) = []"
    by (simp_all add: deleteAccount_def showError_def delete_card_def)
next
  let ?q = "req_delete ''/api/me''"
  assume name: "JStr (sc_deleteConfirmUsername s) = js_opt (sc_profile s) ''username''"
  have q: "sent (s\<lparr>sc_deletingAccount := True\<rparr>) ?q = request_interceptor s (http_defaults ?q)"
    by (simp add: sent_def request_interceptor_def)
  show "run (deleteAccount h) s ts ([Resolved d] # as) = emit [request_interceptor s (http_defaults ?q)]
      (halt (Done JUndef) ((assign_href ''/login'' (s\<lparr>localStorage := []\<rparr>))\<lparr>sc_deletingAccount := False\<rparr>) ts as)"
    using name by (simp add: deleteAccount_def run_user_http prog_simps q) (simp add: assign_href_def)
  assume "js_opt resp ''status'' \<noteq> JNum 401 \<or> \<not> truthy (ua_refreshToken s)"
  then have "\<not> refreshable (s\<lparr>sc_deletingAccount := True\<rparr>) ?q resp" by (auto simp: refreshable_def)
  with name show "run (deleteAccount h) s ts ([Rejected resp True] # as) =
      emit [request_interceptor s (http_defaults ?q)]
        (halt (Done JUndef) (s\<lparr>sc_error := user_error_message (axios_error resp), sc_success := JStr [],
           sc_deletingAccount := False\<rparr>) ts as)"
    by (simp add: deleteAccount_def run_user_http prog_simps q showError_def)
qed

definition sample_security :: "string \<Rightarrow> security_page" where
  "sample_security typed = user_app.extend sample_state (security_page.fields
     False (JObj [(''username'', JStr ''bob'')]) (JStr []) (JStr []) [] [] [] False
     JNull [] False False [] (JArr []) False (JStr []) typed False (JArr []) False)"

lemma sample_security_fields [simp]:
  "sc_deleteConfirmUsername (sample_security typed) = typed"
  "sc_profile (sample_security typed) = JObj [(''username'', JStr ''bob'')]"
  by (simp_all add: sample_security_def user_app.defs security_page.defs)

theorem deleteAccount_needs_name_witness:
  "r_sent (run (deleteAccount sample_host) (sample_security ''alice'') [] []) = [] \<and>
   map rq_url (r_sent (run (deleteAccount sample_host) (sample_security ''bob'') [] [[Resolved JNull]])) = [''/api/me'']"
  using deleteAccount_needs_name [of "sample_security ''alice''" sample_host "[]" "[]"]
    deleteAccount_needs_name [of "sample_security ''bob''" sample_host "[]" "[]" JNull]
  by simp

end
