(* ===== verification/User_Security_Locks.thy ===== *)
theory User_Security_Locks
  imports User_Form_Locks User_Security_Page User_OAuth_Pages
begin

text \<open>
  The forms of the security page: changing the password, disabling MFA, registering a passkey
  and deleting the account. Each has a flag of its own, and all are on display together with
  handlers that have none. The locale \<open>security_flag\<close> extends \<open>user_flag\<close> by the page's own
  state; its lemmas say which handlers are quiet for a flag.
\<close>

locale security_flag = user_flag busy P
  for busy :: "'a security_page_scheme \<Rightarrow> bool" and P +
  assumes page: "busy (s\<lparr>sc_success := v\<rparr>) = busy s" "busy (s\<lparr>sc_error := v\<rparr>) = busy s"
      "busy (s\<lparr>sc_loading := b\<rparr>) = busy s" "busy (s\<lparr>sc_profile := v\<rparr>) = busy s"
      "busy (s\<lparr>sc_oldPassword := t\<rparr>) = busy s" "busy (s\<lparr>sc_newPassword := t\<rparr>) = busy s"
      "busy (s\<lparr>sc_confirmNewPassword := t\<rparr>) = busy s" "busy (s\<lparr>sc_mfaSetupData := v\<rparr>) = busy s"
      "busy (s\<lparr>sc_mfaVerifyCode := t\<rparr>) = busy s" "busy (s\<lparr>sc_settingUpMfa := b\<rparr>) = busy s"
      "busy (s\<lparr>sc_disablePassword := t\<rparr>) = busy s" "busy (s\<lparr>sc_socialLinks := v\<rparr>) = busy s"
      "busy (s\<lparr>sc_socialLinksLoaded := b\<rparr>) = busy s" "busy (s\<lparr>sc_unlinkingProvider := v\<rparr>) = busy s"
      "busy (s\<lparr>sc_webauthnCredentials := v\<rparr>) = busy s" "busy (s\<lparr>localStorage := st\<rparr>) = busy s"
    and forms: "P r \<Longrightarrow> (rq_method r, rq_url r) \<in> {(''PUT'', ''/api/me/password''), (''POST'', ''/api/me/mfa/disable''),
      (''POST'', ''/api/me/webauthn/register/begin''), (''POST'', ''/api/me/webauthn/register/finish''), (''DELETE'', ''/api/me'')}"
begin

lemma show_steady:
  "steady busy P A p \<Longrightarrow> steady busy P A (showSuccess t p)" "steady busy P A p \<Longrightarrow> steady busy P A (showError m p)"
  unfolding showSuccess_def showError_def by (intro steady_intros; simp add: page)+

lemma not_form:
  "(rq_method r, rq_url r) \<notin> {(''PUT'', ''/api/me/password''), (''POST'', ''/api/me/mfa/disable''),
     (''POST'', ''/api/me/webauthn/register/begin''), (''POST'', ''/api/me/webauthn/register/finish''), (''DELETE'', ''/api/me'')} \<Longrightarrow>
   \<not> P r"
  using forms by blast

text \<open>A handler whose requests are no form's, for either use: alone, or inside a form's handler.\<close>

lemma http_other:
  assumes "(rq_method r, rq_url r) \<notin> {(''PUT'', ''/api/me/password''), (''POST'', ''/api/me/mfa/disable''),
     (''POST'', ''/api/me/webauthn/register/begin''), (''POST'', ''/api/me/webauthn/register/finish''), (''DELETE'', ''/api/me'')}"
    and A: "A = (\<lambda>r. \<not> P r) \<or> A = (\<lambda>_. True)"
  shows "steady busy P A (user_http h r)"
  using A http_quiet [OF not_form [OF assms(1)]] http_any by blast

lemma fetchSocialLinks_quiet: "A = (\<lambda>r. \<not> P r) \<or> A = (\<lambda>_. True) \<Longrightarrow> steady busy P A (fetchSocialLinks h)"
  unfolding fetchSocialLinks_def getSocialLinks_def
  by (intro steady_intros http_other; (assumption | simp add: page))

lemma fetchWebauthn_quiet: "A = (\<lambda>r. \<not> P r) \<or> A = (\<lambda>_. True) \<Longrightarrow> steady busy P A (fetchWebauthnCredentials h)"
  unfolding fetchWebauthnCredentials_def
  by (intro steady_intros http_other; (assumption | simp add: page))

lemma fetchProfile_quiet: "A = (\<lambda>r. \<not> P r) \<or> A = (\<lambda>_. True) \<Longrightarrow> steady busy P A (security_fetchProfile h)"
  unfolding security_fetchProfile_def
  by (intro steady_intros http_other fetchSocialLinks_quiet fetchWebauthn_quiet; (assumption | simp add: page))

lemma other_handlers_quiet:
  "quiet busy P (page_setupMfa h)" "quiet busy P (page_verifyMfaSetup h)" "quiet busy P cancel_mfa_setup"
  "quiet busy P (unlinkSocial h yes provider)"
  unfolding page_setupMfa_def page_verifyMfaSetup_def cancel_mfa_setup_def unlinkSocial_def unlinkSocialAccount_def
  by (intro steady_intros http_other show_steady fetchProfile_quiet fetchSocialLinks_quiet; simp add: page)+

text \<open>The body of each form's handler, and the handler as seen by another form.\<close>

lemma change_quiet:
  "(\<And>s b. busy (s\<lparr>sc_changingPassword := b\<rparr>) = busy s) \<Longrightarrow> (\<And>r. P r \<Longrightarrow> rq_url r \<noteq> ''/api/me/password'') \<Longrightarrow>
   quiet busy P (page_changePassword h)"
  unfolding page_changePassword_def
  by (intro steady_intros http_quiet show_steady; (simp add: page; fail | fastforce))

lemma disable_quiet:
  "(\<And>s b. busy (s\<lparr>sc_disablingMfa := b\<rparr>) = busy s) \<Longrightarrow> (\<And>r. P r \<Longrightarrow> rq_url r \<noteq> ''/api/me/mfa/disable'') \<Longrightarrow>
   quiet busy P (page_disableMfa h)"
  unfolding page_disableMfa_def
  by (intro steady_intros http_quiet show_steady fetchProfile_quiet; (simp add: page; fail | fastforce))

lemma delete_quiet:
  "(\<And>s b. busy (s\<lparr>sc_deletingAccount := b\<rparr>) = busy s) \<Longrightarrow> (\<And>r. P r \<Longrightarrow> rq_url r \<noteq> ''/api/me'') \<Longrightarrow>
   quiet busy P (deleteAccount h)"
  unfolding deleteAccount_def
  by (intro steady_intros http_quiet show_steady; (simp add: page flag; fail | fastforce))

lemma passkey_body_steady:
  assumes "\<And>r. rq_url r \<in> {''/api/me/webauthn/register/begin'', ''/api/me/webauthn/register/finish''} \<Longrightarrow>
      steady busy P A (user_http h r)"
    and "A = (\<lambda>r. \<not> P r) \<or> A = (\<lambda>_. True)"
  shows "steady busy P A (catch
     (await (user_http h (req_post ''/api/me/webauthn/register/begin'' NoBody)) (\<lambda>options. Get (\<lambda>s.
        public_key au options (js_opt (sc_profile s) ''username'') (\<lambda>pk.
        create_credential au pk (\<lambda>credential. case credential of
          None \<Rightarrow> showError (JStr ''Passkey registration cancelled'') (Ret JUndef)
        | Some c \<Rightarrow> await (user_http h (finish_request c)) (\<lambda>_.
            showSuccess ''Passkey registered successfully!''
              (await (fetchWebauthnCredentials h) (\<lambda>_. Ret JUndef))))))))
     (\<lambda>e. dot e ''name'' (\<lambda>nm.
        if nm = JStr ''NotAllowedError'' then
          showError (JStr ''Passkey registration was cancelled or timed out'') (Ret JUndef)
        else user_caught e (\<lambda>m. showError m (Ret JUndef)))))"
proof -
  have byte: "steady busy P A (byte_array au t k)" if "\<And>v. steady busy P A (k v)" for t k
    using that by (simp add: byte_array_def steady_Throw split: option.split)
  have new: "steady busy P A (create_credential au pk k)" if "\<And>c. steady busy P A (k c)" for pk k
    using that by (auto simp: create_credential_def intro!: steady_intros split: sum.split)
  show ?thesis
    unfolding public_key_def Let_def
    by (intro steady_intros show_steady byte new assms(1) fetchWebauthn_quiet assms(2)) (simp_all add: finish_request_def)
qed

lemma passkey_quiet:
  "(\<And>s b. busy (s\<lparr>sc_registeringPasskey := b\<rparr>) = busy s) \<Longrightarrow>
   (\<And>r. P r \<Longrightarrow> rq_url r \<notin> {''/api/me/webauthn/register/begin'', ''/api/me/webauthn/register/finish''}) \<Longrightarrow>
   quiet busy P (registerPasskey h au)"
  unfolding registerPasskey_def
  by (intro steady_modify steady_finally passkey_body_steady steady_Ret http_quiet) auto

end

subsection \<open>The four forms\<close>

definition sends :: "string \<Rightarrow> string \<Rightarrow> request \<Rightarrow> bool" where
  "sends method url r \<longleftrightarrow> rq_method r = method \<and> rq_url r = url"

interpretation change_flag: security_flag sc_changingPassword "sends ''PUT'' ''/api/me/password''"
  by unfold_locales (auto simp: setTokens_def clearTokens_def assign_href_def sends_def)

interpretation disable_flag: security_flag sc_disablingMfa "sends ''POST'' ''/api/me/mfa/disable''"
  by unfold_locales (auto simp: setTokens_def clearTokens_def assign_href_def sends_def)

interpretation passkey_flag: security_flag sc_registeringPasskey
  "posts {''/api/me/webauthn/register/begin'', ''/api/me/webauthn/register/finish''}"
  by unfold_locales (auto simp: setTokens_def clearTokens_def assign_href_def posts_def)

interpretation delete_flag: security_flag sc_deletingAccount "sends ''DELETE'' ''/api/me''"
  by unfold_locales (auto simp: setTokens_def clearTokens_def assign_href_def sends_def)

lemma locked_shown: "locked busy P (showError m (Ret v)) s"
  by (simp add: showError_def modify_def)

lemma security_locked:
  "locked sc_changingPassword (sends ''PUT'' ''/api/me/password'') (page_changePassword h) s"
  "locked sc_disablingMfa (sends ''POST'' ''/api/me/mfa/disable'') (page_disableMfa h) s"
  "locked sc_deletingAccount (sends ''DELETE'' ''/api/me'') (deleteAccount h) s"
  unfolding page_changePassword_def page_disableMfa_def deleteAccount_def
  by (intro locked_Get locked_if locked_shown locked_try [where A = "\<lambda>_. True"];
      (simp; fail | intro steady_intros change_flag.show_steady change_flag.http_any disable_flag.show_steady
         disable_flag.http_any disable_flag.fetchProfile_quiet delete_flag.show_steady delete_flag.http_any; simp add: assign_href_def))+

lemma registerPasskey_locked:
  "locked sc_registeringPasskey (posts {''/api/me/webauthn/register/begin'', ''/api/me/webauthn/register/finish''})
     (registerPasskey h au) s"
  unfolding registerPasskey_def
  by (intro locked_try [where A = "\<lambda>_. True"] passkey_flag.passkey_body_steady passkey_flag.http_any) simp_all

text \<open>What the page has to press, and when.\<close>

lemma card_offers:
  "p \<in> set (offered (password_card h s)) \<Longrightarrow> p = page_changePassword h \<and> \<not> sc_changingPassword s"
  "p \<in> set (offered (mfa_card h s)) \<Longrightarrow>
     p = page_disableMfa h \<and> \<not> sc_disablingMfa s \<or> p \<in> {page_setupMfa h, page_verifyMfaSetup h, cancel_mfa_setup}"
  "p \<in> set (offered (passkey_card h au show_date s)) \<Longrightarrow> p = registerPasskey h au \<and> \<not> sc_registeringPasskey s"
  "p \<in> set (offered (social_card h yes show_date s)) \<Longrightarrow> \<exists>provider. p = unlinkSocial h yes provider"
  "p \<in> set (offered (delete_card h s)) \<Longrightarrow> p = deleteAccount h \<and> \<not> sc_deletingAccount s"
  by (auto simp: password_card_def mfa_card_def passkey_card_def social_card_def delete_card_def
      offered_v_if offered_concat Let_def split: if_splits)

lemma security_offered:
  assumes "p \<in> set (offered (security_template h au yes show_date s))"
  obtains "p = page_changePassword h" "\<not> sc_changingPassword s" | "p = page_disableMfa h" "\<not> sc_disablingMfa s"
    | "p = registerPasskey h au" "\<not> sc_registeringPasskey s" | "p = deleteAccount h" "\<not> sc_deletingAccount s"
    | "p = page_setupMfa h" | "p = page_verifyMfaSetup h" | "p = cancel_mfa_setup"
    | provider where "p = unlinkSocial h yes provider"
proof -
  consider "p \<in> set (offered (password_card h s))" | "p \<in> set (offered (mfa_card h s))"
    | "p \<in> set (offered (passkey_card h au show_date s))" | "p \<in> set (offered (social_card h yes show_date s))"
    | "p \<in> set (offered (delete_card h s))"
    using assms by (auto simp: security_template_def offered_v_if split: if_splits)
  then show ?thesis by cases (use that card_offers in blast)+
qed

lemma beside_change:
  "quiet sc_changingPassword (sends ''PUT'' ''/api/me/password'') (page_disableMfa h)"
  "quiet sc_changingPassword (sends ''PUT'' ''/api/me/password'') (registerPasskey h au)"
  "quiet sc_changingPassword (sends ''PUT'' ''/api/me/password'') (deleteAccount h)"
  by (intro change_flag.disable_quiet change_flag.passkey_quiet change_flag.delete_quiet; auto simp: sends_def posts_def)+

lemma beside_disable:
  "quiet sc_disablingMfa (sends ''POST'' ''/api/me/mfa/disable'') (page_changePassword h)"
  "quiet sc_disablingMfa (sends ''POST'' ''/api/me/mfa/disable'') (registerPasskey h au)"
  "quiet sc_disablingMfa (sends ''POST'' ''/api/me/mfa/disable'') (deleteAccount h)"
  by (intro disable_flag.change_quiet disable_flag.passkey_quiet disable_flag.delete_quiet; auto simp: sends_def posts_def)+

lemma beside_passkey:
  "quiet sc_registeringPasskey (posts {''/api/me/webauthn/register/begin'', ''/api/me/webauthn/register/finish''}) (page_changePassword h)"
  "quiet sc_registeringPasskey (posts {''/api/me/webauthn/register/begin'', ''/api/me/webauthn/register/finish''}) (page_disableMfa h)"
  "quiet sc_registeringPasskey (posts {''/api/me/webauthn/register/begin'', ''/api/me/webauthn/register/finish''}) (deleteAccount h)"
  by (intro passkey_flag.change_quiet passkey_flag.disable_quiet passkey_flag.delete_quiet; auto simp: sends_def posts_def)+

lemma beside_delete:
  "quiet sc_deletingAccount (sends ''DELETE'' ''/api/me'') (page_changePassword h)"
  "quiet sc_deletingAccount (sends ''DELETE'' ''/api/me'') (page_disableMfa h)"
  "quiet sc_deletingAccount (sends ''DELETE'' ''/api/me'') (registerPasskey h au)"
  by (intro delete_flag.change_quiet delete_flag.disable_quiet delete_flag.passkey_quiet; auto simp: sends_def posts_def)+

interpretation change_form: form_lock sc_changingPassword "sends ''PUT'' ''/api/me/password''"
  "security_fetchProfile h" "security_template h au yes show_date" for h au yes show_date
proof unfold_locales
  show "quiet sc_changingPassword (sends ''PUT'' ''/api/me/password'') (security_fetchProfile h)" by (simp add: change_flag.fetchProfile_quiet)
next
  fix p s assume "p \<in> set (offered (security_template h au yes show_date s))"
  then show "quiet sc_changingPassword (sends ''PUT'' ''/api/me/password'') p \<or> \<not> sc_changingPassword s \<and> locked sc_changingPassword (sends ''PUT'' ''/api/me/password'') p s"
    by (rule security_offered) (simp_all add: security_locked change_flag.other_handlers_quiet beside_change)
qed

interpretation disable_form: form_lock sc_disablingMfa "sends ''POST'' ''/api/me/mfa/disable''"
  "security_fetchProfile h" "security_template h au yes show_date" for h au yes show_date
proof unfold_locales
  show "quiet sc_disablingMfa (sends ''POST'' ''/api/me/mfa/disable'') (security_fetchProfile h)" by (simp add: disable_flag.fetchProfile_quiet)
next
  fix p s assume "p \<in> set (offered (security_template h au yes show_date s))"
  then show "quiet sc_disablingMfa (sends ''POST'' ''/api/me/mfa/disable'') p \<or> \<not> sc_disablingMfa s \<and> locked sc_disablingMfa (sends ''POST'' ''/api/me/mfa/disable'') p s"
    by (rule security_offered) (simp_all add: security_locked disable_flag.other_handlers_quiet beside_disable)
qed

interpretation passkey_form: form_lock sc_registeringPasskey "posts {''/api/me/webauthn/register/begin'', ''/api/me/webauthn/register/finish''}"
  "security_fetchProfile h" "security_template h au yes show_date" for h au yes show_date
proof unfold_locales
  show "quiet sc_registeringPasskey (posts {''/api/me/webauthn/register/begin'', ''/api/me/webauthn/register/finish''}) (security_fetchProfile h)" by (simp add: passkey_flag.fetchProfile_quiet)
next
  fix p s assume "p \<in> set (offered (security_template h au yes show_date s))"
  then show "quiet sc_registeringPasskey (posts {''/api/me/webauthn/register/begin'', ''/api/me/webauthn/register/finish''}) p \<or> \<not> sc_registeringPasskey s \<and> locked sc_registeringPasskey (posts {''/api/me/webauthn/register/begin'', ''/api/me/webauthn/register/finish''}) p s"
    by (rule security_offered) (simp_all add: registerPasskey_locked passkey_flag.other_handlers_quiet beside_passkey)
qed

interpretation delete_form: form_lock sc_deletingAccount "sends ''DELETE'' ''/api/me''"
  "security_fetchProfile h" "security_template h au yes show_date" for h au yes show_date
proof unfold_locales
  show "quiet sc_deletingAccount (sends ''DELETE'' ''/api/me'') (security_fetchProfile h)" by (simp add: delete_flag.fetchProfile_quiet)
next
  fix p s assume "p \<in> set (offered (security_template h au yes show_date s))"
  then show "quiet sc_deletingAccount (sends ''DELETE'' ''/api/me'') p \<or> \<not> sc_deletingAccount s \<and> locked sc_deletingAccount (sends ''DELETE'' ''/api/me'') p s"
    by (rule security_offered) (simp_all add: security_locked delete_flag.other_handlers_quiet beside_delete)
qed

subsection \<open>The device page\<close>

lemma handleVerify_locked: "locked dv_loading P handleVerify s"
  unfolding handleVerify_def
  by (intro locked_Get locked_if locked_try [where A = "\<lambda>_. True"]) (simp_all, (intro steady_intros; simp))

interpretation device_form: form_lock dv_loading "posts {''/oauth2/device/verify''}" "Ret JUndef" device_template
  by unfold_locales
    (auto simp: device_template_def handleVerify_locked steady_Ret device_retry_def intro!: steady_intros split: device_status.splits if_splits)

subsection \<open>One submission at a time\<close>


definition sample_device :: device_page where
  "sample_device = user_app.extend sample_state (device_page.fields ''ABCD'' False DInput (JStr []))"

definition sample_forgot :: forgot_page where
  "sample_forgot = user_app.extend sample_state (forgot_page.fields ''a@b.c'' False False (JStr []))"

definition sample_register :: register_page where
  "sample_register = user_app.extend sample_state
     (register_page.fields [] ''a@b.c'' ''secret1'' ''secret1'' (JStr []) False False)"

definition sample_reset :: reset_page where
  "sample_reset = user_app.extend sample_state
     (reset_page.fields (JStr ''t'') ''secret1'' ''secret1'' False (JStr []) False)"

definition sample_login :: login_page where
  "sample_login = user_app.extend sample_state (login_page.fields ''bob'' ''pw'' [] JNull False)"

lemmas sample_form_defs = sample_forgot_def sample_register_def sample_reset_def sample_login_def
  user_app.defs forgot_page.defs register_page.defs reset_page.defs login_page.defs

lemma forgot_pressed:
  "\<exists>m. page_run (Ret JUndef) forgot_template fp_loading sample_forgot m \<and>
     in_flight (posts {''/api/password-reset/request''}) m = [1]"
proof -
  let ?m = "launch (Ret JUndef) \<lparr>mc_state = sample_forgot, mc_tasks = []\<rparr>"
  have "page_run (Ret JUndef) forgot_template fp_loading sample_forgot (launch handleSubmit ?m)"
    by (intro page_run_press page_run_start) (simp add: forgot_template_def launch_def resume_def sample_form_defs)
  moreover have "in_flight (posts {''/api/password-reset/request''}) (launch handleSubmit ?m) = [1]"
    by (simp add: launch_def resume_def handleSubmit_def await_def raw_send_def in_flight_def posts_def forgot_request_def
        sample_form_defs upt_conv_Cons)
  ultimately show ?thesis by blast
qed


text \<open>
  The verification of a new authenticator has no flag: its button stays enabled while the
  answer is outstanding, and a second press sends the one-time code again. When the server
  accepts the first and refuses the second, the page ends with the message of the refusal,
  although MFA is now on.
\<close>

definition mfa_setup_request :: "'a security_page_scheme \<Rightarrow> request" where
  "mfa_setup_request s = sent s (req_post ''/api/me/mfa/verify'' (Form [(''code'', JStr (sc_mfaVerifyCode s))]))"

definition mfa_setup_answer :: "host \<Rightarrow> request \<Rightarrow> outcome list \<Rightarrow> 'a security_page_scheme prog" where
  "mfa_setup_answer h r os = catch
     (await (http_answer h r os) (\<lambda>_. showSuccess ''MFA enabled successfully!''
        (modify (\<lambda>s. s\<lparr>sc_mfaSetupData := JNull, sc_settingUpMfa := False, sc_mfaVerifyCode := []\<rparr>)
          (await (security_fetchProfile h) (\<lambda>_. Ret JUndef)))))
     (\<lambda>e. user_caught e (\<lambda>m. showError m (Ret JUndef)))"

lemma settle_verify [simp]:
  "settle (page_verifyMfaSetup h) s ts = (Net [mfa_setup_request s] (mfa_setup_answer h (mfa_setup_request s)), s, ts)"
  by (simp add: page_verifyMfaSetup_def user_http_eq await_simps mfa_setup_request_def mfa_setup_answer_def [abs_def])

lemma launch_verify:
  "launch (page_verifyMfaSetup h) m =
     \<lparr>mc_state = mc_state m, mc_tasks = mc_tasks m @ [Net [mfa_setup_request (mc_state m)] (mfa_setup_answer h (mfa_setup_request (mc_state m)))]\<rparr>"
  by (simp add: launch_def resume_def)

definition sample_mfa :: security_page where
  "sample_mfa = (sample_security [])\<lparr>sc_mfaSetupData := JObj [(''secret'', JStr ''s'')], sc_mfaVerifyCode := ''123456''\<rparr>"

lemma verify_offered:
  "page_verifyMfaSetup h \<in> set (offered (security_template h au yes show_date sample_mfa))"
  by (simp add: security_template_def mfa_card_def sample_mfa_def sample_security_def user_app.defs security_page.defs)

lemma mfa_code_sent_twice:
  fixes au :: authenticator and show_date yes
  defines "tmpl \<equiv> security_template sample_host au yes show_date"
  shows "\<exists>m. page_run (Ret JUndef) tmpl sc_deletingAccount sample_mfa m \<and> in_flight (posts {''/api/me/mfa/verify''}) m = [1, 2] \<and>
     (\<exists>m'. exec [(1, [Resolved JNull]), (1, []), (2, [Rejected (http_response 400 JNull) True])] m = Some m' \<and>
       sc_mfaSetupData (mc_state m') = JNull \<and> sc_success (mc_state m') = JStr [] \<and>
       sc_error (mc_state m') = user_error_message (axios_error (http_response 400 JNull)))"
proof -
  let ?m = "launch (Ret JUndef) \<lparr>mc_state = sample_mfa, mc_tasks = []\<rparr>" and ?p = "page_verifyMfaSetup sample_host"
  have m: "?m = \<lparr>mc_state = sample_mfa, mc_tasks = [Ret JUndef]\<rparr>" by (simp add: launch_def resume_def)
  have "page_run (Ret JUndef) tmpl sc_deletingAccount sample_mfa (launch ?p (launch ?p ?m))"
    unfolding tmpl_def by (intro page_run_press page_run_start) (simp_all add: m launch_verify verify_offered)
  moreover have "in_flight (posts {''/api/me/mfa/verify''}) (launch ?p (launch ?p ?m)) = [1, 2]"
    by (simp add: m launch_verify in_flight_def posts_def mfa_setup_request_def upt_conv_Cons)
  moreover have "\<exists>m'. exec [(1, [Resolved JNull]), (1, []), (2, [Rejected (http_response 400 JNull) True])]
      (launch ?p (launch ?p ?m)) = Some m' \<and> sc_mfaSetupData (mc_state m') = JNull \<and> sc_success (mc_state m') = JStr [] \<and>
       sc_error (mc_state m') = user_error_message (axios_error (http_response 400 JNull))"
    by (simp add: m launch_verify resume_def mfa_setup_answer_def await_simps showSuccess_def showError_def set_timeout_def
        security_fetchProfile_def user_http_eq http_answer_def refreshable_def http_response_def)
  ultimately show ?thesis by blast
qed

end
