(* ===== verification/Admin_Page_Lib.thy ===== *)
theory Admin_Page_Lib
  imports Admin_Session Page_Lib User_Store
begin

text \<open>
  What the pages of the admin console share: the two message refs with the functions that
  show a message and take it away after a while, the catalog message of a caught error, and
  the small pieces of request building. Every request goes through the intercepted axios.
\<close>

text \<open>\<^verbatim>\<open>normalizeError(e).message\<close>\<close>

abbreviation admin_caught :: "jsval \<Rightarrow> (jsval \<Rightarrow> 's prog) \<Rightarrow> 's prog" where
  "admin_caught e k \<equiv> of_sum (admin_normalizeError e JUndef) (\<lambda>n. dot n ''message'' k)"

lemma admin_message_prog [simp]: "admin_caught e k = k (user_error_message e)"
  by (simp add: admin_normalizeError_eq)

subsection \<open>Messages\<close>

record console_page = admin_app +
  errorMessage :: jsval
  successMessage :: jsval

text \<open>Pages that keep the two messages apart, and pages where one replaces the other.\<close>

definition flash_error :: "jsval \<Rightarrow> 'a console_page_scheme prog \<Rightarrow> 'a console_page_scheme prog" where
  "flash_error msg p = modify (errorMessage_update (\<lambda>_. msg))
     (set_timeout (errorMessage_update (\<lambda>_. JStr [])) p)"

definition flash_success :: "string \<Rightarrow> 'a console_page_scheme prog \<Rightarrow> 'a console_page_scheme prog" where
  "flash_success msg p = modify (successMessage_update (\<lambda>_. JStr msg))
     (set_timeout (successMessage_update (\<lambda>_. JStr [])) p)"

definition swap_error :: "jsval \<Rightarrow> 'a console_page_scheme prog \<Rightarrow> 'a console_page_scheme prog" where
  "swap_error msg p = modify (\<lambda>s. s\<lparr>errorMessage := msg, successMessage := JStr []\<rparr>)
     (set_timeout (errorMessage_update (\<lambda>_. JStr [])) p)"

definition swap_success :: "string \<Rightarrow> 'a console_page_scheme prog \<Rightarrow> 'a console_page_scheme prog" where
  "swap_success msg p = modify (\<lambda>s. s\<lparr>successMessage := JStr msg, errorMessage := JStr []\<rparr>)
     (set_timeout (successMessage_update (\<lambda>_. JStr [])) p)"

lemmas message_defs = flash_error_def flash_success_def swap_error_def swap_success_def set_timeout_def

lemma message_no_throw [simp]:
  "no_throw (flash_error m p) = no_throw p" "no_throw (flash_success t p) = no_throw p"
  "no_throw (swap_error m p) = no_throw p" "no_throw (swap_success t p) = no_throw p"
  by (simp_all add: message_defs)

text \<open>Messages leave a page's flags alone, so does the timer's callback.\<close>

lemma settles_Async_Tick:
  "(\<And>s. busy (f s) = busy s) \<Longrightarrow> settles busy p \<Longrightarrow> settles busy (set_timeout f p)"
  by (simp add: set_timeout_def settles_def)

lemma settles_flash_error:
  "(\<And>s m. busy (s\<lparr>errorMessage := m\<rparr>) = busy s) \<Longrightarrow> settles busy (flash_error m (Ret v))"
  unfolding flash_error_def by (intro settles_modify settles_Async_Tick settles_Ret) simp_all

lemma settles_swap_error:
  "(\<And>s m. busy (s\<lparr>errorMessage := m\<rparr>) = busy s) \<Longrightarrow>
   (\<And>s m n. busy (s\<lparr>errorMessage := m, successMessage := n\<rparr>) = busy s) \<Longrightarrow> settles busy (swap_error m (Ret v))"
  unfolding swap_error_def by (intro settles_modify settles_Async_Tick settles_Ret) simp_all

subsection \<open>Requests and values\<close>

definition with_params :: "(string \<times> jsval) list \<Rightarrow> request \<Rightarrow> request" where
  "with_params ps r = r\<lparr>rq_params := ps\<rparr>"

text \<open>\<^verbatim>\<open>if (v) params.k = v\<close>\<close>

definition opt_param :: "string \<Rightarrow> jsval \<Rightarrow> (string \<times> jsval) list" where
  "opt_param k v = (if truthy v then [(k, v)] else [])"

text \<open>\<^verbatim>\<open>if (new !== old) body.k = new\<close>\<close>

definition changed :: "string \<Rightarrow> jsval \<Rightarrow> jsval \<Rightarrow> (string \<times> jsval) list" where
  "changed k new old = (if new \<noteq> old then [(k, new)] else [])"

text \<open>
  The other side of a partial update, as the edit pages assume it of the server: the fields of
  the body replace those of the record.
\<close>

fun apply_patch :: "(string \<times> jsval) list \<Rightarrow> (string \<times> jsval) list \<Rightarrow> (string \<times> jsval) list" where
  "apply_patch [] r = r"
| "apply_patch ((k, v) # ps) r = apply_patch ps (AList.update k v r)"

lemma map_of_apply_patch: "map_of (apply_patch ps r) = map_of r ++ map_of (rev ps)"
  by (induction ps r rule: apply_patch.induct) (auto simp: update_conv' map_add_def fun_eq_iff split: option.split)

lemma changed_lookup [simp]:
  "map_of (rev (changed k new old)) = (if new \<noteq> old then [k \<mapsto> new] else Map.empty)"
  by (simp add: changed_def)

text \<open>A method of arrays called on a value that may not be one.\<close>

definition as_array :: "string \<Rightarrow> jsval \<Rightarrow> (jsval list \<Rightarrow> 's prog) \<Rightarrow> 's prog" where
  "as_array fn v k = (case v of
       JArr xs \<Rightarrow> k xs
     | _ \<Rightarrow> Throw (js_error ''TypeError'' (fn @ '' is not a function'')))"

text \<open>\<^verbatim>\<open>v > n\<close> for a number.\<close>

fun js_gt :: "jsval \<Rightarrow> int \<Rightarrow> bool" where
  "js_gt (JNum m) n = (m > n)"
| "js_gt v n = False"

abbreviation put_json :: "string \<Rightarrow> (string \<times> jsval) list \<Rightarrow> request" where
  "put_json url ps \<equiv> json_content (req_put url (Json (JObj ps)))"

abbreviation post_json :: "string \<Rightarrow> (string \<times> jsval) list \<Rightarrow> request" where
  "post_json url ps \<equiv> json_content (req_post url (Json (JObj ps)))"

end
