(* ===== verification/Admin_Users_Pages.thy ===== *)
theory Admin_Users_Pages
  imports Admin_Page_Lib
begin

text \<open>
  The admin console's \<^verbatim>\<open>pages/LoginPage.vue\<close>, \<^verbatim>\<open>pages/CallbackPage.vue\<close> and
  \<^verbatim>\<open>pages/users\<close>: the list of users with search and pages, and the detail page that edits
  one user. The current time is an argument.
\<close>

subsection \<open>LoginPage\<close>

record admin_login_page = admin_app +
  al_username :: string
  al_password :: string
  al_loading :: bool

definition admin_handleLogin :: "host \<Rightarrow> 'a admin_login_page_scheme prog" where
  "admin_handleLogin h = modify (al_loading_update (\<lambda>_. True))
     (finally_do
       (Get (\<lambda>s. await (admin_login h (JStr (al_username s)) (JStr (al_password s))) (\<lambda>result.
          if \<not> truthy (js_opt result ''error'')
          then no_await (admin_router_push h (JStr ''/'')) (Ret JUndef)
          else Ret JUndef)))
       (modify (al_loading_update (\<lambda>_. False)) (Ret JUndef)))"

definition admin_login_template :: "host \<Rightarrow> 'a admin_login_page_scheme \<Rightarrow> 'a admin_login_page_scheme el list" where
  "admin_login_template h s =
     [Txt ''AuthForge Admin'', Txt ''Sign in to your administrator account''] @
     v_if (truthy (aa_loginError s))
       [Val (aa_loginError s), Btn False ''Dismiss'' (modify (aa_loginError_update (\<lambda>_. JStr [])) (Ret JUndef))] @
     [Txt ''Username'', Inp ''username'' True, Txt ''Password'', Inp ''password'' True,
      Sub (al_loading s) (if al_loading s then ''Signing in...'' else ''Sign in'') (admin_handleLogin h)]"

subsection \<open>CallbackPage\<close>

record admin_callback_page = admin_app +
  ac_error :: jsval

text \<open>
  The parameters come from the address of the page. The store has no \<^verbatim>\<open>handleCallback\<close>:
  the call is one of \<^verbatim>\<open>undefined\<close>.
\<close>

definition store_handleCallback :: "'s prog" where
  "store_handleCallback = Throw (js_error ''TypeError'' ''auth.handleCallback is not a function'')"

definition admin_callback_onMounted :: "host \<Rightarrow> (string \<Rightarrow> jsval) \<Rightarrow> 'a admin_callback_page_scheme prog" where
  "admin_callback_onMounted h params =
     (let code = params ''code''; state = params ''state''; errorParam = params ''error'' in
      if truthy errorParam then
        modify (ac_error_update (\<lambda>_. js_or (params ''error_description'') errorParam)) (Ret JUndef)
      else if \<not> truthy code \<or> \<not> truthy state then
        modify (ac_error_update (\<lambda>_. JStr ''Missing authorization code or state'')) (Ret JUndef)
      else catch
        (await store_handleCallback (\<lambda>_. no_await (admin_router_push h (JStr ''/'')) (Ret JUndef)))
        (\<lambda>e. admin_caught e (\<lambda>m. modify (ac_error_update (\<lambda>_. m)) (Ret JUndef))))"

definition admin_callback_template :: "'a admin_callback_page_scheme \<Rightarrow> 'a admin_callback_page_scheme el list" where
  "admin_callback_template s =
     (if \<not> truthy (ac_error s) then [Txt ''Completing sign in...'']
      else [Txt ''Authentication Error'', Val (ac_error s), Lnk ''/login'' ''Back to login''])"

subsection \<open>UsersPage\<close>

record create_form =
  cf_username :: string
  cf_password :: string
  cf_email :: string
  cf_roles :: string

definition empty_form :: create_form where
  "empty_form = \<lparr>cf_username = [], cf_password = [], cf_email = [], cf_roles = []\<rparr>"

record users_page = console_page +
  us_users :: jsval
  us_loading :: bool
  us_showRoleModal :: bool
  us_showCreateModal :: bool
  us_selectedUser :: jsval
  us_roleInput :: string
  us_saving :: bool
  us_currentPage :: int
  us_perPage :: int
  us_total :: jsval
  us_totalPages :: jsval
  us_searchQuery :: string
  us_roleFilter :: string
  us_lockedFilter :: string
  us_createForm :: create_form

definition hasPrev :: "'a users_page_scheme \<Rightarrow> bool" where
  "hasPrev s = (us_currentPage s > 1)"

definition hasNext :: "'a users_page_scheme \<Rightarrow> bool" where
  "hasNext s = js_gt (us_totalPages s) (us_currentPage s)"

definition users_showError :: "jsval \<Rightarrow> 'a users_page_scheme prog \<Rightarrow> 'a users_page_scheme prog" where
  "users_showError = flash_error"

definition users_showSuccess :: "string \<Rightarrow> 'a users_page_scheme prog \<Rightarrow> 'a users_page_scheme prog" where
  "users_showSuccess = flash_success"

definition users_params :: "'a users_page_scheme \<Rightarrow> (string \<times> jsval) list" where
  "users_params s =
     [(''page'', JNum (us_currentPage s)), (''per_page'', JNum (us_perPage s))] @
     opt_param ''q'' (JStr (us_searchQuery s)) @ opt_param ''role'' (JStr (us_roleFilter s)) @
     opt_param ''locked'' (JStr (us_lockedFilter s))"

definition fetchUsers :: "host \<Rightarrow> 'a users_page_scheme prog" where
  "fetchUsers h = modify (us_loading_update (\<lambda>_. True))
     (finally_do
       (catch
         (Get (\<lambda>s. await (admin_axios h (with_params (users_params s) (req_get ''/api/admin/users''))) (\<lambda>data.
            dot data ''users'' (\<lambda>us. modify (us_users_update (\<lambda>_. js_or us (JArr [])))
            (dot data ''total'' (\<lambda>t. modify (us_total_update (\<lambda>_. js_or t (JNum 0)))
            (dot data ''total_pages'' (\<lambda>tp. modify (us_totalPages_update (\<lambda>_. js_or tp (JNum 0))) (Ret JUndef)))))))))
         (\<lambda>e. admin_caught e (\<lambda>m. users_showError m (Ret JUndef))))
       (modify (us_loading_update (\<lambda>_. False)) (Ret JUndef)))"

definition applySearch :: "host \<Rightarrow> 'a users_page_scheme prog" where
  "applySearch h = modify (us_currentPage_update (\<lambda>_. 1)) (no_await (fetchUsers h) (Ret JUndef))"

definition goToPage :: "host \<Rightarrow> int \<Rightarrow> 'a users_page_scheme prog" where
  "goToPage h page = Get (\<lambda>s.
     if page < 1 \<or> (case us_totalPages s of JNum n \<Rightarrow> page > n | _ \<Rightarrow> False) then Ret JUndef
     else modify (us_currentPage_update (\<lambda>_. page)) (no_await (fetchUsers h) (Ret JUndef)))"

definition openRoleModal :: "jsval \<Rightarrow> 'a users_page_scheme prog" where
  "openRoleModal user = modify (us_selectedUser_update (\<lambda>_. user))
     (dot user ''roles'' (\<lambda>rs. as_array ''join'' (js_or rs (JArr [])) (\<lambda>xs.
        modify (\<lambda>s. s\<lparr>us_roleInput := js_join '', '' (map (\<lambda>v. if nullish v then [] else js_to_string v) xs),
            us_showRoleModal := True\<rparr>) (Ret JUndef))))"

definition assignRoles :: "host \<Rightarrow> 'a users_page_scheme prog" where
  "assignRoles h = Get (\<lambda>s.
     if \<not> truthy (us_selectedUser s) \<or> js_trim (us_roleInput s) = [] then Ret JUndef
     else modify (us_saving_update (\<lambda>_. True))
       (finally_do
         (catch
           (dot (us_selectedUser s) ''id'' (\<lambda>i.
            await (admin_axios h (put_json (''/api/admin/users/'' @ js_to_string i @ ''/roles'')
                [(''roles'', strs (split_trim (CHR '','') (us_roleInput s)))])) (\<lambda>_.
              modify (us_showRoleModal_update (\<lambda>_. False))
                (users_showSuccess ''Roles assigned successfully'' (await (fetchUsers h) (\<lambda>_. Ret JUndef))))))
           (\<lambda>e. admin_caught e (\<lambda>m. users_showError m (Ret JUndef))))
         (modify (us_saving_update (\<lambda>_. False)) (Ret JUndef))))"

definition create_user_body :: "create_form \<Rightarrow> (string \<times> jsval) list" where
  "create_user_body f =
     [(''username'', JStr (cf_username f)), (''password'', JStr (cf_password f))] @
     opt_param ''email'' (JStr (cf_email f)) @
     (if cf_roles f \<noteq> [] then [(''roles'', strs (split_trim (CHR '','') (cf_roles f)))] else [])"

definition createUser :: "host \<Rightarrow> 'a users_page_scheme prog" where
  "createUser h = Get (\<lambda>s.
     if js_trim (cf_username (us_createForm s)) = [] \<or> js_trim (cf_password (us_createForm s)) = [] then
       users_showError (JStr ''Username and password are required'') (Ret JUndef)
     else modify (us_saving_update (\<lambda>_. True))
       (finally_do
         (catch
           (await (admin_axios h (post_json ''/api/admin/users'' (create_user_body (us_createForm s)))) (\<lambda>_.
              modify (\<lambda>s. s\<lparr>us_showCreateModal := False, us_createForm := empty_form\<rparr>)
                (users_showSuccess ''User created successfully'' (await (fetchUsers h) (\<lambda>_. Ret JUndef)))))
           (\<lambda>e. admin_caught e (\<lambda>m. users_showError m (Ret JUndef))))
         (modify (us_saving_update (\<lambda>_. False)) (Ret JUndef))))"

definition deleteUser :: "host \<Rightarrow> bool \<Rightarrow> jsval \<Rightarrow> 'a users_page_scheme prog" where
  "deleteUser h yes user = dot user ''username'' (\<lambda>_. confirmed yes
     (catch
       (dot user ''id'' (\<lambda>i. await (admin_axios h (req_delete (''/api/admin/users/'' @ js_to_string i))) (\<lambda>_.
          users_showSuccess ''User deleted successfully'' (await (fetchUsers h) (\<lambda>_. Ret JUndef)))))
       (\<lambda>e. admin_caught e (\<lambda>m. users_showError m (Ret JUndef)))))"

subsection \<open>UserDetailPage\<close>

datatype user_tab = UInfo | USecurity | URoles

record user_detail_page = console_page +
  ud_loading :: bool
  ud_saving :: bool
  ud_activeTab :: user_tab
  ud_user :: jsval
  ud_allRoles :: jsval
  ud_editUsername :: jsval
  ud_editEmail :: jsval
  ud_editEmailVerified :: jsval
  ud_editMfaEnabled :: jsval
  ud_editLocked :: jsval
  ud_editOrgId :: jsval
  ud_selectedRoles :: "jsval list"

definition user_url :: "'a spa_scheme \<Rightarrow> string" where
  "user_url s = ''/api/admin/users/'' @ js_to_string (param (currentRoute s) ''id'')"

definition detail_showSuccess :: "string \<Rightarrow> 'a user_detail_page_scheme prog \<Rightarrow> 'a user_detail_page_scheme prog" where
  "detail_showSuccess = swap_success"

definition detail_showError :: "jsval \<Rightarrow> 'a user_detail_page_scheme prog \<Rightarrow> 'a user_detail_page_scheme prog" where
  "detail_showError = swap_error"

text \<open>The assignments of \<^verbatim>\<open>fetchUser\<close> from an answer that is an object.\<close>

definition load_user :: "jsval \<Rightarrow> 'a user_detail_page_scheme \<Rightarrow> 'a user_detail_page_scheme" where
  "load_user data s = s\<lparr>
     ud_editUsername := js_or (js_get data ''username'') (JStr []),
     ud_editEmail := js_or (js_get data ''email'') (JStr []),
     ud_editEmailVerified := js_or (js_get data ''email_verified'') (JBool False),
     ud_editMfaEnabled := js_or (js_get data ''mfa_enabled'') (JBool False),
     ud_editLocked := js_or (js_get data ''locked'') (JBool False),
     ud_editOrgId := js_coalesce (js_get data ''org_id'') (JStr [])\<rparr>"

definition detail_fetchUser :: "host \<Rightarrow> 'a user_detail_page_scheme prog" where
  "detail_fetchUser h = modify (ud_loading_update (\<lambda>_. True))
     (finally_do
       (catch
         (Get (\<lambda>s. await (admin_axios h (req_get (user_url s))) (\<lambda>data.
            modify (ud_user_update (\<lambda>_. data))
              (dot data ''username'' (\<lambda>_. modify (load_user data)
                (as_array ''filter'' (js_or (js_get data ''roles'') (JArr [])) (\<lambda>rs.
                  modify (ud_selectedRoles_update (\<lambda>_. filter is_string rs)) (Ret JUndef))))))))
         (\<lambda>e. admin_caught e (\<lambda>m. detail_showError m (Ret JUndef))))
       (modify (ud_loading_update (\<lambda>_. False)) (Ret JUndef)))"

definition fetchAllRoles :: "host \<Rightarrow> 'a user_detail_page_scheme prog" where
  "fetchAllRoles h = catch
     (await (admin_axios h (req_get ''/api/admin/roles'')) (\<lambda>data.
        dot data ''roles'' (\<lambda>rs. modify (ud_allRoles_update (\<lambda>_. js_or rs (JArr []))) (Ret JUndef))))
     (\<lambda>_. Ret JUndef)"

definition user_patch :: "'a user_detail_page_scheme \<Rightarrow> (string \<times> jsval) list" where
  "user_patch s = (let user = ud_user s in
     changed ''username'' (ud_editUsername s) (js_or (js_get user ''username'') (JStr [])) @
     changed ''email'' (ud_editEmail s) (js_or (js_get user ''email'') (JStr [])) @
     changed ''email_verified'' (ud_editEmailVerified s) (js_get user ''email_verified'') @
     changed ''mfa_enabled'' (ud_editMfaEnabled s) (js_get user ''mfa_enabled'') @
     changed ''locked'' (ud_editLocked s) (js_or (js_get user ''locked'') (JBool False)) @
     (if ud_editOrgId s \<noteq> js_coalesce (js_get user ''org_id'') (JStr [])
      then [(''org_id'', if ud_editOrgId s = JStr [] then JNull else ud_editOrgId s)] else []))"

definition saveInfo :: "host \<Rightarrow> 'a user_detail_page_scheme prog" where
  "saveInfo h = modify (ud_saving_update (\<lambda>_. True))
     (finally_do
       (catch
         (Get (\<lambda>s. dot (ud_user s) ''username'' (\<lambda>_.
            if user_patch s = [] then
              detail_showSuccess ''No changes'' (modify (ud_saving_update (\<lambda>_. False)) (Ret JUndef))
            else await (admin_axios h (put_json (user_url s) (user_patch s))) (\<lambda>_.
              detail_showSuccess ''User updated successfully''
                (await (detail_fetchUser h) (\<lambda>_. Ret JUndef))))))
         (\<lambda>e. admin_caught e (\<lambda>m. detail_showError m (Ret JUndef))))
       (modify (ud_saving_update (\<lambda>_. False)) (Ret JUndef)))"

definition saveRoles :: "host \<Rightarrow> 'a user_detail_page_scheme prog" where
  "saveRoles h = modify (ud_saving_update (\<lambda>_. True))
     (finally_do
       (catch
         (Get (\<lambda>s. await (admin_axios h (put_json (user_url s @ ''/roles'') [(''roles'', JArr (ud_selectedRoles s))])) (\<lambda>_.
            detail_showSuccess ''Roles updated successfully''
              (no_await (catch (detail_fetchUser h) (\<lambda>_. Ret JUndef)) (Ret JUndef)))))
         (\<lambda>e. admin_caught e (\<lambda>m. detail_showError m (Ret JUndef))))
       (modify (ud_saving_update (\<lambda>_. False)) (Ret JUndef)))"

text \<open>
  The \<^verbatim>\<open>try\<close> block of \<^verbatim>\<open>disableUser\<close> and \<^verbatim>\<open>enableUser\<close>: send, say so, reload.
\<close>

definition switch_user :: "host \<Rightarrow> (string \<Rightarrow> request) \<Rightarrow> string \<Rightarrow> 'a user_detail_page_scheme prog" where
  "switch_user h rq msg = catch
     (Get (\<lambda>s. await (admin_axios h (rq (user_url s))) (\<lambda>_.
        detail_showSuccess msg (await (detail_fetchUser h) (\<lambda>_. Ret JUndef)))))
     (\<lambda>e. admin_caught e (\<lambda>m. detail_showError m (Ret JUndef)))"

definition disableUser :: "host \<Rightarrow> bool \<Rightarrow> 'a user_detail_page_scheme prog" where
  "disableUser h yes = Get (\<lambda>s. dot (ud_user s) ''username'' (\<lambda>_.
     confirmed yes (switch_user h (\<lambda>u. req_put (u @ ''/disable'') NoBody) ''User disabled'')))"

definition enableUser :: "host \<Rightarrow> 'a user_detail_page_scheme prog" where
  "enableUser h = switch_user h (\<lambda>u. req_post (u @ ''/enable'') NoBody) ''User enabled''"

definition isLocked :: "int \<Rightarrow> jsval \<Rightarrow> bool" where
  "isLocked now user = js_gt (js_or (js_opt user ''locked_until'') (JNum 0)) now"

definition detail_onMounted :: "host \<Rightarrow> 'a user_detail_page_scheme prog" where
  "detail_onMounted h = no_await (detail_fetchUser h) (no_await (fetchAllRoles h) (Ret JUndef))"

subsection \<open>Behaviour of the handlers\<close>

interpretation users_loading: busy_flag us_loading "us_loading_update (\<lambda>_. False)"
  by unfold_locales simp

interpretation users_saving: busy_flag us_saving "us_saving_update (\<lambda>_. False)"
  by unfold_locales simp

interpretation detail_loading: busy_flag ud_loading "ud_loading_update (\<lambda>_. False)"
  by unfold_locales simp

interpretation detail_saving: busy_flag ud_saving "ud_saving_update (\<lambda>_. False)"
  by unfold_locales simp

lemma users_page_settles:
  "settles us_loading (fetchUsers h)" "settles us_saving (assignRoles h)" "settles us_saving (createUser h)"
  "settles ud_loading (detail_fetchUser h)" "settles ud_saving (saveInfo h)" "settles ud_saving (saveRoles h)"
  unfolding fetchUsers_def assignRoles_def createUser_def detail_fetchUser_def saveInfo_def saveRoles_def
    users_showError_def detail_showError_def users_showSuccess_def
  by (intro users_loading.settle_intros users_saving.settle_intros detail_loading.settle_intros
      detail_saving.settle_intros settles_flash_error; simp)+

interpretation login_loading: busy_flag al_loading "al_loading_update (\<lambda>_. False)"
  by unfold_locales simp

lemma admin_login_no_throw: "no_throw (admin_login h u p)"
  unfolding admin_login_def by (auto intro!: no_throw_intros simp: admin_message_prog)

lemma login_page_settles: "settles al_loading (admin_handleLogin h)"
  unfolding admin_handleLogin_def
  by (intro resets_settles resets_modify login_loading.resets_finally)
     (auto intro!: no_throw_intros admin_login_no_throw)

text \<open>
  The callback page cannot complete a sign-in: whatever the address carries, it sends nothing,
  goes nowhere and ends with an error on display.
\<close>

lemma admin_callback_always_fails:
  "\<exists>m. run (admin_callback_onMounted h params) s ts as = halt (Done JUndef) (s\<lparr>ac_error := m\<rparr>) ts as \<and>
     (truthy m \<or> m = user_error_message (js_error ''TypeError'' ''auth.handleCallback is not a function''))"
  by (simp add: admin_callback_onMounted_def store_handleCallback_def Let_def prog_simps)
     (auto simp: js_or_def)

text \<open>
  A login that the server answers with a request for a second factor is taken for a success:
  the page shows no error and no prompt, holds no new token, and asks for the dashboard.
\<close>

lemma admin_login_ignores_mfa:
  fixes s :: "'a admin_login_page_scheme"
  assumes "truthy mfa" "\<not> admin_isAuthenticated s"
  shows "\<exists>s'. run (admin_login h u p) s ts ([Resolved (JObj [(''mfa_required'', mfa), (''mfa_token'', t)])] # as) =
      emit [asent s (admin_login_request h u p (generatePkcePair h))]
        (halt (Done (JObj [(''mfaRequired'', JBool True), (''mfaToken'', t)])) s' ts as) \<and>
    aa_loginError s' = JStr [] \<and> \<not> admin_isAuthenticated s' \<and>
    \<not> truthy (js_opt (JObj [(''mfaRequired'', JBool True), (''mfaToken'', t)]) ''error'')"
  using assms by (simp add: admin_login_def Let_def prog_simps admin_axios_def run_axios admin_isAuthenticated_def)
     (intro exI conjI, rule refl, simp_all)

subsection \<open>Properties\<close>

text \<open>What the form shows of a user, and what it holds after editing.\<close>

definition user_form :: "jsval \<Rightarrow> jsval list" where
  "user_form user =
     [js_or (js_get user ''username'') (JStr []), js_or (js_get user ''email'') (JStr []),
      js_or (js_get user ''email_verified'') (JBool False), js_or (js_get user ''mfa_enabled'') (JBool False),
      js_or (js_get user ''locked'') (JBool False), js_coalesce (js_get user ''org_id'') (JStr [])]"

definition edited_user :: "'a user_detail_page_scheme \<Rightarrow> jsval list" where
  "edited_user s = [ud_editUsername s, ud_editEmail s, ud_editEmailVerified s, ud_editMfaEnabled s,
     ud_editLocked s, ud_editOrgId s]"

text \<open>The values text inputs, check boxes and a number input give.\<close>

definition user_inputs :: "'a user_detail_page_scheme \<Rightarrow> string \<Rightarrow> string \<Rightarrow> bool \<Rightarrow> bool \<Rightarrow> bool \<Rightarrow> int option \<Rightarrow> bool" where
  "user_inputs s nm em v mf lk org \<longleftrightarrow> edited_user s =
     [JStr nm, JStr em, JBool v, JBool mf, JBool lk, case org of Some n \<Rightarrow> JNum n | None \<Rightarrow> JStr []]"

lemma load_user_edited: "edited_user (load_user data s) = user_form data"
  by (simp add: edited_user_def user_form_def load_user_def)

lemma js_or_self [simp]: "js_or (JStr t) (JStr []) = JStr t" "js_or (JBool b) (JBool False) = JBool b"
  by (simp_all add: js_or_def)

definition user_keys :: "string set" where
  "user_keys = {''username'', ''email'', ''email_verified'', ''mfa_enabled'', ''locked'', ''org_id''}"

lemma user_patch_lookup:
  "map_of (rev (user_patch s)) k =
     (let user = ud_user s in
      if k = ''username'' \<and> ud_editUsername s \<noteq> js_or (js_get user k) (JStr []) then Some (ud_editUsername s)
      else if k = ''email'' \<and> ud_editEmail s \<noteq> js_or (js_get user k) (JStr []) then Some (ud_editEmail s)
      else if k = ''email_verified'' \<and> ud_editEmailVerified s \<noteq> js_get user k then Some (ud_editEmailVerified s)
      else if k = ''mfa_enabled'' \<and> ud_editMfaEnabled s \<noteq> js_get user k then Some (ud_editMfaEnabled s)
      else if k = ''locked'' \<and> ud_editLocked s \<noteq> js_or (js_get user k) (JBool False) then Some (ud_editLocked s)
      else if k = ''org_id'' \<and> ud_editOrgId s \<noteq> js_coalesce (js_get user k) (JStr [])
        then Some (if ud_editOrgId s = JStr [] then JNull else ud_editOrgId s)
      else None)"
  by (auto simp: user_patch_def Let_def map_add_def)

lemma user_patch_saving [simp]:
  "user_patch (s\<lparr>ud_saving := b\<rparr>) = user_patch s" "user_url (s\<lparr>ud_saving := b\<rparr>) = user_url s"
  by (simp_all add: user_patch_def user_url_def Let_def)

lemma user_patch_form:
  assumes "ud_user s = JObj r" "user_inputs s nm em v mf lk org"
  shows "user_form (JObj (apply_patch (user_patch s) r)) = edited_user s"
proof -
  from assms have e: "ud_editUsername s = JStr nm" "ud_editEmail s = JStr em" "ud_editEmailVerified s = JBool v"
    "ud_editMfaEnabled s = JBool mf" "ud_editLocked s = JBool lk"
    "ud_editOrgId s = (case org of Some n \<Rightarrow> JNum n | None \<Rightarrow> JStr [])"
    by (auto simp: user_inputs_def edited_user_def)
  have g: "js_get (JObj (apply_patch (user_patch s) r)) k =
      (case map_of (rev (user_patch s)) k of Some w \<Rightarrow> w | None \<Rightarrow> js_get (ud_user s) k)" for k
    using assms(1) by (simp add: map_of_apply_patch map_add_def split: option.split)
  have flag: "js_or (case (if JBool b \<noteq> js_or old (JBool False) then Some (JBool b) else None) of
      Some w \<Rightarrow> w | None \<Rightarrow> old) (JBool False) = JBool b" for b old
    by (cases "JBool b = js_or old (JBool False)") auto
  have strg: "js_or (case (if JStr t \<noteq> js_or old (JStr []) then Some (JStr t) else None) of
      Some w \<Rightarrow> w | None \<Rightarrow> old) (JStr []) = JStr t" for t old
    by (cases "JStr t = js_or old (JStr [])") auto
  have num: "js_coalesce (case (if x \<noteq> js_coalesce old (JStr []) then Some (if x = JStr [] then JNull else x) else None) of
      Some w \<Rightarrow> w | None \<Rightarrow> old) (JStr []) = x" if "x = JStr [] \<or> \<not> nullish x" for x old
    using that by (cases "x = js_coalesce old (JStr [])") auto
  have "ud_editOrgId s = JStr [] \<or> \<not> nullish (ud_editOrgId s)" by (simp add: e split: option.split)
  note num = num [OF this, where old = "js_get (ud_user s) ''org_id''"]
  have "js_or (js_get (JObj (apply_patch (user_patch s) r)) ''username'') (JStr []) = ud_editUsername s"
    using strg [where t = nm and old = "js_get (ud_user s) ''username''"] by (simp add: g user_patch_lookup Let_def e(1) del: js_get.simps)
  moreover have "js_or (js_get (JObj (apply_patch (user_patch s) r)) ''email'') (JStr []) = ud_editEmail s"
    using strg [where t = em and old = "js_get (ud_user s) ''email''"] by (simp add: g user_patch_lookup Let_def e(2) del: js_get.simps)
  moreover have "js_or (js_get (JObj (apply_patch (user_patch s) r)) ''email_verified'') (JBool False) = ud_editEmailVerified s"
    by (simp add: g user_patch_lookup Let_def e(3) del: js_get.simps) (metis js_or_self(2))
  moreover have "js_or (js_get (JObj (apply_patch (user_patch s) r)) ''mfa_enabled'') (JBool False) = ud_editMfaEnabled s"
    by (simp add: g user_patch_lookup Let_def e(4) del: js_get.simps) (metis js_or_self(2))
  moreover have "js_or (js_get (JObj (apply_patch (user_patch s) r)) ''locked'') (JBool False) = ud_editLocked s"
    using flag [where b = lk and old = "js_get (ud_user s) ''locked''"] by (simp add: g user_patch_lookup Let_def e(5) del: js_get.simps)
  moreover have "js_coalesce (js_get (JObj (apply_patch (user_patch s) r)) ''org_id'') (JStr []) = ud_editOrgId s"
    using num by (simp add: g user_patch_lookup Let_def del: js_get.simps)
  ultimately show ?thesis by (simp only: user_form_def edited_user_def)
qed

text \<open>
  C17: an edited user is saved as exactly what was edited. The record the server has, updated
  by the body that \<^verbatim>\<open>saveInfo\<close> sends, shows in the form what the administrator entered
  (an emptied organisation is cleared), and no other field of the record is touched. If a
  form loaded from a record with Boolean flags is saved unedited, nothing is sent; otherwise
  the one request before the reload carries that body.
\<close>

theorem saveInfo_refines_edit:
  fixes s :: "'a user_detail_page_scheme"
  assumes "ud_user s = JObj r" "user_inputs s nm em v mf lk org"
  shows "user_form (JObj (apply_patch (user_patch s) r)) = edited_user s \<and>
    (\<forall>k. k \<notin> user_keys \<longrightarrow> map_of (apply_patch (user_patch s) r) k = map_of r k) \<and>
    (edited_user s = user_form (JObj r) \<and> js_get (JObj r) ''email_verified'' = JBool v \<and>
       js_get (JObj r) ''mfa_enabled'' = JBool mf \<longrightarrow> r_sent (run (saveInfo h) s ts as) = []) \<and>
    (user_patch s \<noteq> [] \<longrightarrow> hd (r_sent (run (saveInfo h) s ts as)) =
       admin_request_interceptor s (put_json (user_url s) (user_patch s)))"
proof (intro conjI impI)
  show "user_form (JObj (apply_patch (user_patch s) r)) = edited_user s"
    using assms by (rule user_patch_form)
  have "map_of (rev (user_patch s)) k = None" if "k \<notin> user_keys" for k
    using that by (simp add: user_patch_lookup user_keys_def Let_def)
  then show "\<forall>k. k \<notin> user_keys \<longrightarrow> map_of (apply_patch (user_patch s) r) k = map_of r k"
    by (simp add: map_of_apply_patch map_add_def)
next
  assume same: "edited_user s = user_form (JObj r) \<and> js_get (JObj r) ''email_verified'' = JBool v \<and>
       js_get (JObj r) ''mfa_enabled'' = JBool mf"
  then have e: "ud_editUsername s = js_or (js_get (JObj r) ''username'') (JStr [])"
    "ud_editEmail s = js_or (js_get (JObj r) ''email'') (JStr [])"
    "ud_editLocked s = js_or (js_get (JObj r) ''locked'') (JBool False)"
    "ud_editOrgId s = js_coalesce (js_get (JObj r) ''org_id'') (JStr [])"
    unfolding edited_user_def user_form_def list.inject by blast+
  have "ud_editEmailVerified s = JBool v" "ud_editMfaEnabled s = JBool mf"
    using assms(2) unfolding user_inputs_def edited_user_def list.inject by blast+
  with same have f: "ud_editEmailVerified s = js_get (JObj r) ''email_verified''"
    "ud_editMfaEnabled s = js_get (JObj r) ''mfa_enabled''" by presburger+
  have "user_patch s = []"
    by (simp only: user_patch_def Let_def changed_def assms(1) e f not_True_eq_False if_False simp_thms append_Nil)
  then show "r_sent (run (saveInfo h) s ts as) = []"
    using assms(1) by (simp add: saveInfo_def detail_showSuccess_def message_defs prog_simps)
next
  assume "user_patch s \<noteq> []"
  moreover have "asent (s\<lparr>ud_saving := True\<rparr>) q = admin_request_interceptor s q" for q
    by (simp add: asent_def admin_request_interceptor_def)
  ultimately show "hd (r_sent (run (saveInfo h) s ts as)) =
      admin_request_interceptor s (put_json (user_url s) (user_patch s))"
    using assms(1) by (simp add: saveInfo_def await_def admin_axios_def axios_with_eq del: run.simps(5))
qed

definition sample_detail :: user_detail_page where
  "sample_detail = console_page.extend
     (admin_app.extend sample_admin (console_page.fields (JStr []) (JStr [])))
     (user_detail_page.fields False False UInfo
       (JObj [(''id'', JNum 7), (''username'', JStr ''bob''), (''email_verified'', JBool True),
         (''mfa_enabled'', JBool False), (''org_id'', JNum 3)]) (JArr [])
       (JStr ''bob'') (JStr ''b@x.org'') (JBool True) (JBool False) (JBool False) (JStr []) [])"

theorem saveInfo_refines_edit_witness:
  "user_patch sample_detail = [(''email'', JStr ''b@x.org''), (''org_id'', JNull)] \<and>
   hd (r_sent (run (saveInfo sample_host) sample_detail [] [])) =
     admin_request_interceptor sample_detail (put_json (user_url sample_detail) (user_patch sample_detail))"
proof -
  have u: "ud_user sample_detail = JObj [(''id'', JNum 7), (''username'', JStr ''bob''),
      (''email_verified'', JBool True), (''mfa_enabled'', JBool False), (''org_id'', JNum 3)]"
    and e: "edited_user sample_detail = [JStr ''bob'', JStr ''b@x.org'', JBool True, JBool False, JBool False, JStr []]"
    by (simp_all add: sample_detail_def edited_user_def admin_app.defs console_page.defs user_detail_page.defs)
  then have i: "user_inputs sample_detail ''bob'' ''b@x.org'' True False False None"
    by (simp add: user_inputs_def)
  have p: "user_patch sample_detail = [(''email'', JStr ''b@x.org''), (''org_id'', JNull)]"
    using e by (simp add: user_patch_def changed_def u edited_user_def)
  with saveInfo_refines_edit [OF u i, of sample_host "[]" "[]"] show ?thesis by simp
qed

end
