(* ===== verification/Admin_Access_Pages.thy ===== *)
theory Admin_Access_Pages
  imports Admin_Page_Lib
begin

text \<open>
  The admin console's pages for roles, scopes and tokens. The action a confirmation dialog
  holds (\<^verbatim>\<open>confirmAction\<close>, a closure) is a datatype with one constructor per closure of
  the source; what a closure captures is an argument of its constructor, what it reads when
  it runs is read from the state then. Writing to the console is not modelled. How a date is
  shown is the argument \<open>show_date\<close>.
\<close>

subsection \<open>RolesPage\<close>

record roles_page = console_page +
  ro_roles :: jsval
  ro_loading :: bool
  ro_showCreateModal :: bool
  ro_showEditModal :: bool
  ro_selectedRole :: jsval
  ro_saving :: bool
  ro_newRoleName :: string
  ro_newRoleDescription :: string
  ro_editDescription :: jsval

definition roles_showSuccess :: "string \<Rightarrow> 'a roles_page_scheme prog \<Rightarrow> 'a roles_page_scheme prog" where
  "roles_showSuccess = swap_success"

definition roles_showError :: "jsval \<Rightarrow> 'a roles_page_scheme prog \<Rightarrow> 'a roles_page_scheme prog" where
  "roles_showError = swap_error"

definition fetchRoles :: "host \<Rightarrow> 'a roles_page_scheme prog" where
  "fetchRoles h = modify (ro_loading_update (\<lambda>_. True))
     (finally_do
       (catch
         (await (admin_axios h (req_get ''/api/admin/roles'')) (\<lambda>data.
            dot data ''roles'' (\<lambda>rs. modify (ro_roles_update (\<lambda>_. js_or rs (JArr []))) (Ret JUndef))))
         (\<lambda>e. admin_caught e (\<lambda>m. roles_showError m (Ret JUndef))))
       (modify (ro_loading_update (\<lambda>_. False)) (Ret JUndef)))"

definition createRole :: "host \<Rightarrow> 'a roles_page_scheme prog" where
  "createRole h = Get (\<lambda>s.
     if js_trim (ro_newRoleName s) = [] then Ret JUndef
     else modify (ro_saving_update (\<lambda>_. True))
       (finally_do
         (catch
           (await (admin_axios h (post_json ''/api/admin/roles''
                [(''name'', JStr (js_trim (ro_newRoleName s))),
                 (''description'', JStr (js_trim (ro_newRoleDescription s)))])) (\<lambda>_. Get (\<lambda>s'.
              roles_showSuccess (''Role \"'' @ ro_newRoleName s' @ ''\" created'')
                (modify (\<lambda>s. s\<lparr>ro_showCreateModal := False, ro_newRoleName := [], ro_newRoleDescription := []\<rparr>)
                  (await (fetchRoles h) (\<lambda>_. Ret JUndef))))))
           (\<lambda>e. admin_caught e (\<lambda>m. roles_showError m (Ret JUndef))))
         (modify (ro_saving_update (\<lambda>_. False)) (Ret JUndef))))"

definition roles_openEditModal :: "jsval \<Rightarrow> 'a roles_page_scheme prog" where
  "roles_openEditModal role = modify (ro_selectedRole_update (\<lambda>_. role))
     (dot role ''description'' (\<lambda>d.
        modify (\<lambda>s. s\<lparr>ro_editDescription := js_or d (JStr []), ro_showEditModal := True\<rparr>) (Ret JUndef)))"

definition updateRole :: "host \<Rightarrow> 'a roles_page_scheme prog" where
  "updateRole h = Get (\<lambda>s.
     if \<not> truthy (ro_selectedRole s) then Ret JUndef
     else modify (ro_saving_update (\<lambda>_. True))
       (finally_do
         (catch
           (dot (ro_selectedRole s) ''id'' (\<lambda>i.
            await (admin_axios h (put_json (''/api/admin/roles/'' @ js_to_string i)
                [(''description'', ro_editDescription s)])) (\<lambda>_.
              roles_showSuccess ''Role updated''
                (modify (ro_showEditModal_update (\<lambda>_. False)) (await (fetchRoles h) (\<lambda>_. Ret JUndef))))))
           (\<lambda>e. admin_caught e (\<lambda>m. roles_showError m (Ret JUndef))))
         (modify (ro_saving_update (\<lambda>_. False)) (Ret JUndef))))"

definition deleteRole :: "host \<Rightarrow> bool \<Rightarrow> jsval \<Rightarrow> 'a roles_page_scheme prog" where
  "deleteRole h yes role = dot role ''name'' (\<lambda>nm. confirmed yes
     (catch
       (dot role ''id'' (\<lambda>i. await (admin_axios h (req_delete (''/api/admin/roles/'' @ js_to_string i))) (\<lambda>_.
          roles_showSuccess (''Role \"'' @ js_to_string nm @ ''\" deleted'') (await (fetchRoles h) (\<lambda>_. Ret JUndef)))))
       (\<lambda>e. admin_caught e (\<lambda>m. roles_showError m (Ret JUndef)))))"

definition BUILTIN_ROLES :: "string list" where
  "BUILTIN_ROLES = [''admin'', ''user'']"

subsection \<open>ScopesPage\<close>

record scope_form =
  sf_name :: string
  sf_description :: jsval
  sf_mapped_role :: jsval
  sf_is_default :: jsval
  sf_requires_admin_role :: jsval

definition empty_scope :: scope_form where
  "empty_scope = \<lparr>sf_name = [], sf_description = JStr [], sf_mapped_role = JStr [],
     sf_is_default = JBool False, sf_requires_admin_role = JBool False\<rparr>"

record scopes_page = console_page +
  sp_scopes :: jsval
  sp_loading :: bool
  sp_showCreateModal :: bool
  sp_showEditModal :: bool
  sp_selectedScope :: jsval
  sp_saving :: bool
  sp_newScope :: scope_form
  sp_editScope :: scope_form

definition scopes_showSuccess :: "string \<Rightarrow> 'a scopes_page_scheme prog \<Rightarrow> 'a scopes_page_scheme prog" where
  "scopes_showSuccess = swap_success"

definition scopes_showError :: "jsval \<Rightarrow> 'a scopes_page_scheme prog \<Rightarrow> 'a scopes_page_scheme prog" where
  "scopes_showError = swap_error"

definition scopes_fetchScopes :: "host \<Rightarrow> 'a scopes_page_scheme prog" where
  "scopes_fetchScopes h = modify (sp_loading_update (\<lambda>_. True))
     (finally_do
       (catch
         (await (admin_axios h (req_get ''/api/admin/scopes'')) (\<lambda>data.
            dot data ''scopes'' (\<lambda>sc. modify (sp_scopes_update (\<lambda>_. js_or sc (JArr []))) (Ret JUndef))))
         (\<lambda>e. admin_caught e (\<lambda>m. scopes_showError m (Ret JUndef))))
       (modify (sp_loading_update (\<lambda>_. False)) (Ret JUndef)))"

text \<open>The body of a form; the edit form has no name.\<close>

definition scope_fields :: "scope_form \<Rightarrow> (string \<times> jsval) list" where
  "scope_fields f = [(''description'', sf_description f), (''mapped_role'', sf_mapped_role f),
     (''is_default'', sf_is_default f), (''requires_admin_role'', sf_requires_admin_role f)]"

definition createScope :: "host \<Rightarrow> 'a scopes_page_scheme prog" where
  "createScope h = Get (\<lambda>s.
     if js_trim (sf_name (sp_newScope s)) = [] then Ret JUndef
     else modify (sp_saving_update (\<lambda>_. True))
       (finally_do
         (catch
           (await (admin_axios h (post_json ''/api/admin/scopes''
                ((''name'', JStr (sf_name (sp_newScope s))) # scope_fields (sp_newScope s)))) (\<lambda>_. Get (\<lambda>s'.
              scopes_showSuccess (''Scope \"'' @ sf_name (sp_newScope s') @ ''\" created'')
                (modify (\<lambda>s. s\<lparr>sp_showCreateModal := False, sp_newScope := empty_scope\<rparr>)
                  (await (scopes_fetchScopes h) (\<lambda>_. Ret JUndef))))))
           (\<lambda>e. admin_caught e (\<lambda>m. scopes_showError m (Ret JUndef))))
         (modify (sp_saving_update (\<lambda>_. False)) (Ret JUndef))))"

definition scopes_openEditModal :: "jsval \<Rightarrow> 'a scopes_page_scheme prog" where
  "scopes_openEditModal scope = modify (sp_selectedScope_update (\<lambda>_. scope))
     (dot scope ''description'' (\<lambda>d. dot scope ''mapped_role'' (\<lambda>mr. dot scope ''is_default'' (\<lambda>df.
      dot scope ''requires_admin_role'' (\<lambda>ra.
        modify (\<lambda>s. s\<lparr>sp_editScope := \<lparr>sf_name = [], sf_description = js_or d (JStr []),
            sf_mapped_role = js_or mr (JStr []), sf_is_default = js_or df (JBool False),
            sf_requires_admin_role = js_or ra (JBool False)\<rparr>, sp_showEditModal := True\<rparr>) (Ret JUndef))))))"

definition updateScope :: "host \<Rightarrow> 'a scopes_page_scheme prog" where
  "updateScope h = Get (\<lambda>s.
     if \<not> truthy (sp_selectedScope s) then Ret JUndef
     else modify (sp_saving_update (\<lambda>_. True))
       (finally_do
         (catch
           (dot (sp_selectedScope s) ''id'' (\<lambda>i.
            await (admin_axios h (put_json (''/api/admin/scopes/'' @ js_to_string i) (scope_fields (sp_editScope s)))) (\<lambda>_.
              scopes_showSuccess ''Scope updated''
                (modify (sp_showEditModal_update (\<lambda>_. False)) (await (scopes_fetchScopes h) (\<lambda>_. Ret JUndef))))))
           (\<lambda>e. admin_caught e (\<lambda>m. scopes_showError m (Ret JUndef))))
         (modify (sp_saving_update (\<lambda>_. False)) (Ret JUndef))))"

definition deleteScope :: "host \<Rightarrow> bool \<Rightarrow> jsval \<Rightarrow> 'a scopes_page_scheme prog" where
  "deleteScope h yes scope = dot scope ''name'' (\<lambda>nm. confirmed yes
     (catch
       (dot scope ''id'' (\<lambda>i. await (admin_axios h (req_delete (''/api/admin/scopes/'' @ js_to_string i))) (\<lambda>_.
          scopes_showSuccess (''Scope \"'' @ js_to_string nm @ ''\" deleted'')
            (await (scopes_fetchScopes h) (\<lambda>_. Ret JUndef)))))
       (\<lambda>e. admin_caught e (\<lambda>m. scopes_showError m (Ret JUndef)))))"

definition BUILTIN_SCOPES :: "string list" where
  "BUILTIN_SCOPES = [''openid'', ''profile'', ''email'', ''admin'',
     ''users:read'', ''users:write'', ''clients:read'', ''clients:write'',
     ''tokens:read'', ''tokens:write'', ''roles:read'', ''roles:write'', ''audit:read'']"

subsection \<open>TokensPage\<close>

datatype confirm_action = RevokeToken jsval | RevokeByClient jsval | RevokeByUser

record tokens_page = admin_app +
  tk_tokens :: jsval
  tk_loading :: bool
  tk_page :: int
  tk_perPage :: int
  tk_total :: jsval
  tk_errorMessage :: jsval
  tk_clientIdFilter :: string
  tk_userIdFilter :: string
  tk_showBulkMenu :: bool
  tk_confirmDialog :: bool
  tk_confirmAction :: "confirm_action option"
  tk_confirmMessage :: string

text \<open>\<^verbatim>\<open>Array.from(new Set(...))\<close>: the first occurrences, in order.\<close>

fun first_occurrences :: "'b list \<Rightarrow> 'b list" where
  "first_occurrences [] = []"
| "first_occurrences (x # xs) = x # filter (\<lambda>y. y \<noteq> x) (first_occurrences xs)"

definition uniqueClientIds :: "jsval \<Rightarrow> jsval list" where
  "uniqueClientIds tokens =
     first_occurrences (filter truthy (map (\<lambda>t. js_opt t ''client_id'') (js_items tokens)))"

definition tokens_params :: "'a tokens_page_scheme \<Rightarrow> (string \<times> jsval) list" where
  "tokens_params s = [(''page'', JNum (tk_page s)), (''per_page'', JNum (tk_perPage s))] @
     opt_param ''client_id'' (JStr (tk_clientIdFilter s)) @ opt_param ''user_id'' (JStr (tk_userIdFilter s))"

definition fetchTokens :: "host \<Rightarrow> 'a tokens_page_scheme prog" where
  "fetchTokens h = modify (\<lambda>s. s\<lparr>tk_loading := True, tk_errorMessage := JStr []\<rparr>)
     (finally_do
       (catch
         (Get (\<lambda>s. await (admin_axios h (with_params (tokens_params s) (req_get ''/api/admin/tokens''))) (\<lambda>data.
            dot data ''tokens'' (\<lambda>ts. modify (tk_tokens_update (\<lambda>_. js_or ts (JArr [])))
            (dot data ''total'' (\<lambda>n. modify (tk_total_update (\<lambda>_. js_or n (JNum 0))) (Ret JUndef)))))))
         (\<lambda>e. admin_caught e (\<lambda>m. modify (tk_errorMessage_update (\<lambda>_. m)) (Ret JUndef))))
       (modify (tk_loading_update (\<lambda>_. False)) (Ret JUndef)))"

definition tokens_applyFilters :: "host \<Rightarrow> 'a tokens_page_scheme prog" where
  "tokens_applyFilters h = modify (tk_page_update (\<lambda>_. 1)) (no_await (fetchTokens h) (Ret JUndef))"

definition tokens_clearFilters :: "host \<Rightarrow> 'a tokens_page_scheme prog" where
  "tokens_clearFilters h = modify (\<lambda>s. s\<lparr>tk_clientIdFilter := [], tk_userIdFilter := [], tk_page := 1\<rparr>)
     (no_await (fetchTokens h) (Ret JUndef))"

definition showConfirm :: "string \<Rightarrow> confirm_action \<Rightarrow> 'a tokens_page_scheme prog" where
  "showConfirm msg a =
     modify (\<lambda>s. s\<lparr>tk_confirmMessage := msg, tk_confirmAction := Some a, tk_confirmDialog := True\<rparr>) (Ret JUndef)"

text \<open>The three closures: their request, then the reload.\<close>

definition confirm_request :: "confirm_action \<Rightarrow> 'a tokens_page_scheme \<Rightarrow> request" where
  "confirm_request a s = (case a of
       RevokeToken tokenPrefix \<Rightarrow> req_delete (''/api/admin/tokens/'' @ js_to_string tokenPrefix)
     | RevokeByClient clientId \<Rightarrow> req_post ''/api/admin/tokens/revoke-by-client'' (Json (JObj [(''client_id'', clientId)]))
     | RevokeByUser \<Rightarrow> req_post ''/api/admin/tokens/revoke-by-user'' (Json (JObj [(''user_id'', JStr (tk_userIdFilter s))])))"

definition confirm_closure :: "host \<Rightarrow> confirm_action \<Rightarrow> 'a tokens_page_scheme prog" where
  "confirm_closure h a = catch
     (Get (\<lambda>s. await (admin_axios h (confirm_request a s)) (\<lambda>_. await (fetchTokens h) (\<lambda>_. Ret JUndef))))
     (\<lambda>e. admin_caught e (\<lambda>m. modify (tk_errorMessage_update (\<lambda>_. m)) (Ret JUndef)))"

definition close_confirm :: "'a tokens_page_scheme \<Rightarrow> 'a tokens_page_scheme" where
  "close_confirm s = s\<lparr>tk_confirmDialog := False, tk_confirmAction := None\<rparr>"

definition executeConfirm :: "host \<Rightarrow> 'a tokens_page_scheme prog" where
  "executeConfirm h = Get (\<lambda>s. case tk_confirmAction s of
       Some a \<Rightarrow> await (confirm_closure h a) (\<lambda>_. modify close_confirm (Ret JUndef))
     | None \<Rightarrow> modify close_confirm (Ret JUndef))"

definition cancelConfirm :: "'a tokens_page_scheme prog" where
  "cancelConfirm = modify close_confirm (Ret JUndef)"

definition revokeToken :: "jsval \<Rightarrow> 'a tokens_page_scheme prog" where
  "revokeToken tokenPrefix =
     showConfirm (''Revoke token starting with \"'' @ js_to_string tokenPrefix @ ''\"?'') (RevokeToken tokenPrefix)"

definition revokeByClient :: "jsval \<Rightarrow> 'a tokens_page_scheme prog" where
  "revokeByClient clientId = modify (tk_showBulkMenu_update (\<lambda>_. False))
     (showConfirm (''Revoke ALL tokens for client \"'' @ js_to_string clientId @ ''\"?'') (RevokeByClient clientId))"

definition revokeByUser :: "'a tokens_page_scheme prog" where
  "revokeByUser = Get (\<lambda>s.
     if tk_userIdFilter s = [] then Ret JUndef
     else showConfirm (''Revoke ALL tokens for user \"'' @ tk_userIdFilter s @ ''\"?'') RevokeByUser)"

text \<open>\<^verbatim>\<open>/^-?\d+$/.test(ts.trim())\<close>; such a string is never NaN as a number.\<close>

definition is_digits :: "string \<Rightarrow> bool" where
  "is_digits t = (t \<noteq> [] \<and> list_all (\<lambda>c. (of_char c :: nat) \<in> {48..57}) t)"

definition epoch_seconds :: "string \<Rightarrow> bool" where
  "epoch_seconds t = (case t of CHR ''-'' # r \<Rightarrow> is_digits r | _ \<Rightarrow> is_digits t)"

text \<open>\<^verbatim>\<open>Number(ts)\<close> of such a string.\<close>

definition digits_value :: "string \<Rightarrow> int" where
  "digits_value t = foldl (\<lambda>n c. 10 * n + int (of_char c) - 48) 0 t"

definition seconds_value :: "string \<Rightarrow> int" where
  "seconds_value t = (case t of CHR ''-'' # r \<Rightarrow> - digits_value r | _ \<Rightarrow> digits_value t)"

definition tokens_formatTime :: "(jsval \<Rightarrow> string) \<Rightarrow> string \<Rightarrow> string" where
  "tokens_formatTime show_date ts =
     (if ts = [] then utf8 [226, 128, 148]
      else if epoch_seconds (js_trim ts) then show_date (JNum (seconds_value (js_trim ts) * 1000))
      else show_date (JStr ts))"

subsection \<open>Behaviour of the handlers\<close>

interpretation roles_loading: busy_flag ro_loading "ro_loading_update (\<lambda>_. False)"
  by unfold_locales simp

interpretation roles_saving: busy_flag ro_saving "ro_saving_update (\<lambda>_. False)"
  by unfold_locales simp

interpretation scopes_loading: busy_flag sp_loading "sp_loading_update (\<lambda>_. False)"
  by unfold_locales simp

interpretation scopes_saving: busy_flag sp_saving "sp_saving_update (\<lambda>_. False)"
  by unfold_locales simp

interpretation tokens_loading: busy_flag tk_loading "tk_loading_update (\<lambda>_. False)"
  by unfold_locales simp

interpretation dialog: busy_flag tk_confirmDialog close_confirm
  by unfold_locales (simp add: close_confirm_def)

lemma roles_page_settles:
  "settles ro_loading (fetchRoles h)" "settles ro_saving (createRole h)" "settles ro_saving (updateRole h)"
  unfolding fetchRoles_def createRole_def updateRole_def roles_showError_def roles_showSuccess_def
  by (intro roles_loading.settle_intros roles_saving.settle_intros; simp)+

lemma scopes_page_settles:
  "settles sp_loading (scopes_fetchScopes h)" "settles sp_saving (createScope h)" "settles sp_saving (updateScope h)"
  unfolding scopes_fetchScopes_def createScope_def updateScope_def scopes_showError_def scopes_showSuccess_def
  by (intro scopes_loading.settle_intros scopes_saving.settle_intros; simp)+

lemma confirm_closure_no_throw: "no_throw (confirm_closure h a)"
  unfolding confirm_closure_def by (intro no_throw_catch) simp

lemma resets_confirm_closure:
  "resets tk_confirmDialog (await (confirm_closure h a) (\<lambda>_. modify close_confirm (Ret JUndef)))"
  unfolding await_def by (intro resets_then confirm_closure_no_throw resets_Tick dialog.resets_lower)

lemma tokens_page_settles:
  "settles tk_loading (fetchTokens h)" "resets tk_confirmDialog (executeConfirm h)"
  "resets tk_confirmDialog cancelConfirm"
  subgoal unfolding fetchTokens_def by (intro tokens_loading.settle_intros) simp
  subgoal unfolding executeConfirm_def
    by (intro resets_Get) (simp add: dialog.resets_lower resets_confirm_closure split: option.split)
  subgoal unfolding cancelConfirm_def by (rule dialog.resets_lower)
  done

lemma first_occurrences_props: "set (first_occurrences xs) = set xs \<and> distinct (first_occurrences xs)"
  by (induction xs) auto

subsection \<open>Properties\<close>

text \<open>The requests a confirmation sends, up to the failure of the first.\<close>

lemma executeConfirm_sends:
  fixes s :: "'a tokens_page_scheme"
  assumes "tk_confirmAction s = Some a"
  shows "hd (r_sent (run (executeConfirm h) s ts as)) = admin_request_interceptor s (confirm_request a s)"
  using assms by (simp add: executeConfirm_def confirm_closure_def await_def admin_axios_def axios_with_eq asent_def
      del: run.simps(5))


definition sample_tokens :: "string \<Rightarrow> confirm_action option \<Rightarrow> tokens_page" where
  "sample_tokens u a = admin_app.extend sample_admin (tokens_page.fields (JArr []) False 1 50 (JNum 0) (JStr [])
     [] u False True a [])"


end
