(* ===== verification/Admin_System_Pages.thy ===== *)
theory Admin_System_Pages
  imports Admin_Page_Lib
begin

text \<open>
  The admin console's dashboard, audit log and settings pages and the frame around all pages
  (\<^verbatim>\<open>components/layout/AdminLayout.vue\<close>): navigation, breadcrumbs, logout. Whether the
  browser lets the page write to the clipboard is an argument.
\<close>

subsection \<open>LogsPage\<close>

record logs_page = admin_app +
  lo_logs :: jsval
  lo_loading :: bool
  lo_page :: int
  lo_errorMessage :: jsval
  lo_actionFilter :: string
  lo_outcomeFilter :: string

definition logs_params :: "'a logs_page_scheme \<Rightarrow> (string \<times> jsval) list" where
  "logs_params s = [(''page'', JNum (lo_page s)), (''per_page'', JNum 50)] @
     opt_param ''action'' (JStr (lo_actionFilter s)) @ opt_param ''outcome'' (JStr (lo_outcomeFilter s))"

definition fetchLogs :: "host \<Rightarrow> 'a logs_page_scheme prog" where
  "fetchLogs h = modify (\<lambda>s. s\<lparr>lo_loading := True, lo_errorMessage := JStr []\<rparr>)
     (finally_do
       (catch
         (Get (\<lambda>s. await (admin_axios h (with_params (logs_params s) (req_get ''/api/admin/logs''))) (\<lambda>data.
            dot data ''logs'' (\<lambda>ls. modify (lo_logs_update (\<lambda>_. js_or ls (JArr []))) (Ret JUndef)))))
         (\<lambda>e. admin_caught e (\<lambda>m. modify (lo_errorMessage_update (\<lambda>_. m)) (Ret JUndef))))
       (modify (lo_loading_update (\<lambda>_. False)) (Ret JUndef)))"

definition logs_applyFilters :: "host \<Rightarrow> 'a logs_page_scheme prog" where
  "logs_applyFilters h = modify (lo_page_update (\<lambda>_. 1)) (no_await (fetchLogs h) (Ret JUndef))"

definition logs_clearFilters :: "host \<Rightarrow> 'a logs_page_scheme prog" where
  "logs_clearFilters h = modify (\<lambda>s. s\<lparr>lo_actionFilter := [], lo_outcomeFilter := [], lo_page := 1\<rparr>)
     (no_await (fetchLogs h) (Ret JUndef))"

definition logs_formatTime :: "(jsval \<Rightarrow> string) \<Rightarrow> string \<Rightarrow> string" where
  "logs_formatTime show_date ts = (if ts = [] then utf8 [226, 128, 148] else show_date (JStr ts))"

subsection \<open>SettingsPage\<close>

record settings_page = admin_app +
  st_scopes :: jsval
  st_loading :: bool
  st_errorMessage :: jsval
  st_oidcKeys :: jsval
  st_oidcLoading :: bool
  st_oidcErrorMessage :: jsval
  st_copySuccess :: string

definition settings_fetchScopes :: "host \<Rightarrow> 'a settings_page_scheme prog" where
  "settings_fetchScopes h = modify (\<lambda>s. s\<lparr>st_loading := True, st_errorMessage := JStr []\<rparr>)
     (finally_do
       (catch
         (await (admin_axios h (req_get ''/api/admin/scopes'')) (\<lambda>data.
            dot data ''scopes'' (\<lambda>sc. modify (st_scopes_update (\<lambda>_. js_or sc (JArr []))) (Ret JUndef))))
         (\<lambda>e. admin_caught e (\<lambda>m. modify (st_errorMessage_update (\<lambda>_. m)) (Ret JUndef))))
       (modify (st_loading_update (\<lambda>_. False)) (Ret JUndef)))"

definition fetchOidcKeys :: "host \<Rightarrow> 'a settings_page_scheme prog" where
  "fetchOidcKeys h = modify (\<lambda>s. s\<lparr>st_oidcLoading := True, st_oidcErrorMessage := JStr []\<rparr>)
     (finally_do
       (catch
         (await (admin_axios h (req_get ''/api/admin/oidc/keys'')) (\<lambda>data.
            modify (st_oidcKeys_update (\<lambda>_. data)) (Ret JUndef)))
         (\<lambda>e. admin_caught e (\<lambda>m. modify (st_oidcErrorMessage_update (\<lambda>_. m)) (Ret JUndef))))
       (modify (st_oidcLoading_update (\<lambda>_. False)) (Ret JUndef)))"

definition settings_copyToClipboard :: "bool \<Rightarrow> string \<Rightarrow> 'a settings_page_scheme prog" where
  "settings_copyToClipboard allowed label =
     Tick (if allowed then modify (st_copySuccess_update (\<lambda>_. label))
         (set_timeout (st_copySuccess_update (\<lambda>_. [])) (Ret JUndef))
       else Ret JUndef)"

definition settings_onMounted :: "host \<Rightarrow> 'a settings_page_scheme prog" where
  "settings_onMounted h = no_await (settings_fetchScopes h) (no_await (fetchOidcKeys h) (Ret JUndef))"

subsection \<open>DashboardPage\<close>

record dashboard_page = admin_app +
  db_health :: jsval
  db_stats :: jsval
  db_loading :: bool
  db_errorMessage :: jsval

text \<open>
  \<^verbatim>\<open>await Promise.all([p, q])\<close>: both calls are started, then awaited. When both fail the
  model reports the first of them, the language the one that fails earlier.
\<close>

definition await_both :: "'s prog \<Rightarrow> 's prog \<Rightarrow> (jsval \<Rightarrow> jsval \<Rightarrow> 's prog) \<Rightarrow> 's prog" where
  "await_both p q k = Async p (\<lambda>i. Async q (\<lambda>j.
     Await i (\<lambda>a. of_sum a (\<lambda>v. Await j (\<lambda>b. of_sum b (k v))))))"

definition dashboard_onMounted :: "host \<Rightarrow> 'a dashboard_page_scheme prog" where
  "dashboard_onMounted h = finally_do
     (catch
       (await_both (admin_axios h (req_get ''/health/ready'')) (admin_axios h (req_get ''/api/admin/dashboard/stats''))
         (\<lambda>healthData statsData.
            modify (\<lambda>s. s\<lparr>db_health := healthData, db_stats := statsData\<rparr>) (Ret JUndef)))
       (\<lambda>e. admin_caught e (\<lambda>m.
          modify (\<lambda>s. s\<lparr>db_errorMessage := m, db_health := JObj [(''status'', JStr ''error'')]\<rparr>) (Ret JUndef))))
     (modify (db_loading_update (\<lambda>_. False)) (Ret JUndef))"

subsection \<open>AdminLayout\<close>

record admin_layout = admin_app +
  ay_sidebarCollapsed :: bool
  ay_mobileMenuOpen :: bool
  ay_userMenuOpen :: bool

definition admin_layout_watch :: "'a admin_layout_scheme \<Rightarrow> 'a admin_layout_scheme" where
  "admin_layout_watch s = s\<lparr>ay_userMenuOpen := False, ay_mobileMenuOpen := False\<rparr>"

record nav_item =
  ni_name :: string
  ni_path :: string
  ni_icon :: string

definition navSections :: "(string \<times> nav_item list) list" where
  "navSections =
     [(''Overview'', [\<lparr>ni_name = ''Dashboard'', ni_path = ''/'', ni_icon = ''dashboard''\<rparr>]),
      (''Management'',
        [\<lparr>ni_name = ''Applications'', ni_path = ''/applications'', ni_icon = ''apps''\<rparr>,
         \<lparr>ni_name = ''Users'', ni_path = ''/users'', ni_icon = ''users''\<rparr>,
         \<lparr>ni_name = ''Roles'', ni_path = ''/roles'', ni_icon = ''roles''\<rparr>,
         \<lparr>ni_name = ''Scopes'', ni_path = ''/scopes'', ni_icon = ''scopes''\<rparr>,
         \<lparr>ni_name = ''Tokens'', ni_path = ''/tokens'', ni_icon = ''tokens''\<rparr>]),
      (''Monitoring'',
        [\<lparr>ni_name = ''Audit Logs'', ni_path = ''/logs'', ni_icon = ''logs''\<rparr>,
         \<lparr>ni_name = ''Settings'', ni_path = ''/settings'', ni_icon = ''settings''\<rparr>])]"

definition isActive :: "string \<Rightarrow> string \<Rightarrow> bool" where
  "isActive routePath path =
     (if path = ''/'' then routePath = ''/'' else take (length path) routePath = path)"

definition admin_handleLogout :: "host \<Rightarrow> 'a admin_app_scheme prog" where
  "admin_handleLogout h = await admin_logout (\<lambda>_.
     no_await (admin_router_push h (JStr ''/login'')) (Ret JUndef))"

definition crumb_name :: "string \<Rightarrow> string" where
  "crumb_name part = js_upper (take 1 part) @ js_replace_char (CHR ''-'') (CHR '' '') (drop 1 part)"

fun crumbs_from :: "string \<Rightarrow> string list \<Rightarrow> (string \<times> string) list" where
  "crumbs_from current [] = []"
| "crumbs_from current (part # parts) =
     (let current' = current @ ''/'' @ part in (crumb_name part, current') # crumbs_from current' parts)"

definition breadcrumbs :: "string \<Rightarrow> (string \<times> string) list" where
  "breadcrumbs routePath =
     (let parts = segments routePath in
      if parts = [] then [(''Dashboard'', ''/'')] else (''Dashboard'', ''/'') # crumbs_from [] parts)"

definition getPageTitle :: "string \<Rightarrow> string" where
  "getPageTitle routePath =
     (let parts = segments routePath in if parts = [] then ''Dashboard'' else crumb_name (last parts))"

subsection \<open>Behaviour\<close>

interpretation logs_loading: busy_flag lo_loading "lo_loading_update (\<lambda>_. False)"
  by unfold_locales simp

interpretation settings_loading: busy_flag st_loading "st_loading_update (\<lambda>_. False)"
  by unfold_locales simp

interpretation oidc_loading: busy_flag st_oidcLoading "st_oidcLoading_update (\<lambda>_. False)"
  by unfold_locales simp

interpretation dashboard_loading: busy_flag db_loading "db_loading_update (\<lambda>_. False)"
  by unfold_locales simp

lemma system_pages_settle:
  "settles lo_loading (fetchLogs h)" "settles st_loading (settings_fetchScopes h)"
  "settles st_oidcLoading (fetchOidcKeys h)" "resets db_loading (dashboard_onMounted h)"
  unfolding fetchLogs_def settings_fetchScopes_def fetchOidcKeys_def dashboard_onMounted_def
  by (intro logs_loading.settle_intros settings_loading.settle_intros oidc_loading.settle_intros
      dashboard_loading.resets_finally no_throw_catch; simp)+

lemma crumbs_paths:
  "map snd (crumbs_from current parts) =
     map (\<lambda>n. current @ concat (map (\<lambda>p. CHR ''/'' # p) (take n parts))) [1..<Suc (length parts)]"
proof (induction parts arbitrary: current)
  case (Cons part parts)
  show ?case
    unfolding crumbs_from.simps Let_def list.map snd_conv Cons.IH
    by (simp add: upt_conv_Cons map_Suc_upt [symmetric] del: upt_Suc)
qed simp

text \<open>On every page of the console just one entry of the navigation is highlighted.\<close>

lemma one_nav_item_active:
  "\<forall>r \<in> set admin_routes. rt_meta r = console_meta \<longrightarrow>
     length (filter (isActive (rt_path r)) (map ni_path (concat (map snd navSections)))) = 1"
  by (simp add: admin_routes_def navSections_def isActive_def console_meta_def open_meta_def)

text \<open>The title of a page is the name of its last breadcrumb.\<close>

lemma title_is_last_crumb: "getPageTitle p = fst (last (breadcrumbs p))"
proof -
  have "parts \<noteq> [] \<Longrightarrow> fst (last (crumbs_from c parts)) = crumb_name (last parts)" for c parts
  proof (induction c parts rule: crumbs_from.induct)
    case (2 c part parts)
    then show ?case by (cases parts) (auto simp: Let_def)
  qed simp
  moreover have "crumbs_from c parts = [] \<longleftrightarrow> parts = []" for c parts
    by (cases parts) (auto simp: Let_def)
  ultimately show ?thesis by (simp add: getPageTitle_def breadcrumbs_def Let_def)
qed

end
