(* ===== verification/Admin_Templates.thy ===== *)
theory Admin_Templates
  imports UI_Components Admin_Users_Pages Admin_Access_Pages Admin_System_Pages
begin

text \<open>
  Templates of the admin console's pages for users, roles, scopes, tokens and audit logs, with
  the handlers written in them (opening and closing dialogs, turning pages). An event of an
  input that has a handler is a button labelled by the event. Table headings are texts.
\<close>

definition dash :: jsval where
  "dash = JStr (utf8 [226, 128, 148])"

text \<open>\<^verbatim>\<open>list.includes(v)\<close> for a list of strings.\<close>

definition js_member :: "string list \<Rightarrow> jsval \<Rightarrow> bool" where
  "js_member xs v = (v \<in> set (map JStr xs))"

definition messages :: "'a console_page_scheme \<Rightarrow> 'a console_page_scheme el list" where
  "messages s = v_if (truthy (successMessage s)) [Val (successMessage s)] @
     v_if (truthy (errorMessage s)) [Val (errorMessage s)]"

subsection \<open>RolesPage\<close>

definition role_row :: "host \<Rightarrow> bool \<Rightarrow> jsval \<Rightarrow> 'a roles_page_scheme el list" where
  "role_row h yes role =
     [Val (js_opt role ''name'')] @ v_if (js_member BUILTIN_ROLES (js_opt role ''name'')) [Txt ''built-in''] @
     [Val (js_or (js_opt role ''description'') dash), Val (js_opt role ''user_count''),
      Btn False ''Edit'' (roles_openEditModal role)] @
     v_if (\<not> js_member BUILTIN_ROLES (js_opt role ''name'')) [Btn False ''Delete'' (deleteRole h yes role)]"

definition role_create_modal :: "host \<Rightarrow> 'a roles_page_scheme \<Rightarrow> 'a roles_page_scheme el list" where
  "role_create_modal h s =
     [Txt ''Create Role'', Txt ''Name *'', Inp ''newRoleName'' False, Txt ''Description'', Inp ''newRoleDescription'' False,
      Btn False ''Cancel'' (put (ro_showCreateModal_update (\<lambda>_. False))),
      Btn (ro_saving s \<or> js_trim (ro_newRoleName s) = []) (if ro_saving s then ''Creating...'' else ''Create'') (createRole h)]"

definition role_edit_modal :: "host \<Rightarrow> 'a roles_page_scheme \<Rightarrow> 'a roles_page_scheme el list" where
  "role_edit_modal h s =
     [Txt ''Edit Role:'', Val (js_opt (ro_selectedRole s) ''name''), Txt ''Description'', Inp ''editDescription'' False,
      Btn False ''Cancel'' (put (ro_showEditModal_update (\<lambda>_. False))),
      Btn (ro_saving s) (if ro_saving s then ''Saving...'' else ''Save'') (updateRole h)]"

definition roles_template :: "host \<Rightarrow> bool \<Rightarrow> 'a roles_page_scheme \<Rightarrow> 'a roles_page_scheme el list" where
  "roles_template h yes s =
     [Txt ''Roles'', Btn False ''+ Create Role'' (put (ro_showCreateModal_update (\<lambda>_. True)))] @ messages s @
     (if ro_loading s then [Txt ''Loading...'']
      else [Txt ''Name'', Txt ''Description'', Txt ''Users'', Txt ''Actions''] @
        concat (map (role_row h yes) (js_items (ro_roles s))) @
        v_if (js_opt (ro_roles s) ''length'' = JNum 0) [Txt ''No roles found'']) @
     v_if (ro_showCreateModal s) (role_create_modal h s) @ v_if (ro_showEditModal s) (role_edit_modal h s)"

subsection \<open>ScopesPage\<close>

definition scope_row :: "host \<Rightarrow> bool \<Rightarrow> jsval \<Rightarrow> 'a scopes_page_scheme el list" where
  "scope_row h yes scope =
     [Val (js_opt scope ''name'')] @ v_if (js_member BUILTIN_SCOPES (js_opt scope ''name'')) [Txt ''built-in''] @
     [Val (js_or (js_opt scope ''description'') dash), Val (js_or (js_opt scope ''mapped_role'') dash)] @
     v_if (truthy (js_opt scope ''is_default'')) [Txt ''default''] @
     v_if (truthy (js_opt scope ''requires_admin_role'')) [Txt ''admin only''] @
     [Btn False ''Edit'' (scopes_openEditModal scope)] @
     v_if (\<not> js_member BUILTIN_SCOPES (js_opt scope ''name'')) [Btn False ''Delete'' (deleteScope h yes scope)]"

definition scope_create_modal :: "host \<Rightarrow> 'a scopes_page_scheme \<Rightarrow> 'a scopes_page_scheme el list" where
  "scope_create_modal h s =
     [Txt ''Create Scope'', Txt ''Name *'', Inp ''newScope.name'' False,
      Txt ''Description'', Inp ''newScope.description'' False, Txt ''Mapped Role'', Inp ''newScope.mapped_role'' False,
      Inp ''newScope.is_default'' False, Txt ''Default scope'',
      Inp ''newScope.requires_admin_role'' False, Txt ''Requires admin role'',
      Btn False ''Cancel'' (put (sp_showCreateModal_update (\<lambda>_. False))),
      Btn (sp_saving s \<or> js_trim (sf_name (sp_newScope s)) = [])
        (if sp_saving s then ''Creating...'' else ''Create'') (createScope h)]"

definition scope_edit_modal :: "host \<Rightarrow> 'a scopes_page_scheme \<Rightarrow> 'a scopes_page_scheme el list" where
  "scope_edit_modal h s =
     [Txt ''Edit Scope:'', Val (js_opt (sp_selectedScope s) ''name''),
      Txt ''Description'', Inp ''editScope.description'' False, Txt ''Mapped Role'', Inp ''editScope.mapped_role'' False,
      Inp ''editScope.is_default'' False, Txt ''Default scope'',
      Inp ''editScope.requires_admin_role'' False, Txt ''Requires admin role'',
      Btn False ''Cancel'' (put (sp_showEditModal_update (\<lambda>_. False))),
      Btn (sp_saving s) (if sp_saving s then ''Saving...'' else ''Save'') (updateScope h)]"

definition scopes_template :: "host \<Rightarrow> bool \<Rightarrow> 'a scopes_page_scheme \<Rightarrow> 'a scopes_page_scheme el list" where
  "scopes_template h yes s =
     [Txt ''Scopes'', Btn False ''+ Create Scope'' (put (sp_showCreateModal_update (\<lambda>_. True)))] @ messages s @
     (if sp_loading s then [Txt ''Loading...'']
      else [Txt ''Name'', Txt ''Description'', Txt ''Mapped Role'', Txt ''Flags'', Txt ''Actions''] @
        concat (map (scope_row h yes) (js_items (sp_scopes s))) @
        v_if (js_opt (sp_scopes s) ''length'' = JNum 0) [Txt ''No scopes found'']) @
     v_if (sp_showCreateModal s) (scope_create_modal h s) @ v_if (sp_showEditModal s) (scope_edit_modal h s)"

subsection \<open>TokensPage\<close>

definition tokens_previous :: "host \<Rightarrow> 'a tokens_page_scheme prog" where
  "tokens_previous h = Get (\<lambda>s.
     if tk_page s > 1 then modify (tk_page_update (\<lambda>_. tk_page s - 1)) (no_await (fetchTokens h) (Ret JUndef))
     else Ret JUndef)"

definition tokens_next :: "host \<Rightarrow> 'a tokens_page_scheme prog" where
  "tokens_next h = Get (\<lambda>s. modify (tk_page_update (\<lambda>_. tk_page s + 1)) (no_await (fetchTokens h) (Ret JUndef)))"

text \<open>\<^verbatim>\<open>v < n\<close> for a number.\<close>

fun js_less :: "jsval \<Rightarrow> int \<Rightarrow> bool" where
  "js_less (JNum m) n = (m < n)"
| "js_less v n = False"

definition bulk_menu :: "'a tokens_page_scheme \<Rightarrow> 'a tokens_page_scheme el list" where
  "bulk_menu s =
     [Btn False ''Revoke All by App'' (put (\<lambda>s. s\<lparr>tk_showBulkMenu := \<not> tk_showBulkMenu s\<rparr>))] @
     v_if (tk_showBulkMenu s)
       (map (\<lambda>cid. Btn False (js_to_string cid) (revokeByClient cid)) (uniqueClientIds (tk_tokens s)) @
        v_if (uniqueClientIds (tk_tokens s) = []) [Txt ''No clients in current results''])"

definition tokens_filters :: "host \<Rightarrow> 'a tokens_page_scheme \<Rightarrow> 'a tokens_page_scheme el list" where
  "tokens_filters h s =
     [Txt ''Client ID:'', Inp ''clientIdFilter'' False, Txt ''User ID:'', Inp ''userIdFilter'' False,
      Btn False ''Apply'' (tokens_applyFilters h), Btn False ''Clear'' (tokens_clearFilters h)] @
     v_if (tk_userIdFilter s \<noteq> []) [Btn False ''Revoke All for User'' revokeByUser]"

definition token_row :: "(jsval \<Rightarrow> string) \<Rightarrow> jsval \<Rightarrow> 'a tokens_page_scheme el list" where
  "token_row show_date token =
     [Val (js_opt token ''token_prefix''), Txt ''access'', Val (js_or (js_opt token ''client_id'') dash),
      Val (js_or (js_opt token ''user_id'') dash), Val (js_or (js_opt token ''scope'') dash),
      Txt (tokens_formatTime show_date (if truthy (js_opt token ''expires_at'') then js_to_string (js_opt token ''expires_at'') else [])),
      Btn False ''Revoke'' (revokeToken (js_opt token ''token_prefix''))]"

definition tokens_pager :: "host \<Rightarrow> 'a tokens_page_scheme \<Rightarrow> 'a tokens_page_scheme el list" where
  "tokens_pager h s =
     [Btn (tk_page s \<le> 1) ''Previous'' (tokens_previous h),
      Txt ''Page'', Val (JNum (tk_page s)), Val (tk_total s), Txt ''total'',
      Btn (js_less (js_opt (tk_tokens s) ''length'') (tk_perPage s)) ''Next'' (tokens_next h)]"

definition confirm_box :: "host \<Rightarrow> 'a tokens_page_scheme \<Rightarrow> 'a tokens_page_scheme el list" where
  "confirm_box h s =
     [Btn False [] cancelConfirm, Txt ''Confirm Action'', Txt (tk_confirmMessage s),
      Btn False ''Cancel'' cancelConfirm, Btn False ''Confirm'' (executeConfirm h)]"

definition tokens_template :: "host \<Rightarrow> (jsval \<Rightarrow> string) \<Rightarrow> 'a tokens_page_scheme \<Rightarrow> 'a tokens_page_scheme el list" where
  "tokens_template h show_date s =
     [Txt ''Tokens''] @ bulk_menu s @ v_if (truthy (tk_errorMessage s)) [Val (tk_errorMessage s)] @ tokens_filters h s @
     (if tk_loading s then [Txt ''Loading...'']
      else if js_opt (tk_tokens s) ''length'' = JNum 0 then [Txt ''No active tokens found'']
      else [Txt ''Token'', Txt ''Type'', Txt ''Client'', Txt ''User'', Txt ''Scope'', Txt ''Expires'', Txt ''Actions''] @
        concat (map (token_row show_date) (js_items (tk_tokens s))) @ tokens_pager h s) @
     v_if (tk_confirmDialog s) (confirm_box h s)"

subsection \<open>UsersPage\<close>

definition users_search :: "host \<Rightarrow> 'a users_page_scheme el list" where
  "users_search h =
     [Inp ''searchQuery'' False, Btn False ''@keyup.enter'' (applySearch h),
      Inp ''roleFilter'' False, Btn False ''@change'' (applySearch h),
      Inp ''lockedFilter'' False, Btn False ''@change'' (applySearch h), Btn False ''Search'' (applySearch h)]"

definition user_row :: "host \<Rightarrow> bool \<Rightarrow> jsval \<Rightarrow> 'a users_page_scheme el list" where
  "user_row h yes user =
     [Val (js_opt user ''id''), Val (js_opt user ''username''), Val (js_or (js_opt user ''email'') dash),
      Txt (if truthy (js_opt user ''email_verified'') then ''Verified'' else ''Pending''),
      Txt (if truthy (js_opt user ''mfa_enabled'') then ''Enabled'' else ''Off''),
      Btn False ''Assign Roles'' (openRoleModal user),
      Lnk (''/users/'' @ js_to_string (js_opt user ''id'')) ''Details'',
      Btn False ''Delete'' (deleteUser h yes user)]"

definition users_pager :: "host \<Rightarrow> 'a users_page_scheme \<Rightarrow> 'a users_page_scheme el list" where
  "users_pager h s = v_if (js_gt (us_totalPages s) 1)
     [Val (us_total s), Txt ''user(s) Page'', Val (JNum (us_currentPage s)), Txt ''of'', Val (us_totalPages s),
      Btn (\<not> hasPrev s) ''Previous'' (goToPage h (us_currentPage s - 1)),
      Btn (\<not> hasNext s) ''Next'' (goToPage h (us_currentPage s + 1))]"

definition user_create_modal :: "host \<Rightarrow> 'a users_page_scheme \<Rightarrow> 'a users_page_scheme el list" where
  "user_create_modal h s =
     [Txt ''Create User'', Txt ''Username *'', Inp ''createForm.username'' False,
      Txt ''Password *'', Inp ''createForm.password'' False, Txt ''Email'', Inp ''createForm.email'' False,
      Txt ''Roles (comma-separated)'', Inp ''createForm.roles'' False, Txt ''Default: user. Available: admin, user'',
      Btn False ''Cancel'' (put (us_showCreateModal_update (\<lambda>_. False))),
      Btn (us_saving s) (if us_saving s then ''Creating...'' else ''Create User'') (createUser h)]"

definition user_role_modal :: "host \<Rightarrow> 'a users_page_scheme \<Rightarrow> 'a users_page_scheme el list" where
  "user_role_modal h s =
     [Txt ''Assign Roles'', Txt ''User:'', Val (js_opt (us_selectedUser s) ''username''),
      Txt ''Roles (comma-separated)'', Inp ''roleInput'' False, Txt ''Available: admin, user'',
      Btn False ''Cancel'' (put (us_showRoleModal_update (\<lambda>_. False))),
      Btn (us_saving s) (if us_saving s then ''Saving...'' else ''Save Roles'') (assignRoles h)]"

definition users_template :: "host \<Rightarrow> bool \<Rightarrow> 'a users_page_scheme \<Rightarrow> 'a users_page_scheme el list" where
  "users_template h yes s =
     [Txt ''Users'', Btn False ''+ Create User'' (put (us_showCreateModal_update (\<lambda>_. True)))] @
     v_if (truthy (errorMessage s)) [Val (errorMessage s)] @
     v_if (truthy (successMessage s)) [Val (successMessage s)] @ users_search h @
     (if us_loading s then [Txt ''Loading...'']
      else [Txt ''ID'', Txt ''Username'', Txt ''Email'', Txt ''Verified'', Txt ''MFA'', Txt ''Actions''] @
        concat (map (user_row h yes) (js_items (us_users s))) @ users_pager h s) @
     v_if (us_showCreateModal s) (user_create_modal h s) @ v_if (us_showRoleModal s) (user_role_modal h s)"

subsection \<open>LogsPage\<close>

definition logs_previous :: "host \<Rightarrow> 'a logs_page_scheme prog" where
  "logs_previous h = Get (\<lambda>s.
     if lo_page s > 1 then modify (lo_page_update (\<lambda>_. lo_page s - 1)) (no_await (fetchLogs h) (Ret JUndef))
     else Ret JUndef)"

definition logs_next :: "host \<Rightarrow> 'a logs_page_scheme prog" where
  "logs_next h = Get (\<lambda>s. modify (lo_page_update (\<lambda>_. lo_page s + 1)) (no_await (fetchLogs h) (Ret JUndef)))"

text \<open>\<^verbatim>\<open>log.actor_id?.substring(0, 12) || '-'\<close>, for an identifier that is a string.\<close>

definition actor_prefix :: "jsval \<Rightarrow> jsval" where
  "actor_prefix actor = js_or (if nullish actor then JUndef else JStr (take 12 (js_to_string actor))) dash"

definition log_row :: "(jsval \<Rightarrow> string) \<Rightarrow> jsval \<Rightarrow> 'a logs_page_scheme el list" where
  "log_row show_date log =
     [Txt (logs_formatTime show_date (if truthy (js_opt log ''timestamp'') then js_to_string (js_opt log ''timestamp'') else [])),
      Val (js_opt log ''action''), Val (js_opt log ''actor_type''), Val (actor_prefix (js_opt log ''actor_id'')),
      Val (js_opt log ''outcome''), Val (js_or (js_opt log ''ip'') dash)]"

definition logs_template :: "host \<Rightarrow> (jsval \<Rightarrow> string) \<Rightarrow> 'a logs_page_scheme \<Rightarrow> 'a logs_page_scheme el list" where
  "logs_template h show_date s =
     [Txt ''Audit Logs'', Txt ''Action:'', Inp ''actionFilter'' False, Btn False ''@keyup.enter'' (logs_applyFilters h),
      Txt ''Outcome:'', Inp ''outcomeFilter'' False,
      Btn False ''Apply'' (logs_applyFilters h), Btn False ''Clear'' (logs_clearFilters h)] @
     v_if (truthy (lo_errorMessage s)) [Val (lo_errorMessage s)] @
     (if lo_loading s then [Txt ''Loading...'']
      else if js_opt (lo_logs s) ''length'' = JNum 0 then [Txt ''No audit logs recorded yet'']
      else [Txt ''Time'', Txt ''Action'', Txt ''Actor'', Txt ''Outcome'', Txt ''IP''] @
        concat (map (log_row show_date) (js_items (lo_logs s))) @
        [Btn (lo_page s \<le> 1) ''Previous'' (logs_previous h), Txt ''Page'', Val (JNum (lo_page s)),
         Btn (js_less (js_opt (lo_logs s) ''length'') 50) ''Next'' (logs_next h)])"

subsection \<open>What the templates offer\<close>

text \<open>Built-in roles and scopes are not offered for deletion; every other one is.\<close>

fun labels :: "'s el list \<Rightarrow> string list" where
  "labels [] = []"
| "labels (Btn d l p # es) = (if d then labels es else l # labels es)"
| "labels (Sub d l p # es) = (if d then labels es else l # labels es)"
| "labels (e # es) = labels es"

lemma builtin_not_deletable:
  "''Delete'' \<in> set (labels (role_row h yes role)) \<longleftrightarrow> \<not> js_member BUILTIN_ROLES (js_opt role ''name'')"
  "''Delete'' \<in> set (labels (scope_row h yes scope)) \<longleftrightarrow> \<not> js_member BUILTIN_SCOPES (js_opt scope ''name'')"
  by (simp_all add: role_row_def scope_row_def v_if_def)

text \<open>The page number of the lists never falls below 1, and that of the users stays in range.\<close>

lemma pager_bounds:
  fixes s :: "'a users_page_scheme"
  assumes "us_totalPages s = JNum n" "1 \<le> us_currentPage s"
  shows "1 \<le> us_currentPage (r_state (run (goToPage h p) s ts as))"
    "us_currentPage (r_state (run (goToPage h p) s ts as)) = us_currentPage s \<or>
     us_currentPage (r_state (run (goToPage h p) s ts as)) = p \<and> p \<le> n"
  using assms by (auto simp: goToPage_def no_await_def fetchUsers_def admin_axios_def axios_with_eq await_def)

lemma pages_positive:
  "1 \<le> tk_page s \<Longrightarrow> 1 \<le> tk_page (r_state (run (tokens_previous h) s ts as))"
  "1 \<le> lo_page t \<Longrightarrow> 1 \<le> lo_page (r_state (run (logs_previous h) t us as))"
  by (simp_all add: tokens_previous_def logs_previous_def no_await_def fetchTokens_def fetchLogs_def
      admin_axios_def axios_with_eq await_def)

text \<open>
  An empty list shows no pager, so a page past the end, which ``Next'' reaches when the last
  page is full, offers no way back by one page.
\<close>

lemma empty_page_has_no_pager:
  "\<not> tk_loading s \<Longrightarrow> tk_tokens s = JArr [] \<Longrightarrow> \<not> tk_confirmDialog s \<Longrightarrow>
   set (labels (tokens_template h show_date s)) \<inter> {''Previous'', ''Next''} = {}"
  by (simp add: tokens_template_def bulk_menu_def tokens_filters_def uniqueClientIds_def v_if_def)

end
