(* ===== verification/Admin_Client_Pages.thy ===== *)
theory Admin_Client_Pages
  imports Admin_Page_Lib
begin

text \<open>
  The admin console's \<^verbatim>\<open>pages/applications\<close>: the list of OAuth clients with creation,
  deletion and secret reset, and the detail page, which edits the redirect URIs (stored as one
  comma-separated string, edited one per line) and the grant types of a client.
\<close>

definition newline :: char where
  "newline = CHR 0x0A"

text \<open>A method of strings called on a value that may not be one.\<close>

definition as_string :: "string \<Rightarrow> jsval \<Rightarrow> (string \<Rightarrow> 's prog) \<Rightarrow> 's prog" where
  "as_string fn v k = (case v of
       JStr t \<Rightarrow> k t
     | _ \<Rightarrow> Throw (js_error ''TypeError'' (fn @ '' is not a function'')))"

subsection \<open>ApplicationsPage\<close>

record client_form =
  cl_name :: string
  cl_client_type :: string
  cl_redirect_uris :: string
  cl_grant_types :: "string list"
  cl_backchannel_logout_uri :: string

definition empty_client :: client_form where
  "empty_client = \<lparr>cl_name = [], cl_client_type = ''CONFIDENTIAL'', cl_redirect_uris = [],
     cl_grant_types = [''authorization_code''], cl_backchannel_logout_uri = []\<rparr>"

record applications_page = console_page +
  as_clients :: jsval
  as_loading :: bool
  as_showCreateModal :: bool
  as_showSecretModal :: bool
  as_newClientSecret :: jsval
  as_createForm :: client_form
  as_creating :: bool

text \<open>The grant types on offer: value, label and description.\<close>

definition AVAILABLE_GRANT_TYPES :: "(string \<times> string \<times> string) list" where
  "AVAILABLE_GRANT_TYPES =
     [(''authorization_code'', ''Authorization Code'', utf8
        [230, 160, 135, 229, 135, 134, 230, 142, 136, 230, 157, 131, 231, 160, 129, 230, 181, 129, 231, 168, 139, 239, 188, 136, 230, 142, 168, 232, 141, 144, 239, 188, 137]),
      (''refresh_token'', ''Refresh Token'', utf8
        [229, 133, 129, 232, 174, 184, 229, 136, 183, 230, 150, 176, 232, 174, 191, 233, 151, 174, 228, 187, 164, 231, 137, 140]),
      (''client_credentials'', ''Client Credentials'', utf8
        [230, 156, 141, 229, 138, 161, 233, 151, 180, 233, 128, 154, 228, 191, 161, 239, 188, 136, 77, 50, 77, 239, 188, 137]),
      (''urn:ietf:params:oauth:grant-type:device_code'', ''Device Code'', utf8
        [230, 151, 160, 230, 181, 143, 232, 167, 136, 229, 153, 168, 232, 174, 190, 229, 164, 135, 230, 142, 136, 230, 157, 131])]"

definition apps_showError :: "jsval \<Rightarrow> 'a applications_page_scheme prog \<Rightarrow> 'a applications_page_scheme prog" where
  "apps_showError = flash_error"

definition fetchClients :: "host \<Rightarrow> 'a applications_page_scheme prog" where
  "fetchClients h = modify (as_loading_update (\<lambda>_. True))
     (finally_do
       (catch
         (await (admin_axios h (req_get ''/api/admin/clients'')) (\<lambda>data.
            dot data ''clients'' (\<lambda>cs. modify (as_clients_update (\<lambda>_. js_or cs (JArr []))) (Ret JUndef))))
         (\<lambda>e. admin_caught e (\<lambda>m. apps_showError m (Ret JUndef))))
       (modify (as_loading_update (\<lambda>_. False)) (Ret JUndef)))"

definition create_client_body :: "client_form \<Rightarrow> (string \<times> jsval) list" where
  "create_client_body f =
     [(''name'', JStr (cl_name f)), (''client_type'', JStr (cl_client_type f)),
      (''redirect_uris'', JStr (cl_redirect_uris f)),
      (''allowed_grant_types'', JStr (js_join '','' (cl_grant_types f))),
      (''backchannel_logout_uri'', JStr (cl_backchannel_logout_uri f))]"

definition createClient :: "host \<Rightarrow> 'a applications_page_scheme prog" where
  "createClient h = Get (\<lambda>s.
     if cl_grant_types (as_createForm s) = [] then
       apps_showError (JStr ''Please select at least one grant type'') (Ret JUndef)
     else modify (as_creating_update (\<lambda>_. True))
       (finally_do
         (catch
           (await (admin_axios h (post_json ''/api/admin/clients'' (create_client_body (as_createForm s)))) (\<lambda>data.
              dot data ''client_secret'' (\<lambda>secret.
                modify (\<lambda>s. s\<lparr>as_newClientSecret := js_or secret (JStr []), as_showCreateModal := False,
                    as_showSecretModal := True, as_createForm := empty_client\<rparr>)
                  (await (fetchClients h) (\<lambda>_. Ret JUndef)))))
           (\<lambda>e. admin_caught e (\<lambda>m. apps_showError m (Ret JUndef))))
         (modify (as_creating_update (\<lambda>_. False)) (Ret JUndef))))"

definition deleteClient :: "host \<Rightarrow> bool \<Rightarrow> jsval \<Rightarrow> 'a applications_page_scheme prog" where
  "deleteClient h yes clientId = confirmed yes
     (catch
       (await (admin_axios h (req_delete (''/api/admin/clients/'' @ js_to_string clientId))) (\<lambda>_.
          await (fetchClients h) (\<lambda>_. Ret JUndef)))
       (\<lambda>e. admin_caught e (\<lambda>m. apps_showError m (Ret JUndef))))"

definition apps_resetSecret :: "host \<Rightarrow> bool \<Rightarrow> jsval \<Rightarrow> 'a applications_page_scheme prog" where
  "apps_resetSecret h yes clientId = confirmed yes
     (catch
       (await (admin_axios h (req_post (''/api/admin/clients/'' @ js_to_string clientId @ ''/reset-secret'') NoBody)) (\<lambda>data.
          dot data ''client_secret'' (\<lambda>secret.
            modify (\<lambda>s. s\<lparr>as_newClientSecret := js_or secret (JStr []), as_showSecretModal := True\<rparr>) (Ret JUndef))))
       (\<lambda>e. admin_caught e (\<lambda>m. apps_showError m (Ret JUndef))))"

subsection \<open>ApplicationDetailPage\<close>

datatype client_tab = CInfo | CAuth | CScopes | CCredentials

record client_page = console_page +
  cd_loading :: bool
  cd_saving :: bool
  cd_savingScopes :: bool
  cd_activeTab :: client_tab
  cd_client :: jsval
  cd_editName :: jsval
  cd_editRedirectUris :: string
  cd_editGrantTypes :: "string list"
  cd_editBackchannelLogoutUri :: jsval
  cd_allScopes :: jsval
  cd_clientScopes :: jsval
  cd_showSecretModal :: bool
  cd_newClientSecret :: jsval

definition client_url :: "'a spa_scheme \<Rightarrow> string" where
  "client_url s = ''/api/admin/clients/'' @ js_to_string (param (currentRoute s) ''id'')"

definition client_showSuccess :: "string \<Rightarrow> 'a client_page_scheme prog \<Rightarrow> 'a client_page_scheme prog" where
  "client_showSuccess = swap_success"

definition client_showError :: "jsval \<Rightarrow> 'a client_page_scheme prog \<Rightarrow> 'a client_page_scheme prog" where
  "client_showError = swap_error"

text \<open>\<^verbatim>\<open>replace(/,/g, '\n')\<close>, and back: one URI per line, trimmed, the empty ones dropped.\<close>

definition uris_to_lines :: "string \<Rightarrow> string" where
  "uris_to_lines = js_replace_char (CHR '','') newline"

definition lines_to_uris :: "string \<Rightarrow> string" where
  "lines_to_uris t = js_join '','' (split_trim newline t)"

definition split_grants :: "string \<Rightarrow> string list" where
  "split_grants t = filter (\<lambda>x. x \<noteq> []) (js_split (CHR '','') t)"

definition fetchClient :: "host \<Rightarrow> 'a client_page_scheme prog" where
  "fetchClient h = modify (cd_loading_update (\<lambda>_. True))
     (finally_do
       (catch
         (Get (\<lambda>s. await (admin_axios h (req_get (client_url s))) (\<lambda>data.
            modify (cd_client_update (\<lambda>_. data))
            (dot data ''name'' (\<lambda>nm. modify (cd_editName_update (\<lambda>_. js_or nm (JStr [])))
            (dot data ''redirect_uris'' (\<lambda>ru. as_string ''replace'' (js_or ru (JStr [])) (\<lambda>t.
              modify (cd_editRedirectUris_update (\<lambda>_. uris_to_lines t))
            (dot data ''allowed_grant_types'' (\<lambda>gt.
              as_string ''split'' (js_or gt (JStr [])) (\<lambda>g.
              modify (cd_editGrantTypes_update (\<lambda>_. split_grants g))
            (dot data ''backchannel_logout_uri'' (\<lambda>bl.
              modify (cd_editBackchannelLogoutUri_update (\<lambda>_. js_or bl (JStr [])))
            (dot data ''scopes'' (\<lambda>sc.
              modify (cd_clientScopes_update (\<lambda>_. js_or sc (JArr []))) (Ret JUndef))))))))))))))))
         (\<lambda>e. admin_caught e (\<lambda>m. client_showError m (Ret JUndef))))
       (modify (cd_loading_update (\<lambda>_. False)) (Ret JUndef)))"

definition fetchAllScopes :: "host \<Rightarrow> 'a client_page_scheme prog" where
  "fetchAllScopes h = catch
     (await (admin_axios h (req_get ''/api/admin/scopes'')) (\<lambda>data.
        dot data ''scopes'' (\<lambda>sc. modify (cd_allScopes_update (\<lambda>_. js_or sc (JArr []))) (Ret JUndef))))
     (\<lambda>_. Ret JUndef)"

text \<open>The body of a save, given the name entry it starts with.\<close>

definition client_patch :: "'a client_page_scheme \<Rightarrow> (string \<times> jsval) list" where
  "client_patch s = (let client = cd_client s in
     changed ''name'' (cd_editName s) (js_or (js_get client ''name'') (JStr [])) @
     changed ''redirect_uris'' (JStr (lines_to_uris (cd_editRedirectUris s)))
       (js_or (js_get client ''redirect_uris'') (JStr [])) @
     changed ''allowed_grant_types'' (JStr (js_join '','' (cd_editGrantTypes s)))
       (js_or (js_get client ''allowed_grant_types'') (JStr [])) @
     changed ''backchannel_logout_uri'' (cd_editBackchannelLogoutUri s)
       (js_or (js_get client ''backchannel_logout_uri'') (JStr [])))"

definition name_missing :: jsval where
  "name_missing = JStr (utf8
     [229, 186, 148, 231, 148, 168, 229, 144, 141, 231, 167, 176, 228, 184, 141, 232, 131, 189, 228, 184, 186, 231, 169, 186])"

definition saveChanges :: "host \<Rightarrow> 'a client_page_scheme prog" where
  "saveChanges h = modify (cd_saving_update (\<lambda>_. True))
     (finally_do
       (catch
         (Get (\<lambda>s. dot (cd_client s) ''name'' (\<lambda>nm.
            bind (if cd_editName s \<noteq> js_or nm (JStr [])
                  then as_string ''trim'' (cd_editName s) (\<lambda>t. Ret (JBool (js_trim t = []))) else Ret (JBool False)) (\<lambda>empty.
            if truthy empty then
              client_showError name_missing (modify (cd_saving_update (\<lambda>_. False)) (Ret JUndef))
            else if client_patch s = [] then
              client_showSuccess ''No changes to save'' (modify (cd_saving_update (\<lambda>_. False)) (Ret JUndef))
            else await (admin_axios h (put_json (client_url s) (client_patch s))) (\<lambda>_.
              client_showSuccess ''Changes saved successfully''
                (await (fetchClient h) (\<lambda>_. Ret JUndef)))))))
         (\<lambda>e. admin_caught e (\<lambda>m. client_showError m (Ret JUndef))))
       (modify (cd_saving_update (\<lambda>_. False)) (Ret JUndef)))"

definition saveScopes :: "host \<Rightarrow> 'a client_page_scheme prog" where
  "saveScopes h = modify (cd_savingScopes_update (\<lambda>_. True))
     (finally_do
       (catch
         (Get (\<lambda>s. await (admin_axios h (put_json (client_url s @ ''/scopes'') [(''scopes'', cd_clientScopes s)])) (\<lambda>data.
            dot data ''scopes'' (\<lambda>sc.
              modify (\<lambda>s. s\<lparr>cd_clientScopes := js_or sc (cd_clientScopes s)\<rparr>)
                (client_showSuccess ''Scopes updated successfully'' (Ret JUndef))))))
         (\<lambda>e. admin_caught e (\<lambda>m. client_showError m (Ret JUndef))))
       (modify (cd_savingScopes_update (\<lambda>_. False)) (Ret JUndef)))"

definition client_resetSecret :: "host \<Rightarrow> bool \<Rightarrow> 'a client_page_scheme prog" where
  "client_resetSecret h yes = confirmed yes
     (catch
       (Get (\<lambda>s. await (admin_axios h (req_post (client_url s @ ''/reset-secret'') NoBody)) (\<lambda>data.
          dot data ''client_secret'' (\<lambda>secret.
            modify (\<lambda>s. s\<lparr>cd_newClientSecret := js_or secret (JStr []), cd_showSecretModal := True\<rparr>) (Ret JUndef)))))
       (\<lambda>e. admin_caught e (\<lambda>m. client_showError m (Ret JUndef))))"

text \<open>The clipboard's promise is not awaited: success is shown whatever becomes of it.\<close>

definition client_copyToClipboard :: "'a client_page_scheme prog" where
  "client_copyToClipboard = client_showSuccess ''Copied to clipboard'' (Ret JUndef)"

definition client_onMounted :: "host \<Rightarrow> 'a client_page_scheme prog" where
  "client_onMounted h = no_await (fetchClient h) (no_await (fetchAllScopes h) (Ret JUndef))"

subsection \<open>Behaviour of the handlers\<close>

interpretation apps_loading: busy_flag as_loading "as_loading_update (\<lambda>_. False)"
  by unfold_locales simp

interpretation apps_creating: busy_flag as_creating "as_creating_update (\<lambda>_. False)"
  by unfold_locales simp

interpretation client_loading: busy_flag cd_loading "cd_loading_update (\<lambda>_. False)"
  by unfold_locales simp

interpretation client_saving: busy_flag cd_saving "cd_saving_update (\<lambda>_. False)"
  by unfold_locales simp

interpretation client_savingScopes: busy_flag cd_savingScopes "cd_savingScopes_update (\<lambda>_. False)"
  by unfold_locales simp

lemma client_pages_settle:
  "settles as_loading (fetchClients h)" "settles as_creating (createClient h)"
  "settles cd_loading (fetchClient h)" "settles cd_saving (saveChanges h)" "settles cd_savingScopes (saveScopes h)"
  unfolding fetchClients_def createClient_def fetchClient_def saveChanges_def saveScopes_def
    apps_showError_def client_showError_def client_showSuccess_def
  by (intro apps_loading.settle_intros apps_creating.settle_intros client_loading.settle_intros
      client_saving.settle_intros client_savingScopes.settle_intros settles_flash_error; simp)+

subsection \<open>Redirect URIs and grant types, loaded and saved\<close>

lemma js_split_replace:
  "b \<notin> set t \<Longrightarrow> js_split b (js_replace_char a b t) = js_split a t"
proof (induction t)
  case (Cons c t)
  then show ?case by (cases "js_split a t") (auto simp: js_replace_char_def)
qed (simp add: js_replace_char_def)

lemma newline_neq [simp]: "newline \<noteq> CHR '',''" "CHR '','' \<noteq> newline"
  by (simp_all add: newline_def)

lemma lines_of_uris: "newline \<notin> set t \<Longrightarrow> lines_to_uris (uris_to_lines t) = js_join '','' (split_trim (CHR '','') t)"
  by (simp add: lines_to_uris_def uris_to_lines_def split_trim_def js_split_replace)

text \<open>A list of URIs as the console stores it: not empty, trimmed, no separator inside.\<close>

definition clean :: "string list \<Rightarrow> bool" where
  "clean us \<longleftrightarrow> (\<forall>u \<in> set us. u \<noteq> [] \<and> js_trim u = u \<and> CHR '','' \<notin> set u \<and> newline \<notin> set u)"

lemma join_no_newline: "clean us \<Longrightarrow> newline \<notin> set (js_join '','' us)"
  by (induction "'',''" us rule: js_join.induct) (auto simp: clean_def)

lemma clean_uris: "clean us \<Longrightarrow> lines_to_uris (uris_to_lines (js_join '','' us)) = js_join '','' us"
  by (simp add: lines_of_uris join_no_newline split_trim_join clean_def)

lemma clean_grants: "clean gs \<Longrightarrow> split_grants (js_join '','' gs) = gs"
proof (cases "gs = []")
  case False
  assume "clean gs"
  with False have "js_split (CHR '','') (js_join '','' gs) = gs" by (intro js_split_join) (auto simp: clean_def)
  with \<open>clean gs\<close> show ?thesis by (auto simp: split_grants_def clean_def intro!: filter_True)
qed (simp add: split_grants_def)

text \<open>A client as the server describes it, with its lists as comma-separated strings.\<close>

definition client_answer :: "string \<Rightarrow> string list \<Rightarrow> string list \<Rightarrow> string \<Rightarrow> jsval" where
  "client_answer nm us gs bl = JObj [(''name'', JStr nm), (''redirect_uris'', JStr (js_join '','' us)),
     (''allowed_grant_types'', JStr (js_join '','' gs)), (''backchannel_logout_uri'', JStr bl)]"

text \<open>The page right after it has loaded a client.\<close>

definition loaded :: "jsval \<Rightarrow> string \<Rightarrow> string list \<Rightarrow> string list \<Rightarrow> string \<Rightarrow> 'a client_page_scheme \<Rightarrow> 'a client_page_scheme" where
  "loaded data nm us gs bl s = s\<lparr>cd_client := data, cd_editName := JStr nm,
     cd_editRedirectUris := uris_to_lines (js_join '','' us), cd_editGrantTypes := gs,
     cd_editBackchannelLogoutUri := JStr bl, cd_clientScopes := JArr [], cd_loading := False\<rparr>"

lemma js_or_string [simp]: "js_or (JStr t) (JStr []) = JStr t"
  by (simp add: js_or_def)

lemma run_fetchClient:
  assumes "clean gs"
  shows "run (fetchClient h) s ts ([Resolved (client_answer nm us gs bl)] # as) =
    emit [asent s (req_get (client_url s))] (halt (Done JUndef) (loaded (client_answer nm us gs bl) nm us gs bl s) ts as)"
  using assms by (simp add: fetchClient_def prog_simps admin_axios_def run_axios client_answer_def as_string_def
      clean_grants loaded_def client_url_def asent_def admin_request_interceptor_def)


definition sample_client :: client_page where
  "sample_client = console_page.extend
     (admin_app.extend sample_admin (console_page.fields (JStr []) (JStr [])))
     (client_page.fields True False False CInfo (JObj []) (JStr []) [] [] (JStr []) (JArr []) (JArr []) False (JStr []))"


end
