(* ===== verification/Admin_Console_Templates.thy ===== *)
theory Admin_Console_Templates
  imports Admin_Templates Admin_Client_Pages
begin

text \<open>
  Templates of the admin console's user detail, application, settings and dashboard pages and
  of the frame around all pages, with the handlers written in them. A handler on an element
  that is not a button is a button labelled by the event. The time in seconds and the
  rendering of dates are arguments.
\<close>

subsection \<open>UserDetailPage\<close>

definition user_head :: "host \<Rightarrow> bool \<Rightarrow> int \<Rightarrow> 'a user_detail_page_scheme \<Rightarrow> 'a user_detail_page_scheme el list" where
  "user_head h yes now s = (let user = ud_user s in
     [Val (js_opt user ''username''), Txt ''ID:'', Val (js_opt user ''id''),
      (if isLocked now user then Btn False ''Enable Account'' (enableUser h)
       else Btn False ''Disable Account'' (disableUser h yes)),
      Txt (if isLocked now user then ''Locked'' else ''Active''),
      Txt (if truthy (js_opt user ''email_verified'') then ''Email Verified'' else ''Email Pending''),
      Txt (''MFA '' @ (if truthy (js_opt user ''mfa_enabled'') then ''Enabled'' else ''Off''))])"

definition user_tabs :: "'a user_detail_page_scheme el list" where
  "user_tabs = map (\<lambda>(key, label). Btn False label (put (ud_activeTab_update (\<lambda>_. key))))
     [(UInfo, ''Info''), (USecurity, ''Security''), (URoles, ''Roles'')]"

definition user_info_tab :: "host \<Rightarrow> 'a user_detail_page_scheme \<Rightarrow> 'a user_detail_page_scheme el list" where
  "user_info_tab h s =
     [Txt ''Username'', Inp ''editUsername'' False, Txt ''Email'', Inp ''editEmail'' False,
      Inp ''editEmailVerified'' False, Txt ''Email Verified'', Inp ''editMfaEnabled'' False, Txt ''MFA Enabled'',
      Inp ''editLocked'' False, Txt ''Account Locked'', Txt ''Organization ID'', Inp ''editOrgId'' False,
      Txt ''Created At'', Val (js_or (js_opt (ud_user s) ''created_at'') dash),
      Btn (ud_saving s) (if ud_saving s then ''Saving...'' else ''Save Changes'') (saveInfo h)]"

text \<open>\<^verbatim>\<open>new Date((user.locked_until || 0) * 1000).toLocaleString()\<close> is \<open>show_date\<close> of the value.\<close>

definition user_security_tab ::
  "host \<Rightarrow> int \<Rightarrow> (jsval \<Rightarrow> string) \<Rightarrow> 'a user_detail_page_scheme \<Rightarrow> 'a user_detail_page_scheme el list" where
  "user_security_tab h now show_date s = (let user = ud_user s in
     [Txt ''Failed Login Count'', Val (js_or (js_opt user ''failed_login_count'') (JNum 0)),
      Txt ''Account Status'', Txt (if isLocked now user then ''Locked'' else ''Active'')] @
     v_if (isLocked now user)
       [Txt (''Account is locked until: '' @ show_date (js_or (js_opt user ''locked_until'') (JNum 0))),
        Btn False ''Unlock Account'' (enableUser h)] @
     [Txt ''MFA Status'',
      Txt (if truthy (js_opt user ''mfa_enabled'') then ''Multi-Factor Authentication Enabled'' else ''MFA Not Configured'')])"

definition user_roles_tab :: "host \<Rightarrow> 'a user_detail_page_scheme \<Rightarrow> 'a user_detail_page_scheme el list" where
  "user_roles_tab h s =
     [Txt ''Assign roles to control what this user can access.''] @
     (if js_opt (ud_allRoles s) ''length'' = JNum 0 then [Txt ''No roles available.'']
      else concat (map (\<lambda>role.
        [Inp ''selectedRoles'' False, Val (js_opt role ''name'')] @
        v_if (truthy (js_opt role ''description'')) [Val (js_opt role ''description'')] @
        [Val (js_opt role ''user_count''), Txt ''user(s)'']) (js_items (ud_allRoles s)))) @
     [Btn (ud_saving s) (if ud_saving s then ''Saving...'' else ''Save Roles'') (saveRoles h)]"

definition user_detail_template ::
  "host \<Rightarrow> bool \<Rightarrow> int \<Rightarrow> (jsval \<Rightarrow> string) \<Rightarrow> 'a user_detail_page_scheme \<Rightarrow> 'a user_detail_page_scheme el list" where
  "user_detail_template h yes now show_date s =
     [Lnk ''/users'' ''Back to Users''] @ messages s @
     (if ud_loading s then [Txt ''Loading...'']
      else user_head h yes now s @ user_tabs @
        v_if (ud_activeTab s = UInfo) (user_info_tab h s) @
        v_if (ud_activeTab s = USecurity) (user_security_tab h now show_date s) @
        v_if (ud_activeTab s = URoles) (user_roles_tab h s))"

subsection \<open>ApplicationsPage\<close>

definition client_row :: "host \<Rightarrow> bool \<Rightarrow> jsval \<Rightarrow> 'a applications_page_scheme el list" where
  "client_row h yes client =
     [Lnk (''/applications/'' @ js_to_string (js_opt client ''client_id''))
        (js_to_string (js_or (js_opt client ''name'') (js_opt client ''client_id''))),
      Val (js_opt client ''client_id''), Val (js_opt client ''client_type'')] @
     v_if (js_opt client ''client_type'' = JStr ''CONFIDENTIAL'')
       [Btn False ''Reset Secret'' (apps_resetSecret h yes (js_opt client ''client_id''))] @
     [Btn False ''Delete'' (deleteClient h yes (js_opt client ''client_id''))]"

text \<open>The checkboxes of the grant types, of both application pages.\<close>

definition grant_boxes :: "string \<Rightarrow> 's el list" where
  "grant_boxes model = concat (map (\<lambda>(val, label, description).
     [Inp model False, Txt label, Txt description]) AVAILABLE_GRANT_TYPES)"

definition client_create_modal :: "host \<Rightarrow> 'a applications_page_scheme \<Rightarrow> 'a applications_page_scheme el list" where
  "client_create_modal h s =
     [Txt ''Create Application'', Txt ''Name'', Inp ''createForm.name'' True,
      Txt ''Type'', Inp ''createForm.client_type'' False, Txt ''Confidential (Server-side)'', Txt ''Public (SPA / Mobile)'',
      Txt ''Redirect URIs (comma-separated)'', Inp ''createForm.redirect_uris'' False,
      Txt ''Backchannel Logout URI (optional)'', Inp ''createForm.backchannel_logout_uri'' False,
      Txt ''OIDC Back-Channel Logout 1.0 (https). Leave empty to disable.'', Txt ''Grant Types''] @
     grant_boxes ''createForm.grant_types'' @
     [Btn False ''Cancel'' (put (as_showCreateModal_update (\<lambda>_. False))),
      Sub (as_creating s) (if as_creating s then ''Creating...'' else ''Create'') (createClient h)]"

definition apps_secret_done :: "'a applications_page_scheme prog" where
  "apps_secret_done = put (\<lambda>s. s\<lparr>as_showSecretModal := False, as_newClientSecret := JStr []\<rparr>)"

definition apps_secret_modal :: "'a applications_page_scheme \<Rightarrow> 'a applications_page_scheme el list" where
  "apps_secret_modal s =
     [Txt ''Client Secret'', Txt ''Copy this secret now. It will not be shown again.'',
      Val (as_newClientSecret s), Btn False ''Done'' apps_secret_done]"

definition applications_template :: "host \<Rightarrow> bool \<Rightarrow> 'a applications_page_scheme \<Rightarrow> 'a applications_page_scheme el list" where
  "applications_template h yes s =
     [Txt ''Applications'', Btn False ''+ Create Application'' (put (as_showCreateModal_update (\<lambda>_. True)))] @
     v_if (truthy (errorMessage s)) [Val (errorMessage s)] @
     (if as_loading s then [Txt ''Loading...'']
      else if js_opt (as_clients s) ''length'' = JNum 0 then
        [Txt ''No applications registered yet'',
         Btn False ''Create your first application'' (put (as_showCreateModal_update (\<lambda>_. True)))]
      else [Txt ''Name'', Txt ''Client ID'', Txt ''Type'', Txt ''Actions''] @
        concat (map (client_row h yes) (js_items (as_clients s)))) @
     v_if (as_showCreateModal s) (client_create_modal h s) @ v_if (as_showSecretModal s) (apps_secret_modal s)"

subsection \<open>ApplicationDetailPage\<close>

definition client_tabs :: "'a client_page_scheme el list" where
  "client_tabs = map (\<lambda>(key, label). Btn False label (put (cd_activeTab_update (\<lambda>_. key))))
     [(CInfo, ''Info''), (CAuth, ''Auth Config''), (CScopes, ''Scopes''), (CCredentials, ''Credentials'')]"

definition client_info_tab :: "'a client_page_scheme \<Rightarrow> 'a client_page_scheme el list" where
  "client_info_tab s =
     [Txt ''Client ID'', Val (js_opt (cd_client s) ''client_id''), Btn False ''Copy'' client_copyToClipboard,
      Txt ''Name'', Inp ''editName'' False, Txt ''Type'', Val (js_opt (cd_client s) ''client_type'')]"

definition client_auth_tab :: "'a client_page_scheme \<Rightarrow> 'a client_page_scheme el list" where
  "client_auth_tab s =
     [Txt ''Token Endpoint Auth Method'',
      Val (js_or (js_opt (cd_client s) ''token_endpoint_auth_method'') (JStr ''(not set)'')),
      Txt ''How this client authenticates at the token endpoint. PUBLIC clients use none; CONFIDENTIAL clients use client_secret_basic or client_secret_post. Set automatically based on client type.'',
      Txt ''Redirect URIs (one per line)'', Inp ''editRedirectUris'' False, Txt ''Allowed Grant Types''] @
     grant_boxes ''editGrantTypes'' @
     [Txt ''Backchannel Logout URI'', Inp ''editBackchannelLogoutUri'' False,
      Txt ''OIDC Back-Channel Logout 1.0. When set (https), the OP POSTs a signed logout_token here on user logout. Leave empty to disable.'']"

definition scopes_note :: string where
  "scopes_note = utf8
     [232, 191, 153, 228, 186, 155, 32, 83, 99, 111, 112, 101, 32, 229, 134, 179, 229, 174, 154, 228, 186, 134,
      232, 175, 165, 229, 186, 148, 231, 148, 168, 233, 128, 154, 232, 191, 135, 32, 67, 108, 105, 101, 110, 116, 32, 67,
      114, 101, 100, 101, 110, 116, 105, 97, 108, 115, 32, 230, 168, 161, 229, 188, 143, 232, 142, 183, 229, 143, 150,
      231, 154, 132, 32, 84, 111, 107, 101, 110, 32, 230, 157, 131, 233, 153, 144, 232, 140, 131, 229, 155, 180]"

definition client_scopes_tab :: "host \<Rightarrow> 'a client_page_scheme \<Rightarrow> 'a client_page_scheme el list" where
  "client_scopes_tab h s =
     v_if (''client_credentials'' \<in> set (cd_editGrantTypes s)) [Txt scopes_note] @
     (if js_opt (cd_allScopes s) ''length'' = JNum 0 then [Txt ''No scopes available in the system.'']
      else concat (map (\<lambda>scope.
        [Inp ''clientScopes'' False, Val (js_opt scope ''name'')] @
        v_if (truthy (js_opt scope ''description'')) [Val (js_opt scope ''description'')] @
        v_if (truthy (js_opt scope ''requires_admin_role'')) [Txt ''Requires admin role'']) (js_items (cd_allScopes s)))) @
     [Btn (cd_savingScopes s) (if cd_savingScopes s then ''Saving...'' else ''Save Scopes'') (saveScopes h)]"

definition client_credentials_tab :: "host \<Rightarrow> bool \<Rightarrow> 'a client_page_scheme \<Rightarrow> 'a client_page_scheme el list" where
  "client_credentials_tab h yes s =
     (if js_opt (cd_client s) ''client_type'' = JStr ''CONFIDENTIAL'' then
        [Txt ''Client Secret'',
         Txt ''The client secret is stored securely and cannot be viewed. You can reset it to generate a new one.'',
         Btn False ''Reset Client Secret'' (client_resetSecret h yes)]
      else [Txt ''Public clients do not have a client secret.''])"

definition client_secret_done :: "'a client_page_scheme prog" where
  "client_secret_done = put (\<lambda>s. s\<lparr>cd_showSecretModal := False, cd_newClientSecret := JStr []\<rparr>)"

definition client_secret_modal :: "'a client_page_scheme \<Rightarrow> 'a client_page_scheme el list" where
  "client_secret_modal s =
     [Txt ''New Client Secret'', Txt ''Copy this secret now. It will not be shown again.'',
      Val (cd_newClientSecret s), Btn False ''Copy'' client_copyToClipboard, Btn False ''Done'' client_secret_done]"

definition client_template :: "host \<Rightarrow> bool \<Rightarrow> 'a client_page_scheme \<Rightarrow> 'a client_page_scheme el list" where
  "client_template h yes s =
     [Lnk ''/applications'' ''Back to Applications''] @
     v_if (cd_activeTab s = CInfo \<or> cd_activeTab s = CAuth)
       [Btn (cd_saving s) (if cd_saving s then ''Saving...'' else ''Save Changes'') (saveChanges h)] @
     messages s @
     (if cd_loading s then [Txt ''Loading...'']
      else [Val (js_or (js_opt (cd_client s) ''name'') (js_opt (cd_client s) ''client_id''))] @ client_tabs @
        v_if (cd_activeTab s = CInfo) (client_info_tab s) @ v_if (cd_activeTab s = CAuth) (client_auth_tab s) @
        v_if (cd_activeTab s = CScopes) (client_scopes_tab h s) @
        v_if (cd_activeTab s = CCredentials) (client_credentials_tab h yes s)) @
     v_if (cd_showSecretModal s) (client_secret_modal s)"

subsection \<open>SettingsPage\<close>

definition check_mark :: string where
  "check_mark = utf8 [226, 156, 147]"

definition settings_scope_row :: "jsval \<Rightarrow> 's el list" where
  "settings_scope_row scope =
     [Val (js_opt scope ''name''), Val (js_or (js_opt scope ''description'') dash), Val (js_or (js_opt scope ''mapped_role'') dash),
      (if truthy (js_opt scope ''is_default'') then Txt check_mark else Val dash),
      (if truthy (js_opt scope ''requires_admin_role'') then Txt check_mark else Val dash)]"

definition copy_button :: "bool \<Rightarrow> string \<Rightarrow> 'a settings_page_scheme \<Rightarrow> 'a settings_page_scheme el" where
  "copy_button allowed label s =
     Btn False (if st_copySuccess s = label then ''Copied!'' else ''Copy'') (settings_copyToClipboard allowed label)"

definition oidc_section :: "bool \<Rightarrow> 'a settings_page_scheme \<Rightarrow> 'a settings_page_scheme el list" where
  "oidc_section allowed s = (let k = js_opt (st_oidcKeys s) in
     [Txt ''Key ID (kid)'', Val (k ''kid''), Txt ''Key Type (kty)'', Val (k ''kty''),
      Txt ''Algorithm (alg)'', Val (k ''alg''), Txt ''Usage (use)'', Val (k ''use''), Txt ''Status'', Val (k ''key_status''),
      Txt ''JWKS Endpoint'', Val (k ''jwks_uri''), copy_button allowed ''jwks'' s,
      Txt ''Discovery Endpoint'', Val (k ''discovery_uri''), copy_button allowed ''discovery'' s, Val (k ''note'')])"

definition settings_template :: "bool \<Rightarrow> 'a settings_page_scheme \<Rightarrow> 'a settings_page_scheme el list" where
  "settings_template allowed s =
     [Txt ''Settings & Scopes''] @ v_if (truthy (st_errorMessage s)) [Val (st_errorMessage s)] @ [Txt ''OAuth2 Scopes''] @
     (if st_loading s then [Txt ''Loading...'']
      else [Txt ''Name'', Txt ''Description'', Txt ''Mapped Role'', Txt ''Default'', Txt ''Admin Only''] @
        concat (map settings_scope_row (js_items (st_scopes s)))) @
     [Txt ''OIDC Signing Keys''] @ v_if (truthy (st_oidcErrorMessage s)) [Val (st_oidcErrorMessage s)] @
     (if st_oidcLoading s then [Txt ''Loading...'']
      else if truthy (st_oidcKeys s) then oidc_section allowed s
      else [Txt ''Failed to load OIDC key information.''])"

subsection \<open>DashboardPage\<close>

definition stat_tile :: "jsval \<Rightarrow> string \<Rightarrow> string \<Rightarrow> string \<Rightarrow> 's el list" where
  "stat_tile stats title key note = [Txt title, Val (js_coalesce (js_opt stats key) (JNum 0)), Txt note]"

definition stats_grid :: "'a dashboard_page_scheme \<Rightarrow> 'a dashboard_page_scheme el list" where
  "stats_grid s =
     stat_tile (db_stats s) ''Total Users'' ''total_users'' ''Registered accounts'' @
     stat_tile (db_stats s) ''Applications'' ''total_clients'' ''OAuth2 clients'' @
     stat_tile (db_stats s) ''Active Tokens'' ''active_tokens'' ''Issued & valid'' @
     stat_tile (db_stats s) ''Failures Today'' ''failures_today'' ''Failed auth attempts''"

definition health_panel :: "'a dashboard_page_scheme \<Rightarrow> 'a dashboard_page_scheme el list" where
  "health_panel s =
     [Txt ''System Status'',
      Txt (if js_opt (db_health s) ''status'' = JStr ''ok'' then ''Healthy'' else ''Unhealthy''),
      Txt ''Database'', Val (js_or (js_opt (db_health s) ''database'') (JStr ''Connected'')),
      Txt ''Redis'', Val (js_or (js_opt (db_health s) ''redis'') (JStr ''Connected''))]"

definition quick_actions :: "'s el list" where
  "quick_actions =
     [Lnk ''/applications'' ''Manage Applications'', Lnk ''/users'' ''Manage Users'', Lnk ''/roles'' ''Manage Roles'',
      Lnk ''/scopes'' ''Manage Scopes'', Lnk ''/logs'' ''View Audit Logs'']"

definition admin_dashboard_template :: "'a dashboard_page_scheme \<Rightarrow> 'a dashboard_page_scheme el list" where
  "admin_dashboard_template s =
     [Txt ''Dashboard'', Txt ''System overview and key metrics for your OAuth2 platform''] @
     v_if (truthy (db_errorMessage s))
       [Val (db_errorMessage s), Btn False ''Dismiss'' (put (db_errorMessage_update (\<lambda>_. JStr [])))] @
     (if db_loading s then map (\<lambda>_. Txt []) (skeleton_blocks ''card'' 4) else stats_grid s) @
     [Txt ''System Health''] @
     (if db_loading s then map (\<lambda>_. Txt []) (skeleton_blocks ''text'' 3) else health_panel s) @
     [Txt ''Quick Actions''] @ quick_actions"

subsection \<open>AdminLayout\<close>

definition close_mobile :: "'a admin_layout_scheme prog" where
  "close_mobile = put (ay_mobileMenuOpen_update (\<lambda>_. False))"

definition nav_icon :: "string \<Rightarrow> string option" where
  "nav_icon icon =
     (if icon = ''dashboard'' then Some ''Dashboard icon'' else if icon = ''apps'' then Some ''Applications icon''
      else if icon = ''users'' then Some ''Users icon'' else if icon = ''roles'' then Some ''Roles icon''
      else if icon = ''scopes'' then Some ''Scopes icon'' else if icon = ''tokens'' then Some ''Tokens icon''
      else if icon = ''logs'' then Some ''Logs icon'' else if icon = ''settings'' then Some ''Settings icon'' else None)"

text \<open>The link shows its icon, and its name unless the sidebar is collapsed.\<close>

definition nav_link :: "'a admin_layout_scheme \<Rightarrow> nav_item \<Rightarrow> 'a admin_layout_scheme el list" where
  "nav_link s item =
     [Lnk (ni_path item) (if ay_sidebarCollapsed s then [] else ni_name item), Btn False ''@click'' close_mobile] @
     (case nav_icon (ni_icon item) of None \<Rightarrow> [] | Some i \<Rightarrow> [Txt i])"

definition sidebar :: "'a admin_layout_scheme \<Rightarrow> 'a admin_layout_scheme el list" where
  "sidebar s =
     [Lnk ''/'' ''AppLogo'', Btn False ''@click'' close_mobile] @
     logo_template (if ay_sidebarCollapsed s then ''sm'' else ''md'') @
     concat (map (\<lambda>(label, items). v_if (\<not> ay_sidebarCollapsed s) [Txt label] @ concat (map (nav_link s) items)) navSections) @
     [Btn False (if ay_sidebarCollapsed s then [] else ''Collapse'')
        (put (\<lambda>s. s\<lparr>ay_sidebarCollapsed := \<not> ay_sidebarCollapsed s\<rparr>))]"

text \<open>Every crumb but the last is a link.\<close>

definition crumb_links :: "string \<Rightarrow> 's el list" where
  "crumb_links routePath = (let cs = breadcrumbs routePath in
     map (\<lambda>(nm, path). Lnk path nm) (butlast cs) @ [Txt (fst (last cs))])"

text \<open>\<^verbatim>\<open>(auth.user?.name || 'A')[0].toUpperCase()\<close>\<close>

definition admin_initial :: "jsval \<Rightarrow> string" where
  "admin_initial user = js_upper (take 1 (js_to_string (js_or (js_opt user ''name'') (JStr ''A''))))"

definition admin_menu :: "host \<Rightarrow> 'a admin_layout_scheme \<Rightarrow> 'a admin_layout_scheme el list" where
  "admin_menu h s =
     [Val (js_or (js_opt (aa_user s) ''name'') (JStr ''Admin'')), Txt ''Administrator'',
      Lnk ''/settings'' ''Settings'', Btn False ''@click'' (put (ay_userMenuOpen_update (\<lambda>_. False))),
      Btn False ''Sign out'' (admin_handleLogout h)]"

definition admin_account :: "host \<Rightarrow> 'a admin_layout_scheme \<Rightarrow> 'a admin_layout_scheme el list" where
  "admin_account h s =
     [Txt (admin_initial (aa_user s)),
      Btn False (js_to_string (js_or (js_opt (aa_user s) ''name'') (JStr ''Admin'')))
        (put (\<lambda>s. s\<lparr>ay_userMenuOpen := \<not> ay_userMenuOpen s\<rparr>))] @
     v_if (ay_userMenuOpen s) (admin_menu h s)"

definition admin_layout_template ::
  "host \<Rightarrow> 'a admin_layout_scheme el list \<Rightarrow> 'a admin_layout_scheme \<Rightarrow> 'a admin_layout_scheme el list" where
  "admin_layout_template h router_view s =
     v_if (ay_mobileMenuOpen s) [Btn False ''overlay'' close_mobile] @ sidebar s @
     [Btn False ''Toggle menu'' (put (\<lambda>s. s\<lparr>ay_mobileMenuOpen := \<not> ay_mobileMenuOpen s\<rparr>))] @
     crumb_links (loc_path (currentRoute s)) @
     admin_account h s @ router_view @
     v_if (ay_userMenuOpen s) [Btn False ''@click'' (put (ay_userMenuOpen_update (\<lambda>_. False)))]"

subsection \<open>Where the frame leads\<close>

fun link_paths :: "'s el list \<Rightarrow> string list" where
  "link_paths [] = []"
| "link_paths (Lnk p l # es) = p # link_paths es"
| "link_paths (e # es) = link_paths es"

lemma link_paths_append [simp]: "link_paths (es @ fs) = link_paths es @ link_paths fs"
  by (induction es rule: link_paths.induct) simp_all

lemma link_paths_links [simp]: "link_paths (map (\<lambda>(nm, path). Lnk path nm) cs) = map snd cs"
  by (induction cs) auto

text \<open>Every entry of the sidebar and every quick action is a page of the console and has a drawing.\<close>

lemma nav_links_lead_to_pages:
  "\<forall>item \<in> set (concat (map snd navSections)). nav_icon (ni_icon item) \<noteq> None \<and>
     (\<exists>r \<in> set admin_routes. rt_path r = ni_path item \<and> rt_meta r = console_meta)"
  "\<forall>p \<in> set (link_paths quick_actions). \<exists>r \<in> set admin_routes. rt_path r = p \<and> rt_meta r = console_meta"
  by (simp_all add: navSections_def nav_icon_def admin_routes_def quick_actions_def)

text \<open>The crumbs of a page link to the dashboard and to every proper prefix of its path.\<close>

lemma crumb_link_paths:
  assumes "segments p \<noteq> []"
  shows "link_paths (crumb_links p) =
    ''/'' # map (\<lambda>n. concat (map (\<lambda>q. CHR ''/'' # q) (take n (segments p)))) [1..<length (segments p)]"
proof -
  have ne: "crumbs_from [] (segments p) \<noteq> []" using assms by (cases "segments p") (auto simp: Let_def)
  have "map snd (butlast (breadcrumbs p)) = ''/'' # butlast (map snd (crumbs_from [] (segments p)))"
    using assms ne by (simp add: breadcrumbs_def Let_def map_butlast)
  also have "\<dots> = ''/'' # map (\<lambda>n. concat (map (\<lambda>q. CHR ''/'' # q) (take n (segments p)))) (butlast [1..<Suc (length (segments p))])"
    by (simp only: crumbs_paths map_butlast append_Nil)
  also have "butlast [1..<Suc (length (segments p))] = [1..<length (segments p)]"
    using assms by (cases "segments p") (simp_all add: butlast_append)
  finally show ?thesis by (simp add: crumb_links_def Let_def)
qed

subsection \<open>The dashboard in an outage\<close>

text \<open>
  C39: the dashboard hides what is down. When the readiness check is answered with an error status
  (the server answers 503 and names the database or Redis as disconnected), whatever its body
  says, the panel ends up with ``Unhealthy'' and with both the database and Redis shown as
  ``Connected''; the answer of the check is shown only when both requests succeed.
\<close>

theorem dashboard_hides_outage:
  fixes s :: "'a dashboard_page_scheme"
  assumes "status \<noteq> 401"
  shows "(\<exists>m. exec [(1, [Rejected (http_response status body) True]), (0, [])]
        (launch (dashboard_onMounted h) \<lparr>mc_state = s, mc_tasks = []\<rparr>) = Some m \<and>
      \<not> db_loading (mc_state m) \<and>
      health_panel (mc_state m) =
        [Txt ''System Status'', Txt ''Unhealthy'', Txt ''Database'', Val (JStr ''Connected''),
         Txt ''Redis'', Val (JStr ''Connected'')]) \<and>
    (\<exists>m. exec [(1, [Resolved health]), (2, [Resolved stats]), (0, []), (0, [])]
        (launch (dashboard_onMounted h) \<lparr>mc_state = s, mc_tasks = []\<rparr>) = Some m \<and>
      mc_state m = s\<lparr>db_health := health, db_stats := stats, db_loading := False\<rparr>)"
  using assms
  by (simp add: launch_def resume_def dashboard_onMounted_def await_both_def admin_axios_def axios_with_eq
      stale_def http_response_def health_panel_def)

definition sample_dashboard :: dashboard_page where
  "sample_dashboard = admin_app.extend sample_admin (dashboard_page.fields JNull JNull True (JStr []))"

theorem dashboard_hides_outage_witness:
  "\<exists>m. exec [(1, [Rejected (http_response 503 (JObj [(''database'', JStr ''disconnected'')])) True]), (0, [])]
        (launch (dashboard_onMounted sample_host) \<lparr>mc_state = sample_dashboard, mc_tasks = []\<rparr>) = Some m \<and>
      health_panel (mc_state m) =
        [Txt ''System Status'', Txt ''Unhealthy'', Txt ''Database'', Val (JStr ''Connected''),
         Txt ''Redis'', Val (JStr ''Connected'')]"
  using dashboard_hides_outage [of 503 "JObj [(''database'', JStr ''disconnected'')]" sample_host sample_dashboard]
  by auto

end
