(* ===== verification/Admin_Form_Locks.thy ===== *)
theory Admin_Form_Locks
  imports Page_Machine Admin_Console_Templates
begin

text \<open>
  The console's dialogs that create something are never sent twice at the same time, whatever
  else is pressed on the page. The locale \<open>admin_flag\<close> says that a flag of a page is none of the
  store's, the router's or the interceptors' business; in it every call of the intercepted
  axios is steady, with the shared refresh and the background logout it may start.
\<close>

locale admin_flag =
  fixes busy :: "'a admin_app_scheme \<Rightarrow> bool" and P :: "request \<Rightarrow> bool"
  assumes flag: "busy (admin_setTokens a rt s) = busy s" "busy (admin_clearSession s) = busy s"
      "busy (s\<lparr>currentRoute := l\<rparr>) = busy s" "busy (assign_href u s) = busy s"
      "busy (s\<lparr>aa_loginError := v\<rparr>) = busy s" "busy (s\<lparr>aa_refreshInFlight := p\<rparr>) = busy s"
    and same: "rq_method q = rq_method r \<Longrightarrow> rq_url q = rq_url r \<Longrightarrow> rq_body q = rq_body r \<Longrightarrow> P q = P r"
    and not_session: "P r \<Longrightarrow>
      rq_url r \<notin> {''/oauth2/token'', ''/oauth2/revoke'', ''/oauth2/logout'', ''/oauth2/userinfo'', ''../router''}"
begin

lemma navigate_steady:
  "(\<And>l. steady busy P A (guard l)) \<Longrightarrow> steady busy P A (navigate n h rs guard t)"
proof (induction n arbitrary: t)
  case (Suc n)
  then show ?case by (auto split: option.split intro!: steady_intros flag)
qed (simp add: steady_Throw)

lemma redirect_quiet: "quiet busy P (admin_redirectToLogin h)"
  unfolding admin_redirectToLogin_def redirect_to_login_def admin_push_def
  by (intro steady_intros navigate_steady flag) (use not_session in \<open>fastforce simp: admin_guard_def intro!: steady_intros\<close>)+

lemma logout_quiet: "quiet busy P admin_logout"
  unfolding admin_logout_def
  by (intro steady_intros flag)
    (use not_session in \<open>fastforce simp: logout_requests_def admin_logout_request_def admin_revoke_request_def\<close>)

lemma expired_steady: "steady busy P A (admin_session_expired h)"
  unfolding admin_session_expired_def by (intro steady_intros flag logout_quiet redirect_quiet)

lemma axios_with_steady:
  assumes "\<And>q. rq_method q = rq_method r \<Longrightarrow> rq_url q = rq_url r \<Longrightarrow> rq_body q = rq_body r \<Longrightarrow> A q" "steady busy P A rf"
  shows "steady busy P A (axios_with rf h r)"
proof -
  have retry: "steady busy P A (axios_with rf h q)"
    if "rq_retry q" "rq_method q = rq_method r" "rq_url q = rq_url r" "rq_body q = rq_body r" for q
    using that assms(1) by (subst axios_with.simps)
      (auto simp: Let_def intro!: steady_intros steady_Net split: list.split outcome.split)
  show ?thesis
    using assms by (subst axios_with.simps)
      (auto simp: Let_def intro!: steady_intros steady_Net expired_steady retry split: list.split outcome.split)
qed

lemma exchange_quiet: "(\<And>r. \<not> P r \<Longrightarrow> quiet busy P (ax r)) \<Longrightarrow> quiet busy P (exchange ax)"
  unfolding exchange_def
  by (intro steady_intros flag logout_quiet) (use not_session in \<open>fastforce simp: admin_refresh_request_def\<close>)

lemma refresh_steady: "steady busy P A (refreshAccessToken d h)"
proof (induction d arbitrary: A)
  case (Suc d)
  show ?case
    unfolding refreshAccessToken.simps
    by (intro steady_intros exchange_quiet axios_with_steady Suc flag) (metis same)
next
  case 0
  show ?case unfolding refreshAccessToken.simps by (intro steady_intros)
qed

lemma axios_any: "steady busy P (\<lambda>_. True) (admin_axios h r)"
  unfolding admin_axios_def admin_refresh_def by (intro axios_with_steady refresh_steady) simp

lemma axios_quiet: "\<not> P r \<Longrightarrow> quiet busy P (admin_axios h r)"
  unfolding admin_axios_def admin_refresh_def by (intro axios_with_steady refresh_steady) (metis same)

end

text \<open>The messages of a page leave its flags alone.\<close>

lemma messages_steady:
  assumes "\<And>s e. busy (errorMessage_update e s) = busy s" "\<And>s e. busy (successMessage_update e s) = busy s"
    and "steady busy P A p"
  shows "steady busy P A (flash_error m p)" "steady busy P A (flash_success t p)"
    "steady busy P A (swap_error m p)" "steady busy P A (swap_success t p)"
  unfolding flash_error_def flash_success_def swap_error_def swap_success_def
  by ((intro steady_intros assms(3); simp add: assms(1,2))+)

lemma put_steady: "(\<And>s. busy (f s) = busy s) \<Longrightarrow> steady busy P A (put f)"
  unfolding put_def by (intro steady_intros)

lemma as_array_steady: "(\<And>xs. steady busy P A (k xs)) \<Longrightarrow> steady busy P A (as_array fn v k)"
  by (simp add: as_array_def steady_Throw split: jsval.split)

lemmas console_intros = steady_catch steady_finally steady_await steady_Ret steady_Get steady_if
  steady_confirmed steady_no_await steady_dot as_array_steady messages_steady put_steady steady_modify

lemma locked_flash:
  assumes "\<And>s e. busy (errorMessage_update e s) = busy s"
  shows "locked busy P (flash_error m (Ret v)) s"
  by (simp add: message_defs modify_def assms)

lemma locked_Ret: "locked busy P (Ret v) s"
  by simp

lemmas locked_intros = locked_Get locked_if locked_flash locked_Ret locked_try [where A = "\<lambda>_. True"]

lemmas session_updates = admin_setTokens_def admin_clearSession_def persistRefreshToken_def assign_href_def

lemmas offered_page = offered_v_if offered_concat messages_def

subsection \<open>Users\<close>

interpretation users_flag: admin_flag us_saving "posts {''/api/admin/users''}"
  by unfold_locales (auto simp: session_updates posts_def)

lemma fetchUsers_steady:
  "steady us_saving (posts {''/api/admin/users''}) (\<lambda>_. True) (fetchUsers h)"
  "quiet us_saving (posts {''/api/admin/users''}) (fetchUsers h)"
  unfolding fetchUsers_def users_showError_def admin_message_prog
  by ((intro console_intros users_flag.axios_any users_flag.axios_quiet; simp add: posts_def with_params_def)+)

lemma users_quiet:
  "quiet us_saving (posts {''/api/admin/users''}) (applySearch h)"
  "quiet us_saving (posts {''/api/admin/users''}) (goToPage h n)"
  "quiet us_saving (posts {''/api/admin/users''}) (openRoleModal user)"
  "quiet us_saving (posts {''/api/admin/users''}) (deleteUser h yes user)"
  unfolding applySearch_def goToPage_def openRoleModal_def deleteUser_def users_showError_def users_showSuccess_def
    admin_message_prog
  by ((intro console_intros fetchUsers_steady users_flag.axios_quiet; simp add: posts_def)+)

lemma users_locked:
  "locked us_saving (posts {''/api/admin/users''}) (createUser h) s"
  "locked us_saving (posts {''/api/admin/users''}) (assignRoles h) s"
  unfolding createUser_def assignRoles_def users_showError_def users_showSuccess_def admin_message_prog
  by (intro locked_intros; (simp; fail | intro console_intros fetchUsers_steady users_flag.axios_any; simp))+

interpretation users_form: form_lock us_saving "posts {''/api/admin/users''}" "fetchUsers h" "users_template h yes" for h yes
  by unfold_locales
    (auto simp: fetchUsers_steady users_template_def users_search_def user_row_def users_pager_def user_create_modal_def user_role_modal_def
      offered_page users_quiet users_locked put_steady split: if_splits)

subsection \<open>Roles and scopes\<close>

interpretation roles_flag: admin_flag ro_saving "posts {''/api/admin/roles''}"
  by unfold_locales (auto simp: session_updates posts_def)

lemma fetchRoles_steady:
  "steady ro_saving (posts {''/api/admin/roles''}) (\<lambda>_. True) (fetchRoles h)"
  "quiet ro_saving (posts {''/api/admin/roles''}) (fetchRoles h)"
  unfolding fetchRoles_def roles_showError_def admin_message_prog
  by ((intro console_intros roles_flag.axios_any roles_flag.axios_quiet; simp add: posts_def)+)

lemma roles_quiet:
  "quiet ro_saving (posts {''/api/admin/roles''}) (roles_openEditModal role)"
  "quiet ro_saving (posts {''/api/admin/roles''}) (deleteRole h yes role)"
  unfolding roles_openEditModal_def deleteRole_def roles_showError_def roles_showSuccess_def admin_message_prog
  by ((intro console_intros fetchRoles_steady roles_flag.axios_quiet; simp add: posts_def)+)

lemma roles_locked:
  "locked ro_saving (posts {''/api/admin/roles''}) (createRole h) s"
  "locked ro_saving (posts {''/api/admin/roles''}) (updateRole h) s"
  unfolding createRole_def updateRole_def roles_showError_def roles_showSuccess_def admin_message_prog
  by (intro locked_intros; (simp; fail | intro console_intros fetchRoles_steady roles_flag.axios_any; simp))+

interpretation roles_form: form_lock ro_saving "posts {''/api/admin/roles''}" "fetchRoles h" "roles_template h yes" for h yes
  by unfold_locales
    (auto simp: fetchRoles_steady roles_template_def role_row_def role_create_modal_def role_edit_modal_def
      offered_page roles_quiet roles_locked put_steady split: if_splits)

interpretation scopes_flag: admin_flag sp_saving "posts {''/api/admin/scopes''}"
  by unfold_locales (auto simp: session_updates posts_def)

lemma scopes_fetch_steady:
  "steady sp_saving (posts {''/api/admin/scopes''}) (\<lambda>_. True) (scopes_fetchScopes h)"
  "quiet sp_saving (posts {''/api/admin/scopes''}) (scopes_fetchScopes h)"
  unfolding scopes_fetchScopes_def scopes_showError_def admin_message_prog
  by ((intro console_intros scopes_flag.axios_any scopes_flag.axios_quiet; simp add: posts_def)+)

lemma scopes_quiet:
  "quiet sp_saving (posts {''/api/admin/scopes''}) (scopes_openEditModal scope)"
  "quiet sp_saving (posts {''/api/admin/scopes''}) (deleteScope h yes scope)"
  unfolding scopes_openEditModal_def deleteScope_def scopes_showError_def scopes_showSuccess_def admin_message_prog Let_def
  by ((intro console_intros scopes_fetch_steady scopes_flag.axios_quiet; simp add: posts_def)+)

lemma scopes_locked:
  "locked sp_saving (posts {''/api/admin/scopes''}) (createScope h) s"
  "locked sp_saving (posts {''/api/admin/scopes''}) (updateScope h) s"
  unfolding createScope_def updateScope_def scopes_showError_def scopes_showSuccess_def admin_message_prog
  by (intro locked_intros; (simp; fail | intro console_intros scopes_fetch_steady scopes_flag.axios_any; simp))+

interpretation scopes_form: form_lock sp_saving "posts {''/api/admin/scopes''}" "scopes_fetchScopes h" "scopes_template h yes" for h yes
  by unfold_locales
    (auto simp: scopes_fetch_steady scopes_template_def scope_row_def scope_create_modal_def scope_edit_modal_def
      offered_page scopes_quiet scopes_locked put_steady split: if_splits)

subsection \<open>Applications\<close>

interpretation clients_flag: admin_flag as_creating "posts {''/api/admin/clients''}"
  by unfold_locales (auto simp: session_updates posts_def)

lemma fetchClients_steady:
  "steady as_creating (posts {''/api/admin/clients''}) (\<lambda>_. True) (fetchClients h)"
  "quiet as_creating (posts {''/api/admin/clients''}) (fetchClients h)"
  unfolding fetchClients_def apps_showError_def admin_message_prog
  by ((intro console_intros clients_flag.axios_any clients_flag.axios_quiet; simp add: posts_def)+)

lemma clients_quiet:
  "quiet as_creating (posts {''/api/admin/clients''}) (deleteClient h yes c)"
  "quiet as_creating (posts {''/api/admin/clients''}) (apps_resetSecret h yes c)"
  "quiet as_creating (posts {''/api/admin/clients''}) apps_secret_done"
  unfolding deleteClient_def apps_resetSecret_def apps_showError_def apps_secret_done_def admin_message_prog
  by ((intro console_intros fetchClients_steady clients_flag.axios_quiet; simp add: posts_def)+)

lemma createClient_locked: "locked as_creating (posts {''/api/admin/clients''}) (createClient h) s"
  unfolding createClient_def apps_showError_def admin_message_prog
  by (intro locked_intros; (simp; fail | intro console_intros fetchClients_steady clients_flag.axios_any; simp))

lemma grant_boxes_offer [simp]: "offered (grant_boxes model) = []"
  by (simp add: grant_boxes_def AVAILABLE_GRANT_TYPES_def)

interpretation clients_form: form_lock as_creating "posts {''/api/admin/clients''}" "fetchClients h" "applications_template h yes" for h yes
  by unfold_locales
    (auto simp: fetchClients_steady applications_template_def client_row_def client_create_modal_def apps_secret_modal_def
      offered_page clients_quiet createClient_locked put_steady split: if_splits)

end
