(* ===== verification/Admin_Edit_Locks.thy ===== *)
theory Admin_Edit_Locks
  imports Admin_Form_Locks
begin

text \<open>
  The console's edit forms: the tabs of the user page, the tabs of the application page, and the
  login. Their handlers lower the flag themselves when there is nothing to save.
\<close>

text \<open>A request that stores an edit: PUT with a body; to disable a user is a PUT without one.\<close>

definition edits :: "request \<Rightarrow> bool" where
  "edits r \<longleftrightarrow> rq_method r = ''PUT'' \<and> rq_body r \<noteq> NoBody \<and> take 5 (rq_url r) = ''/api/''"

lemma owned_Get: "owned busy P (f s) s \<Longrightarrow> owned busy P (Get f) s"
  by simp

lemma owned_dot: "(\<And>v. owned busy P (k v) s) \<Longrightarrow> owned busy P (dot d key k) s"
  by (simp add: dot_def of_sum_def split: sum.split)

lemma owned_if: "(c \<Longrightarrow> owned busy P p s) \<Longrightarrow> (\<not> c \<Longrightarrow> owned busy P q s) \<Longrightarrow> owned busy P (if c then p else q) s"
  by simp

lemma owned_shown:
  assumes "\<And>s e. busy (errorMessage_update e s) = busy s" "\<And>s e. busy (successMessage_update e s) = busy s"
  shows "(\<And>s. owned busy P p s) \<Longrightarrow> owned busy P (swap_error m p) s" "(\<And>s. owned busy P p s) \<Longrightarrow> owned busy P (swap_success t p) s"
  by (auto simp: message_defs modify_def set_timeout_def assms)

lemma owned_modify: "owned busy P p (f s) \<Longrightarrow> owned busy P (modify f p) s" and owned_Ret: "owned busy P (Ret v) s"
  by (simp_all add: modify_def)

lemmas owned_intros = owned_catch owned_Get owned_dot owned_if owned_shown owned_modify owned_Ret

subsection \<open>The page of a user\<close>

interpretation detail_flag: admin_flag ud_saving edits
  by unfold_locales (auto simp: session_updates edits_def)

lemma detail_fetch_steady:
  "steady ud_saving edits (\<lambda>_. True) (detail_fetchUser h)" "quiet ud_saving edits (detail_fetchUser h)"
  "quiet ud_saving edits (fetchAllRoles h)"
  unfolding detail_fetchUser_def fetchAllRoles_def detail_showError_def admin_message_prog
  by ((intro console_intros detail_flag.axios_any detail_flag.axios_quiet; simp add: edits_def load_user_def)+)

lemma switch_user_quiet:
  "(\<And>u. \<not> edits (rq u)) \<Longrightarrow> quiet ud_saving edits (switch_user h rq msg)"
  unfolding switch_user_def detail_showSuccess_def detail_showError_def admin_message_prog
  by (intro console_intros detail_fetch_steady detail_flag.axios_quiet; simp)

lemma detail_quiet: "quiet ud_saving edits (enableUser h)" "quiet ud_saving edits (disableUser h yes)"
  unfolding enableUser_def disableUser_def
  by (intro console_intros switch_user_quiet; simp add: edits_def)+

lemma saveRoles_locked: "locked ud_saving edits (saveRoles h) s"
  unfolding saveRoles_def detail_showSuccess_def detail_showError_def admin_message_prog
  by (intro locked_intros; (simp; fail | intro console_intros detail_fetch_steady detail_flag.axios_any; simp))

lemma saveInfo_locked: "locked ud_saving edits (saveInfo h) s"
  unfolding saveInfo_def detail_showSuccess_def detail_showError_def admin_message_prog
  by (intro locked_hold owned_intros; (simp; fail | intro owned_steady [where A = "\<lambda>_. True"] console_intros detail_fetch_steady detail_flag.axios_any; simp))

interpretation detail_form: form_lock ud_saving edits "detail_onMounted h" "user_detail_template h yes now show_date"
  for h yes now show_date
  by unfold_locales
    (auto simp: detail_onMounted_def user_detail_template_def user_head_def user_tabs_def user_info_tab_def user_security_tab_def
      user_roles_tab_def offered_page Let_def detail_quiet saveInfo_locked saveRoles_locked
      intro!: put_steady steady_no_await steady_Ret detail_fetch_steady split: if_splits)

subsection \<open>The page of an application\<close>

text \<open>The form of the details and the form of the scopes are told apart by what they store.\<close>

definition stores_scopes :: "request \<Rightarrow> bool" where
  "stores_scopes r \<longleftrightarrow> (case rq_body r of Json (JObj ps) \<Rightarrow> map_of ps ''scopes'' \<noteq> None | _ \<Rightarrow> False)"

definition edits_details :: "request \<Rightarrow> bool" where
  "edits_details r \<longleftrightarrow> edits r \<and> \<not> stores_scopes r"

definition edits_scopes :: "request \<Rightarrow> bool" where
  "edits_scopes r \<longleftrightarrow> edits r \<and> stores_scopes r"

lemmas edits_defs = edits_details_def edits_scopes_def edits_def stores_scopes_def

interpretation saving_flag: admin_flag cd_saving edits_details
  by unfold_locales (auto simp: session_updates edits_defs)

interpretation scopes_saving_flag: admin_flag cd_savingScopes edits_scopes
  by unfold_locales (auto simp: session_updates edits_defs)

lemma as_string_steady: "(\<And>t. steady busy P A (k t)) \<Longrightarrow> steady busy P A (as_string fn v k)"
  by (simp add: as_string_def steady_Throw split: jsval.split)

lemma client_fetch_steady:
  "steady cd_saving edits_details (\<lambda>_. True) (fetchClient h)" "quiet cd_saving edits_details (fetchClient h)"
  "quiet cd_saving edits_details (fetchAllScopes h)"
  "steady cd_savingScopes edits_scopes (\<lambda>_. True) (fetchClient h)" "quiet cd_savingScopes edits_scopes (fetchClient h)"
  "quiet cd_savingScopes edits_scopes (fetchAllScopes h)"
  unfolding fetchClient_def fetchAllScopes_def client_showError_def admin_message_prog
  by ((intro console_intros as_string_steady saving_flag.axios_any saving_flag.axios_quiet
      scopes_saving_flag.axios_any scopes_saving_flag.axios_quiet; simp add: edits_defs)+)

lemma client_patch_scopes: "map_of (client_patch s) ''scopes'' = None"
  by (simp add: client_patch_def Let_def changed_def)

lemma client_quiet:
  "quiet cd_saving edits_details (client_resetSecret h yes)" "quiet cd_saving edits_details client_copyToClipboard"
  "quiet cd_saving edits_details client_secret_done" "quiet cd_saving edits_details (saveScopes h)"
  "quiet cd_savingScopes edits_scopes (client_resetSecret h yes)" "quiet cd_savingScopes edits_scopes client_copyToClipboard"
  "quiet cd_savingScopes edits_scopes client_secret_done"
  unfolding client_resetSecret_def client_copyToClipboard_def client_secret_done_def saveScopes_def client_showSuccess_def
    client_showError_def admin_message_prog
  by ((intro console_intros client_fetch_steady saving_flag.axios_quiet scopes_saving_flag.axios_quiet;
       simp add: edits_defs)+)

lemma saveChanges_quiet: "quiet cd_savingScopes edits_scopes (saveChanges h)"
  unfolding saveChanges_def client_showSuccess_def client_showError_def admin_message_prog
  by (intro console_intros steady_bind as_string_steady client_fetch_steady scopes_saving_flag.axios_quiet;
      simp add: edits_defs client_patch_scopes)

lemma saveScopes_locked: "locked cd_savingScopes edits_scopes (saveScopes h) s"
  unfolding saveScopes_def client_showSuccess_def client_showError_def admin_message_prog
  by (intro locked_intros; (simp; fail | intro console_intros scopes_saving_flag.axios_any; simp))

lemma owned_check:
  "(\<And>b. owned busy P (k (JBool b)) s) \<Longrightarrow>
   owned busy P (bind (if c then as_string fn v (\<lambda>t. Ret (JBool (g t))) else Ret (JBool False)) k) s"
  by (simp add: as_string_def split: jsval.split)

lemma saveChanges_locked: "locked cd_saving edits_details (saveChanges h) s"
  unfolding saveChanges_def client_showSuccess_def client_showError_def admin_message_prog
  by (intro locked_hold owned_catch owned_Get owned_dot owned_check owned_if owned_shown owned_modify owned_Ret;
      (simp; fail | intro owned_steady [where A = "\<lambda>_. True"] console_intros client_fetch_steady saving_flag.axios_any; simp))

lemma client_tab_offers:
  "p \<in> set (offered client_tabs) \<Longrightarrow> \<exists>t. p = put (cd_activeTab_update (\<lambda>_. t))"
  "p \<in> set (offered (client_info_tab s)) \<Longrightarrow> p = client_copyToClipboard"
  "offered (client_auth_tab s) = []"
  "p \<in> set (offered (client_scopes_tab h s)) \<Longrightarrow> p = saveScopes h \<and> \<not> cd_savingScopes s"
  "p \<in> set (offered (client_credentials_tab h yes s)) \<Longrightarrow> p = client_resetSecret h yes"
  "p \<in> set (offered (client_secret_modal s)) \<Longrightarrow> p = client_copyToClipboard \<or> p = client_secret_done"
  by (auto simp: client_tabs_def client_info_tab_def client_auth_tab_def client_scopes_tab_def client_credentials_tab_def
      client_secret_modal_def offered_page split: if_splits)

lemma client_offered:
  assumes "p \<in> set (offered (client_template h yes s))"
  obtains "p = saveChanges h" "\<not> cd_saving s" | "p = saveScopes h" "\<not> cd_savingScopes s"
    | "p = client_resetSecret h yes" | "p = client_copyToClipboard" | "p = client_secret_done"
    | t where "p = put (cd_activeTab_update (\<lambda>_. t))"
proof -
  consider "p = saveChanges h" "\<not> cd_saving s" | "p \<in> set (offered client_tabs)" | "p \<in> set (offered (client_info_tab s))"
    | "p \<in> set (offered (client_scopes_tab h s))" | "p \<in> set (offered (client_credentials_tab h yes s))"
    | "p \<in> set (offered (client_secret_modal s))"
    using assms by (auto simp: client_template_def offered_v_if messages_def client_tab_offers(3) split: if_splits)
  then show ?thesis by cases (use that client_tab_offers in blast)+
qed

interpretation details_form: form_lock cd_saving edits_details "client_onMounted h" "client_template h yes" for h yes
proof unfold_locales
  show "quiet cd_saving edits_details (client_onMounted h)"
    unfolding client_onMounted_def by (intro steady_no_await steady_Ret client_fetch_steady)
next
  fix p s assume "p \<in> set (offered (client_template h yes s))"
  then show "quiet cd_saving edits_details p \<or> \<not> cd_saving s \<and> locked cd_saving edits_details p s"
    by (rule client_offered) (simp_all add: client_quiet saveChanges_locked put_steady)
qed

interpretation scopes_of_client_form: form_lock cd_savingScopes edits_scopes "client_onMounted h" "client_template h yes" for h yes
proof unfold_locales
  show "quiet cd_savingScopes edits_scopes (client_onMounted h)"
    unfolding client_onMounted_def by (intro steady_no_await steady_Ret client_fetch_steady)
next
  fix p s assume "p \<in> set (offered (client_template h yes s))"
  then show "quiet cd_savingScopes edits_scopes p \<or> \<not> cd_savingScopes s \<and> locked cd_savingScopes edits_scopes p s"
    by (rule client_offered) (simp_all add: client_quiet saveChanges_quiet saveScopes_locked put_steady)
qed

subsection \<open>The login page\<close>

interpretation signing_flag: admin_flag al_loading "posts {''/oauth2/login''}"
  by unfold_locales (auto simp: session_updates posts_def)

abbreviation sign_ins :: "request \<Rightarrow> bool" where
  "sign_ins \<equiv> posts {''/oauth2/login''}"

lemma profile_steady:
  "steady al_loading sign_ins (\<lambda>_. True) (fetchUserInfo h)" "quiet al_loading sign_ins (fetchUserInfo h)"
  unfolding fetchUserInfo_def
  by (intro steady_intros signing_flag.axios_any signing_flag.axios_quiet signing_flag.logout_quiet; simp add: posts_def)+

lemma admin_login_steady: "steady al_loading sign_ins (\<lambda>_. True) (admin_login h u p)"
  unfolding admin_login_def Let_def admin_message_prog
  by (intro steady_intros signing_flag.axios_any profile_steady signing_flag.logout_quiet; simp add: signing_flag.flag)

lemma admin_restore_quiet: "quiet al_loading sign_ins (admin_restoreSession h)"
  unfolding admin_restoreSession_def Let_def admin_refresh_def
  by (intro steady_intros signing_flag.refresh_steady profile_steady; simp)

lemma admin_router_quiet: "quiet al_loading sign_ins (admin_router_push h t)"
  unfolding admin_router_push_def admin_push_def admin_guard_def ensureSessionRestored_def
  by (intro signing_flag.navigate_steady steady_intros admin_restore_quiet; simp)

lemma admin_handleLogin_locked: "locked al_loading sign_ins (admin_handleLogin h) s"
  unfolding admin_handleLogin_def
  by (intro locked_try [where A = "\<lambda>_. True"]; (simp; fail | intro steady_intros admin_login_steady admin_router_quiet))

interpretation admin_login_form: form_lock al_loading sign_ins "Ret JUndef" "admin_login_template h" for h
  by unfold_locales
    (auto simp: admin_login_template_def offered_v_if admin_handleLogin_locked intro!: steady_Ret steady_modify split: if_splits)

subsection \<open>One submission at a time\<close>


definition sample_console :: console_page where
  "sample_console = admin_app.extend sample_admin (console_page.fields (JStr []) (JStr []))"

definition sample_roles :: roles_page where
  "sample_roles = console_page.extend sample_console
     (roles_page.fields (JArr []) True True False JNull False ''auditor'' [] (JStr []))"

definition sample_users :: users_page where
  "sample_users = console_page.extend sample_console
     (users_page.fields (JArr []) False False False JNull [] False 1 20 (JNum 0) (JNum 0) [] [] [] empty_form)"

definition sample_scopes :: scopes_page where
  "sample_scopes = console_page.extend sample_console
     (scopes_page.fields (JArr []) False False False JNull False empty_scope empty_scope)"

definition sample_applications :: applications_page where
  "sample_applications = console_page.extend sample_console
     (applications_page.fields (JArr []) False False False (JStr []) empty_client False)"

lemmas sample_console_defs = sample_console_def sample_roles_def sample_users_def sample_scopes_def
  sample_applications_def admin_app.defs console_page.defs roles_page.defs

lemma role_pressed:
  "\<exists>m. page_run (fetchRoles sample_host) (roles_template sample_host yes) ro_saving sample_roles m \<and>
     in_flight (posts {''/api/admin/roles''}) m = [1]"
proof -
  let ?m = "launch (fetchRoles sample_host) \<lparr>mc_state = sample_roles, mc_tasks = []\<rparr>"
  have trim: "js_trim ''auditor'' \<noteq> []" by (simp add: js_trim_def js_space_def)
  have "page_run (fetchRoles sample_host) (roles_template sample_host yes) ro_saving sample_roles
      (launch (createRole sample_host) ?m)"
    by (intro page_run_press page_run_start)
      (use trim in \<open>simp add: roles_template_def role_create_modal_def launch_def resume_def fetchRoles_def await_def
         admin_axios_def axios_with_eq sample_console_defs\<close>)
  moreover have "in_flight (posts {''/api/admin/roles''}) (launch (createRole sample_host) ?m) = [1]"
    using trim by (simp add: launch_def resume_def fetchRoles_def createRole_def await_def admin_axios_def axios_with_eq
        asent_def in_flight_def posts_def sample_console_defs upt_conv_Cons)
  ultimately show ?thesis by blast
qed

definition sample_sign_in :: admin_login_page where
  "sample_sign_in = admin_app.extend sample_admin (admin_login_page.fields [] [] False)"


end
