(* ===== verification/Admin_Secrets.thy ===== *)
theory Admin_Secrets
  imports Page_Machine Admin_Console_Templates
begin

text \<open>
  A client secret is in the state of an application page only while the dialog that shows it is
  open: an invariant of every run of the two pages, through \<open>admin_invariant\<close> for the
  calls that go through the intercepted axios.
\<close>

definition apps_secret_covered :: "'a applications_page_scheme \<Rightarrow> bool" where
  "apps_secret_covered s \<longleftrightarrow> \<not> truthy (as_newClientSecret s) \<or> as_showSecretModal s"

definition client_secret_covered :: "'a client_page_scheme \<Rightarrow> bool" where
  "client_secret_covered s \<longleftrightarrow> \<not> truthy (cd_newClientSecret s) \<or> cd_showSecretModal s"

interpretation apps_secret: admin_invariant apps_secret_covered
  by unfold_locales
    (simp_all add: apps_secret_covered_def admin_setTokens_def admin_clearSession_def persistRefreshToken_def assign_href_def)

interpretation client_secret: admin_invariant client_secret_covered
  by unfold_locales
    (simp_all add: client_secret_covered_def admin_setTokens_def admin_clearSession_def persistRefreshToken_def assign_href_def)

lemma keeps_confirmed: "keeps I p \<Longrightarrow> keeps I (confirmed yes p)"
  by (simp add: confirmed_def keeps_Ret)

lemma keeps_put: "(\<And>s. I s \<Longrightarrow> I (f s)) \<Longrightarrow> keeps I (put f)"
  unfolding put_def by (intro keeps_intros)

lemma keeps_messages:
  assumes "\<And>s e. I s \<Longrightarrow> I (errorMessage_update e s)" "\<And>s e. I s \<Longrightarrow> I (successMessage_update e s)" "keeps I p"
  shows "keeps I (flash_error m p)" "keeps I (swap_error m p)" "keeps I (swap_success t p)"
  unfolding flash_error_def swap_error_def swap_success_def
  by ((intro keeps_intros assms(3); simp add: assms(1,2))+)

lemma keeps_as_string: "(\<And>t. keeps I (k t)) \<Longrightarrow> keeps I (as_string fn v k)"
  by (simp add: as_string_def keeps_Throw split: jsval.split)

lemmas console_keeps = keeps_catch keeps_finally keeps_await keeps_Ret keeps_Get keeps_if
  keeps_confirmed keeps_dot keeps_as_string keeps_messages keeps_put keeps_modify keeps_bind

lemma applications_keep:
  "keeps apps_secret_covered (fetchClients h)" "keeps apps_secret_covered (createClient h)"
  "keeps apps_secret_covered (deleteClient h yes c)" "keeps apps_secret_covered (apps_resetSecret h yes c)"
  "keeps apps_secret_covered apps_secret_done"
proof -
  show fetch: "keeps apps_secret_covered (fetchClients h)"
    unfolding fetchClients_def apps_showError_def admin_message_prog
    by (intro console_keeps apps_secret.admin_axios_keeps; simp add: apps_secret_covered_def)
  show "keeps apps_secret_covered (createClient h)" "keeps apps_secret_covered (deleteClient h yes c)"
    "keeps apps_secret_covered (apps_resetSecret h yes c)" "keeps apps_secret_covered apps_secret_done"
    unfolding createClient_def deleteClient_def apps_resetSecret_def apps_secret_done_def apps_showError_def admin_message_prog
    by ((intro console_keeps apps_secret.admin_axios_keeps fetch; simp add: apps_secret_covered_def)+)
qed

lemma client_keeps:
  "keeps client_secret_covered (fetchClient h)" "keeps client_secret_covered (saveChanges h)"
  "keeps client_secret_covered (saveScopes h)" "keeps client_secret_covered (client_resetSecret h yes)"
  "keeps client_secret_covered client_copyToClipboard" "keeps client_secret_covered client_secret_done"
proof -
  show fetch: "keeps client_secret_covered (fetchClient h)"
    unfolding fetchClient_def client_showError_def admin_message_prog
    by (intro console_keeps client_secret.admin_axios_keeps; simp add: client_secret_covered_def)
  show "keeps client_secret_covered (saveChanges h)"
  "keeps client_secret_covered (saveScopes h)" "keeps client_secret_covered (client_resetSecret h yes)"
  "keeps client_secret_covered client_copyToClipboard" "keeps client_secret_covered client_secret_done"
    unfolding saveChanges_def saveScopes_def client_resetSecret_def client_copyToClipboard_def client_secret_done_def
      client_showError_def client_showSuccess_def admin_message_prog
    by ((intro console_keeps client_secret.admin_axios_keeps fetch; simp add: client_secret_covered_def)+)
qed

lemma client_mounted_keeps: "keeps client_secret_covered (client_onMounted h)"
  unfolding client_onMounted_def fetchAllScopes_def no_await_def
  by (intro console_keeps keeps_Async client_secret.admin_axios_keeps client_keeps(1); simp add: client_secret_covered_def)

lemma applications_offered_keep: "p \<in> set (offered (applications_template h yes s)) \<Longrightarrow> keeps apps_secret_covered p"
  by (auto simp: applications_template_def client_row_def client_create_modal_def apps_secret_modal_def grant_boxes_def
      AVAILABLE_GRANT_TYPES_def offered_v_if offered_concat applications_keep apps_secret_covered_def
      intro!: keeps_put split: if_splits)

lemma client_offered_keep: "p \<in> set (offered (client_template h yes s)) \<Longrightarrow> keeps client_secret_covered p"
  by (auto simp: client_template_def client_tabs_def client_info_tab_def client_auth_tab_def client_scopes_tab_def
      client_credentials_tab_def client_secret_modal_def messages_def grant_boxes_def
      AVAILABLE_GRANT_TYPES_def offered_v_if offered_concat client_keeps client_secret_covered_def
      intro!: keeps_put split: if_splits)

text \<open>
  C14: a client secret leaves the console with its dialog. On the list of applications and on the
  page of one application, from a page just opened, under every order of presses, answers and
  edits of other fields, a secret is in the page's state only while the dialog that shows it is
  open, so once it is closed nothing on the page holds or shows it; ``Done'' closes the dialog
  and forgets the secret in one step.
\<close>

theorem secret_only_in_dialog:
  fixes a0 :: "'a applications_page_scheme" and c0 :: "'b client_page_scheme"
  assumes "page_run (fetchClients h) (applications_template h yes)
      (\<lambda>s. (as_newClientSecret s, as_showSecretModal s)) a0 ma" "as_newClientSecret a0 = JStr []"
    and "page_run (client_onMounted h) (client_template h yes)
      (\<lambda>s. (cd_newClientSecret s, cd_showSecretModal s)) c0 mc" "cd_newClientSecret c0 = JStr []"
  shows "(as_showSecretModal (mc_state ma) \<or> \<not> truthy (as_newClientSecret (mc_state ma))) \<and>
    (cd_showSecretModal (mc_state mc) \<or> \<not> truthy (cd_newClientSecret (mc_state mc))) \<and>
    run apps_secret_done (mc_state ma) ts as =
      halt (Done JUndef) ((mc_state ma)\<lparr>as_showSecretModal := False, as_newClientSecret := JStr []\<rparr>) ts as \<and>
    run client_secret_done (mc_state mc) us as =
      halt (Done JUndef) ((mc_state mc)\<lparr>cd_showSecretModal := False, cd_newClientSecret := JStr []\<rparr>) us as"
proof -
  have "apps_secret_covered (mc_state ma)"
    by (rule page_run_invariant [OF assms(1) _ applications_keep(1) applications_offered_keep])
      (auto simp: apps_secret_covered_def assms(2))
  moreover have "client_secret_covered (mc_state mc)"
    by (rule page_run_invariant [OF assms(3) _ client_mounted_keeps client_offered_keep])
      (auto simp: client_secret_covered_def assms(4))
  ultimately show ?thesis
    by (auto simp: apps_secret_covered_def client_secret_covered_def apps_secret_done_def client_secret_done_def put_def)
qed

definition sample_apps :: applications_page where
  "sample_apps = console_page.extend (admin_app.extend sample_admin (console_page.fields (JStr []) (JStr [])))
     (applications_page.fields (JArr []) False True False (JStr []) empty_client False)"

text \<open>A run that creates an application: the dialog with its secret is open.\<close>

lemma secret_shown:
  "\<exists>m. page_run (fetchClients sample_host) (applications_template sample_host True)
      (\<lambda>s. (as_newClientSecret s, as_showSecretModal s)) sample_apps m \<and>
     as_newClientSecret (mc_state m) = JStr ''s3cret''"
proof -
  let ?m = "launch (fetchClients sample_host) \<lparr>mc_state = sample_apps, mc_tasks = []\<rparr>"
  note defs = launch_def resume_def fetchClients_def await_def admin_axios_def axios_with_eq empty_client_def
    sample_apps_def admin_app.defs console_page.defs applications_page.defs
  have "page_run (fetchClients sample_host) (applications_template sample_host True)
      (\<lambda>s. (as_newClientSecret s, as_showSecretModal s)) sample_apps (launch (createClient sample_host) ?m)"
    by (intro page_run_press page_run_start)
      (simp add: applications_template_def client_create_modal_def defs)
  moreover have "\<exists>m. exec [(1, [Resolved (JObj [(''client_secret'', JStr ''s3cret'')])]), (1, [])]
      (launch (createClient sample_host) ?m) = Some m \<and> as_newClientSecret (mc_state m) = JStr ''s3cret''"
    by (simp add: createClient_def defs)
  ultimately show ?thesis by (blast intro: page_run_exec)
qed

theorem secret_only_in_dialog_witness:
  "\<exists>ma mc. as_newClientSecret (mc_state ma) = JStr ''s3cret'' \<and>
     as_showSecretModal (mc_state (ma :: applications_page machine)) \<and>
     (cd_showSecretModal (mc_state mc) \<or> \<not> truthy (cd_newClientSecret (mc_state (mc :: client_page machine))))"
proof -
  have 1: "as_newClientSecret sample_apps = JStr []" "cd_newClientSecret sample_client = JStr []"
    by (simp_all add: sample_apps_def sample_client_def admin_app.defs console_page.defs applications_page.defs client_page.defs)
  obtain ma where a: "page_run (fetchClients sample_host) (applications_template sample_host True)
      (\<lambda>s. (as_newClientSecret s, as_showSecretModal s)) sample_apps ma"
    "as_newClientSecret (mc_state ma) = JStr ''s3cret''" using secret_shown by blast
  note c = page_run_start [of "client_onMounted sample_host" "client_template sample_host True"
      "\<lambda>s. (cd_newClientSecret s, cd_showSecretModal s)" sample_client]
  have "truthy (as_newClientSecret (mc_state ma))" using a(2) by simp
  with secret_only_in_dialog [OF a(1) 1(1) c 1(2), of "[]" "[]" "[]"] a(2) show ?thesis by blast
qed

end
