(* ===== verification/Admin_Races.thy ===== *)
theory Admin_Races
  imports Page_Machine Admin_Templates
begin

text \<open>
  The console's lists when two fetches overlap. A handler is pressed, the filter changed and the
  handler pressed again before the first answer is in.
\<close>

definition overlapping :: "'s prog \<Rightarrow> ('s \<Rightarrow> 's) \<Rightarrow> 's \<Rightarrow> 's machine" where
  "overlapping p edit s =
     (let m = launch p \<lparr>mc_state = s, mc_tasks = []\<rparr> in launch p (m\<lparr>mc_state := edit (mc_state m)\<rparr>))"

text \<open>The call in a slot waits for the answer of a request with the given parameter.\<close>

definition asks :: "'s machine \<Rightarrow> nat \<Rightarrow> string \<Rightarrow> string \<Rightarrow> bool" where
  "asks m i k v = waits_for (\<lambda>r. map_of (rq_params r) k = Some (JStr v)) (mc_tasks m ! i)"

lemmas overlap_defs = overlapping_def Let_def launch_def resume_def no_await_def await_def admin_axios_def
  axios_with_eq asent_def admin_request_interceptor_def asks_def with_params_def with_header_def opt_param_def

lemma users_last_answer_wins:
  fixes s :: "'a users_page_scheme"
  assumes "q1 \<noteq> []" "q2 \<noteq> []" "truthy r1" "truthy r2" "us_searchQuery s = q1"
  shows "let m = overlapping (applySearch h) (us_searchQuery_update (\<lambda>_. q2)) s;
      d = (\<lambda>r. [Resolved (JObj [(''users'', r), (''total'', JNum 1), (''total_pages'', JNum 1)])]) in
    asks m 1 ''q'' q1 \<and> asks m 3 ''q'' q2 \<and>
    (\<exists>m'. exec [(3, d r2), (3, [])] m = Some m' \<and> \<not> us_loading (mc_state m') \<and> asks m' 1 ''q'' q1) \<and>
    (\<exists>m'. exec [(3, d r2), (3, []), (1, d r1), (1, [])] m = Some m' \<and>
      us_searchQuery (mc_state m') = q2 \<and> us_users (mc_state m') = r1 \<and> \<not> us_loading (mc_state m'))"
  using assms by (simp add: applySearch_def fetchUsers_def users_params_def overlap_defs)

lemma tokens_last_answer_wins:
  fixes s :: "'a tokens_page_scheme"
  assumes "q1 \<noteq> []" "q2 \<noteq> []" "truthy r1" "truthy r2" "tk_userIdFilter s = q1"
  shows "let m = overlapping (tokens_applyFilters h) (tk_userIdFilter_update (\<lambda>_. q2)) s;
      d = (\<lambda>r. [Resolved (JObj [(''tokens'', r), (''total'', JNum 1)])]) in
    asks m 1 ''user_id'' q1 \<and> asks m 3 ''user_id'' q2 \<and>
    (\<exists>m'. exec [(3, d r2), (3, []), (1, d r1), (1, [])] m = Some m' \<and>
      tk_userIdFilter (mc_state m') = q2 \<and> tk_tokens (mc_state m') = r1 \<and> \<not> tk_loading (mc_state m'))"
  using assms by (simp add: tokens_applyFilters_def fetchTokens_def tokens_params_def overlap_defs)

lemma logs_last_answer_wins:
  fixes s :: "'a logs_page_scheme"
  assumes "q1 \<noteq> []" "q2 \<noteq> []" "truthy r1" "truthy r2" "lo_actionFilter s = q1"
  shows "let m = overlapping (logs_applyFilters h) (lo_actionFilter_update (\<lambda>_. q2)) s;
      d = (\<lambda>r. [Resolved (JObj [(''logs'', r)])]) in
    asks m 1 ''action'' q1 \<and> asks m 3 ''action'' q2 \<and>
    (\<exists>m'. exec [(3, d r2), (3, []), (1, d r1), (1, [])] m = Some m' \<and>
      lo_actionFilter (mc_state m') = q2 \<and> lo_logs (mc_state m') = r1 \<and> \<not> lo_loading (mc_state m'))"
  using assms by (simp add: logs_applyFilters_def fetchLogs_def logs_params_def overlap_defs)

text \<open>
  C38: the last answer wins, not the last query. On the lists of users, tokens and audit logs a
  second search may be started while the answer of the first is outstanding. When the first
  answer comes last, the list ends up with the results of the first search under the filter of
  the second, and the page is not marked as loading. Between the two answers the page of users
  is not marked as loading either, although a fetch is under way.
\<close>

theorem last_answer_wins:
  fixes u :: "'a users_page_scheme" and t :: "'b tokens_page_scheme" and l :: "'c logs_page_scheme"
  assumes "q1 \<noteq> []" "q2 \<noteq> []" "truthy r1" "truthy r2"
    and "us_searchQuery u = q1" "tk_userIdFilter t = q1" "lo_actionFilter l = q1"
  shows "(let m = overlapping (applySearch h) (us_searchQuery_update (\<lambda>_. q2)) u;
      d = (\<lambda>r. [Resolved (JObj [(''users'', r), (''total'', JNum 1), (''total_pages'', JNum 1)])]) in
    asks m 1 ''q'' q1 \<and> asks m 3 ''q'' q2 \<and>
    (\<exists>m'. exec [(3, d r2), (3, [])] m = Some m' \<and> \<not> us_loading (mc_state m') \<and> asks m' 1 ''q'' q1) \<and>
    (\<exists>m'. exec [(3, d r2), (3, []), (1, d r1), (1, [])] m = Some m' \<and>
      us_searchQuery (mc_state m') = q2 \<and> us_users (mc_state m') = r1 \<and> \<not> us_loading (mc_state m'))) \<and>
   (let m = overlapping (tokens_applyFilters h) (tk_userIdFilter_update (\<lambda>_. q2)) t;
      d = (\<lambda>r. [Resolved (JObj [(''tokens'', r), (''total'', JNum 1)])]) in
    asks m 1 ''user_id'' q1 \<and> asks m 3 ''user_id'' q2 \<and>
    (\<exists>m'. exec [(3, d r2), (3, []), (1, d r1), (1, [])] m = Some m' \<and>
      tk_userIdFilter (mc_state m') = q2 \<and> tk_tokens (mc_state m') = r1 \<and> \<not> tk_loading (mc_state m'))) \<and>
   (let m = overlapping (logs_applyFilters h) (lo_actionFilter_update (\<lambda>_. q2)) l;
      d = (\<lambda>r. [Resolved (JObj [(''logs'', r)])]) in
    asks m 1 ''action'' q1 \<and> asks m 3 ''action'' q2 \<and>
    (\<exists>m'. exec [(3, d r2), (3, []), (1, d r1), (1, [])] m = Some m' \<and>
      lo_actionFilter (mc_state m') = q2 \<and> lo_logs (mc_state m') = r1 \<and> \<not> lo_loading (mc_state m')))"
  by (intro conjI users_last_answer_wins tokens_last_answer_wins logs_last_answer_wins assms)

definition sample_tokens :: tokens_page where
  "sample_tokens = admin_app.extend sample_admin
     (tokens_page.fields (JArr []) False 1 20 (JNum 0) (JStr []) [] ''ann'' False False None [])"

definition sample_logs :: logs_page where
  "sample_logs = admin_app.extend sample_admin (logs_page.fields (JArr []) False 1 (JStr []) ''ann'' [])"

definition sample_search :: users_page where
  "sample_search = console_page.extend
     (admin_app.extend sample_admin (console_page.fields (JStr []) (JStr [])))
     (users_page.fields (JArr []) False False False JNull [] False 1 20 (JNum 0) (JNum 0) ''ann'' [] [] empty_form)"

theorem last_answer_wins_witness:
  "\<exists>m'. exec [(3, [Resolved (JObj [(''logs'', JArr [JStr ''bob''])])]), (3, []),
        (1, [Resolved (JObj [(''logs'', JArr [JStr ''ann''])])]), (1, [])]
      (overlapping (logs_applyFilters sample_host) (lo_actionFilter_update (\<lambda>_. ''bob'')) sample_logs) = Some m' \<and>
    lo_actionFilter (mc_state m') = ''bob'' \<and> lo_logs (mc_state m') = JArr [JStr ''ann'']"
proof -
  have "us_searchQuery sample_search = ''ann''" "tk_userIdFilter sample_tokens = ''ann''" "lo_actionFilter sample_logs = ''ann''"
    by (simp_all add: sample_search_def sample_tokens_def sample_logs_def admin_app.defs console_page.defs users_page.defs
        tokens_page.defs logs_page.defs)
  from last_answer_wins [OF _ _ _ _ this, of "''bob''" "JArr [JStr ''ann'']" "JArr [JStr ''bob'']" sample_host]
  show ?thesis by (auto simp: Let_def)
qed

end
