(* ===== verification/JS_Trace.thy ===== *)
theory JS_Trace
  imports JS_Machine
begin

text \<open>
  What the network answered, and what a program may conclude from it. \<open>traced\<close> is the
  interleaving machine with the list of the requests answered so far and their outcomes. A
  \<open>contract\<close> has the answers that the network is taken to give, an invariant of the state and
  what every request sent has to satisfy; \<open>obeys W Q p\<close> says that \<open>p\<close> re-establishes the
  invariant wherever it suspends, sends only such requests, and that its result satisfies
  \<open>Q\<close>, if all other calls keep the invariant and the network answers as the contract says.
  The judgement has a rule per construct of a program; \<open>traced_ok\<close> is its soundness.
\<close>

subsection \<open>Traces\<close>

type_synonym traffic = "(request \<times> outcome) list"

fun answered :: "'s prog \<Rightarrow> outcome list \<Rightarrow> traffic" where
  "answered (Net rs k) os = zip rs os"
| "answered p os = []"

inductive traced :: "'s prog set \<Rightarrow> 's machine \<Rightarrow> traffic \<Rightarrow> 's machine \<Rightarrow> bool" for H m0 where
  start: "traced H m0 [] m0"
| call: "traced H m0 tr m \<Longrightarrow> p \<in> H \<Longrightarrow> traced H m0 tr (launch p m)"
| move: "traced H m0 tr m \<Longrightarrow> step i os m = Some m' \<Longrightarrow> traced H m0 (tr @ answered (mc_tasks m ! i) os) m'"

lemma traced_iff_reach: "(\<exists>tr. traced H m0 tr m) \<longleftrightarrow> reach H m0 m"
proof
  show "\<exists>tr. traced H m0 tr m \<Longrightarrow> reach H m0 m"
  proof (elim exE)
    fix tr assume "traced H m0 tr m"
    then show "reach H m0 m"
      by (induction rule: traced.induct) (auto intro: reach.intros mstep.resumed)
  qed
  show "reach H m0 m \<Longrightarrow> \<exists>tr. traced H m0 tr m"
    by (induction rule: reach.induct) (auto simp: mstep_iff intro: traced.intros)
qed

text \<open>A schedule with its trace, as \<open>exec\<close> computes it without.\<close>

fun watch :: "(nat \<times> outcome list) list \<Rightarrow> 's machine \<Rightarrow> (traffic \<times> 's machine) option" where
  "watch [] m = Some ([], m)"
| "watch ((i, os) # es) m = (case step i os m of
     None \<Rightarrow> None
   | Some m' \<Rightarrow> map_option (apfst (append (answered (mc_tasks m ! i) os))) (watch es m'))"

lemma watch_Net [simp]:
  assumes "i < length ts" "ts ! i = Net rs k" "length os = length rs"
  shows "watch ((i, os) # es) \<lparr>mc_state = s, mc_tasks = ts\<rparr> =
    map_option (apfst (append (zip rs os))) (watch es (resume i (k os) s ts))"
  using assms by (simp add: step_def)

lemma watch_Tick [simp]:
  assumes "i < length ts" "ts ! i = Tick p"
  shows "watch ((i, os) # es) \<lparr>mc_state = s, mc_tasks = ts\<rparr> = watch es (resume i p s ts)"
  using assms by (cases "watch es (resume i p s ts)") (auto simp: step_def apfst_def map_prod_def split: prod.splits)

declare watch.simps(2) [simp del]

lemma watch_traced: "traced H m0 tr0 m \<Longrightarrow> watch es m = Some (tr, m') \<Longrightarrow> traced H m0 (tr0 @ tr) m'"
proof (induction es arbitrary: tr0 tr m)
  case (Cons e es)
  obtain i os where e: "e = (i, os)" by (cases e)
  with Cons.prems(2) obtain m1 tr1 where m1: "step i os m = Some m1" "watch es m1 = Some (tr1, m')"
    and tr: "tr = answered (mc_tasks m ! i) os @ tr1"
    by (auto simp: watch.simps(2) split: option.splits)
  from Cons.IH [OF traced.move [OF Cons.prems(1) m1(1)] m1(2)] tr show ?case by simp
qed simp

text \<open>The requests that wait for their answers.\<close>

fun awaited :: "'s prog \<Rightarrow> request list" where
  "awaited (Net rs k) = rs"
| "awaited p = []"

definition outgoing :: "'s machine \<Rightarrow> request list" where
  "outgoing m = concat (map awaited (mc_tasks m))"

subsection \<open>Contracts\<close>

record 's contract =
  ct_answers :: "request \<Rightarrow> outcome \<Rightarrow> bool"
  ct_inv :: "'s \<Rightarrow> bool"
  ct_sends :: "request \<Rightarrow> bool"

primrec holds :: "'s contract \<Rightarrow> 's prog \<Rightarrow> (jsval \<Rightarrow> bool) \<Rightarrow> 's \<Rightarrow> bool" where
  "holds W (Ret v) = (\<lambda>Q s. Q v \<and> ct_inv W s)"
| "holds W (Throw e) = (\<lambda>Q s. ct_inv W s)"
| "holds W (Get f) = (\<lambda>Q s. holds W (f s) Q s)"
| "holds W (Put s' p) = (\<lambda>Q s. holds W p Q s')"
| "holds W (Net rs k) = (\<lambda>Q s. ct_inv W s \<and> list_all (ct_sends W) rs \<and>
     (\<forall>os s'. list_all2 (ct_answers W) rs os \<longrightarrow> ct_inv W s' \<longrightarrow> holds W (k os) Q s'))"
| "holds W (Async c k) = (\<lambda>Q s. holds W c (\<lambda>_. True) s \<and> (\<forall>n s'. ct_inv W s' \<longrightarrow> holds W (k n) Q s'))"
| "holds W (Await n k) = (\<lambda>Q s. ct_inv W s \<and> (\<forall>r s'. ct_inv W s' \<longrightarrow> holds W (k r) Q s'))"
| "holds W (Tick p) = (\<lambda>Q s. ct_inv W s \<and> (\<forall>s'. ct_inv W s' \<longrightarrow> holds W p Q s'))"

definition obeys :: "'s contract \<Rightarrow> (jsval \<Rightarrow> bool) \<Rightarrow> 's prog \<Rightarrow> bool" where
  "obeys W Q p \<longleftrightarrow> (\<forall>s. ct_inv W s \<longrightarrow> holds W p Q s)"

abbreviation abides :: "'s contract \<Rightarrow> 's prog \<Rightarrow> bool" where
  "abides W \<equiv> obeys W (\<lambda>_. True)"

lemma obeysI: "(\<And>s. ct_inv W s \<Longrightarrow> holds W p Q s) \<Longrightarrow> obeys W Q p"
  by (simp add: obeys_def)

lemma obeysD: "obeys W Q p \<Longrightarrow> ct_inv W s \<Longrightarrow> holds W p Q s"
  by (simp add: obeys_def)

lemma holds_modify [simp]: "holds W (modify f p) Q s = holds W p Q (f s)"
  by (simp add: modify_def)

lemma holds_mono: "holds W p Q s \<Longrightarrow> (\<And>v. Q v \<Longrightarrow> Q' v) \<Longrightarrow> holds W p Q' s"
  by (induction p arbitrary: s) auto

lemma obeys_weaken: "obeys W Q p \<Longrightarrow> (\<And>v. Q v \<Longrightarrow> Q' v) \<Longrightarrow> obeys W Q' p"
  by (rule obeysI, drule (1) obeysD, erule holds_mono)

lemma holds_bind: "holds W p R s \<Longrightarrow> (\<And>v. R v \<Longrightarrow> obeys W Q (k v)) \<Longrightarrow> holds W (bind p k) Q s"
  by (induction p arbitrary: s) (auto simp: obeys_def)

lemma holds_catch: "holds W p Q s \<Longrightarrow> (\<And>e. obeys W Q (h e)) \<Longrightarrow> holds W (catch p h) Q s"
  by (induction p arbitrary: s) (auto simp: obeys_def)

lemma holds_finally: "holds W p Q s \<Longrightarrow> abides W q \<Longrightarrow> holds W (finally_do p q) Q s"
proof (induction p arbitrary: s)
  case (Ret v)
  then show ?case by (auto simp: obeys_def intro!: holds_bind [where R = "\<lambda>_. True"])
next
  case (Throw e)
  then show ?case by (auto simp: obeys_def intro!: holds_bind [where R = "\<lambda>_. True"])
qed auto

subsection \<open>Rules\<close>

lemma obeys_Ret: "Q v \<Longrightarrow> obeys W Q (Ret v)" and obeys_Throw: "obeys W Q (Throw e)"
  by (simp_all add: obeys_def)

lemma obeys_bind: "obeys W R p \<Longrightarrow> (\<And>v. R v \<Longrightarrow> obeys W Q (k v)) \<Longrightarrow> obeys W Q (bind p k)"
  by (rule obeysI, drule (1) obeysD, erule holds_bind)

lemma obeys_catch: "obeys W Q p \<Longrightarrow> (\<And>e. obeys W Q (h e)) \<Longrightarrow> obeys W Q (catch p h)"
  by (rule obeysI, drule (1) obeysD, erule holds_catch)

lemma obeys_finally: "obeys W Q p \<Longrightarrow> abides W q \<Longrightarrow> obeys W Q (finally_do p q)"
  by (rule obeysI, drule (1) obeysD, erule holds_finally)

lemma obeys_Tick: "obeys W Q p \<Longrightarrow> obeys W Q (Tick p)"
  by (simp add: obeys_def)

lemma obeys_await: "obeys W R p \<Longrightarrow> (\<And>v. R v \<Longrightarrow> obeys W Q (k v)) \<Longrightarrow> obeys W Q (await p k)"
  unfolding await_def by (erule obeys_bind) (rule obeys_Tick)

lemma obeys_Get: "(\<And>s. ct_inv W s \<Longrightarrow> holds W (f s) Q s) \<Longrightarrow> obeys W Q (Get f)"
  by (simp add: obeys_def)

lemma obeys_Get_any: "(\<And>s. ct_inv W s \<Longrightarrow> obeys W Q (f s)) \<Longrightarrow> obeys W Q (Get f)"
  by (simp add: obeys_def)

lemma obeys_modify: "(\<And>s. ct_inv W s \<Longrightarrow> ct_inv W (f s)) \<Longrightarrow> obeys W Q p \<Longrightarrow> obeys W Q (modify f p)"
  by (simp add: obeys_def)

lemma obeys_Net:
  "list_all (ct_sends W) rs \<Longrightarrow> (\<And>os. list_all2 (ct_answers W) rs os \<Longrightarrow> obeys W Q (k os)) \<Longrightarrow> obeys W Q (Net rs k)"
  by (simp add: obeys_def)

lemma obeys_Async: "abides W c \<Longrightarrow> (\<And>n. obeys W Q (k n)) \<Longrightarrow> obeys W Q (Async c k)"
  by (simp add: obeys_def)

lemma obeys_Await: "(\<And>r. obeys W Q (k r)) \<Longrightarrow> obeys W Q (Await n k)"
  by (simp add: obeys_def)

lemma obeys_of_sum: "(\<And>v. r = Inr v \<Longrightarrow> obeys W Q (k v)) \<Longrightarrow> obeys W Q (of_sum r k)"
  by (simp add: of_sum_def obeys_Throw split: sum.split)

lemma obeys_dot: "(\<And>v. obeys W Q (k v)) \<Longrightarrow> obeys W Q (dot d key k)"
  by (simp add: dot_def obeys_of_sum)

lemma obeys_raw_send:
  "ct_sends W r \<Longrightarrow> (\<And>d. ct_answers W r (Resolved d) \<Longrightarrow> Q d) \<Longrightarrow> obeys W Q (raw_send r)"
  unfolding raw_send_def
  by (rule obeys_Net) (auto simp: list_all2_Cons1 obeys_def split: outcome.split)

lemma obeys_fetch_all: "list_all (ct_sends W) rs \<Longrightarrow> abides W (fetch_all rs)"
  by (auto simp: fetch_all_def obeys_def)

lemma obeys_set_timeout:
  "(\<And>s. ct_inv W s \<Longrightarrow> ct_inv W (f s)) \<Longrightarrow> obeys W Q p \<Longrightarrow> obeys W Q (set_timeout f p)"
  by (simp add: set_timeout_def obeys_Async obeys_Tick obeys_modify obeys_Ret)

lemma obeys_if: "(b \<Longrightarrow> obeys W Q p) \<Longrightarrow> (\<not> b \<Longrightarrow> obeys W Q q) \<Longrightarrow> obeys W Q (if b then p else q)"
  by simp

lemma obeys_option:
  "(x = None \<Longrightarrow> obeys W Q p) \<Longrightarrow> (\<And>n. x = Some n \<Longrightarrow> obeys W Q (q n)) \<Longrightarrow>
   obeys W Q (case x of None \<Rightarrow> p | Some n \<Rightarrow> q n)"
  by (simp split: option.split)

text \<open>Where nothing needs to be known of a result.\<close>

lemmas abides_bind = obeys_bind [where R = "\<lambda>_. True"]
lemmas abides_await = obeys_await [where R = "\<lambda>_. True"]

lemmas obeys_intros =
  obeys_Throw obeys_catch obeys_finally obeys_Tick obeys_Get_any obeys_modify obeys_Async obeys_Await
  obeys_of_sum obeys_dot obeys_set_timeout obeys_if obeys_option abides_bind abides_await obeys_Ret

subsection \<open>Soundness\<close>

definition contract_ok :: "'s contract \<Rightarrow> 's machine \<Rightarrow> bool" where
  "contract_ok W m \<longleftrightarrow> ct_inv W (mc_state m) \<and> (\<forall>t \<in> set (mc_tasks m). abides W t)"

lemma abides_running [simp]: "abides W running"
  by (simp add: obeys_def)

lemma all_update: "\<forall>t \<in> set ts. P t \<Longrightarrow> P p \<Longrightarrow> \<forall>t \<in> set (ts[i := p]). P t"
  using set_update_subset_insert [of ts i p] by auto

lemma settle_holds:
  "settle p s ts = (p', s', ts') \<Longrightarrow> holds W p Q s \<Longrightarrow> \<forall>t \<in> set ts. abides W t \<Longrightarrow>
   ct_inv W s' \<and> obeys W Q p' \<and> (\<forall>t \<in> set ts'. abides W t)"
proof (induction p arbitrary: Q s ts p' s' ts')
  case (Async c k)
  obtain c' s1 ts1 where c: "settle c s (ts @ [running]) = (c', s1, ts1)"
    by (metis prod.exhaust)
  from Async.prems(2,3) have 1: "ct_inv W s1" "abides W c'" "\<forall>t \<in> set ts1. abides W t"
    using Async.IH(1) [OF c, of "\<lambda>_. True"] by auto
  from Async.prems(1) c have 2: "settle (k (length ts)) s1 (ts1[length ts := c']) = (p', s', ts')" by simp
  from Async.prems(2) 1(1) have "holds W (k (length ts)) Q s1" by simp
  from Async.IH(2) [OF rangeI 2 this all_update [OF 1(3,2)]] show ?case .
next
  case (Get f)
  from Get.IH [OF rangeI] Get.prems show ?case by simp
qed (auto simp: obeys_def)

lemma resume_contract:
  assumes "holds W p (\<lambda>_. True) s" "\<forall>t \<in> set ts. abides W t"
  shows "contract_ok W (resume i p s ts)"
proof -
  obtain p' s' ts' where eq: "settle p s (ts[i := running]) = (p', s', ts')" by (metis prod.exhaust)
  from settle_holds [OF eq assms(1) all_update [OF assms(2)]]
  have "ct_inv W s'" "abides W p'" "\<forall>t \<in> set ts'. abides W t" by auto
  then show ?thesis unfolding contract_ok_def resume_def eq using all_update by simp
qed

lemma launch_contract: "contract_ok W m \<Longrightarrow> abides W p \<Longrightarrow> contract_ok W (launch p m)"
  unfolding launch_def by (rule resume_contract) (auto simp: contract_ok_def obeysD)

lemma step_contract:
  assumes ok: "contract_ok W m" and st: "step i os m = Some m'"
    and ans: "\<forall>(r, out) \<in> set (answered (mc_tasks m ! i) os). ct_answers W r out"
  shows "contract_ok W m' \<and> (\<forall>(r, out) \<in> set (answered (mc_tasks m ! i) os). ct_sends W r)"
proof -
  from st have i: "i < length (mc_tasks m)" by (auto simp: step_def Let_def split: if_splits)
  with ok have h: "holds W (mc_tasks m ! i) (\<lambda>_. True) (mc_state m)" and inv: "ct_inv W (mc_state m)"
    and all: "\<forall>t \<in> set (mc_tasks m). abides W t"
    by (auto simp: contract_ok_def obeysD)
  show ?thesis
  proof (cases "mc_tasks m ! i")
    case (Net rs k)
    with st i have len: "length rs = length os" and m': "m' = resume i (k os) (mc_state m) (mc_tasks m)"
      by (auto simp: step_def Let_def split: if_splits)
    with ans Net have "list_all2 (ct_answers W) rs os" by (auto simp: list_all2_iff)
    with h Net inv have "holds W (k os) (\<lambda>_. True) (mc_state m)" by auto
    then have "contract_ok W m'" unfolding m' using all by (rule resume_contract)
    with h Net show ?thesis by (auto simp: list_all_iff dest: set_zip_leftD)
  qed (use st i h inv all in \<open>auto simp: step_def Let_def intro!: resume_contract split: prog.splits if_splits\<close>)
qed

theorem traced_ok:
  assumes "traced H m0 tr m" "\<forall>(r, out) \<in> set tr. ct_answers W r out" "contract_ok W m0"
    and "\<And>p. p \<in> H \<Longrightarrow> abides W p"
  shows "contract_ok W m \<and> (\<forall>(r, out) \<in> set tr. ct_sends W r)"
  using assms
proof (induction rule: traced.induct)
  case (move tr m i os m')
  then have "contract_ok W m \<and> (\<forall>(r, out) \<in> set tr. ct_sends W r)" by auto
  with step_contract [OF _ move.hyps(2)] move.prems(1) show ?case by auto
qed (auto intro: launch_contract)

lemma outgoing_sends: "contract_ok W m \<Longrightarrow> r \<in> set (outgoing m) \<Longrightarrow> ct_sends W r"
proof -
  assume ok: "contract_ok W m" and "r \<in> set (outgoing m)"
  then obtain t where t: "t \<in> set (mc_tasks m)" "r \<in> set (awaited t)" by (auto simp: outgoing_def)
  with ok have "holds W t (\<lambda>_. True) (mc_state m)" by (auto simp: contract_ok_def obeysD)
  with t(2) show ?thesis by (cases t) (auto simp: list_all_iff)
qed

end
