(* ===== verification/Provenance.thy ===== *)
theory Provenance
  imports JS_Trace
begin

text \<open>
  What an authorization server handed out in a trace: the token pairs of its token routes and
  the profiles of \<^verbatim>\<open>/oauth2/userinfo\<close>. Both applications state against it where their
  credentials come from.
\<close>

definition issued :: "string list \<Rightarrow> traffic \<Rightarrow> (jsval \<times> jsval) list" where
  "issued routes tr =
     [(js_get d ''access_token'', js_get d ''refresh_token''). (r, Resolved d) \<leftarrow> tr, rq_url r \<in> set routes]"

definition profiles :: "traffic \<Rightarrow> jsval list" where
  "profiles tr = [d. (r, Resolved d) \<leftarrow> tr, rq_url r = ''/oauth2/userinfo'']"

text \<open>The answers a server may give that hands out only these tokens and profiles.\<close>

definition answer_of :: "string list \<Rightarrow> (jsval \<times> jsval) set \<Rightarrow> jsval set \<Rightarrow> string \<Rightarrow> jsval \<Rightarrow> bool" where
  "answer_of routes T U url d \<longleftrightarrow>
     (url \<in> set routes \<longrightarrow> (js_get d ''access_token'', js_get d ''refresh_token'') \<in> T) \<and>
     (url = ''/oauth2/userinfo'' \<longrightarrow> d \<in> U)"

fun server_answer :: "string list \<Rightarrow> (jsval \<times> jsval) set \<Rightarrow> jsval set \<Rightarrow> request \<Rightarrow> outcome \<Rightarrow> bool" where
  "server_answer routes T U r (Resolved d) = answer_of routes T U (rq_url r) d"
| "server_answer routes T U r (Rejected resp c) = True"

lemma trace_answers:
  "(r, out) \<in> set tr \<Longrightarrow> server_answer routes (set (issued routes tr)) (set (profiles tr)) r out"
  by (cases out) (force simp: answer_of_def issued_def profiles_def)+

lemma answer_of_tokens:
  "answer_of routes T U url d \<Longrightarrow> url \<in> set routes \<Longrightarrow> (js_get d ''access_token'', js_get d ''refresh_token'') \<in> T"
  by (simp add: answer_of_def)

lemma answer_of_profile: "answer_of routes T U ''/oauth2/userinfo'' d \<Longrightarrow> d \<in> U"
  by (simp add: answer_of_def)

text \<open>Reading both tokens of an answer, as every exchange does.\<close>

lemma dot_tokens:
  assumes "(js_get d ''access_token'', js_get d ''refresh_token'') \<in> T"
    and "\<And>a rt. (a, rt) \<in> T \<Longrightarrow> obeys W Q (k a rt)"
  shows "obeys W Q (dot d ''access_token'' (\<lambda>a. dot d ''refresh_token'' (\<lambda>rt. k a rt)))"
  using assms by (cases "nullish d") (simp_all add: dot_null dot_value obeys_Throw)

end
