(* ===== verification/User_Provenance.thy ===== *)
theory User_Provenance
  imports Provenance User_Store
begin

text \<open>
  Where the user application's credentials come from. Over every trace of the machine, the
  tokens in memory, the bearer tokens it sends and the user it shows are those of answers
  that the authorization server gave: the laws of the store and of the HTTP layer, as
  contracts of \<open>JS_Trace\<close> over \<open>Provenance\<close>.
\<close>

subsection \<open>What the server issued\<close>

definition token_routes :: "string list" where
  "token_routes = [''/oauth2/token'', ''/oauth2/mfa/verify'']"

text \<open>
  The contract of the application, given the refresh token found at the page load, the token
  pairs and the profiles the server hands out.
\<close>

definition bearer_ok :: "(jsval \<times> jsval) set \<Rightarrow> request \<Rightarrow> bool" where
  "bearer_ok T r \<longleftrightarrow> (case header r ''Authorization'' of None \<Rightarrow> True | Some b \<Rightarrow> b \<in> (bearer \<circ> fst) ` T)"

definition session_ok :: "jsval \<Rightarrow> (jsval \<times> jsval) set \<Rightarrow> jsval set \<Rightarrow> 'a user_app_scheme \<Rightarrow> bool" where
  "session_ok rt0 T U s \<longleftrightarrow>
     (ua_accessToken s, ua_refreshToken s) \<in> {(JNull, rt0), (JNull, JNull)} \<union> T \<and> ua_user s \<in> insert JNull U"

definition session_contract ::
  "jsval \<Rightarrow> (jsval \<times> jsval) set \<Rightarrow> jsval set \<Rightarrow> 'a user_app_scheme contract" where
  "session_contract rt0 T U =
     \<lparr>ct_answers = server_answer token_routes T U, ct_inv = session_ok rt0 T U, ct_sends = bearer_ok T\<rparr>"

lemma contract_fields [simp]:
  "ct_answers (session_contract rt0 T U) = server_answer token_routes T U"
  "ct_inv (session_contract rt0 T U) = session_ok rt0 T U"
  "ct_sends (session_contract rt0 T U) = bearer_ok T"
  by (simp_all add: session_contract_def)

lemma session_ok_update:
  "session_ok rt0 T U s \<Longrightarrow> session_ok rt0 T U (s\<lparr>sessionStorage := st\<rparr>)"
  "session_ok rt0 T U s \<Longrightarrow> session_ok rt0 T U (s\<lparr>currentRoute := l\<rparr>)"
  "session_ok rt0 T U s \<Longrightarrow> session_ok rt0 T U (assign_href u s)"
  "session_ok rt0 T U s \<Longrightarrow> session_ok rt0 T U (s\<lparr>ua_error := v\<rparr>)"
  "session_ok rt0 T U s \<Longrightarrow> session_ok rt0 T U (s\<lparr>ua_loading := b\<rparr>)"
  "session_ok rt0 T U s \<Longrightarrow> session_ok rt0 T U (s\<lparr>ua_tokenPresent := b\<rparr>)"
  "session_ok rt0 T U s \<Longrightarrow> session_ok rt0 T U (s\<lparr>ua_sessionRestored := b\<rparr>)"
  "session_ok rt0 T U s \<Longrightarrow> session_ok rt0 T U (clearTokens s)"
  "session_ok rt0 T U s \<Longrightarrow> session_ok rt0 T U (s\<lparr>ua_user := JNull\<rparr>)"
  "session_ok rt0 T U s \<Longrightarrow> v \<in> U \<Longrightarrow> session_ok rt0 T U (s\<lparr>ua_user := v\<rparr>)"
  "session_ok rt0 T U s \<Longrightarrow> (a, rt) \<in> T \<Longrightarrow> session_ok rt0 T U (setTokens a rt s)"
  by (auto simp: session_ok_def assign_href_def)

subsection \<open>The HTTP layer\<close>

lemma bearer_ok_plain [simp]: "header r ''Authorization'' = None \<Longrightarrow> bearer_ok T r"
  by (simp add: bearer_ok_def)

lemma bearer_ok_header [simp]:
  "bearer_ok T (with_header ''Authorization'' (bearer a) r) \<longleftrightarrow> bearer a \<in> (bearer \<circ> fst) ` T"
  by (simp add: bearer_ok_def)

text \<open>The interceptor adds a token only when there is one, and that one was issued.\<close>

lemma sent_ok: "session_ok rt0 T U s \<Longrightarrow> bearer_ok T r \<Longrightarrow> bearer_ok T (request_interceptor s (http_defaults r))"
  by (auto simp: request_interceptor_def http_defaults_def bearer_ok_def session_ok_def form_content_def image_iff
      split: option.splits if_splits)
     force+

lemma push_abides: "abides (session_contract rt0 T U) p \<Longrightarrow> abides (session_contract rt0 T U) (user_push p h t)"
proof -
  assume p: "abides (session_contract rt0 T U) p"
  have "abides (session_contract rt0 T U) (navigate n h rs (user_guard p) t)" for n rs t
  proof (induction n arbitrary: t)
    case (Suc n)
    then show ?case
      by (auto simp: user_guard_def session_ok_update split: option.split intro!: obeys_intros p)
  qed (simp add: obeys_Throw)
  then show ?thesis by (simp add: user_push_def)
qed

lemma redirect_abides: "abides (session_contract rt0 T U) (user_redirectToLogin h)"
  unfolding user_redirectToLogin_def redirect_to_login_def
  by (intro obeys_intros push_abides obeys_raw_send) (simp_all add: session_ok_update)

lemma expired_obeys: "obeys (session_contract rt0 T U) Q (session_expired h)"
  unfolding session_expired_def
  by (intro obeys_intros redirect_abides) (simp add: session_ok_update)

lemma token_routes_iff [simp]: "''/oauth2/token'' \<in> set token_routes" "''/oauth2/mfa/verify'' \<in> set token_routes"
  by (simp_all add: token_routes_def)

lemma refresh_obeys: "obeys (session_contract rt0 T U) (\<lambda>a. a \<in> fst ` T) (refresh_tokens h)"
  unfolding refresh_tokens_def refresh_request_def
  by (intro obeys_Get_any obeys_await [OF obeys_raw_send [where Q = "answer_of token_routes T U ''/oauth2/token''"]]
      dot_tokens [where T = T] obeys_modify obeys_Ret answer_of_tokens)
    (auto simp: session_ok_update intro: rev_image_eqI)

lemma http_obeys:
  assumes "bearer_ok T r"
  shows "obeys (session_contract rt0 T U) (answer_of token_routes T U (rq_url r)) (user_http h r)"
proof -
  let ?W = "session_contract rt0 T U"
  have final: "obeys ?W (answer_of token_routes T U (rq_url q)) (user_http h q)" if "bearer_ok T q" "rq_retry q" for q
    using that
    by (subst user_http.simps)
      (auto simp: Let_def sent_ok list_all2_Cons1 intro!: obeys_Get_any obeys_Net obeys_Ret obeys_Throw split: outcome.split)
  have retry: "obeys ?W (answer_of token_routes T U (rq_url r)) (user_http h
      (with_header ''Authorization'' (bearer a) ((request_interceptor s (http_defaults r))\<lparr>rq_retry := True\<rparr>)))"
    if "a \<in> fst ` T" for a s
  proof -
    from that have "bearer a \<in> (bearer \<circ> fst) ` T" by force
    then show ?thesis
      using final [of "with_header ''Authorization'' (bearer a) ((request_interceptor s (http_defaults r))\<lparr>rq_retry := True\<rparr>)"]
      by simp
  qed
  show ?thesis
    using assms
    by (subst user_http.simps)
      (auto simp: Let_def sent_ok list_all2_Cons1 intro!: obeys_Get_any obeys_Net obeys_Ret obeys_Throw retry obeys_bind
        [OF obeys_catch [OF refresh_obeys expired_obeys]] split: outcome.split)
qed

lemmas http_abides = http_obeys [THEN obeys_weaken, OF _ TrueI]

subsection \<open>The services and the store\<close>

lemma store_tokens_obeys:
  "answer_of token_routes T U url d \<Longrightarrow> url \<in> set token_routes \<Longrightarrow> obeys (session_contract rt0 T U) Q p \<Longrightarrow>
   obeys (session_contract rt0 T U) Q (store_tokens d p)"
  unfolding store_tokens_def
  by (intro dot_tokens [where T = T] answer_of_tokens obeys_modify) (simp_all add: session_ok_update)

lemma take_verifier_abides:
  "(\<And>v. abides (session_contract rt0 T U) (k v)) \<Longrightarrow> abides (session_contract rt0 T U) (take_verifier k)"
  unfolding take_verifier_def Let_def by (intro obeys_intros) (simp_all add: session_ok_update)

lemma login_abides: "abides (session_contract rt0 T U) (authService_login h u p sc)"
  unfolding authService_login_def Let_def put_verifier_def
  by (intro obeys_Tick abides_await [OF http_abides] obeys_dot obeys_if obeys_modify obeys_Ret obeys_Throw
      obeys_await [OF http_obeys] store_tokens_obeys [where url = "''/oauth2/token''"])
    (auto simp: login_request_def code_request_def session_ok_update)

lemma verifyMfa_abides: "abides (session_contract rt0 T U) (authService_verifyMfa h t c)"
  unfolding authService_verifyMfa_def
  by (intro take_verifier_abides obeys_await [OF http_obeys] obeys_dot obeys_if obeys_Ret
      store_tokens_obeys [where url = "''/oauth2/mfa/verify''"]) simp_all

lemma exchangeCode_abides: "abides (session_contract rt0 T U) (authService_exchangeCode h c)"
  unfolding authService_exchangeCode_def
  by (intro take_verifier_abides obeys_await [OF http_obeys] obeys_Ret
      store_tokens_obeys [where url = "''/oauth2/token''"]) simp_all

lemma logout_abides: "abides (session_contract rt0 T U) (authService_logout h)"
  unfolding authService_logout_def
  by (intro obeys_intros obeys_fetch_all http_abides)
    (auto simp: revokes_def revoke_request_def end_session_request_def Let_def session_ok_update)

lemma fetchUser_abides: "abides (session_contract rt0 T U) (fetchUser h)"
  unfolding fetchUser_def getUserInfo_def
  by (intro obeys_catch obeys_await [OF obeys_await [OF http_obeys obeys_Ret, where Q = "\<lambda>d. d \<in> U"]]
      obeys_modify obeys_Ret answer_of_profile)
    (auto simp: session_ok_update)

lemma restore_abides: "abides (session_contract rt0 T U) (restoreSession h)"
  unfolding restoreSession_def tryRestoreSession_def markAuthenticated_def markUnauthenticated_def
  by (intro obeys_intros refresh_obeys [THEN obeys_weaken] fetchUser_abides) (simp_all add: session_ok_update)

lemma authenticate_abides:
  "abides (session_contract rt0 T U) call \<Longrightarrow> abides (session_contract rt0 T U) (authenticate h call)"
  unfolding authenticate_def markAuthenticated_def
  by (intro obeys_intros fetchUser_abides; assumption?) (simp_all add: session_ok_update)

lemma router_abides: "abides (session_contract rt0 T U) (user_router_push h t)"
  unfolding user_router_push_def by (intro push_abides restore_abides)

lemma main_abides: "abides (session_contract rt0 T U) (user_main h path)"
  unfolding user_main_def store_init_def by (intro obeys_intros restore_abides router_abides)

lemma store_action_abides:
  "abides (session_contract rt0 T U) (store_login h u pw)" "abides (session_contract rt0 T U) (store_verifyMfa h t c)"
  "abides (session_contract rt0 T U) (store_exchangeCode h c)" "abides (session_contract rt0 T U) (store_logout h)"
  unfolding store_login_def store_verifyMfa_def store_exchangeCode_def store_logout_def markAuthenticated_def markUnauthenticated_def
  by (intro authenticate_abides login_abides verifyMfa_abides exchangeCode_abides logout_abides fetchUser_abides obeys_intros;
      simp add: session_ok_update)+

lemma plain_request_abides:
  "header r ''Authorization'' = None \<Longrightarrow> (\<And>d. abides (session_contract rt0 T U) (k d)) \<Longrightarrow>
   abides (session_contract rt0 T U) (await (user_http h r) k)"
  by (intro abides_await http_abides) simp_all

lemma request_abides:
  fixes W :: "'a user_app_scheme contract" and rt0 T U
  defines "W \<equiv> session_contract rt0 T U"
  shows "abides W (authService_register h u pw em)" "abides W (authService_requestPasswordReset h em)"
  "abides W (authService_confirmPasswordReset h tok pw)" "abides W (getProfile h)"
  "abides W (changePassword h o1 n1)" "abides W (setupMfa h)" "abides W (verifyMfaSetup h c)"
  "abides W (disableMfa h pw)" "abides W (getAuthorizedApps h)" "abides W (revokeApp h cid)"
  "abides W (resendVerificationEmail h)" "abides W (verifyEmail h tok)" "abides W (getSocialLinks h)"
  "abides W (linkSocialAccount h pr c)" "abides W (unlinkSocialAccount h pr)"
  unfolding W_def authService_register_def authService_requestPasswordReset_def
    authService_confirmPasswordReset_def getProfile_def changePassword_def setupMfa_def
    verifyMfaSetup_def disableMfa_def getAuthorizedApps_def revokeApp_def
    resendVerificationEmail_def verifyEmail_def getSocialLinks_def linkSocialAccount_def
    unlinkSocialAccount_def
  by (intro plain_request_abides obeys_dot obeys_Ret; simp)+

lemma user_call_abides: "p \<in> user_calls h \<Longrightarrow> abides (session_contract rt0 T U) p"
  by (erule user_calls.cases)
    (simp_all only: restore_abides fetchUser_abides router_abides main_abides store_action_abides request_abides)

text \<open>What pages start: calls of the store and the services, and requests of their own.\<close>

definition page_calls :: "host \<Rightarrow> 'a user_app_scheme prog set" where
  "page_calls h = user_calls h \<union> {user_http h r | r. header r ''Authorization'' = None}"



end
