(* ===== verification/Admin_Provenance.thy ===== *)
theory Admin_Provenance
  imports Provenance Admin_Session
begin

text \<open>
  Where the console's credentials come from: tokens in memory, the refresh token kept in
  \<^verbatim>\<open>sessionStorage\<close>, bearer tokens and the user, over every trace. The console reads its
  refresh token back from storage, so storage is part of the invariant.
\<close>

abbreviation console_routes :: "string list" where
  "console_routes \<equiv> [''/oauth2/token'']"

text \<open>The refresh tokens storage may hold: the one found there at the page load, and those issued.\<close>

definition storable :: "string set \<Rightarrow> (jsval \<times> jsval) set \<Rightarrow> string set" where
  "storable V T = V \<union> js_to_string ` snd ` T"

definition console_ok :: "string set \<Rightarrow> (jsval \<times> jsval) set \<Rightarrow> jsval set \<Rightarrow> 'a admin_app_scheme \<Rightarrow> bool" where
  "console_ok V T U s \<longleftrightarrow>
     aa_accessToken s \<in> insert JNull (fst ` T) \<and>
     aa_refreshToken s \<in> insert JNull (snd ` T \<union> JStr ` storable V T) \<and>
     set_option (st_get (sessionStorage s) REFRESH_TOKEN_STORAGE_KEY) \<subseteq> storable V T \<and>
     aa_user s \<in> insert JNull U"

definition console_bearer :: "(jsval \<times> jsval) set \<Rightarrow> request \<Rightarrow> bool" where
  "console_bearer T r \<longleftrightarrow>
     set_option (header r ''Authorization'') \<subseteq> admin_bearer ` insert JNull (fst ` T)"

definition console_contract ::
  "string set \<Rightarrow> (jsval \<times> jsval) set \<Rightarrow> jsval set \<Rightarrow> 'a admin_app_scheme contract" where
  "console_contract V T U =
     \<lparr>ct_answers = server_answer console_routes T U, ct_inv = console_ok V T U, ct_sends = console_bearer T\<rparr>"

lemma console_fields [simp]:
  "ct_answers (console_contract V T U) = server_answer console_routes T U"
  "ct_inv (console_contract V T U) = console_ok V T U"
  "ct_sends (console_contract V T U) = console_bearer T"
  by (simp_all add: console_contract_def)

lemma console_ok_update:
  "console_ok V T U s \<Longrightarrow> console_ok V T U (s\<lparr>currentRoute := l\<rparr>)"
  "console_ok V T U s \<Longrightarrow> console_ok V T U (assign_href u s)"
  "console_ok V T U s \<Longrightarrow> console_ok V T U (s\<lparr>aa_loginError := v\<rparr>)"
  "console_ok V T U s \<Longrightarrow> console_ok V T U (s\<lparr>aa_refreshInFlight := p\<rparr>)"
  "console_ok V T U s \<Longrightarrow> console_ok V T U (s\<lparr>aa_sessionRestorePromise := p\<rparr>)"
  "console_ok V T U s \<Longrightarrow> console_ok V T U (s\<lparr>sessionStorage := st_set (sessionStorage s) ''pkce_code_verifier'' cv\<rparr>)"
  "console_ok V T U s \<Longrightarrow> console_ok V T U (admin_clearSession s)"
  "console_ok V T U s \<Longrightarrow> v \<in> U \<Longrightarrow> console_ok V T U (s\<lparr>aa_user := v\<rparr>)"
  "console_ok V T U s \<Longrightarrow> (a, rt) \<in> T \<Longrightarrow> console_ok V T U (admin_setTokens a rt s)"
  "console_ok V T U s \<Longrightarrow> console_ok V T U (s\<lparr>aa_refreshToken := loadPersistedRefreshToken s\<rparr>)"
  by (auto simp: console_ok_def assign_href_def REFRESH_TOKEN_STORAGE_KEY_def admin_clearSession_def admin_setTokens_def
      persistRefreshToken_def loadPersistedRefreshToken_def storable_def split: option.splits intro: rev_image_eqI)

subsection \<open>The intercepted axios\<close>

lemma console_bearer_plain [simp]: "header r ''Authorization'' = None \<Longrightarrow> console_bearer T r"
  by (simp add: console_bearer_def)

lemma console_bearer_state:
  "console_ok V T U s \<Longrightarrow> console_bearer T (with_header ''Authorization'' (admin_bearer (aa_accessToken s)) r)"
  by (auto simp: console_bearer_def console_ok_def)

lemma console_sent: "console_ok V T U s \<Longrightarrow> console_bearer T r \<Longrightarrow> console_bearer T (admin_request_interceptor s r)"
  by (simp add: admin_request_interceptor_def console_bearer_state)

lemma admin_push_abides: "abides (console_contract V T U) p \<Longrightarrow> abides (console_contract V T U) (admin_push p h t)"
proof -
  assume p: "abides (console_contract V T U) p"
  have "abides (console_contract V T U) (navigate n h rs (admin_guard p) t)" for n rs t
  proof (induction n arbitrary: t)
    case (Suc n)
    then show ?case
      by (auto simp: admin_guard_def console_ok_update split: option.split intro!: obeys_intros p)
  qed (simp add: obeys_Throw)
  then show ?thesis by (simp add: admin_push_def)
qed

lemma admin_logout_abides: "abides (console_contract V T U) admin_logout"
  unfolding admin_logout_def
  by (intro obeys_intros obeys_fetch_all)
    (auto simp: logout_requests_def admin_logout_request_def admin_revoke_request_def console_ok_update,
     auto simp: console_bearer_def console_ok_def)

lemma admin_redirect_abides: "abides (console_contract V T U) (admin_redirectToLogin h)"
  unfolding admin_redirectToLogin_def redirect_to_login_def
  by (intro obeys_intros admin_push_abides obeys_raw_send) (simp_all add: console_ok_update)

lemma admin_expired_obeys: "obeys (console_contract V T U) Q (admin_session_expired h)"
  unfolding admin_session_expired_def
  by (intro obeys_intros admin_logout_abides admin_redirect_abides) (simp add: console_ok_update)

lemma axios_obeys:
  assumes rf: "abides (console_contract V T U) rf" and "console_bearer T r"
  shows "obeys (console_contract V T U) (answer_of console_routes T U (rq_url r)) (axios_with rf h r)"
proof -
  let ?W = "console_contract V T U" and ?Q = "answer_of console_routes T U (rq_url r)"
  have final: "obeys ?W (answer_of console_routes T U (rq_url q)) (axios_with rf h q)" if "console_bearer T q" "rq_retry q" for q
    using that
    by (subst axios_with.simps)
      (auto simp: Let_def console_sent list_all2_Cons1 intro!: obeys_Get_any obeys_Net obeys_Ret obeys_Throw split: outcome.split)
  have retry: "obeys ?W ?Q (axios_with rf h (with_header ''Authorization'' (admin_bearer (aa_accessToken s'))
      ((admin_request_interceptor s r)\<lparr>rq_retry := True\<rparr>)))" if "console_ok V T U s'" for s s'
    using final [of "with_header ''Authorization'' (admin_bearer (aa_accessToken s')) ((admin_request_interceptor s r)\<lparr>rq_retry := True\<rparr>)"]
      console_bearer_state [OF that] by simp
  show ?thesis
    using assms(2)
    by (subst axios_with.simps)
      (auto simp: Let_def console_sent list_all2_Cons1 intro!: obeys_Get_any obeys_Net obeys_Ret obeys_Throw retry
        abides_await rf admin_expired_obeys split: outcome.split)
qed

lemmas axios_abides = axios_obeys [THEN obeys_weaken, OF _ _ TrueI]

lemma exchange_abides:
  assumes "\<And>r. console_bearer T r \<Longrightarrow> obeys (console_contract V T U) (answer_of console_routes T U (rq_url r)) (ax r)"
  shows "abides (console_contract V T U) (exchange ax)"
  unfolding exchange_def
  by (intro obeys_finally obeys_catch obeys_Get_any obeys_await [OF assms] dot_tokens [where T = T] answer_of_tokens
      obeys_modify obeys_Ret obeys_Async admin_logout_abides)
    (auto simp: admin_refresh_request_def console_ok_update)

lemma refreshAccessToken_abides: "abides (console_contract V T U) (refreshAccessToken d h)"
proof (induction d)
  case (Suc d)
  then show ?case
    unfolding refreshAccessToken.simps
    by (intro obeys_intros exchange_abides axios_obeys) (simp_all add: console_ok_update)
next
  case 0
  show ?case unfolding refreshAccessToken.simps by (intro obeys_intros TrueI)
qed

lemma admin_axios_obeys:
  "console_bearer T r \<Longrightarrow> obeys (console_contract V T U) (answer_of console_routes T U (rq_url r)) (admin_axios h r)"
  unfolding admin_axios_def admin_refresh_def by (intro axios_obeys refreshAccessToken_abides)

lemmas admin_axios_abides = admin_axios_obeys [THEN obeys_weaken, OF _ TrueI]

subsection \<open>The store\<close>

lemma fetchUserInfo_abides: "abides (console_contract V T U) (fetchUserInfo h)"
  unfolding fetchUserInfo_def
  by (intro obeys_Get_any obeys_if obeys_catch obeys_await [OF admin_axios_obeys] obeys_modify obeys_Ret obeys_Async
      admin_logout_abides)
    (auto simp: console_bearer_state console_ok_update dest: answer_of_profile)

lemma admin_login_abides: "abides (console_contract V T U) (admin_login h u p)"
  unfolding admin_login_def Let_def
  by (intro obeys_modify obeys_catch obeys_Tick abides_await [OF admin_axios_abides] obeys_if obeys_of_sum
      obeys_await [OF admin_axios_obeys] dot_tokens [where T = T] abides_await [OF fetchUserInfo_abides] obeys_Get_any
      obeys_Async admin_logout_abides obeys_dot obeys_Throw obeys_Ret answer_of_tokens)
    (auto simp: admin_login_request_def admin_code_request_def console_ok_update)

lemma admin_restore_abides: "abides (console_contract V T U) (admin_restoreSession h)"
proof (rule obeysI)
  fix s assume inv: "ct_inv (console_contract V T U) s"
  have rest: "abides (console_contract V T U) (await (admin_refresh h) (\<lambda>ok.
         if \<not> truthy ok then Ret (JBool False)
         else await (fetchUserInfo h) (\<lambda>_. Get (\<lambda>s'.
           of_sum (has_admin_role (aa_user s')) (\<lambda>is_admin. Ret (JBool (truthy is_admin)))))))"
    unfolding admin_refresh_def by (intro obeys_intros refreshAccessToken_abides fetchUserInfo_abides TrueI)
  show "holds (console_contract V T U) (admin_restoreSession h) (\<lambda>_. True) s"
    using inv by (auto simp: admin_restoreSession_def Let_def console_ok_update intro!: obeysD [OF rest])
qed

lemma ensure_abides: "abides (console_contract V T U) (ensureSessionRestored h)"
  unfolding ensureSessionRestored_def
  by (intro obeys_intros admin_restore_abides) (simp_all add: console_ok_update)

lemma admin_router_abides: "abides (console_contract V T U) (admin_router_push h t)"
  unfolding admin_router_push_def by (intro admin_push_abides ensure_abides)

lemma admin_main_abides: "abides (console_contract V T U) (admin_main h path)"
  unfolding admin_main_def by (intro obeys_intros admin_router_abides admin_restore_abides TrueI)

lemma admin_refresh_abides: "abides (console_contract V T U) (admin_refresh h)"
  unfolding admin_refresh_def by (rule refreshAccessToken_abides)

lemma admin_call_abides: "p \<in> admin_calls h \<Longrightarrow> abides (console_contract V T U) p"
  by (erule admin_calls.cases)
    (simp_all only: admin_router_abides admin_main_abides admin_login_abides admin_logout_abides fetchUserInfo_abides
      admin_refresh_abides admin_restore_abides ensure_abides)

text \<open>What the console's pages start: calls of the store, and requests of their own.\<close>

definition console_calls :: "host \<Rightarrow> 'a admin_app_scheme prog set" where
  "console_calls h = admin_calls h \<union> {admin_axios h r | r. header r ''Authorization'' = None}"

text \<open>
  C2: the console's credentials come from the server. From a page load, under every
  interleaving of the console's calls: the access token in memory is one that the token
  endpoint issued, or none; the refresh token in memory and the one in
  \<^verbatim>\<open>sessionStorage\<close> are issued ones or the one storage held at the load; the user is one the
  server described, which is what the check of the admin role reads; and every bearer token
  sent is an issued one, or the word \<^verbatim>\<open>null\<close>: a retry reads the access token after the
  exchange without asking whether a logout has come in between.
\<close>

theorem console_credentials_from_server:
  assumes "traced (console_calls h) \<lparr>mc_state = admin_boot ls ss l, mc_tasks = []\<rparr> tr m"
  shows "aa_accessToken (mc_state m) \<in> set (JNull # map fst (issued console_routes tr)) \<and>
    (aa_refreshToken (mc_state m) \<in> set (JNull # map snd (issued console_routes tr)) \<or>
     (\<exists>v. aa_refreshToken (mc_state m) = JStr v \<and>
       (st_get ss ''admin_refresh_token'' = Some v \<or> v \<in> js_to_string ` snd ` set (issued console_routes tr)))) \<and>
    (\<forall>v. st_get (sessionStorage (mc_state m)) ''admin_refresh_token'' = Some v \<longrightarrow>
       st_get ss ''admin_refresh_token'' = Some v \<or> v \<in> js_to_string ` snd ` set (issued console_routes tr)) \<and>
    aa_user (mc_state m) \<in> set (JNull # profiles tr) \<and>
    (\<forall>r \<in> set (map fst tr @ outgoing m). \<forall>b. header r ''Authorization'' = Some b \<longrightarrow>
      b \<in> set (map admin_bearer (JNull # map fst (issued console_routes tr))))"
proof -
  let ?T = "set (issued console_routes tr)" and ?V = "{v. st_get ss ''admin_refresh_token'' = Some v}"
  let ?W = "console_contract ?V ?T (set (profiles tr))"
  have calls: "abides ?W p" if "p \<in> console_calls h" for p
    using that unfolding console_calls_def by (auto intro: admin_call_abides admin_axios_abides console_bearer_plain)
  have "contract_ok ?W \<lparr>mc_state = admin_boot ls ss l, mc_tasks = []\<rparr>"
    by (auto simp: contract_ok_def console_ok_def admin_boot_def storable_def REFRESH_TOKEN_STORAGE_KEY_def)
  with assms have ok: "contract_ok ?W m" and past: "\<forall>(r, out) \<in> set tr. ct_sends ?W r"
    using traced_ok [where W = ?W] calls trace_answers by fastforce+
  have sends: "console_bearer ?T r" if "r \<in> set (map fst tr @ outgoing m)" for r
    using that past outgoing_sends [OF ok] by auto
  from ok have inv: "console_ok ?V ?T (set (profiles tr)) (mc_state m)" by (simp add: contract_ok_def)
  show ?thesis
    using inv sends unfolding console_ok_def console_bearer_def storable_def REFRESH_TOKEN_STORAGE_KEY_def
    by (intro conjI) (auto simp: image_iff)
qed

theorem console_credentials_from_server_witness:
  "\<exists>tr m. traced (console_calls sample_host)
      \<lparr>mc_state = admin_boot [] [(''admin_refresh_token'', ''r1'')] (currentRoute sample_admin), mc_tasks = []\<rparr> tr m \<and>
     issued console_routes tr = [(JStr ''a2'', JStr ''r2'')] \<and> aa_accessToken (mc_state m) = JStr ''a2'' \<and>
     set_option (st_get (sessionStorage (mc_state m)) ''admin_refresh_token'') \<subseteq> {''r1'', ''r2''}"
proof -
  let ?m0 = "\<lparr>mc_state = admin_boot [] [(''admin_refresh_token'', ''r1'')] (currentRoute sample_admin), mc_tasks = []\<rparr>"
  let ?es = "[(1, [Resolved (token_answer (JStr ''a2'') (JStr ''r2''))]), (1, [])]"
  have start: "traced (console_calls sample_host) ?m0 [] (launch (admin_restoreSession sample_host) ?m0)"
    by (intro traced.call traced.start) (simp add: console_calls_def admin_calls.intros)
  have "\<exists>tr m. watch ?es (launch (admin_restoreSession sample_host) ?m0) = Some (tr, m) \<and>
      aa_accessToken (mc_state m) = JStr ''a2'' \<and> issued console_routes tr = [(JStr ''a2'', JStr ''r2'')]"
    by (simp add: launch_def resume_def admin_boot_def loadPersistedRefreshToken_def REFRESH_TOKEN_STORAGE_KEY_def st_get_def
        admin_restoreSession_def admin_refresh_def refreshAccessToken.simps await_simps issued_def admin_refresh_request_def asent_def)
  then obtain tr m where w: "watch ?es (launch (admin_restoreSession sample_host) ?m0) = Some (tr, m)"
    and a: "aa_accessToken (mc_state m) = JStr ''a2''" and i: "issued console_routes tr = [(JStr ''a2'', JStr ''r2'')]"
    by blast
  from watch_traced [OF start w] have t: "traced (console_calls sample_host) ?m0 tr m" by simp
  from console_credentials_from_server [OF t] i
  have "set_option (st_get (sessionStorage (mc_state m)) ''admin_refresh_token'') \<subseteq> {''r1'', ''r2''}"
    by (auto simp: st_get_def)
  with t a i show ?thesis by blast
qed

text \<open>
  The word \<^verbatim>\<open>null\<close> does get sent: a request is refused, the exchange that answers the refusal
  succeeds, a logout that was under way ends, and the retry goes out.
\<close>

lemma retry_after_logout:
  "\<exists>m. exec [(0, [Rejected (http_response 401 JNull) True]), (2, [Resolved (token_answer (JStr ''a2'') (JStr ''r2''))]),
        (2, []), (0, []), (1, [Resolved JNull, Resolved JNull]), (1, []), (0, [])]
      (launch admin_logout (launch (admin_axios sample_host (req_get ''/api/admin/users''))
        \<lparr>mc_state = sample_admin, mc_tasks = []\<rparr>)) = Some m \<and>
    map (\<lambda>r. header r ''Authorization'') (outgoing m) = [Some ''Bearer null'']"
proof -
  have "stale sample_admin (req_get ''/api/admin/users'') (JObj [(''status'', JNum 401), (''data'', JNull)])"
    by (simp add: stale_def)
  then show ?thesis
    by (simp add: launch_def resume_def admin_axios_def logout_requests_def http_response_def logout_answer_def
        axios_resume_def outgoing_def admin_bearer_def)
qed

end
