(* ===== verification/User_Journey.thy ===== *)
theory User_Journey
  imports User_Auth_Pages User_Navigation
begin

text \<open>
  Signing in, across the components: the guard sends a visitor to the login page, the page calls
  the store, the store the service, the service the HTTP layer, and the page's navigation asks
  the guard again.
\<close>

text \<open>The store's login and MFA step as the page sees them.\<close>

lemma run_store_login:
  assumes "truthy code"
  shows "\<exists>q1 q2 q3. run (store_login h u p) s ts
      ([Resolved (JObj [(''code'', code)])] # [Resolved (token_answer a rt)] # [Resolved info] # as) =
    emit [q1, q2, q3] (halt (Done success_result)
      ((setTokens a rt s)\<lparr>ua_error := JStr [], ua_loading := False, ua_tokenPresent := True, ua_user := info\<rparr>) ts as) \<and>
    map rq_url [q1, q2, q3] = [''/oauth2/login'', ''/oauth2/token'', ''/oauth2/userinfo''] \<and>
    form_field q1 ''code_challenge'' = Some (JStr (challenge (generatePkcePair h))) \<and>
    form_field q2 ''code'' = Some code \<and> form_field q2 ''code_verifier'' = Some (JStr (generateCodeVerifier h))"
  using assms
  by (intro exI [of _ "sent s (login_request h u p (JStr ''openid profile email'') (generatePkcePair h))"]
      exI [of _ "sent s (code_request h code (generateCodeVerifier h))"]
      exI [of _ "sent (setTokens a rt s) (req_get ''/oauth2/userinfo'')"])
    (simp add: store_login_def authenticate_def authService_login_def Let_def prog_simps token_answer_def markAuthenticated_def
      login_request_def code_request_def)

text \<open>The navigation after a sign-in: one turn of the event loop away from the page that was asked for.\<close>

definition arrive :: "host \<Rightarrow> string \<Rightarrow> 'a user_app_scheme prog" where
  "arrive h p = Tick (modify (currentRoute_update (\<lambda>_. locate_path h user_routes p)) (Ret JUndef))"

lemma protected_not_login: "p \<in> set protected_paths \<Longrightarrow> p \<noteq> ''/login'' @ q"
  by (auto simp: protected_paths_def)

lemma settle_push:
  assumes "ua_tokenPresent s" "p \<in> set protected_paths" "currentRoute s = at_login h q"
  shows "settle (user_router_push h (JStr p)) s ts = (arrive h p, s, ts)"
proof -
  have "loc_fullPath (currentRoute s) \<noteq> p"
    using protected_not_login [OF assms(2)] by (metis assms(3) at_login_def location.select_convs(3))
  with assms(1,2) show ?thesis
    by (simp add: user_router_push_def user_push_def numeral_eq_Suc user_guard_def locate_paths await_simps arrive_def)
qed

lemma settle_push_redirect:
  fixes s :: "'a user_app_scheme"
  assumes "ua_tokenPresent s" "p \<in> set protected_paths" "currentRoute s = at_login h [(''redirect'', JStr p)]"
  shows "run (push_redirect h) s ts as = halt (Done JUndef) s (ts @ [arrive h p]) as"
proof -
  have "js_or (query (currentRoute s) ''redirect'') (JStr ''/'') = JStr p"
    using assms(2,3) by (auto simp: query_def at_login_def js_or_def protected_paths_def)
  with settle_push [OF assms] show ?thesis by (simp add: push_redirect_def no_await_def)
qed

lemma run_handleLogin:
  fixes s :: "'a login_page_scheme"
  assumes "truthy code" "p \<in> set protected_paths" "currentRoute s = at_login h [(''redirect'', JStr p)]"
  shows "\<exists>q1 q2 q3. run (handleLogin h) s ts
      ([Resolved (JObj [(''code'', code)])] # [Resolved (token_answer a rt)] # [Resolved info] # as) =
    emit [q1, q2, q3] (halt (Done JUndef)
      ((setTokens a rt s)\<lparr>ua_error := JStr [], ua_loading := False, ua_tokenPresent := True, ua_user := info\<rparr>)
      (ts @ [arrive h p]) as) \<and>
    map rq_url [q1, q2, q3] = [''/oauth2/login'', ''/oauth2/token'', ''/oauth2/userinfo''] \<and>
    form_field q1 ''code_challenge'' = Some (JStr (challenge (generatePkcePair h))) \<and>
    form_field q2 ''code'' = Some code \<and> form_field q2 ''code_verifier'' = Some (JStr (generateCodeVerifier h))"
proof -
  let ?s = "(setTokens a rt s)\<lparr>ua_error := JStr [], ua_loading := False, ua_tokenPresent := True, ua_user := info\<rparr>"
  have "run (push_redirect h) ?s ts as = halt (Done JUndef) ?s (ts @ [arrive h p]) as"
    using assms(2,3) by (intro settle_push_redirect) simp_all
  moreover obtain q1 q2 q3 where
    "run (store_login h (JStr (lg_username s)) (JStr (lg_password s))) s ts
      ([Resolved (JObj [(''code'', code)])] # [Resolved (token_answer a rt)] # [Resolved info] # as) =
      emit [q1, q2, q3] (halt (Done success_result) ?s ts as)"
    and q: "map rq_url [q1, q2, q3] = [''/oauth2/login'', ''/oauth2/token'', ''/oauth2/userinfo'']"
      "form_field q1 ''code_challenge'' = Some (JStr (challenge (generatePkcePair h)))"
      "form_field q2 ''code'' = Some code" "form_field q2 ''code_verifier'' = Some (JStr (generateCodeVerifier h))"
    using run_store_login [OF assms(1), of h "JStr (lg_username s)" "JStr (lg_password s)" s ts a rt info as] by (elim exE conjE) (rule that)
  ultimately have "run (handleLogin h) s ts
      ([Resolved (JObj [(''code'', code)])] # [Resolved (token_answer a rt)] # [Resolved info] # as) =
      emit [q1, q2, q3] (halt (Done JUndef) ?s (ts @ [arrive h p]) as)"
    by (simp add: handleLogin_def prog_simps success_result_def)
  with q show ?thesis by (intro exI conjI)
qed

text \<open>The page's second step. The login left the verifier in \<^verbatim>\<open>sessionStorage\<close>.\<close>

lemma run_handleLogin_mfa:
  fixes s :: "'a login_page_scheme"
  assumes "truthy mfa"
  shows "\<exists>q. run (handleLogin h) s ts ([Resolved (JObj [(''mfa_required'', mfa), (''mfa_token'', t)])] # as) =
    emit [q] (halt (Done JUndef) ((put_verifier (generateCodeVerifier h) s)\<lparr>ua_error := JStr [], ua_loading := False,
      lg_mfaToken := t, lg_showMfa := True\<rparr>) ts as) \<and>
    form_field q ''code_challenge'' = Some (JStr (challenge (generatePkcePair h)))"
  using assms
  by (intro exI [of _ "sent s (login_request h (JStr (lg_username s)) (JStr (lg_password s)) (JStr ''openid profile email'') (generatePkcePair h))"])
    (simp add: handleLogin_def store_login_def authenticate_def authService_login_def Let_def prog_simps put_verifier_def
      login_request_def)

lemma run_handleMfa:
  fixes s :: "'a login_page_scheme"
  assumes "stashed_verifier s = v" "v \<noteq> []" "truthy a"
    and "p \<in> set protected_paths" "currentRoute s = at_login h [(''redirect'', JStr p)]"
  shows "\<exists>q1 q2. run (handleMfa h) s ts ([Resolved (token_answer a rt)] # [Resolved info] # as) =
    emit [q1, q2] (halt (Done JUndef)
      ((setTokens a rt (s\<lparr>sessionStorage := st_remove (sessionStorage s) PKCE_VERIFIER_KEY\<rparr>))
         \<lparr>ua_error := JStr [], ua_loading := False, ua_tokenPresent := True, ua_user := info\<rparr>)
      (ts @ [arrive h p]) as) \<and>
    form_field q1 ''mfa_token'' = Some (lg_mfaToken s) \<and> form_field q1 ''code'' = Some (JStr (lg_mfaCode s)) \<and>
    form_field q1 ''code_verifier'' = Some (JStr v)"
proof -
  have "setTokens a rt (x\<lparr>sessionStorage := st\<rparr>) = (setTokens a rt x)\<lparr>sessionStorage := st\<rparr>" for x :: "'a login_page_scheme" and st
    by (simp add: setTokens_def)
  then show ?thesis
    using assms
    by (intro exI [of _ "sent s (mfa_request h (lg_mfaToken s) (JStr (lg_mfaCode s)) v)"]
        exI [of _ "sent (setTokens a rt s) (req_get ''/oauth2/userinfo'')"])
      (simp add: handleMfa_def store_verifyMfa_def authenticate_def authService_verifyMfa_def take_verifier_def
        Let_def prog_simps mfa_request_def with_verifier_def token_answer_def markAuthenticated_def stashed_verifier_def
        settle_push_redirect)
qed

subsection \<open>Properties\<close>

text \<open>The background navigation of a finished call in slot 0 takes its turn.\<close>

definition landed :: "host \<Rightarrow> string \<Rightarrow> jsval \<Rightarrow> jsval \<Rightarrow> jsval \<Rightarrow> 'a user_app_scheme \<Rightarrow> bool" where
  "landed h p a rt info s \<longleftrightarrow> currentRoute s = locate_path h user_routes p \<and>
     ua_accessToken s = a \<and> ua_refreshToken s = rt \<and> ua_user s = info \<and> ua_tokenPresent s \<and>
     \<not> ua_loading s \<and> ua_error s = JStr []"

lemma arrival:
  assumes "r = emit qs (halt (Done v) s [running, arrive h p] as)"
  shows "exec [(1, [])] (final_machine 0 r) =
    Some \<lparr>mc_state = s\<lparr>currentRoute := locate_path h user_routes p\<rparr>, mc_tasks = [Ret v, Ret JUndef]\<rparr>"
  by (simp add: assms final_machine_def arrive_def resume_def)

text \<open>
  C11: signing in leads back to the page that was asked for. On the login page that the guard
  sent the visitor to (its query remembers the page), the sign-in button with accepted
  credentials, a code and tokens ends in two steps: the handler finishes, and one turn later the
  visitor is on that page, signed in as the user the server described. When the server wants a
  second factor, the page asks for it; the six digits then go out with the token of the first
  step and with the verifier whose S256 challenge the first step sent, and the visitor lands on
  the same page in the same state.
\<close>

theorem sign_in_returns_to_page:
  fixes s :: "'a login_page_scheme" and h code a rt info mfa t c
  defines "r \<equiv> run (handleLogin h) s [running]
      [[Resolved (JObj [(''code'', code)])], [Resolved (token_answer a rt)], [Resolved info]]"
    and "r1 \<equiv> run (handleLogin h) s [] [[Resolved (JObj [(''mfa_required'', mfa), (''mfa_token'', t)])]]"
  defines "r2 \<equiv> run (handleMfa h) ((r_state r1)\<lparr>lg_mfaCode := c\<rparr>) [running] [[Resolved (token_answer a rt)], [Resolved info]]"
  assumes "host_ok h" "p \<in> set protected_paths" "currentRoute s = at_login h [(''redirect'', JStr p)]"
    and "truthy code" "truthy mfa" "truthy a"
  shows "r_exit r = Done JUndef \<and> (\<exists>m. exec [(1, [])] (final_machine 0 r) = Some m \<and> landed h p a rt info (mc_state m)) \<and>
    r_exit r1 = Done JUndef \<and> lg_showMfa (r_state r1) \<and> currentRoute (r_state r1) = currentRoute s \<and>
    r_exit r2 = Done JUndef \<and> (\<exists>m. exec [(1, [])] (final_machine 0 r2) = Some m \<and> landed h p a rt info (mc_state m)) \<and>
    (\<exists>v. form_field (hd (r_sent r1)) ''code_challenge'' = Some (JStr (computeS256Challenge h v)) \<and>
      form_field (hd (r_sent r2)) ''code_verifier'' = Some (JStr v)) \<and>
    form_field (hd (r_sent r2)) ''mfa_token'' = Some t \<and> form_field (hd (r_sent r2)) ''code'' = Some (JStr c)"
proof -
  let ?v = "generateCodeVerifier h"
  obtain qs where "r = emit qs (halt (Done JUndef)
      ((setTokens a rt s)\<lparr>ua_error := JStr [], ua_loading := False, ua_tokenPresent := True, ua_user := info\<rparr>) [running, arrive h p] [])"
    unfolding r_def using run_handleLogin [OF assms(7,5,6), of "[running]" a rt info "[]"] by auto
  from arrival [OF this] this
  have 1: "r_exit r = Done JUndef" "\<exists>m. exec [(1, [])] (final_machine 0 r) = Some m \<and> landed h p a rt info (mc_state m)"
    by (simp_all add: landed_def)
  obtain q where r1: "r1 = emit [q] (halt (Done JUndef) ((put_verifier ?v s)\<lparr>ua_error := JStr [], ua_loading := False,
      lg_mfaToken := t, lg_showMfa := True\<rparr>) [] [])"
    and ch: "form_field q ''code_challenge'' = Some (JStr (challenge (generatePkcePair h)))"
    unfolding r1_def using run_handleLogin_mfa [OF assms(8), of h s "[]" t "[]"] by auto
  let ?s = "(r_state r1)\<lparr>lg_mfaCode := c\<rparr>"
  have v: "?v \<noteq> []" using verifier_length [OF assms(4)] by auto
  have s: "stashed_verifier ?s = ?v" "currentRoute ?s = currentRoute s"
    by (simp_all add: r1 put_verifier_def stashed_verifier_def)
  from run_handleMfa [OF s(1) v assms(9,5), where h = h and ts = "[running]" and rt = rt and info = info and as = "[]"] s(2) assms(6)
  obtain q1 q2 where r2: "r2 = emit [q1, q2] (halt (Done JUndef)
      ((setTokens a rt (?s\<lparr>sessionStorage := st_remove (sessionStorage ?s) PKCE_VERIFIER_KEY\<rparr>))
         \<lparr>ua_error := JStr [], ua_loading := False, ua_tokenPresent := True, ua_user := info\<rparr>) [running, arrive h p] [])"
    and q1: "form_field q1 ''mfa_token'' = Some t" "form_field q1 ''code'' = Some (JStr c)"
      "form_field q1 ''code_verifier'' = Some (JStr ?v)"
    unfolding r2_def by (auto simp: r1)
  from arrival [OF r2] r2
  have 2: "r_exit r2 = Done JUndef" "\<exists>m. exec [(1, [])] (final_machine 0 r2) = Some m \<and> landed h p a rt info (mc_state m)"
    by (simp_all add: landed_def)
  have "challenge (generatePkcePair h) = computeS256Challenge h ?v" by (simp add: generatePkcePair_def Let_def)
  with 1 2 r1 r2 q1 ch s(2) show ?thesis by auto
qed

definition sample_visitor :: login_page where
  "sample_visitor = user_app.extend ((user_boot [] [] start_location)\<lparr>currentRoute := at_login sample_host [(''redirect'', JStr ''/profile'')]\<rparr>)
     (login_page.fields ''bob'' ''pw'' [] JNull False)"

theorem sign_in_returns_to_page_witness:
  "\<exists>m. exec [(1, [])] (final_machine 0 (run (handleLogin sample_host) sample_visitor [running]
      [[Resolved (JObj [(''code'', JStr ''c1'')])], [Resolved (token_answer (JStr ''a1'') (JStr ''r1''))], [Resolved (JStr ''bob'')]])) = Some m \<and>
    landed sample_host ''/profile'' (JStr ''a1'') (JStr ''r1'') (JStr ''bob'') (mc_state m)"
proof -
  have "currentRoute sample_visitor = at_login sample_host [(''redirect'', JStr ''/profile'')]" "''/profile'' \<in> set protected_paths"
    by (simp_all add: sample_visitor_def user_app.defs login_page.defs protected_paths_def)
  from sign_in_returns_to_page [OF sample_host_ok this(2,1), of "JStr ''c1''" "JBool True" "JStr ''a1''" "JStr ''r1''" "JStr ''bob''" JNull "[]"]
  show ?thesis by simp
qed

end
