(* ===== verification/Spec2Isabelle.thy ===== *)
theory Spec2Isabelle
  imports Navigation_Bound User_Security_Locks Admin_Edit_Locks Admin_Secrets Admin_Races
    User_Provenance Admin_Provenance User_Journey
begin

text \<open>
  AuthForge's two front ends.

  AuthForge is an OAuth2/OIDC server with two Vue single-page applications: the user
  application (\<^verbatim>\<open>frontends/user\<close>: login, MFA, consent, account pages) and the admin
  console (\<^verbatim>\<open>frontends/admin\<close>: users, roles, scopes, applications, tokens, logs). This
  development models the applications' own logic. The server is code of another language that
  the applications only see through the answers to their requests; an answer may be anything,
  and every theorem quantifies over it.

  Language and browser.
  \<^descr>[\<open>Prelude\<close>, \<open>JS_Value\<close>, \<open>JS_String\<close>] values, truthiness, property access that may
    throw, strings.
  \<^descr>[\<open>JS_Async\<close>] an async function is a program tree over a state that suspends where the
    source awaits; \<open>run\<close> executes one call against a script of network answers.
  \<^descr>[\<open>JS_Machine\<close>] the interleaving machine for any number of concurrent calls, with the
    rule that lifts an invariant kept between suspension points to all interleavings.
  \<^descr>[\<open>JS_Trace\<close>] the machine with a record of its traffic, and a program logic for it: a
    \<open>contract\<close> has an invariant of the state between suspension points, a condition on the
    requests sent and one on the answers; \<open>obeys\<close> has a rule per construct of a program tree and
    is sound for every interleaving.
  \<^descr>[\<open>Router\<close>] storage areas, current route, route lookup and a navigation that asks the
    guard and follows its redirects. The bound on redirects is 4; one is enough, as
    \<open>Navigation_Bound\<close> shows.

  Shared modules.
  \<^descr>[\<open>Pkce\<close>] \<^verbatim>\<open>utils/pkce.ts\<close>. The browser's random source and SHA-256 are fields of
    \<open>host\<close>; \<open>host_ok\<close> states what Web Crypto promises of them.
  \<^descr>[\<open>Error_Messages\<close>, \<open>Error_Adapter\<close>] \<^verbatim>\<open>services/messages\<close> and
    \<^verbatim>\<open>services/errorAdapter.ts\<close> of both applications: the catalogs, the resolution of a
    message, the normalisation of errors.
  \<^descr>[\<open>Module_Copies\<close>] the console's own copies of \<^verbatim>\<open>errorAdapter.ts\<close> and \<^verbatim>\<open>pkce.ts\<close>,
    translated on their own and shown to be the same functions. The reserved codes and the
    resolution of a message are one group of definitions for both applications.
  \<^descr>[\<open>Provenance\<close>] what the answers of a trace issued: token pairs and user profiles.
  \<^descr>[\<open>Token_Store\<close>] the contract of a token store, provided by \<^verbatim>\<open>services/http.ts\<close> of
    the user application and by the store of the admin console.

  User application.
  \<^descr>[\<open>User_Router\<close>] its state \<open>user_app\<close>, the route table and the guard of
    \<^verbatim>\<open>router/index.ts\<close>.
  \<^descr>[\<open>User_Http\<close>] \<^verbatim>\<open>services/http.ts\<close>: tokens, silent refresh, retry.
  \<^descr>[\<open>User_Services\<close>] \<^verbatim>\<open>services/authService.ts\<close> and \<^verbatim>\<open>services/userService.ts\<close>.
  \<^descr>[\<open>User_Store\<close>] \<^verbatim>\<open>stores/auth.ts\<close> and the page load; the invariants of the whole
    application, through the locale \<open>user_invariant\<close>.
  \<^descr>[\<open>User_Navigation\<close>] what the guard decides and where a lost session leads.
  \<^descr>[\<open>User_Provenance\<close>] under every interleaving, tokens, user and bearer headers come from
    answers of the routes that issue them.
  \<^descr>[\<open>User_Journey\<close>] login page, store, service, guard and router composed: a sign-in,
    with or without a second factor, ends on the page the visitor first asked for.
  \<^descr>[\<open>User_Auth_Pages\<close>, \<open>User_OAuth_Pages\<close>, \<open>User_Account_Pages\<close>, \<open>User_Security_Page\<close>] the
    pages under \<^verbatim>\<open>pages/auth\<close>, \<^verbatim>\<open>pages/oauth\<close> and \<^verbatim>\<open>pages/account\<close> and the frame
    \<^verbatim>\<open>layouts/AppLayout.vue\<close>: the refs of each page as a record that extends \<open>user_app\<close>, its
    handlers, and its template.

  Admin console.
  \<^descr>[\<open>Admin_Store\<close>] \<^verbatim>\<open>stores/auth.ts\<close>, \<^verbatim>\<open>router/index.ts\<close> and
    \<^verbatim>\<open>main.ts\<close>. The nesting depth of its refresh is 1 and never used up: a refresh asked for
    from inside an exchange joins that exchange.
  \<^descr>[\<open>Admin_Session\<close>] the shared refresh, login by role, logout, restore, guard, and the
    invariants of the whole console, through the locale \<open>admin_invariant\<close>.
  \<^descr>[\<open>Admin_Provenance\<close>] the console's credentials come from the server; a retry that a
    logout overtakes sends the word \<^verbatim>\<open>null\<close> as its token.
  \<^descr>[\<open>Admin_Page_Lib\<close>, \<open>Admin_Users_Pages\<close>, \<open>Admin_Access_Pages\<close>, \<open>Admin_System_Pages\<close>,
    \<open>Admin_Client_Pages\<close>] the console's pages: login and callback, users, roles, scopes, tokens,
    logs, settings, dashboard, applications, and the frame \<^verbatim>\<open>AdminLayout.vue\<close>.
  \<^descr>[\<open>Admin_Templates\<close>, \<open>Admin_Console_Templates\<close>] the templates of all of them, with the
    handlers written in them; built-in roles and scopes are not offered for deletion, the
    frame's links lead to pages of the console, and the dashboard hides an outage.

  \<^descr>[\<open>UI_Components\<close>] the presentational components of both applications: alert, button, input,
    select, table, skeleton, card, badge, logo, and the modal with its focus trap, where the
    browser's own move on Tab is an argument.

  Pages. \<open>Page_Lib\<close> has what pages share: templates as lists of elements, of which
  \<open>offered\<close> are the handlers a user can start; \<open>settles\<close> and the locale \<open>busy_flag\<close> for
  handlers that end without leaving a page busy; \<open>sends_only\<close> for the requests a handler can
  send. The properties of pages are about what they must not give away (password recovery),
  must not mix up (linking and login), must pass on unchanged (consent), must ask first
  (deletion, revocation) and must save exactly (the edit forms). \<open>Navigation_Bound\<close> shows that a
  navigation follows at most one redirect in either application.

  Pages and their users. \<open>Page_Machine\<close> composes a template with the machine: \<open>page_run\<close> are the
  states a page can get into when only what it offers at the moment can be pressed, while
  inputs change and answers come in any order. Its locale \<open>form_lock\<close> is the contract of a form
  gated by a busy flag; \<open>User_Form_Locks\<close> and \<open>Admin_Form_Locks\<close> interpret it on the forms of the
  authentication pages and on the console's dialogs, \<open>User_Security_Locks\<close> (through the locale
  \<open>security_flag\<close>) and \<open>Admin_Edit_Locks\<close> on the security and device pages, the detail pages and the
  console's login: none is sent twice at the same time. The exception is the form that turns
  MFA on, which has no flag. \<open>Admin_Secrets\<close> has the invariant that a client secret does not outlive its dialog.
  \<open>Admin_Races\<close> shows what happens when two searches of a list overlap. A press is
  taken to find the page as last rendered.

  Not modelled: style sheets, drawings and the nesting of markup; the classes that pages choose
  (those of the presentational components are); the browser's history; the error of a
  template that reads a property of \<^verbatim>\<open>null\<close>; the formatting of dates, the clipboard, the
  authenticator and \<^verbatim>\<open>atob\<close>, which are arguments; the base URL and timeout of requests; numbers that are not
  integers; storage that is unavailable; characters beyond 8 bits except in the catalogs, whose
  texts are byte lists. Promise.all resumes in the model when all its requests are answered,
  also when one of them failed. Outside the applications: the script
  \<^verbatim>\<open>scratch/run_playwright_test_p0.cjs\<close>, which drives a browser against a deployed system, the
  bundler's options, and the declarations of \<^verbatim>\<open>types/index.ts\<close>, which are erased: the model
  lets the server answer with any value.
\<close>

subsection \<open>Properties of all pages\<close>

lemma store_resets:
  fixes h :: host
  shows "resets ua_loading (store_login h u p :: 'a user_app_scheme prog)"
    "resets ua_loading (store_verifyMfa h t c :: 'a user_app_scheme prog)"
    "settles (\<lambda>_. False) (fetchUser h :: 'a user_app_scheme prog)"
    "settles (\<lambda>_. False) (restoreSession h :: 'a user_app_scheme prog)"
    "settles (\<lambda>_. False) (store_logout h :: 'a user_app_scheme prog)"
proof -
  have st: "(\<forall>e. r_exit (run q s ts as) \<noteq> Raised e) \<and>
      (r_exit (run q s ts as) \<noteq> Blocked \<longrightarrow> \<not> ua_loading (r_state (run q s ts as)))"
    if "case r_exit (run q s ts as) of Done v \<Rightarrow> \<not> ua_loading (r_state (run q s ts as)) | Raised e \<Rightarrow> False | Blocked \<Rightarrow> True"
    for q :: "'a user_app_scheme prog" and s ts as
    using that by (simp split: exit.splits)
  show "resets ua_loading (store_login h u p :: 'a user_app_scheme prog)"
    "resets ua_loading (store_verifyMfa h t c :: 'a user_app_scheme prog)"
    unfolding resets_def using st store_actions_settle by blast+
  show "settles (\<lambda>_. False) (fetchUser h :: 'a user_app_scheme prog)"
    "settles (\<lambda>_. False) (restoreSession h :: 'a user_app_scheme prog)"
    "settles (\<lambda>_. False) (store_logout h :: 'a user_app_scheme prog)"
    unfolding settles_def using store_actions_settle by blast+
qed


end
